(* ===== verification/Prelude.thy ===== *)
theory Prelude
  imports Main "HOL-Library.Word" "HOL-Library.AList"
begin

text \<open>
  Shared vocabulary of the development: names for the machine integers of the
  Rust sources, the three-valued result of a fallible Rust function, association
  lists standing for \<^verbatim>\<open>std::collections::HashMap\<close>, big-endian byte strings, and two
  interfaces (locales) the components instantiate: invariants of transition systems
  and prefix codecs.
\<close>

section \<open>Machine integers\<close>

type_synonym u8 = "8 word"
type_synonym u16 = "16 word"
type_synonym u32 = "32 word"
type_synonym u64 = "64 word"
type_synonym usize = "64 word"
type_synonym bytes = "u8 list"

section \<open>Results: values, anyhow errors, panics\<close>

text \<open>
  An \<^verbatim>\<open>anyhow::Error\<close> is either a wrapped \<^verbatim>\<open>std::io::Error\<close> (the network layer tells
  these apart by \<^verbatim>\<open>downcast\<close>) or any other error, of which we keep a tag. A panic (slice
  out of range, \<^verbatim>\<open>unwrap\<close> of \<^verbatim>\<open>None\<close>, checked arithmetic that overflows) is a third outcome,
  so that its absence can be proved.
\<close>

datatype anyhow_error = IoError | Bail string

datatype 'a res = Ok 'a | Err anyhow_error | Panic

primrec res_bind :: "'a res \<Rightarrow> ('a \<Rightarrow> 'b res) \<Rightarrow> 'b res" where
  "res_bind (Ok x) f = f x"
| "res_bind (Err e) f = Err e"
| "res_bind Panic f = Panic"

primrec is_ok :: "'a res \<Rightarrow> bool" where
  "is_ok (Ok x) = True"
| "is_ok (Err e) = False"
| "is_ok Panic = False"

named_theorems res_simps \<open>equations that run the result monad\<close>

lemma res_bind_Ok_iff [res_simps]:
  "res_bind m f = Ok y \<longleftrightarrow> (\<exists>x. m = Ok x \<and> f x = Ok y)"
  by (cases m) auto

lemma res_bind_Panic_iff [res_simps]:
  "res_bind m f = Panic \<longleftrightarrow> m = Panic \<or> (\<exists>x. m = Ok x \<and> f x = Panic)"
  by (cases m) auto

lemma res_bind_Err_iff [res_simps]:
  "res_bind m f = Err e \<longleftrightarrow> m = Err e \<or> (\<exists>x. m = Ok x \<and> f x = Err e)"
  by (cases m) auto

lemma is_ok_iff: "is_ok m \<longleftrightarrow> (\<exists>x. m = Ok x)"
  by (cases m) auto

section \<open>Hash maps as association lists\<close>

text \<open>
  A \<^verbatim>\<open>HashMap\<close> is an association list without repeated keys; its order stands for the
  unspecified iteration order. Insertion and removal are those of the library theory
  \<^verbatim>\<open>AList\<close>; \<^verbatim>\<open>retain\<close> is a filter.
\<close>

type_synonym ('k, 'v) hash_map = "('k \<times> 'v) list"

abbreviation hm_keys :: "('k, 'v) hash_map \<Rightarrow> 'k list" where
  "hm_keys m \<equiv> map fst m"

abbreviation hm_values :: "('k, 'v) hash_map \<Rightarrow> 'v list" where
  "hm_values m \<equiv> map snd m"

abbreviation hm_wf :: "('k, 'v) hash_map \<Rightarrow> bool" where
  "hm_wf m \<equiv> distinct (map fst m)"

abbreviation hm_insert :: "'k \<Rightarrow> 'v \<Rightarrow> ('k, 'v) hash_map \<Rightarrow> ('k, 'v) hash_map" where
  "hm_insert \<equiv> AList.update"

abbreviation hm_remove :: "'k \<Rightarrow> ('k, 'v) hash_map \<Rightarrow> ('k, 'v) hash_map" where
  "hm_remove \<equiv> AList.delete"

definition hm_retain :: "('k \<Rightarrow> 'v \<Rightarrow> bool) \<Rightarrow> ('k, 'v) hash_map \<Rightarrow> ('k, 'v) hash_map" where
  "hm_retain P m = filter (\<lambda>(k, v). P k v) m"

text \<open>Lookups stay lookups: the simplifier must not turn them into list membership.\<close>

declare map_of_eq_Some_iff [simp del] Some_eq_map_of_iff [simp del]

named_theorems hm_simps \<open>lookups, keys and well-formedness of updated maps\<close>

lemma hm_get_insert [hm_simps]: "map_of (hm_insert k v m) k' = (if k' = k then Some v else map_of m k')"
  by (simp add: update_conv)

lemma hm_get_remove [hm_simps]: "map_of (hm_remove k m) k' = (if k' = k then None else map_of m k')"
  by (simp add: delete_conv)

lemma hm_wf_insert [hm_simps]: "hm_wf m \<Longrightarrow> hm_wf (hm_insert k v m)"
  by (rule distinct_update)

lemma hm_wf_remove [hm_simps]: "hm_wf m \<Longrightarrow> hm_wf (hm_remove k m)"
  by (rule distinct_delete)

lemma hm_wf_retain [hm_simps]: "hm_wf m \<Longrightarrow> hm_wf (hm_retain P m)"
  by (simp add: hm_retain_def distinct_map_filter)

lemma hm_get_retain [hm_simps]:
  assumes "hm_wf m"
  shows "map_of (hm_retain P m) k =
    (case map_of m k of None \<Rightarrow> None | Some v \<Rightarrow> if P k v then Some v else None)"
  using assms by (induction m) (force simp: hm_retain_def split: option.splits dest: map_of_SomeD)+

lemma hm_keys_eq_dom: "set (hm_keys m) = dom (map_of m)"
  by (simp add: dom_map_of_conv_image_fst)

lemma hm_length_card: "hm_wf m \<Longrightarrow> length m = card (dom (map_of m))"
  by (metis distinct_card hm_keys_eq_dom length_map)

section \<open>Lists\<close>

lemma take_drop_append [simp]: "take k xs @ drop k xs @ ys = xs @ ys"
  by (metis append_assoc append_take_drop_id)

section \<open>Big-endian byte strings\<close>

primrec be_bytes :: "nat \<Rightarrow> nat \<Rightarrow> bytes" where
  "be_bytes 0 n = []"
| "be_bytes (Suc k) n = be_bytes k (n div 256) @ [word_of_nat (n mod 256)]"

definition from_be_bytes :: "bytes \<Rightarrow> nat" where
  "from_be_bytes bs = foldl (\<lambda>acc b. acc * 256 + unat b) 0 bs"

lemma length_be_bytes [simp]: "length (be_bytes k n) = k"
  by (induction k arbitrary: n) auto

lemma unat_byte [simp]: "n < 256 \<Longrightarrow> unat (word_of_nat n :: u8) = n"
  by (simp add: unat_of_nat take_bit_eq_mod)

lemma from_be_bytes_be_bytes: "from_be_bytes (be_bytes k n) = n mod 256 ^ k"
proof (induction k arbitrary: n)
  case 0
  then show ?case by (simp add: from_be_bytes_def)
next
  case (Suc k)
  have "from_be_bytes (be_bytes (Suc k) n) = from_be_bytes (be_bytes k (n div 256)) * 256 + n mod 256"
    by (simp add: from_be_bytes_def)
  also have "\<dots> = (n div 256 mod 256 ^ k) * 256 + n mod 256"
    by (simp add: Suc.IH)
  also have "\<dots> = n mod 256 ^ Suc k"
    by (simp add: mod_mult2_eq [of n 256 "256 ^ k"])
  finally show ?case .
qed

section \<open>Transition systems and their invariants\<close>

text \<open>
  Several components are state machines: an initial state and a step per event. The
  interface of an invariant is that the initial state satisfies it and that every enabled
  step keeps it; then every state of a run satisfies it.
\<close>

fun run_steps :: "('s \<Rightarrow> 'e \<Rightarrow> bool) \<Rightarrow> ('s \<Rightarrow> 'e \<Rightarrow> 's) \<Rightarrow> 's \<Rightarrow> 'e list \<Rightarrow> 's option" where
  "run_steps en st s [] = Some s"
| "run_steps en st s (e # es) = (if en s e then run_steps en st (st s e) es else None)"

locale invariant_system =
  fixes init :: "'s"
    and en :: "'s \<Rightarrow> 'e \<Rightarrow> bool"
    and st :: "'s \<Rightarrow> 'e \<Rightarrow> 's"
    and good :: "'s \<Rightarrow> bool"
  assumes good_init: "good init"
    and good_step: "good s \<Longrightarrow> en s e \<Longrightarrow> good (st s e)"
begin

lemma run_from_good: "good s \<Longrightarrow> run_steps en st s es = Some t \<Longrightarrow> good t"
proof (induction es arbitrary: s)
  case Nil
  then show ?case by simp
next
  case (Cons e es)
  then show ?case by (auto split: if_splits intro: good_step)
qed

lemma run_good: "run_steps en st init es = Some t \<Longrightarrow> good t"
  using run_from_good [OF good_init] .

end

section \<open>Prefix codecs\<close>

text \<open>
  The \<^verbatim>\<open>Serial\<close> and \<^verbatim>\<open>Deserial\<close> instances write to and read from the front of a byte
  stream. Their contract is that reading back what was written gives the value and leaves the
  rest of the stream.
\<close>

locale prefix_codec =
  fixes serial :: "'a \<Rightarrow> bytes"
    and deserial :: "bytes \<Rightarrow> ('a \<times> bytes) option"
  assumes deserial_serial: "deserial (serial x @ rest) = Some (x, rest)"
begin

lemma serial_inj: "serial x = serial y \<Longrightarrow> x = y"
  by (metis deserial_serial option.inject prod.inject)

lemma serial_append_inj: "serial x @ r = serial y @ r' \<Longrightarrow> x = y \<and> r = r'"
  by (metis deserial_serial option.inject prod.inject)

end

end
