(* ===== verification/Peer.thy ===== *)
theory Peer
  imports Prelude
begin

text \<open>
  Identification of peers: the hexadecimal node identifier of \<^verbatim>\<open>common/p2p_node_id.rs\<close> and the
  peer records of \<^verbatim>\<open>common/p2p_peer.rs\<close>. Socket addresses are pairs of an IP address and a
  port, as built by \<^verbatim>\<open>SocketAddr::new\<close> (flow label and scope of IPv6 sockets are zero).
\<close>

section \<open>Addresses and peer types\<close>

datatype ip_addr = V4 "32 word" | V6 "128 word"

datatype socket_addr = SocketAddr (addr_ip: ip_addr) (addr_port: u16)

datatype peer_type = Node | Bootstrapper

definition peer_type_to_string :: "peer_type \<Rightarrow> string" where
  "peer_type_to_string t = (case t of Node \<Rightarrow> ''Node'' | Bootstrapper \<Rightarrow> ''Bootstrapper'')"

type_synonym remote_peer_id = usize
type_synonym token = usize
type_synonym p2p_node_id = u64

section \<open>Hexadecimal node identifiers\<close>

definition hex_digit :: "nat \<Rightarrow> char" where
  "hex_digit d = ''0123456789abcdef'' ! d"

text \<open>\<^verbatim>\<open>format!("{:016x}", n)\<close>: sixteen digits, the most significant first.\<close>

primrec hex_digits :: "nat \<Rightarrow> nat \<Rightarrow> string" where
  "hex_digits 0 n = []"
| "hex_digits (Suc k) n = hex_digits k (n div 16) @ [hex_digit (n mod 16)]"

definition node_id_to_string :: "p2p_node_id \<Rightarrow> string" where
  "node_id_to_string i = hex_digits 16 (unat i)"

text \<open>
  \<^verbatim>\<open>u64::from_str_radix(s, 16)\<close>: an empty string and a lone sign are errors, a leading plus
  sign is skipped, digits of either case are accepted and overflow is an error.
\<close>

definition hex_value :: "char \<Rightarrow> nat option" where
  "hex_value c =
     (let n = (of_char c :: nat)
      in if 48 \<le> n \<and> n \<le> 57 then Some (n - 48)
         else if 97 \<le> n \<and> n \<le> 102 then Some (n - 87)
         else if 65 \<le> n \<and> n \<le> 70 then Some (n - 55)
         else None)"

fun parse_hex :: "nat \<Rightarrow> string \<Rightarrow> nat option" where
  "parse_hex acc [] = Some acc"
| "parse_hex acc (c # cs) =
     (case hex_value c of
        None \<Rightarrow> None
      | Some d \<Rightarrow> if acc * 16 + d < 2 ^ 64 then parse_hex (acc * 16 + d) cs else None)"

definition u64_from_hex :: "string \<Rightarrow> nat option" where
  "u64_from_hex s =
     (if s = [] \<or> s = ''+'' \<or> s = ''-'' then None
      else if hd s = CHR ''+'' then parse_hex 0 (tl s)
      else parse_hex 0 s)"

definition node_id_from_str :: "string \<Rightarrow> p2p_node_id res" where
  "node_id_from_str s =
     (case u64_from_hex s of
        Some n \<Rightarrow> Ok (word_of_nat n)
      | None \<Rightarrow> Err (Bail ''Invalid Node Id''))"

definition remote_peer_id_to_string :: "remote_peer_id \<Rightarrow> string" where
  "remote_peer_id_to_string i = hex_digits 16 (unat i)"

definition remote_peer_id_from_str :: "string \<Rightarrow> remote_peer_id res" where
  "remote_peer_id_from_str s =
     (case u64_from_hex s of
        Some n \<Rightarrow> Ok (word_of_nat n)
      | None \<Rightarrow> Err (Bail ''Invalid Remote Peer Id''))"

section \<open>Peer records\<close>

record p2p_peer =
  p2p_id :: p2p_node_id
  p2p_addr :: socket_addr
  p2p_type :: peer_type

record remote_peer =
  self_id :: "p2p_node_id option"
  remote_addr :: socket_addr
  local_id :: remote_peer_id
  external_port :: u16
  remote_peer_type :: peer_type

text \<open>Equality of remote peers compares the local identifier only.\<close>

definition remote_peer_eq :: "remote_peer \<Rightarrow> remote_peer \<Rightarrow> bool" where
  "remote_peer_eq a b \<longleftrightarrow> local_id a = local_id b"

definition external_addr :: "remote_peer \<Rightarrow> socket_addr" where
  "external_addr p = SocketAddr (addr_ip (remote_addr p)) (external_port p)"

definition remote_peer_peer :: "remote_peer \<Rightarrow> p2p_peer option" where
  "remote_peer_peer p =
     map_option (\<lambda>i. \<lparr>p2p_id = i, p2p_addr = external_addr p, p2p_type = remote_peer_type p\<rparr>) (self_id p)"

definition p2p_peer_ip :: "p2p_peer \<Rightarrow> ip_addr" where
  "p2p_peer_ip p = addr_ip (p2p_addr p)"

definition p2p_peer_port :: "p2p_peer \<Rightarrow> u16" where
  "p2p_peer_port p = addr_port (p2p_addr p)"

definition to_token :: "remote_peer_id \<Rightarrow> token" where
  "to_token i = i"

definition remote_peer_id_from_token :: "token \<Rightarrow> remote_peer_id" where
  "remote_peer_id_from_token t = t"

text \<open>Identifiers are serialised as eight big-endian bytes.\<close>

definition u64_serial :: "u64 \<Rightarrow> bytes" where
  "u64_serial i = be_bytes 8 (unat i)"

definition u64_deserial :: "bytes \<Rightarrow> (u64 \<times> bytes) option" where
  "u64_deserial bs =
     (if length bs < 8 then None else Some (word_of_nat (from_be_bytes (take 8 bs)), drop 8 bs))"

definition node_id_serial :: "p2p_node_id \<Rightarrow> bytes" where
  "node_id_serial i = u64_serial i"

definition node_id_deserial :: "bytes \<Rightarrow> (p2p_node_id \<times> bytes) option" where
  "node_id_deserial bs = u64_deserial bs"

definition remote_peer_id_serial :: "remote_peer_id \<Rightarrow> bytes" where
  "remote_peer_id_serial i = u64_serial (ucast i)"

definition remote_peer_id_deserial :: "bytes \<Rightarrow> (remote_peer_id \<times> bytes) option" where
  "remote_peer_id_deserial bs = map_option (\<lambda>(i, rest). (ucast i, rest)) (u64_deserial bs)"

lemma u64_deserial_serial: "u64_deserial (u64_serial i @ rest) = Some (i, rest)"
proof -
  have "unat i < 2 ^ 64" using unsigned_less [of i] by simp
  then show ?thesis
    by (simp add: u64_deserial_def u64_serial_def from_be_bytes_be_bytes)
qed

interpretation u64_codec: prefix_codec u64_serial u64_deserial
  by unfold_locales (rule u64_deserial_serial)

interpretation node_id_codec: prefix_codec node_id_serial node_id_deserial
  by unfold_locales (simp add: node_id_serial_def node_id_deserial_def u64_deserial_serial)

interpretation remote_peer_id_codec: prefix_codec remote_peer_id_serial remote_peer_id_deserial
  by unfold_locales
    (simp add: remote_peer_id_serial_def remote_peer_id_deserial_def u64_deserial_serial)

section \<open>Printing and parsing node identifiers\<close>

lemma hex_value_digit: "d < 16 \<Longrightarrow> hex_value (hex_digit d) = Some d"
proof -
  have "list_all (\<lambda>d. hex_value (hex_digit d) = Some d) [0..<16]"
    by code_simp
  then show "d < 16 \<Longrightarrow> hex_value (hex_digit d) = Some d"
    by (simp add: list_all_iff)
qed

lemma length_hex_digits [simp]: "length (hex_digits k n) = k"
  by (induction k arbitrary: n) auto

lemma parse_hex_append:
  "parse_hex acc (s @ t) = Option.bind (parse_hex acc s) (\<lambda>a. parse_hex a t)"
  by (induction acc s rule: parse_hex.induct) (auto split: option.splits)

lemma parse_hex_digits:
  "acc * 16 ^ k + n mod 16 ^ k < 2 ^ 64 \<Longrightarrow>
     parse_hex acc (hex_digits k n) = Some (acc * 16 ^ k + n mod 16 ^ k)"
proof (induction k arbitrary: n)
  case 0
  then show ?case by simp
next
  case (Suc k)
  have split: "n mod 16 ^ Suc k = 16 * (n div 16 mod 16 ^ k) + n mod 16"
    by (simp add: mod_mult2_eq [of n 16 "16 ^ k"])
  let ?a = "acc * 16 ^ k + n div 16 mod 16 ^ k"
  have eq: "?a * 16 + n mod 16 = acc * 16 ^ Suc k + n mod 16 ^ Suc k"
    unfolding split by (simp add: algebra_simps)
  with Suc.prems have le: "?a * 16 + n mod 16 < 2 ^ 64" by simp
  then have "?a < 2 ^ 64" by simp
  from Suc.IH [OF this] have "parse_hex acc (hex_digits k (n div 16)) = Some ?a" .
  then show ?case
    using le eq by (simp add: parse_hex_append hex_value_digit)
qed

lemma set_hex_digits: "set (hex_digits k n) \<subseteq> hex_digit ` {..<16}"
  by (induction k arbitrary: n) auto

lemma hex_digit_not_plus: "d < 16 \<Longrightarrow> hex_digit d \<noteq> CHR ''+''"
  using hex_value_digit by (force simp: hex_value_def Let_def)

lemma u64_from_hex_digits: "n < 2 ^ 64 \<Longrightarrow> u64_from_hex (hex_digits 16 n) = Some n"
proof -
  assume n: "n < 2 ^ 64"
  have len: "length (hex_digits 16 n) = 16" by simp
  then have ne: "hex_digits 16 n \<noteq> []" by (metis length_0_conv zero_neq_numeral)
  then have "hd (hex_digits 16 n) \<in> hex_digit ` {..<16}"
    using set_hex_digits [of 16 n] by (meson hd_in_set subsetD)
  then have "hd (hex_digits 16 n) \<noteq> CHR ''+''"
    using hex_digit_not_plus by (metis imageE lessThan_iff)
  moreover have "hex_digits 16 n \<noteq> ''+''" "hex_digits 16 n \<noteq> ''-''"
    using len by (auto dest: arg_cong [of _ _ length])
  moreover have "hex_digits 16 n \<noteq> []" by (rule ne)
  moreover have "parse_hex 0 (hex_digits 16 n) = Some n"
    using parse_hex_digits [of 0 16 n] n by simp
  ultimately show ?thesis by (simp add: u64_from_hex_def)
qed

text \<open>
  A node identifier printed by \<^verbatim>\<open>Display\<close> is sixteen hexadecimal digits, and
  \<^verbatim>\<open>FromStr\<close> reads the same identifier back from them.
\<close>

theorem node_id_roundtrip:
  "length (node_id_to_string i) = 16 \<and> node_id_from_str (node_id_to_string i) = Ok i"
proof -
  have "unat i < 2 ^ 64" using unsigned_less [of i] by simp
  then show ?thesis
    by (simp add: node_id_to_string_def node_id_from_str_def u64_from_hex_digits)
qed

end
