(* ===== verification/Network.thy ===== *)
theory Network
  imports Peer "HOL-Library.FSet"
begin

text \<open>
  The messages of the network (\<^verbatim>\<open>network/mod.rs\<close>), the protocol constants and the version
  checks of \<^verbatim>\<open>configuration.rs\<close>. A set of networks is a finite set of 16-bit identifiers;
  a \<^verbatim>\<open>semver::Version\<close> is the record of its public fields.
\<close>

section \<open>Constants\<close>

definition PROTOCOL_MAX_MESSAGE_SIZE :: nat where
  "PROTOCOL_MAX_MESSAGE_SIZE = 20971520"

definition PROTOCOL_MAX_TRANSACTION_SIZE :: nat where
  "PROTOCOL_MAX_TRANSACTION_SIZE = 600 * 1024"

definition MAX_CATCH_UP_TIME :: nat where
  "MAX_CATCH_UP_TIME = 300000"

definition UNREACHABLE_EXPIRATION_SECS :: nat where
  "UNREACHABLE_EXPIRATION_SECS = 86400"

definition MAX_BOOTSTRAPPER_KEEP_ALIVE :: nat where
  "MAX_BOOTSTRAPPER_KEEP_ALIVE = 20000"

definition MAX_PREHANDSHAKE_KEEP_ALIVE :: nat where
  "MAX_PREHANDSHAKE_KEEP_ALIVE = 10000"

definition SOFT_BAN_DURATION_SECS :: nat where
  "SOFT_BAN_DURATION_SECS = 300"

definition MAX_PEER_NETWORKS :: nat where
  "MAX_PEER_NETWORKS = 20"

section \<open>Messages\<close>

type_synonym wire_protocol_version = u8
type_synonym network_id = u16
type_synonym networks = "network_id fset"
type_synonym block_hash = bytes

definition WIRE_PROTOCOL_CURRENT_VERSION :: wire_protocol_version where
  "WIRE_PROTOCOL_CURRENT_VERSION = 1"

definition WIRE_PROTOCOL_VERSIONS :: "wire_protocol_version list" where
  "WIRE_PROTOCOL_VERSIONS = [WIRE_PROTOCOL_CURRENT_VERSION]"

record version =
  major :: u64
  minor :: u64
  patch :: u64
  pre_release :: string
  build_metadata :: string

record handshake =
  remote_id :: p2p_node_id
  remote_port :: u16
  hs_networks :: networks
  node_version :: version
  wire_versions :: "wire_protocol_version list"
  genesis_blocks :: "block_hash list"
  proof_bytes :: bytes

datatype network_request =
    Ping
  | GetPeers networks
  | Handshake handshake
  | JoinNetwork network_id
  | LeaveNetwork network_id

datatype network_response =
    Pong
  | PeerList "p2p_peer list"

datatype packet_destination =
    Direct remote_peer_id
  | Broadcast "remote_peer_id list"

record network_packet =
  destination :: packet_destination
  packet_network_id :: network_id
  packet_message :: bytes

datatype network_payload =
    NetworkRequest network_request
  | NetworkResponse network_response
  | NetworkPacket network_packet

record network_message =
  created :: u64
  received :: "u64 option"
  payload :: network_payload

text \<open>The \<^verbatim>\<open>netmsg!\<close> macro.\<close>

definition netmsg :: "u64 \<Rightarrow> network_payload \<Rightarrow> network_message" where
  "netmsg now p = \<lparr>created = now, received = None, payload = p\<rparr>"

section \<open>Version checks\<close>

definition is_compatible_version :: "version \<Rightarrow> bool" where
  "is_compatible_version other \<longleftrightarrow>
     (major other \<ge> 2 \<and> major other \<le> 3) \<or>
     (major other = 4 \<and> minor other \<ge> 1) \<or>
     major other \<ge> 5"

definition is_compatible_wire_version :: "wire_protocol_version list \<Rightarrow> wire_protocol_version option" where
  "is_compatible_wire_version other =
     find (\<lambda>ours. list_ex (\<lambda>theirs. theirs = ours) other) WIRE_PROTOCOL_VERSIONS"

text \<open>
  \<^verbatim>\<open>find\<close> on a descending list returns the greatest member with the property: the documented
  contract of \<^verbatim>\<open>is_compatible_wire_version\<close>.
\<close>

lemma find_sorted_desc:
  assumes "sorted_wrt (\<ge>) xs" and "find P xs = Some v"
  shows "P v \<and> v \<in> set xs \<and> (\<forall>w \<in> set xs. P w \<longrightarrow> w \<le> (v :: 'a :: linorder))"
  using assms by (induction xs) (auto split: if_splits)

text \<open>
  The agreed wire version is the highest version that both nodes list, and there
  is none exactly when the two lists are disjoint.
\<close>

theorem wire_version_highest_common:
  "case is_compatible_wire_version other of
     None \<Rightarrow> set other \<inter> set WIRE_PROTOCOL_VERSIONS = {}
   | Some v \<Rightarrow> v = Max (set other \<inter> set WIRE_PROTOCOL_VERSIONS) \<and>
       v \<in> set other \<inter> set WIRE_PROTOCOL_VERSIONS"
proof (cases "is_compatible_wire_version other")
  case None
  then have "set other \<inter> set WIRE_PROTOCOL_VERSIONS = {}"
    by (auto simp: is_compatible_wire_version_def find_None_iff list_ex_iff)
  with None show ?thesis by simp
next
  case (Some v)
  have "sorted_wrt (\<ge>) WIRE_PROTOCOL_VERSIONS" by (simp add: WIRE_PROTOCOL_VERSIONS_def)
  from find_sorted_desc [OF this Some [unfolded is_compatible_wire_version_def]]
  have "v \<in> set other \<inter> set WIRE_PROTOCOL_VERSIONS"
    "\<And>w. w \<in> set other \<inter> set WIRE_PROTOCOL_VERSIONS \<Longrightarrow> w \<le> v"
    by (auto simp: list_ex_iff)
  with Some show ?thesis by (auto intro!: Max_eqI [symmetric])
qed

end
