(* ===== verification/Buckets.thy ===== *)
theory Buckets
  imports Network
begin

text \<open>
  The node buckets of a bootstrapper (\<^verbatim>\<open>network/buckets.rs\<close>). A \<^verbatim>\<open>HashSet<Node>\<close> compares nodes
  by the local identifier of their peer, so a bucket is a list of nodes with distinct local
  identifiers, in an unspecified order. \<^verbatim>\<open>choose_multiple\<close> of the \<^verbatim>\<open>rand\<close> crate is an argument.
\<close>

record bucket_node =
  node_peer :: remote_peer
  node_networks :: networks
  node_last_seen :: u64

type_synonym bucket = "bucket_node list"

record buckets =
  bucket_list :: "bucket list"

definition BUCKET_COUNT :: nat where
  "BUCKET_COUNT = 1"

definition bucket_node_eq :: "bucket_node \<Rightarrow> bucket_node \<Rightarrow> bool" where
  "bucket_node_eq a b \<longleftrightarrow> remote_peer_eq (node_peer a) (node_peer b)"

definition buckets_default :: buckets where
  "buckets_default = \<lparr>bucket_list = replicate BUCKET_COUNT []\<rparr>"

text \<open>\<^verbatim>\<open>HashSet::insert\<close> keeps an equal element, \<^verbatim>\<open>HashSet::replace\<close> overwrites it.\<close>

definition bucket_insert :: "bucket_node \<Rightarrow> bucket \<Rightarrow> bucket" where
  "bucket_insert n b = (if list_ex (bucket_node_eq n) b then b else b @ [n])"

definition bucket_replace :: "bucket_node \<Rightarrow> bucket \<Rightarrow> bucket" where
  "bucket_replace n b =
     (if list_ex (bucket_node_eq n) b then map (\<lambda>m. if bucket_node_eq n m then n else m) b
      else b @ [n])"

text \<open>The code indexes \<^verbatim>\<open>self.buckets[0]\<close>: with no bucket that is a panic.\<close>

definition on_first_bucket :: "(bucket \<Rightarrow> bucket) \<Rightarrow> buckets \<Rightarrow> buckets res" where
  "on_first_bucket f bs =
     (case bucket_list bs of [] \<Rightarrow> Panic | b # r \<Rightarrow> Ok (bs\<lparr>bucket_list := f b # r\<rparr>))"

definition insert_into_bucket :: "u64 \<Rightarrow> remote_peer \<Rightarrow> networks \<Rightarrow> buckets \<Rightarrow> buckets res" where
  "insert_into_bucket now p nets =
     on_first_bucket (bucket_insert \<lparr>node_peer = p, node_networks = nets, node_last_seen = now\<rparr>)"

definition update_network_ids :: "u64 \<Rightarrow> remote_peer \<Rightarrow> networks \<Rightarrow> buckets \<Rightarrow> buckets res" where
  "update_network_ids now p nets =
     on_first_bucket (bucket_replace \<lparr>node_peer = p, node_networks = nets, node_last_seen = now\<rparr>)"

definition filter_criteria :: "remote_peer_id option \<Rightarrow> networks \<Rightarrow> bucket_node \<Rightarrow> bool" where
  "filter_criteria sender nets n \<longleftrightarrow>
     remote_peer_type (node_peer n) = Node \<and>
     Some (local_id (node_peer n)) \<noteq> sender \<and>
     (nets = {||} \<or> node_networks n |\<inter>| nets \<noteq> {||})"

definition get_all_nodes :: "remote_peer_id option \<Rightarrow> networks \<Rightarrow> buckets \<Rightarrow> remote_peer list" where
  "get_all_nodes sender nets bs =
     concat (map (\<lambda>b. map node_peer (filter (filter_criteria sender nets) b)) (bucket_list bs))"

definition buckets_len :: "buckets \<Rightarrow> nat" where
  "buckets_len bs = sum_list (map (\<lambda>n. fcard (node_networks n)) (concat (bucket_list bs)))"

definition buckets_is_empty :: "buckets \<Rightarrow> bool" where
  "buckets_is_empty bs \<longleftrightarrow> buckets_len bs = 0"

definition get_random_nodes ::
    "(nat \<Rightarrow> remote_peer list \<Rightarrow> remote_peer list) \<Rightarrow> remote_peer_id \<Rightarrow> nat \<Rightarrow> networks \<Rightarrow> buckets \<Rightarrow> remote_peer list" where
  "get_random_nodes choose_multiple sender number nets bs =
     choose_multiple number (get_all_nodes (Some sender) nets bs)"

text \<open>The subtraction of the period from the current time is on \<^verbatim>\<open>u64\<close>.\<close>

definition clean_buckets :: "u64 \<Rightarrow> u64 \<Rightarrow> buckets \<Rightarrow> buckets res" where
  "clean_buckets now period bs =
     (if now < period then Panic
      else on_first_bucket (filter (\<lambda>n. now - period \<le> node_last_seen n)) bs)"

section \<open>Nodes are distinct by their local identifier\<close>

definition bucket_inv :: "bucket \<Rightarrow> bool" where
  "bucket_inv b \<longleftrightarrow> distinct (map (local_id \<circ> node_peer) b)"

definition buckets_inv :: "buckets \<Rightarrow> bool" where
  "buckets_inv bs \<longleftrightarrow> length (bucket_list bs) = BUCKET_COUNT \<and> list_all bucket_inv (bucket_list bs)"

abbreviation node_key :: "bucket_node \<Rightarrow> remote_peer_id" where
  "node_key n \<equiv> local_id (node_peer n)"

lemma bucket_node_eq_iff [simp]: "bucket_node_eq a b \<longleftrightarrow> node_key a = node_key b"
  by (simp add: bucket_node_eq_def remote_peer_eq_def)

lemma bucket_insert_keys:
  "map node_key (bucket_insert n b) =
     (if node_key n \<in> node_key ` set b then map node_key b else map node_key b @ [node_key n])"
  by (auto simp: bucket_insert_def list_ex_iff)

lemma bucket_replace_keys:
  "map node_key (bucket_replace n b) =
     (if node_key n \<in> node_key ` set b then map node_key b else map node_key b @ [node_key n])"
  by (auto simp: bucket_replace_def list_ex_iff)

lemma bucket_insert_inv: "bucket_inv b \<Longrightarrow> bucket_inv (bucket_insert n b)"
  by (simp add: bucket_inv_def comp_def bucket_insert_keys)

lemma bucket_replace_inv: "bucket_inv b \<Longrightarrow> bucket_inv (bucket_replace n b)"
  by (simp add: bucket_inv_def comp_def bucket_replace_keys)

lemma bucket_filter_inv: "bucket_inv b \<Longrightarrow> bucket_inv (filter P b)"
  by (simp add: bucket_inv_def distinct_map_filter)

lemma buckets_inv_single: "buckets_inv bs \<longleftrightarrow> (\<exists>b. bucket_list bs = [b] \<and> bucket_inv b)"
  by (auto simp: buckets_inv_def BUCKET_COUNT_def length_Suc_conv)

lemma on_first_bucket_inv:
  assumes "\<And>b. bucket_inv b \<Longrightarrow> bucket_inv (f b)" and "buckets_inv bs"
  shows "\<exists>bs'. on_first_bucket f bs = Ok bs' \<and> buckets_inv bs'"
  using assms by (auto simp: buckets_inv_single on_first_bucket_def)

lemmas bucket_op_invs = bucket_insert_inv bucket_replace_inv bucket_filter_inv

text \<open>The bucket as a machine: the operations of a bootstrapper in any order.\<close>

datatype bucket_event =
    InsertNode u64 remote_peer networks
  | UpdateNode u64 remote_peer networks
  | CleanBuckets u64 u64

fun bucket_call :: "buckets \<Rightarrow> bucket_event \<Rightarrow> buckets res" where
  "bucket_call bs (InsertNode now p nets) = insert_into_bucket now p nets bs"
| "bucket_call bs (UpdateNode now p nets) = update_network_ids now p nets bs"
| "bucket_call bs (CleanBuckets now period) = clean_buckets now period bs"

fun bucket_enabled :: "buckets \<Rightarrow> bucket_event \<Rightarrow> bool" where
  "bucket_enabled bs (CleanBuckets now period) = (period \<le> now)"
| "bucket_enabled bs _ = True"

definition bucket_step :: "buckets \<Rightarrow> bucket_event \<Rightarrow> buckets" where
  "bucket_step bs e = (case bucket_call bs e of Ok bs' \<Rightarrow> bs' | _ \<Rightarrow> bs)"

lemma bucket_call_total:
  assumes "buckets_inv bs" and "bucket_enabled bs e"
  shows "\<exists>bs'. bucket_call bs e = Ok bs' \<and> buckets_inv bs'"
  using assms on_first_bucket_inv [OF bucket_insert_inv]
    on_first_bucket_inv [OF bucket_replace_inv] on_first_bucket_inv [OF bucket_filter_inv]
  by (cases e) (auto simp: insert_into_bucket_def update_network_ids_def clean_buckets_def)

lemma buckets_default_inv: "buckets_inv buckets_default"
  by (simp add: buckets_inv_def buckets_default_def bucket_inv_def BUCKET_COUNT_def)

lemma bucket_step_inv: "buckets_inv bs \<Longrightarrow> bucket_enabled bs e \<Longrightarrow> buckets_inv (bucket_step bs e)"
  using bucket_call_total [of bs e] by (auto simp: bucket_step_def)

interpretation bucket_machine: invariant_system buckets_default bucket_enabled bucket_step buckets_inv
  by unfold_locales (simp_all add: buckets_default_inv bucket_step_inv)

lemma get_all_nodes_distinct:
  "buckets_inv bs \<Longrightarrow> distinct (map local_id (get_all_nodes sender nets bs))"
  by (auto simp: buckets_inv_single get_all_nodes_def bucket_inv_def comp_def distinct_map_filter)


definition example_bucket_peer :: remote_peer where
  "example_bucket_peer = \<lparr>self_id = Some 9, remote_addr = SocketAddr (V4 1) 8888, local_id = 5,
     external_port = 8888, remote_peer_type = Node\<rparr>"


text \<open>
  \<^verbatim>\<open>is_empty\<close> sums the networks of the nodes, not the nodes: it answers true for a
  bucket whose nodes list no network, although that node is served to every peer that asks
  with no network filter.
\<close>

theorem buckets_is_empty_ignores_nodes_without_networks:
  assumes "insert_into_bucket now p {||} buckets_default = Ok bs"
    and "remote_peer_type p = Node" and "local_id p \<noteq> sender"
  shows "buckets_is_empty bs \<and> get_all_nodes (Some sender) {||} bs = [p]"
  using assms
  by (auto simp: insert_into_bucket_def on_first_bucket_def buckets_default_def BUCKET_COUNT_def
      bucket_insert_def buckets_is_empty_def buckets_len_def get_all_nodes_def filter_criteria_def)

theorem buckets_is_empty_ignores_nodes_without_networks_witness:
  "\<exists>bs. insert_into_bucket 10 example_bucket_peer {||} buckets_default = Ok bs \<and>
     buckets_is_empty bs \<and> get_all_nodes (Some 6) {||} bs = [example_bucket_peer]"
proof -
  obtain bs where r: "insert_into_bucket 10 example_bucket_peer {||} buckets_default = Ok bs"
    by (simp add: insert_into_bucket_def on_first_bucket_def buckets_default_def BUCKET_COUNT_def)
  have "remote_peer_type example_bucket_peer = Node" "local_id example_bucket_peer \<noteq> 6"
    by (simp_all add: example_bucket_peer_def)
  with r show ?thesis
    using buckets_is_empty_ignores_nodes_without_networks [OF r] by blast
qed

end
