(* ===== verification/Dedup.thy ===== *)
theory Dedup
  imports Network
begin

unbundle bit_operations_syntax

text \<open>
  The deduplication queues of \<^verbatim>\<open>connection/mod.rs\<close>: the trait \<^verbatim>\<open>DeduplicationQueue\<close> as a locale,
  its two implementations, and the four queues of the node. The hash functions and the
  \<^verbatim>\<open>push\<close> of the crate \<^verbatim>\<open>circular_queue\<close> are fields of an environment record; the contents of a
  queue are listed from the newest to the oldest entry, as its \<^verbatim>\<open>iter\<close> yields them.
\<close>

section \<open>The queues\<close>

datatype dedup_algorithm = XxHash64 | Sha256

definition dedup_algorithm_from_str :: "string \<Rightarrow> dedup_algorithm res" where
  "dedup_algorithm_from_str s =
     (if s = ''xxhash64'' then Ok XxHash64
      else if s = ''sha256'' then Ok Sha256
      else Err (Bail ''Could not parse deduplication hashing algorithm''))"

record dedup_env =
  xxhash64 :: "u64 \<Rightarrow> bytes \<Rightarrow> u64"
  sha256 :: "bytes \<Rightarrow> bytes"
  push_u64 :: "nat \<Rightarrow> u64 list \<Rightarrow> u64 \<Rightarrow> u64 list"
  push_hash :: "nat \<Rightarrow> bytes list \<Rightarrow> bytes \<Rightarrow> bytes list"

text \<open>
  The documented behaviour of a circular queue: a push puts the element in front and drops the
  oldest one when the capacity is exceeded.
\<close>

definition circular_push_law :: "(nat \<Rightarrow> 'a list \<Rightarrow> 'a \<Rightarrow> 'a list) \<Rightarrow> bool" where
  "circular_push_law push \<longleftrightarrow>
     (\<forall>cap q x. 0 < cap \<longrightarrow> length q \<le> cap \<longrightarrow> push cap q x = take cap (x # q))"

definition dedup_env_ok :: "dedup_env \<Rightarrow> bool" where
  "dedup_env_ok env \<longleftrightarrow> circular_push_law (push_u64 env) \<and> circular_push_law (push_hash env)"

record dedup_xxhash64 =
  xx_seed :: u64
  xx_capacity :: nat
  xx_queue :: "u64 list"

record dedup_sha256 =
  sha_capacity :: nat
  sha_queue :: "bytes list"

definition xx_new :: "u64 \<Rightarrow> nat \<Rightarrow> dedup_xxhash64" where
  "xx_new seed capacity = \<lparr>xx_seed = seed, xx_capacity = capacity, xx_queue = []\<rparr>"

definition xx_hash :: "dedup_env \<Rightarrow> dedup_xxhash64 \<Rightarrow> bytes \<Rightarrow> u64" where
  "xx_hash env q input = xxhash64 env (xx_seed q) input"

definition xx_check_and_insert :: "dedup_env \<Rightarrow> dedup_xxhash64 \<Rightarrow> bytes \<Rightarrow> bool res \<times> dedup_xxhash64" where
  "xx_check_and_insert env q input =
     (let num = xx_hash env q input
      in if \<not> list_ex (\<lambda>n. n = num) (xx_queue q)
         then (Ok False, q\<lparr>xx_queue := push_u64 env (xx_capacity q) (xx_queue q) num\<rparr>)
         else (Ok True, q))"

text \<open>\<^verbatim>\<open>iter_mut().find\<close>: the first matching entry is overwritten.\<close>

fun overwrite_first :: "'a \<Rightarrow> 'a \<Rightarrow> 'a list \<Rightarrow> 'a list" where
  "overwrite_first old new [] = []"
| "overwrite_first old new (x # xs) = (if x = old then new # xs else x # overwrite_first old new xs)"

definition xx_invalidate_if_exists :: "dedup_env \<Rightarrow> dedup_xxhash64 \<Rightarrow> bytes \<Rightarrow> dedup_xxhash64" where
  "xx_invalidate_if_exists env q input =
     (let num = xx_hash env q input
      in q\<lparr>xx_queue := overwrite_first num (NOT num) (xx_queue q)\<rparr>)"

definition sha_new :: "nat \<Rightarrow> dedup_sha256" where
  "sha_new capacity = \<lparr>sha_capacity = capacity, sha_queue = []\<rparr>"

definition sha_check_and_insert :: "dedup_env \<Rightarrow> dedup_sha256 \<Rightarrow> bytes \<Rightarrow> bool res \<times> dedup_sha256" where
  "sha_check_and_insert env q input =
     (let hash = sha256 env input
      in if \<not> list_ex (\<lambda>n. n = hash) (sha_queue q)
         then (Ok False, q\<lparr>sha_queue := push_hash env (sha_capacity q) (sha_queue q) hash\<rparr>)
         else (Ok True, q))"

definition sha_invalidate_if_exists :: "dedup_env \<Rightarrow> dedup_sha256 \<Rightarrow> bytes \<Rightarrow> dedup_sha256" where
  "sha_invalidate_if_exists env q input =
     (let hash = sha256 env input
      in q\<lparr>sha_queue := overwrite_first hash (replicate 32 0) (sha_queue q)\<rparr>)"

text \<open>A \<^verbatim>\<open>Box<dyn DeduplicationQueue>\<close> is one of the two.\<close>

datatype dedup_queue = XxQueue dedup_xxhash64 | ShaQueue dedup_sha256

definition check_and_insert :: "dedup_env \<Rightarrow> dedup_queue \<Rightarrow> bytes \<Rightarrow> bool res \<times> dedup_queue" where
  "check_and_insert env q input =
     (case q of
        XxQueue x \<Rightarrow> map_prod (\<lambda>r. r) XxQueue (xx_check_and_insert env x input)
      | ShaQueue s \<Rightarrow> map_prod (\<lambda>r. r) ShaQueue (sha_check_and_insert env s input))"

definition invalidate_if_exists :: "dedup_env \<Rightarrow> dedup_queue \<Rightarrow> bytes \<Rightarrow> dedup_queue" where
  "invalidate_if_exists env q input =
     (case q of
        XxQueue x \<Rightarrow> XxQueue (xx_invalidate_if_exists env x input)
      | ShaQueue s \<Rightarrow> ShaQueue (sha_invalidate_if_exists env s input))"

record dedup_queues =
  finalizations :: dedup_queue
  transactions :: dedup_queue
  blocks :: dedup_queue
  fin_records :: dedup_queue

definition dedup_queues_new ::
    "u64 \<times> u64 \<times> u64 \<times> u64 \<Rightarrow> dedup_algorithm \<Rightarrow> nat \<Rightarrow> nat \<Rightarrow> dedup_queues" where
  "dedup_queues_new seeds algorithm long_size short_size =
     (case algorithm of
        XxHash64 \<Rightarrow> (case seeds of (s1, s2, s3, s4) \<Rightarrow>
          \<lparr>finalizations = XxQueue (xx_new s1 long_size), transactions = XxQueue (xx_new s2 long_size),
           blocks = XxQueue (xx_new s3 short_size), fin_records = XxQueue (xx_new s4 short_size)\<rparr>)
      | Sha256 \<Rightarrow>
          \<lparr>finalizations = ShaQueue (sha_new long_size), transactions = ShaQueue (sha_new long_size),
           blocks = ShaQueue (sha_new short_size), fin_records = ShaQueue (sha_new short_size)\<rparr>)"

section \<open>The contract of the trait\<close>

text \<open>
  A queue has a capacity, a key for every input and a list of stored keys. A known key is
  reported and nothing changes; a new one is put in front and the list cut to the capacity.
  \<open>ok\<close> stands for the laws of the environment the implementation runs in.
\<close>

locale deduplication =
  fixes ok :: bool
    and key :: "'q \<Rightarrow> bytes \<Rightarrow> 'h"
    and cap :: "'q \<Rightarrow> nat"
    and elems :: "'q \<Rightarrow> 'h list"
    and check :: "'q \<Rightarrow> bytes \<Rightarrow> bool res \<times> 'q"
  assumes check_known: "key q m \<in> set (elems q) \<Longrightarrow> check q m = (Ok True, q)"
    and check_new: "ok \<Longrightarrow> 0 < cap q \<Longrightarrow> length (elems q) \<le> cap q \<Longrightarrow> key q m \<notin> set (elems q) \<Longrightarrow>
      \<exists>q'. check q m = (Ok False, q') \<and> elems q' = take (cap q) (key q m # elems q) \<and>
        cap q' = cap q \<and> key q' = key q"
begin

lemma check_cases:
  assumes "ok" and "0 < cap q" and "length (elems q) \<le> cap q"
  obtains (known) "key q m \<in> set (elems q)" "check q m = (Ok True, q)"
  | (new) q' where "key q m \<notin> set (elems q)" "check q m = (Ok False, q')"
      "elems q' = take (cap q) (key q m # elems q)" "cap q' = cap q" "key q' = key q"
  using check_known [of q m] check_new [OF assms, of m] by blast

lemma check_wf:
  assumes "ok" and "0 < cap q" and "length (elems q) \<le> cap q" and "check q m = (r, q')"
  shows "0 < cap q' \<and> length (elems q') \<le> cap q' \<and> cap q' = cap q \<and> key q' = key q"
  by (cases rule: check_cases [OF assms(1-3), of m]) (use assms in auto)

lemma check_twice:
  assumes "ok" and "0 < cap q" and "length (elems q) \<le> cap q" and "check q m = (r, q')"
  shows "check q' m = (Ok True, q')"
  using assms(1-3)
proof (cases rule: check_cases [where m = m])
  case known
  then show ?thesis using assms(4) by simp
next
  case (new q'')
  have "key q' m \<in> set (elems q')" using new assms(2,4) by (cases "cap q") auto
  then show ?thesis by (rule check_known)
qed

lemma kept_by_checks:
  assumes "ok" and "0 < cap q" and "length (elems q) \<le> cap q"
    and "k \<in> set (take (cap q - length ms) (elems q))"
  shows "k \<in> set (elems (fold (\<lambda>m q. snd (check q m)) ms q)) \<and>
    key (fold (\<lambda>m q. snd (check q m)) ms q) = key q"
  using assms
proof (induction ms arbitrary: q)
  case Nil
  then show ?case by simp
next
  case (Cons m ms)
  show ?case
    using Cons.prems(1-3)
  proof (cases rule: check_cases [where m = m])
    case known
    have "k \<in> set (take (cap q - length ms) (elems q))"
      using Cons.prems(4) set_take_subset_set_take [of "cap q - length (m # ms)" "cap q - length ms" "elems q"]
      by (simp add: subset_eq diff_le_mono2)
    with Cons.IH [OF Cons.prems(1-3) this] known show ?thesis by simp
  next
    case (new q')
    have wf: "0 < cap q'" "length (elems q') \<le> cap q'"
      using check_wf [OF Cons.prems(1-3) new(2)] by auto
    obtain c where c: "cap q - length ms = Suc c" "c = cap q - length (m # ms)"
      using Cons.prems(4) by (cases "cap q - length ms") auto
    have "k \<in> set (take (cap q' - length ms) (elems q'))"
      using Cons.prems(4) new(3,4) c by (auto simp: min_def)
    from Cons.IH [OF Cons.prems(1) wf this] new(2,5) show ?thesis by simp
  qed
qed

lemma duplicate_within_window:
  assumes "ok" and "0 < cap q" and "length (elems q) \<le> cap q"
    and "check q m = (Ok False, q')" and "length ms < cap q"
  shows "fst (check (fold (\<lambda>m q. snd (check q m)) ms q') m) = Ok True"
  using assms(1-3)
proof (cases rule: check_cases [where m = m])
  case known
  with assms(4) show ?thesis by simp
next
  case (new q'')
  with assms(4) have q': "elems q' = take (cap q) (key q m # elems q)" "cap q' = cap q" "key q' = key q"
    by auto
  have wf: "0 < cap q'" "length (elems q') \<le> cap q'"
    using check_wf [OF assms(1-4)] by auto
  have "key q m \<in> set (take (cap q' - length ms) (elems q'))"
    using q' assms(5) by (cases "cap q - length ms"; cases "cap q") auto
  from kept_by_checks [OF assms(1) wf this] q'(3) show ?thesis
    by (simp add: check_known)
qed

end

section \<open>Both implementations keep the contract\<close>

definition dedup_key :: "dedup_env \<Rightarrow> dedup_queue \<Rightarrow> bytes \<Rightarrow> u64 + bytes" where
  "dedup_key env q m = (case q of XxQueue x \<Rightarrow> Inl (xx_hash env x m) | ShaQueue s \<Rightarrow> Inr (sha256 env m))"

fun dedup_capacity :: "dedup_queue \<Rightarrow> nat" where
  "dedup_capacity (XxQueue x) = xx_capacity x"
| "dedup_capacity (ShaQueue s) = sha_capacity s"

fun dedup_elems :: "dedup_queue \<Rightarrow> (u64 + bytes) list" where
  "dedup_elems (XxQueue x) = map Inl (xx_queue x)"
| "dedup_elems (ShaQueue s) = map Inr (sha_queue s)"

definition dedup_wf :: "dedup_queue \<Rightarrow> bool" where
  "dedup_wf q \<longleftrightarrow> 0 < dedup_capacity q \<and> length (dedup_elems q) \<le> dedup_capacity q"

lemma dedup_env_push:
  assumes "dedup_env_ok env" and "0 < cap"
  shows "length q \<le> cap \<Longrightarrow> push_u64 env cap q x = take cap (x # q)"
    and "length q' \<le> cap \<Longrightarrow> push_hash env cap q' x' = take cap (x' # q')"
  using assms by (simp_all add: dedup_env_ok_def circular_push_law_def)

interpretation xx: deduplication "dedup_env_ok env" "xx_hash env" xx_capacity xx_queue "xx_check_and_insert env"
  for env
  by unfold_locales
    (auto simp: xx_check_and_insert_def list_ex_iff Let_def dedup_env_push xx_hash_def fun_eq_iff)

interpretation sha: deduplication "dedup_env_ok env" "\<lambda>_. sha256 env" sha_capacity sha_queue "sha_check_and_insert env"
  for env
  by unfold_locales
    (auto simp: sha_check_and_insert_def list_ex_iff Let_def dedup_env_push)

lemma check_and_insert_known:
  "dedup_key env q m \<in> set (dedup_elems q) \<Longrightarrow> check_and_insert env q m = (Ok True, q)"
  by (cases q) (auto simp: dedup_key_def check_and_insert_def xx.check_known sha.check_known)

lemma check_and_insert_new:
  assumes "dedup_env_ok env" "0 < dedup_capacity q" "length (dedup_elems q) \<le> dedup_capacity q"
    "dedup_key env q m \<notin> set (dedup_elems q)"
  shows "\<exists>q'. check_and_insert env q m = (Ok False, q') \<and>
    dedup_elems q' = take (dedup_capacity q) (dedup_key env q m # dedup_elems q) \<and>
    dedup_capacity q' = dedup_capacity q \<and> dedup_key env q' = dedup_key env q"
proof (cases q)
  case (XxQueue x)
  with assms have "dedup_env_ok env" "0 < xx_capacity x" "length (xx_queue x) \<le> xx_capacity x"
    "xx_hash env x m \<notin> set (xx_queue x)"
    by (auto simp: dedup_key_def)
  from xx.check_new [OF this] XxQueue show ?thesis
    by (auto simp: dedup_key_def check_and_insert_def fun_eq_iff simp flip: take_map)
next
  case (ShaQueue s)
  with assms have "dedup_env_ok env" "0 < sha_capacity s" "length (sha_queue s) \<le> sha_capacity s"
    "sha256 env m \<notin> set (sha_queue s)"
    by (auto simp: dedup_key_def)
  from sha.check_new [OF this] ShaQueue show ?thesis
    by (auto simp: dedup_key_def check_and_insert_def fun_eq_iff simp flip: take_map)
qed

interpretation dyn: deduplication "dedup_env_ok env" "dedup_key env" dedup_capacity dedup_elems "check_and_insert env"
  for env
  by unfold_locales (fact check_and_insert_known, fact check_and_insert_new)

section \<open>Properties\<close>

text \<open>The environment of the examples: tiny hash functions and the reference circular push.\<close>

definition example_dedup_env :: dedup_env where
  "example_dedup_env = \<lparr>xxhash64 = (\<lambda>seed m. seed + word_of_nat (from_be_bytes m)),
     sha256 = (\<lambda>m. 1 # take 31 (m @ replicate 31 0)),
     push_u64 = (\<lambda>cap q x. take cap (x # q)), push_hash = (\<lambda>cap q x. take cap (x # q))\<rparr>"

lemma example_dedup_env_ok: "dedup_env_ok example_dedup_env"
  by (simp add: dedup_env_ok_def circular_push_law_def example_dedup_env_def)

text \<open>
  Property C7: A message that was reported as new stays recognised: while fewer messages than
  the capacity of the queue are checked after it, checking it again reports a duplicate.
\<close>

theorem dedup_recognises_within_capacity:
  assumes "dedup_env_ok env" and "dedup_wf q"
    and "check_and_insert env q m = (Ok False, q')" and "length ms < dedup_capacity q"
  shows "fst (check_and_insert env (fold (\<lambda>m q. snd (check_and_insert env q m)) ms q') m) = Ok True"
  using dyn.duplicate_within_window [OF assms(1) _ _ assms(3,4)] assms(2)
  by (simp add: dedup_wf_def)

lemma dedup_queues_new_wf:
  "0 < long \<Longrightarrow> 0 < short \<Longrightarrow>
     dedup_wf (finalizations (dedup_queues_new seeds alg long short)) \<and>
     dedup_wf (transactions (dedup_queues_new seeds alg long short)) \<and>
     dedup_wf (blocks (dedup_queues_new seeds alg long short)) \<and>
     dedup_wf (fin_records (dedup_queues_new seeds alg long short))"
  by (cases alg; cases seeds) (simp_all add: dedup_queues_new_def dedup_wf_def xx_new_def sha_new_def)

definition example_dedup_queue :: dedup_queue where
  "example_dedup_queue = XxQueue (xx_new 7 3)"

theorem dedup_recognises_within_capacity_witness:
  "\<exists>q'. check_and_insert example_dedup_env example_dedup_queue [5] = (Ok False, q') \<and>
     fst (check_and_insert example_dedup_env
       (fold (\<lambda>m q. snd (check_and_insert example_dedup_env q m)) [[6], [8]] q') [5]) = Ok True"
proof -
  obtain q' where c: "check_and_insert example_dedup_env example_dedup_queue [5] = (Ok False, q')"
    by (simp add: check_and_insert_def example_dedup_queue_def xx_check_and_insert_def xx_new_def Let_def)
  have "dedup_wf example_dedup_queue" "length [[6], [8::u8]] < dedup_capacity example_dedup_queue"
    by (simp_all add: example_dedup_queue_def dedup_wf_def xx_new_def)
  from dedup_recognises_within_capacity [OF example_dedup_env_ok this(1) c this(2)] c
  show ?thesis by blast
qed

lemma not_word_neq: "x \<noteq> NOT (x :: u64)"
proof
  assume "x = NOT x"
  then have "bit x 0 = bit (NOT x) 0" by (rule arg_cong)
  then show False by (simp only: bit_not_iff) (simp add: possible_bit_def)
qed

text \<open>
  Deduplication answers by the stored hashes only: a check reports a duplicate
  exactly when the hash of the message is stored, leaves a well-formed queue of the same
  capacity, and stores the new hash as the newest entry.
\<close>

theorem dedup_check_functional:
  assumes "dedup_env_ok env" and "dedup_wf q" and "check_and_insert env q m = (r, q')"
  shows "r = Ok (dedup_key env q m \<in> set (dedup_elems q)) \<and> dedup_wf q' \<and>
    dedup_capacity q' = dedup_capacity q \<and>
    dedup_elems q' = (if dedup_key env q m \<in> set (dedup_elems q) then dedup_elems q
      else take (dedup_capacity q) (dedup_key env q m # dedup_elems q))"
proof -
  have wf: "0 < dedup_capacity q" "length (dedup_elems q) \<le> dedup_capacity q"
    using assms(2) by (auto simp: dedup_wf_def)
  have "dedup_wf q' \<and> dedup_capacity q' = dedup_capacity q"
    using dyn.check_wf [OF assms(1) wf assms(3)] by (simp add: dedup_wf_def)
  moreover have "r = Ok (dedup_key env q m \<in> set (dedup_elems q)) \<and>
      dedup_elems q' = (if dedup_key env q m \<in> set (dedup_elems q) then dedup_elems q
        else take (dedup_capacity q) (dedup_key env q m # dedup_elems q))"
    using assms(1) wf by (cases rule: dyn.check_cases [where m = m]) (use assms(3) in auto)
  ultimately show ?thesis by blast
qed

theorem dedup_check_functional_witness:
  "check_and_insert example_dedup_env (ShaQueue (sha_new 2)) [9] =
     (Ok False, snd (check_and_insert example_dedup_env (ShaQueue (sha_new 2)) [9])) \<and>
   dedup_wf (snd (check_and_insert example_dedup_env (ShaQueue (sha_new 2)) [9]))"
proof -
  have "dedup_wf (ShaQueue (sha_new 2))" by (simp add: dedup_wf_def sha_new_def)
  from dedup_check_functional [OF example_dedup_env_ok this prod.collapse [symmetric], of "[9]"]
  show ?thesis by (simp add: sha_new_def prod_eq_iff)
qed

text \<open>
  A message that was just inserted and then invalidated is new again: flipping all
  bits never leaves the same 64-bit hash, and zeroing a SHA-256 hash differs from any hash that
  is not itself zero.
\<close>

theorem dedup_invalidate_forgets:
  assumes "dedup_env_ok env" and "dedup_wf q" and "check_and_insert env q m = (Ok False, q')"
    and "sha256 env m \<noteq> replicate 32 0"
  shows "fst (check_and_insert env (invalidate_if_exists env q' m) m) = Ok False"
proof -
  have new: "dedup_key env q m \<notin> set (dedup_elems q)"
    using assms(3) check_and_insert_known [of env q m] by fastforce
  obtain c where c: "dedup_capacity q = Suc c" using assms(2) by (cases "dedup_capacity q") (auto simp: dedup_wf_def)
  show ?thesis
  proof (cases q)
    case (XxQueue x)
    let ?h = "xx_hash env x m"
    have h: "?h \<notin> set (xx_queue x)" using new XxQueue by (auto simp: dedup_key_def)
    have "q' = XxQueue (x\<lparr>xx_queue := ?h # take c (xx_queue x)\<rparr>)"
      using assms(1-3) XxQueue h c
      by (auto simp: check_and_insert_def xx_check_and_insert_def Let_def list_ex_iff dedup_env_push dedup_wf_def)
    moreover have "?h \<noteq> NOT ?h" by (rule not_word_neq)
    ultimately show ?thesis
      using h by (auto simp: check_and_insert_def invalidate_if_exists_def xx_invalidate_if_exists_def
          xx_check_and_insert_def Let_def list_ex_iff xx_hash_def dest: in_set_takeD)
  next
    case (ShaQueue s)
    let ?h = "sha256 env m"
    have h: "?h \<notin> set (sha_queue s)" using new ShaQueue by (auto simp: dedup_key_def)
    have "q' = ShaQueue (s\<lparr>sha_queue := ?h # take c (sha_queue s)\<rparr>)"
      using assms(1-3) ShaQueue h c
      by (auto simp: check_and_insert_def sha_check_and_insert_def Let_def list_ex_iff dedup_env_push dedup_wf_def)
    then show ?thesis
      using h assms(4) by (auto simp: check_and_insert_def invalidate_if_exists_def
          sha_invalidate_if_exists_def sha_check_and_insert_def Let_def list_ex_iff dest: in_set_takeD)
  qed
qed

theorem dedup_invalidate_forgets_witness:
  "\<exists>q'. check_and_insert example_dedup_env example_dedup_queue [5] = (Ok False, q') \<and>
     fst (check_and_insert example_dedup_env (invalidate_if_exists example_dedup_env q' [5]) [5]) = Ok False"
proof -
  obtain q' where c: "check_and_insert example_dedup_env example_dedup_queue [5] = (Ok False, q')"
    by (simp add: check_and_insert_def example_dedup_queue_def xx_check_and_insert_def xx_new_def Let_def)
  have wf: "dedup_wf example_dedup_queue"
    by (simp add: example_dedup_queue_def dedup_wf_def xx_new_def)
  have "sha256 example_dedup_env [5] \<noteq> replicate 32 0"
    by (simp add: example_dedup_env_def numeral_eq_Suc)
  from dedup_invalidate_forgets [OF example_dedup_env_ok wf c this] c show ?thesis by blast
qed

end
