(* ===== verification/ConnectionStats.thy ===== *)
theory ConnectionStats
  imports Network
begin

text \<open>
  Per-connection bookkeeping of \<^verbatim>\<open>connection/mod.rs\<close>: the statistics with the ping/pong latency
  measurement, the two outgoing message queues, and the peer statistics built from them
  (\<^verbatim>\<open>common/p2p_peer.rs\<close>). Plain integer arithmetic that leaves its range is a panic; the atomic
  \<^verbatim>\<open>fetch_add\<close> and \<^verbatim>\<open>fetch_sub\<close> wrap around. The current time is an argument.
\<close>

section \<open>Statistics\<close>

record connection_stats =
  stats_created :: u64
  last_seen :: u64
  last_ping :: u64
  last_ping_interval :: u64
  pending_pongs :: "64 word"
  last_latency :: u64
  messages_sent :: u64
  messages_received :: u64
  bytes_received :: u64
  bytes_sent :: u64

definition connection_stats_new :: "u64 \<Rightarrow> connection_stats" where
  "connection_stats_new timestamp =
     \<lparr>stats_created = timestamp, last_seen = timestamp, last_ping = 0, last_ping_interval = 0,
      pending_pongs = 0, last_latency = 0, messages_sent = 0, messages_received = 0,
      bytes_received = 0, bytes_sent = 0\<rparr>"

definition notify_ping :: "u64 \<Rightarrow> connection_stats \<Rightarrow> connection_stats res" where
  "notify_ping now s =
     (let previous_ping = last_ping s
      in if now < previous_ping then Panic
         else Ok (s\<lparr>last_ping := now, last_ping_interval := now - previous_ping,
                    pending_pongs := pending_pongs s + 1\<rparr>))"

definition notify_pong :: "u64 \<Rightarrow> connection_stats \<Rightarrow> unit res \<times> connection_stats" where
  "notify_pong now s =
     (let old_pending_pongs = sint (pending_pongs s);
          s' = s\<lparr>pending_pongs := pending_pongs s - 1\<rparr>
      in if old_pending_pongs \<le> 0 then (Err (Bail ''unexpected pong''), s')
         else
           let extra_delay = (if old_pending_pongs > 1
                 then (nat old_pending_pongs - 1) * unat (last_ping_interval s') else 0);
               since_ping = unat now - unat (last_ping s');
               measured_latency = since_ping + extra_delay
           in if extra_delay \<ge> 2 ^ 64 \<or> now < last_ping s' \<or> measured_latency \<ge> 2 ^ 64 then (Panic, s')
              else (Ok (), s'\<lparr>last_latency := word_of_nat measured_latency\<rparr>))"

definition get_latency :: "connection_stats \<Rightarrow> u64" where
  "get_latency s = last_latency s"

record peer_stats =
  ps_local_id :: remote_peer_id
  ps_self_id :: p2p_node_id
  ps_addr :: socket_addr
  ps_external_port :: u16
  ps_peer_type :: peer_type
  ps_latency :: u64
  ps_msgs_sent :: u64
  ps_msgs_received :: u64
  ps_bytes_sent :: u64
  ps_bytes_received :: u64

definition peer_stats_new ::
    "remote_peer_id \<Rightarrow> p2p_node_id \<Rightarrow> socket_addr \<Rightarrow> u16 \<Rightarrow> peer_type \<Rightarrow> connection_stats \<Rightarrow> peer_stats" where
  "peer_stats_new lid sid a port ptype s =
     \<lparr>ps_local_id = lid, ps_self_id = sid, ps_addr = a, ps_external_port = port,
      ps_peer_type = ptype, ps_latency = get_latency s, ps_msgs_sent = messages_sent s,
      ps_msgs_received = messages_received s, ps_bytes_sent = bytes_sent s,
      ps_bytes_received = bytes_received s\<rparr>"

definition external_address :: "peer_stats \<Rightarrow> socket_addr" where
  "external_address p = SocketAddr (addr_ip (ps_addr p)) (ps_external_port p)"

section \<open>Message queues\<close>

datatype message_sending_priority = Normal | High

record message_queues =
  low :: "bytes list"
  high :: "bytes list"

definition message_queues_new :: message_queues where
  "message_queues_new = \<lparr>low = [], high = []\<rparr>"

definition queue_index :: "message_queues \<Rightarrow> message_sending_priority \<Rightarrow> bytes list" where
  "queue_index q p = (case p of Normal \<Rightarrow> low q | High \<Rightarrow> high q)"

definition enqueue :: "message_sending_priority \<Rightarrow> bytes \<Rightarrow> message_queues \<Rightarrow> message_queues" where
  "enqueue p m q =
     (case p of
        Normal \<Rightarrow> q\<lparr>low := queue_index q p @ [m]\<rparr>
      | High \<Rightarrow> q\<lparr>high := queue_index q p @ [m]\<rparr>)"

definition dequeue :: "message_queues \<Rightarrow> (bytes \<times> message_queues) option" where
  "dequeue q =
     (case high q of
        m # ms \<Rightarrow> Some (m, q\<lparr>high := ms\<rparr>)
      | [] \<Rightarrow> (case low q of m # ms \<Rightarrow> Some (m, q\<lparr>low := ms\<rparr>) | [] \<Rightarrow> None))"

subsection \<open>A sending queue for its client\<close>

text \<open>
  The sender of a connection only relies on this: the queue represents a list of messages and
  \<^const>\<open>dequeue\<close> takes its head. Whatever is done with the messages, \<open>n\<close> dequeues hand out the
  first \<open>n\<close> of them in order.
\<close>

fun take_messages :: "('q \<Rightarrow> ('m \<times> 'q) option) \<Rightarrow> nat \<Rightarrow> 'q \<Rightarrow> 'm list \<times> 'q" where
  "take_messages deq 0 q = ([], q)"
| "take_messages deq (Suc n) q =
     (case deq q of
        None \<Rightarrow> ([], q)
      | Some (m, q') \<Rightarrow> (case take_messages deq n q' of (ms, q'') \<Rightarrow> (m # ms, q'')))"

locale sending_queue =
  fixes deq :: "'q \<Rightarrow> ('m \<times> 'q) option"
    and contents :: "'q \<Rightarrow> 'm list"
  assumes deq_empty: "contents q = [] \<Longrightarrow> deq q = None"
    and deq_head: "contents q = m # ms \<Longrightarrow> \<exists>q'. deq q = Some (m, q') \<and> contents q' = ms"
begin

lemma take_messages_contents:
  "\<exists>q'. take_messages deq n q = (take n (contents q), q') \<and> contents q' = drop n (contents q)"
proof (induction n arbitrary: q)
  case 0
  then show ?case by simp
next
  case (Suc n)
  show ?case
  proof (cases "contents q")
    case Nil
    then show ?thesis by (simp add: deq_empty)
  next
    case (Cons m ms)
    from deq_head [OF Cons] obtain q' where "deq q = Some (m, q')" "contents q' = ms" by blast
    with Suc.IH [of q'] Cons show ?thesis by auto
  qed
qed

end

definition queued_messages :: "message_queues \<Rightarrow> bytes list" where
  "queued_messages q = high q @ low q"

interpretation mq: sending_queue dequeue queued_messages
  by unfold_locales (auto simp: dequeue_def queued_messages_def split: list.splits)

definition enqueue_all :: "(message_sending_priority \<times> bytes) list \<Rightarrow> message_queues \<Rightarrow> message_queues" where
  "enqueue_all = fold (\<lambda>(p, m). enqueue p m)"

definition with_priority :: "message_sending_priority \<Rightarrow> (message_sending_priority \<times> 'm) list \<Rightarrow> 'm list" where
  "with_priority p ms = map snd (filter (\<lambda>(p', m). p' = p) ms)"

lemma enqueue_all_queues:
  "high (enqueue_all ms q) = high q @ with_priority High ms \<and>
   low (enqueue_all ms q) = low q @ with_priority Normal ms"
  unfolding enqueue_all_def
proof (induction ms arbitrary: q)
  case Nil
  then show ?case by (simp add: with_priority_def)
next
  case (Cons pm ms)
  obtain p m where pm: "pm = (p, m)" by (cases pm)
  show ?case
    using Cons.IH [of "enqueue p m q"]
    by (cases p) (simp_all add: pm enqueue_def queue_index_def with_priority_def)
qed


section \<open>Latency\<close>

text \<open>A run of pings, then of pongs, at given times.\<close>

fun pings :: "u64 list \<Rightarrow> connection_stats \<Rightarrow> connection_stats res" where
  "pings [] s = Ok s"
| "pings (t # ts) s = res_bind (notify_ping t s) (pings ts)"

fun pongs :: "u64 list \<Rightarrow> connection_stats \<Rightarrow> connection_stats res" where
  "pongs [] s = Ok s"
| "pongs (t # ts) s = (case notify_pong t s of (r, s') \<Rightarrow> res_bind r (\<lambda>_. pongs ts s'))"

definition regular_pings :: "nat \<Rightarrow> nat \<Rightarrow> nat \<Rightarrow> u64 list" where
  "regular_pings t d n = map (\<lambda>i. word_of_nat (t + i * d)) [0..<n]"

lemma sint_word_of_nat: "n < 2 ^ 63 \<Longrightarrow> sint (word_of_nat n :: 64 word) = int n"
  by (simp add: signed_of_nat signed_take_bit_int_eq_self)

lemma unat_word_of_nat: "n < 2 ^ 64 \<Longrightarrow> unat (word_of_nat n :: u64) = n"
  by (simp add: unat_of_nat take_bit_nat_eq_self)

lemma word_of_nat_le: "m \<le> n \<Longrightarrow> n < 2 ^ 64 \<Longrightarrow> (word_of_nat m :: u64) \<le> word_of_nat n"
  by (simp add: word_le_nat_alt unat_word_of_nat)

lemma word_of_nat_diff: "m \<le> n \<Longrightarrow> (word_of_nat n :: u64) - word_of_nat m = word_of_nat (n - m)"
  by (simp add: of_nat_diff)

lemma pings_append: "pings (ts @ us) s = res_bind (pings ts s) (pings us)"
  by (induction ts s rule: pings.induct) (auto simp: notify_ping_def Let_def)

lemma notify_ping_Ok:
  "last_ping s \<le> now \<Longrightarrow> notify_ping now s =
     Ok (s\<lparr>last_ping := now, last_ping_interval := now - last_ping s,
           pending_pongs := pending_pongs s + 1\<rparr>)"
  by (simp add: notify_ping_def Let_def not_less [symmetric])

lemma pings_regular:
  assumes "t + k * d < 2 ^ 64"
  shows "\<exists>s. pings (regular_pings t d (Suc k)) (connection_stats_new c) = Ok s \<and>
    last_ping s = word_of_nat (t + k * d) \<and> (0 < k \<longrightarrow> last_ping_interval s = word_of_nat d) \<and>
    pending_pongs s = word_of_nat (Suc k)"
  using assms
proof (induction k)
  case 0
  then show ?case
    by (simp add: regular_pings_def notify_ping_Ok connection_stats_new_def)
next
  case (Suc k)
  then obtain s where s: "pings (regular_pings t d (Suc k)) (connection_stats_new c) = Ok s"
    "last_ping s = word_of_nat (t + k * d)" "pending_pongs s = word_of_nat (Suc k)"
    by auto
  have "regular_pings t d (Suc (Suc k)) = regular_pings t d (Suc k) @ [word_of_nat (t + Suc k * d)]"
    by (simp add: regular_pings_def algebra_simps)
  moreover have "last_ping s \<le> word_of_nat (t + Suc k * d)"
    unfolding s(2) by (rule word_of_nat_le) (use Suc.prems in auto)
  moreover have "(word_of_nat (t + Suc k * d) :: u64) - last_ping s = word_of_nat d"
    unfolding s(2) by (simp add: algebra_simps)
  ultimately show ?case
    using s(1,3) by (simp add: pings_append notify_ping_Ok del: of_nat_add of_nat_mult)
qed

lemma notify_pong_measures:
  assumes "pending_pongs s = word_of_nat (Suc e)" and "Suc e < 2 ^ 63"
    and "last_ping s = word_of_nat p" and "0 < e \<longrightarrow> last_ping_interval s = word_of_nat d"
    and "e * d \<le> p" and "p \<le> now" and "now < 2 ^ 64" and "d < 2 ^ 64"
  shows "notify_pong (word_of_nat now) s =
    (Ok (), s\<lparr>pending_pongs := word_of_nat e, last_latency := word_of_nat (now - p + e * d)\<rparr>)"
proof -
  have old: "sint (pending_pongs s) = int (Suc e)"
    unfolding assms(1) using assms(2) by (rule sint_word_of_nat)
  have e: "pending_pongs s - 1 = word_of_nat e" using assms(1) by simp
  have delay: "(if sint (pending_pongs s) > 1 then (nat (sint (pending_pongs s)) - 1) *
      unat (last_ping_interval (s\<lparr>pending_pongs := pending_pongs s - 1\<rparr>)) else 0) = e * d"
    using assms(4,8) by (cases "e = 0") (simp_all add: old unat_word_of_nat del: of_nat_Suc)
  have u: "unat (word_of_nat now :: u64) = now" "unat (last_ping s) = p"
    using assms(3,6,7) by (auto simp: unat_word_of_nat)
  then have "\<not> word_of_nat now < last_ping s" using assms(6) by (simp add: word_less_nat_alt)
  moreover have "e * d < 2 ^ 64" "now - p + e * d < 2 ^ 64" using assms(5-7) by auto
  ultimately show ?thesis
    unfolding notify_pong_def Let_def delay by (simp add: old e u)
qed

lemma pongs_counts:
  assumes "pongs ts s = Ok s'"
  shows "last_ping s' = last_ping s \<and> last_ping_interval s' = last_ping_interval s \<and>
    pending_pongs s' = pending_pongs s - word_of_nat (length ts)"
  using assms
  by (induction ts s rule: pongs.induct)
    (auto simp: notify_pong_def Let_def algebra_simps split: if_splits)

text \<open>
  When pings go out at a constant interval, the latency measured by each pong is
  exact: after \<open>k + 1\<close> pings at times \<open>t, t + d, \<dots>\<close> and \<open>j\<close> answers, the next pong, at
  time \<open>now\<close>, stores the time elapsed since the ping it answers was sent.
\<close>

theorem latency_is_time_since_answered_ping:
  assumes "pings (regular_pings t d (Suc k)) (connection_stats_new c) = Ok s"
    and "pongs ts s = Ok s'" and "length ts = j" and "j \<le> k" and "Suc k < 2 ^ 63" and "d < 2 ^ 64"
    and "t + k * d \<le> now" and "now < 2 ^ 64"
  shows "\<exists>s''. notify_pong (word_of_nat now) s' = (Ok (), s'') \<and>
    unat (get_latency s'') = now - (t + j * d)"
proof -
  have "t + k * d < 2 ^ 64" using assms(7,8) by simp
  from pings_regular [OF this, of c] assms(1)
  have s: "last_ping s = word_of_nat (t + k * d)" "0 < k \<longrightarrow> last_ping_interval s = word_of_nat d"
    "pending_pongs s = word_of_nat (Suc k)" by auto
  have "pending_pongs s' = word_of_nat (Suc k) - word_of_nat j"
    using pongs_counts [OF assms(2)] s(3) assms(3) by simp
  also have "\<dots> = word_of_nat (Suc k - j)"
    by (rule word_of_nat_diff) (use assms(4) in simp)
  also have "Suc k - j = Suc (k - j)" using assms(4) by simp
  finally have p: "pending_pongs s' = word_of_nat (Suc (k - j))" .
  obtain e where e: "k = j + e" using assms(4) nat_le_iff_add by auto
  have "notify_pong (word_of_nat now) s' = (Ok (), s'\<lparr>pending_pongs := word_of_nat (k - j),
      last_latency := word_of_nat (now - (t + k * d) + (k - j) * d)\<rparr>)"
    using pongs_counts [OF assms(2)] s assms(4-8) p
    by (intro notify_pong_measures) (auto simp: diff_mult_distrib)
  moreover have "now - (t + k * d) + (k - j) * d = now - (t + j * d)"
    using assms(7) by (simp add: e algebra_simps)
  ultimately show ?thesis using assms(8) by (simp add: get_latency_def unat_word_of_nat)
qed

theorem latency_is_time_since_answered_ping_witness:
  "\<exists>s s''. pings (regular_pings 1000 50 3) (connection_stats_new 900) = Ok s \<and>
     notify_pong (word_of_nat 1130) s = (Ok (), s'') \<and> unat (get_latency s'') = 130"
proof -
  obtain s where s: "pings (regular_pings 1000 50 (Suc 2)) (connection_stats_new 900) = Ok s"
    using pings_regular [of 1000 2 50 900] by auto
  have "\<exists>s''. notify_pong (word_of_nat 1130) s = (Ok (), s'') \<and>
      unat (get_latency s'') = 1130 - (1000 + 0 * 50)"
    by (rule latency_is_time_since_answered_ping [OF s, of "[]"]) simp_all
  with s show ?thesis by (simp add: numeral_3_eq_3 numeral_2_eq_2)
qed

text \<open>
  A pong with no ping outstanding is an error, and it leaves the counter one lower:
  the next ping does not bring it back above zero, so its answer is an error as well.
\<close>

theorem unsolicited_pong_poisons_next_answer:
  assumes "pending_pongs s = 0" and "notify_pong t1 s = (r, s1)"
    and "notify_ping t2 s1 = Ok s2" and "notify_pong t3 s2 = (r', s3)"
  shows "r = Err (Bail ''unexpected pong'') \<and> r' = Err (Bail ''unexpected pong'')"
  using assms by (auto simp: notify_pong_def notify_ping_def Let_def split: if_splits)

theorem unsolicited_pong_poisons_next_answer_witness:
  "\<exists>s1 s2 s3. notify_pong 5 (connection_stats_new 1) = (Err (Bail ''unexpected pong''), s1) \<and>
     notify_ping 6 s1 = Ok s2 \<and> notify_pong 7 s2 = (Err (Bail ''unexpected pong''), s3)"
proof -
  obtain r s1 where 1: "notify_pong 5 (connection_stats_new 1) = (r, s1)"
    by (cases "notify_pong 5 (connection_stats_new 1)")
  then have "last_ping s1 = 0" by (auto simp: notify_pong_def connection_stats_new_def Let_def)
  then obtain s2 where 2: "notify_ping 6 s1 = Ok s2" by (simp add: notify_ping_Ok)
  obtain r' s3 where 3: "notify_pong 7 s2 = (r', s3)" by (cases "notify_pong 7 s2")
  have "pending_pongs (connection_stats_new 1) = 0" by (simp add: connection_stats_new_def)
  from unsolicited_pong_poisons_next_answer [OF this 1 2 3] 1 2 3 show ?thesis by blast
qed

end
