(* ===== verification/LowLevel.thy ===== *)
theory LowLevel
  imports Network
begin

text \<open>
  The encrypted byte stream of a connection (\<^verbatim>\<open>connection/low_level.rs\<close>): length-prefixed
  messages, split into noise chunks, read from and written to a non-blocking socket through one
  shared buffer.

  The socket is a script of the outcomes of its reads and writes together with the bytes it
  accepted. The noise session of the crate \<^verbatim>\<open>noiseexplorer_xx\<close> is a record of its operations
  over an abstract session state; the in-place \<^verbatim>\<open>send_message\<close> and \<^verbatim>\<open>recv_message\<close> return the
  rewritten buffer. An error ends the connection, so an operation that fails returns no state.
\<close>

section \<open>Constants and external interfaces\<close>

definition PAYLOAD_SIZE :: nat where
  "PAYLOAD_SIZE = 4"

definition NOISE_MAX_MESSAGE_LEN :: nat where
  "NOISE_MAX_MESSAGE_LEN = 64 * 1024 - 1"

definition NOISE_AUTH_TAG_LEN :: nat where
  "NOISE_AUTH_TAG_LEN = 16"

definition NOISE_MAX_PAYLOAD_LEN :: nat where
  "NOISE_MAX_PAYLOAD_LEN = NOISE_MAX_MESSAGE_LEN - NOISE_AUTH_TAG_LEN"

definition HANDSHAKE_SIZE_LIMIT :: nat where
  "HANDSHAKE_SIZE_LIMIT = 1024"

definition PSK :: bytes where
  "PSK = map of_char ''b6461bd246843f70ac1328401405b2b4e725994d7d144a75bff1a04a247d64b7''"

record 'ns noise_ops =
  send_message :: "'ns \<Rightarrow> bytes \<Rightarrow> (bytes \<times> 'ns) option"
  recv_message :: "'ns \<Rightarrow> bytes \<Rightarrow> (bytes \<times> 'ns) option"
  get_message_count :: "'ns \<Rightarrow> nat"
  is_initiator :: "'ns \<Rightarrow> bool"
  dhlen :: nat
  mac_length :: nat

datatype read_event = ReadData bytes | ReadBlocks | ReadFails

datatype write_event = WriteTakes nat | WriteBlocks | WriteFails

record socket =
  rx :: "read_event list"
  tx :: bytes
  wx :: "write_event list"
  nodelay :: bool
  linger :: "u16 option"
  options_ok :: bool

text \<open>A read returns at most the requested number of bytes; a write accepts a prefix.\<close>

definition socket_read :: "nat \<Rightarrow> socket \<Rightarrow> read_event \<times> socket" where
  "socket_read len sk =
     (case rx sk of
        [] \<Rightarrow> (ReadBlocks, sk)
      | ReadData bs # es \<Rightarrow>
          (ReadData (take len bs),
           sk\<lparr>rx := (if length bs \<le> len then es else ReadData (drop len bs) # es)\<rparr>)
      | e # es \<Rightarrow> (e, sk\<lparr>rx := es\<rparr>))"

definition socket_write :: "bytes \<Rightarrow> socket \<Rightarrow> write_event \<times> socket" where
  "socket_write bs sk =
     (case wx sk of
        [] \<Rightarrow> (WriteBlocks, sk)
      | WriteTakes n # es \<Rightarrow>
          (WriteTakes (min n (length bs)), sk\<lparr>wx := es, tx := tx sk @ take n bs\<rparr>)
      | e # es \<Rightarrow> (e, sk\<lparr>wx := es\<rparr>))"

section \<open>State\<close>

record incoming_message =
  size_bytes :: bytes
  pending_bytes :: nat
  message :: bytes

definition incoming_message_default :: incoming_message where
  "incoming_message_default = \<lparr>size_bytes = [], pending_bytes = 0, message = []\<rparr>"

record socket_buffer =
  buf :: bytes
  offset :: nat
  remaining :: nat

definition socket_buffer_new :: "nat \<Rightarrow> socket_buffer" where
  "socket_buffer_new socket_read_size =
     \<lparr>buf = replicate socket_read_size 0, offset = 0, remaining = 0\<rparr>"

definition is_exhausted :: "socket_buffer \<Rightarrow> bool" where
  "is_exhausted sb \<longleftrightarrow> offset sb = length (buf sb)"

definition sb_slice :: "socket_buffer \<Rightarrow> nat \<Rightarrow> bytes res" where
  "sb_slice sb len =
     (if length (buf sb) < offset sb + len then Panic
      else Ok (take len (drop (offset sb) (buf sb))))"

text \<open>Writing through \<^verbatim>\<open>slice_mut\<close>: the bytes of the slice are replaced.\<close>

definition sb_write :: "bytes \<Rightarrow> socket_buffer \<Rightarrow> socket_buffer" where
  "sb_write bs sb = sb\<lparr>buf := take (offset sb) (buf sb) @ bs @ drop (offset sb + length bs) (buf sb)\<rparr>"

definition sb_shift :: "nat \<Rightarrow> socket_buffer \<Rightarrow> socket_buffer res" where
  "sb_shift k sb =
     (if remaining sb < k then Panic
      else Ok (sb\<lparr>offset := (if remaining sb - k = 0 then 0 else offset sb + k),
                  remaining := remaining sb - k\<rparr>))"

definition sb_reset :: "socket_buffer \<Rightarrow> socket_buffer" where
  "sb_reset sb = sb\<lparr>offset := 0, remaining := 0\<rparr>"

datatype read_result = Complete bytes | Incomplete | WouldBlock | Closed

record 'ns low_level =
  socket :: socket
  noise_session :: 'ns
  noise_buffer :: bytes
  socket_buffer :: socket_buffer
  incoming_msg :: incoming_message
  output_queue :: bytes
  write_size :: nat
  is_writable :: bool
  is_initialized :: bool
  so_linger :: "u16 option"

definition read_size :: "'ns low_level \<Rightarrow> nat" where
  "read_size s = length (buf (socket_buffer s))"

text \<open>
  \<^verbatim>\<open>ConnectionLowLevel::new\<close>; the fresh session and the node's configured linger time are
  arguments.
\<close>

definition low_level_new ::
    "u16 option \<Rightarrow> (bool \<Rightarrow> 'ns) \<Rightarrow> socket \<Rightarrow> bool \<Rightarrow> nat \<Rightarrow> nat \<Rightarrow> 'ns low_level" where
  "low_level_new config_linger init_session sk initiator rsize wsize =
     \<lparr>socket = sk, noise_session = init_session initiator,
      noise_buffer = replicate NOISE_MAX_MESSAGE_LEN 0, socket_buffer = socket_buffer_new rsize,
      incoming_msg = incoming_message_default, output_queue = [], write_size = wsize,
      is_writable = False, is_initialized = False,
      so_linger = (if initiator then config_linger else None)\<rparr>"

definition set_linger :: "u16 \<Rightarrow> socket \<Rightarrow> socket" where
  "set_linger t sk = (if options_ok sk then sk\<lparr>linger := Some t\<rparr> else sk)"

definition initialize :: "'ns low_level \<Rightarrow> 'ns low_level" where
  "initialize s =
     (let sk = (case so_linger s of Some t \<Rightarrow> set_linger t (socket s) | None \<Rightarrow> socket s);
          sk' = (if options_ok sk then sk\<lparr>nodelay := True\<rparr> else sk)
      in s\<lparr>socket := sk', is_initialized := True\<rparr>)"

definition notify_writable :: "'ns low_level \<Rightarrow> 'ns low_level" where
  "notify_writable s =
     (let s' = (if is_initialized s then s else initialize s) in s'\<lparr>is_writable := True\<rparr>)"

definition is_post_handshake :: "'ns noise_ops \<Rightarrow> 'ns low_level \<Rightarrow> bool" where
  "is_post_handshake ops s \<longleftrightarrow>
     (if is_initiator ops (noise_session s) then get_message_count ops (noise_session s) > 1
      else get_message_count ops (noise_session s) > 2)"

section \<open>Output\<close>

text \<open>
  \<^verbatim>\<open>flush_socket_once\<close>: the front of the queue is staged in the buffer shared with reading,
  written, and the accepted part drained. The two slices of the ring buffer are copied one
  after the other, which is the front of the queue as a list.
\<close>

definition flush_write_size :: "'ns noise_ops \<Rightarrow> 'ns low_level \<Rightarrow> nat" where
  "flush_write_size ops s =
     (if \<not> is_post_handshake ops s then min 4096 (length (output_queue s))
      else min (write_size s) (length (output_queue s)))"

definition flush_socket_once :: "'ns noise_ops \<Rightarrow> 'ns low_level \<Rightarrow> (nat \<times> 'ns low_level) res" where
  "flush_socket_once ops s =
     (let wsize = flush_write_size ops s; sb = socket_buffer s
      in if length (buf sb) < wsize then Panic
         else
           let staged = take wsize (output_queue s) @ drop wsize (buf sb);
               s' = s\<lparr>socket_buffer := sb\<lparr>buf := staged\<rparr>\<rparr>
           in case socket_write (take wsize staged) (socket s) of
                (WriteTakes written, sk) \<Rightarrow>
                  Ok (written, s'\<lparr>socket := sk, output_queue := drop written (output_queue s)\<rparr>)
              | (WriteBlocks, sk) \<Rightarrow> Ok (0, s'\<lparr>socket := sk, is_writable := False\<rparr>)
              | (WriteFails, sk) \<Rightarrow> Err IoError)"

lemma flush_socket_once_shrinks:
  assumes "flush_socket_once ops s = Ok (n, s')" and "output_queue s \<noteq> []" and "n \<noteq> 0"
  shows "length (output_queue s') < length (output_queue s)"
  using assms by (auto simp: flush_socket_once_def Let_def split: if_splits prod.splits write_event.splits)

function flush_loop :: "'ns noise_ops \<Rightarrow> 'ns low_level \<Rightarrow> 'ns low_level res" where
  "flush_loop ops s =
     (if output_queue s = [] then Ok s
      else case flush_socket_once ops s of
             Ok (n, s') \<Rightarrow> if n = 0 then Ok s' else flush_loop ops s'
           | Err e \<Rightarrow> Err e
           | Panic \<Rightarrow> Panic)"
  by pat_completeness auto

termination
  by (relation "measure (\<lambda>(ops, s). length (output_queue s))") (auto intro: flush_socket_once_shrinks)

declare flush_loop.simps [simp del]

definition flush_socket :: "'ns noise_ops \<Rightarrow> 'ns low_level \<Rightarrow> 'ns low_level res" where
  "flush_socket ops s = (if is_writable s then flush_loop ops s else Ok s)"

text \<open>\<^verbatim>\<open>encrypt_chunk\<close> on the unread input; it reports how much of it was taken.\<close>

definition encrypt_chunk :: "'ns noise_ops \<Rightarrow> bytes \<Rightarrow> 'ns low_level \<Rightarrow> (nat \<times> 'ns low_level) res" where
  "encrypt_chunk ops input s =
     (let chunk_size = min NOISE_MAX_PAYLOAD_LEN (length input);
          encrypted_len = chunk_size + mac_length ops;
          nb = take chunk_size input @ drop chunk_size (noise_buffer s)
      in if length (noise_buffer s) < encrypted_len then Panic
         else case send_message ops (noise_session s) (take encrypted_len nb) of
                None \<Rightarrow> Err (Bail ''noise'')
              | Some (c, ns) \<Rightarrow>
                  Ok (chunk_size, s\<lparr>noise_session := ns, noise_buffer := c @ drop encrypted_len nb,
                                    output_queue := output_queue s @ c\<rparr>))"

lemma encrypt_chunk_takes:
  "encrypt_chunk ops input s = Ok (k, s') \<Longrightarrow> k = min NOISE_MAX_PAYLOAD_LEN (length input)"
  by (auto simp: encrypt_chunk_def Let_def split: if_splits option.splits)

lemma noise_lengths [simp]:
  "NOISE_MAX_MESSAGE_LEN = 65535" "NOISE_MAX_PAYLOAD_LEN = 65519" "NOISE_AUTH_TAG_LEN = 16"
  by (simp_all add: NOISE_MAX_MESSAGE_LEN_def NOISE_MAX_PAYLOAD_LEN_def NOISE_AUTH_TAG_LEN_def)

function encrypt_loop :: "'ns noise_ops \<Rightarrow> bytes \<Rightarrow> 'ns low_level \<Rightarrow> 'ns low_level res" where
  "encrypt_loop ops input s =
     (if input = [] then Ok s
      else case encrypt_chunk ops input s of
             Ok (k, s') \<Rightarrow>
               (if length (output_queue s') \<ge> write_size s'
                then case flush_socket_once ops s' of
                       Ok (_, s'') \<Rightarrow> encrypt_loop ops (drop k input) s''
                     | Err e \<Rightarrow> Err e
                     | Panic \<Rightarrow> Panic
                else encrypt_loop ops (drop k input) s')
           | Err e \<Rightarrow> Err e
           | Panic \<Rightarrow> Panic)"
  by pat_completeness auto

termination
  by (relation "measure (\<lambda>(ops, input, s). length input)") (auto dest!: encrypt_chunk_takes)

declare encrypt_loop.simps [simp del]

definition encrypt_and_enqueue :: "'ns noise_ops \<Rightarrow> bytes \<Rightarrow> 'ns low_level \<Rightarrow> 'ns low_level res" where
  "encrypt_and_enqueue ops input s =
     (let num_full_chunks = length input div NOISE_MAX_PAYLOAD_LEN;
          rem = length input mod NOISE_MAX_PAYLOAD_LEN;
          last_chunk_len = (if rem \<noteq> 0 then rem + mac_length ops else 0);
          full_msg_len = num_full_chunks * NOISE_MAX_MESSAGE_LEN + last_chunk_len
      in encrypt_loop ops input
           (s\<lparr>output_queue := output_queue s @ be_bytes PAYLOAD_SIZE full_msg_len\<rparr>))"

definition write_to_socket :: "'ns noise_ops \<Rightarrow> bytes \<Rightarrow> 'ns low_level \<Rightarrow> 'ns low_level res" where
  "write_to_socket ops input s = encrypt_and_enqueue ops input s"

section \<open>The XX handshake\<close>

text \<open>The macros \<^verbatim>\<open>recv_xx_msg!\<close> and \<^verbatim>\<open>send_xx_msg!\<close>.\<close>

definition recv_xx_msg :: "'ns noise_ops \<Rightarrow> nat \<Rightarrow> 'ns low_level \<Rightarrow> 'ns low_level res" where
  "recv_xx_msg ops len s =
     res_bind (sb_slice (socket_buffer s) len) (\<lambda>msg.
       case recv_message ops (noise_session s) msg of
         None \<Rightarrow> Err (Bail ''noise'')
       | Some (msg', ns) \<Rightarrow>
           Ok (s\<lparr>noise_session := ns, socket_buffer := sb_write msg' (socket_buffer s)\<rparr>))"

definition send_xx_msg ::
    "'ns noise_ops \<Rightarrow> nat \<Rightarrow> bytes \<Rightarrow> nat \<Rightarrow> 'ns low_level \<Rightarrow> 'ns low_level res" where
  "send_xx_msg ops prefix_len pl suffix_len s =
     (case send_message ops (noise_session s) (replicate prefix_len 0 @ pl @ replicate suffix_len 0) of
        None \<Rightarrow> Err (Bail ''noise'')
      | Some (c, ns) \<Rightarrow>
          flush_socket ops
            (s\<lparr>noise_session := ns,
               output_queue := output_queue s
                 @ be_bytes PAYLOAD_SIZE (prefix_len + length pl + suffix_len) @ c\<rparr>))"

text \<open>
  \<^verbatim>\<open>slice(len)[pre..][..len - pre - post]\<close>: the subtraction or either slicing panics when the
  message is shorter than its overhead.
\<close>

definition handshake_payload :: "nat \<Rightarrow> nat \<Rightarrow> nat \<Rightarrow> 'ns low_level \<Rightarrow> bytes res" where
  "handshake_payload pre post len s =
     res_bind (sb_slice (socket_buffer s) len) (\<lambda>msg.
       if len < pre + post then Panic else Ok (take (len - pre - post) (drop pre msg)))"

definition set_nodelay_false :: "'ns low_level \<Rightarrow> 'ns low_level res" where
  "set_nodelay_false s =
     (if options_ok (socket s) then Ok (s\<lparr>socket := (socket s)\<lparr>nodelay := False\<rparr>\<rparr>) else Err IoError)"

definition send_handshake_message_a :: "'ns noise_ops \<Rightarrow> 'ns low_level \<Rightarrow> 'ns low_level res" where
  "send_handshake_message_a ops s = send_xx_msg ops (dhlen ops) PSK 16 s"

text \<open>The encoded handshake request of the node, \<open>payload_out\<close>, is an argument.\<close>

definition process_msg_a ::
    "'ns noise_ops \<Rightarrow> bytes res \<Rightarrow> nat \<Rightarrow> 'ns low_level \<Rightarrow> (bytes \<times> 'ns low_level) res" where
  "process_msg_a ops payload_out len s =
     res_bind (recv_xx_msg ops len s) (\<lambda>s1.
     res_bind (handshake_payload (dhlen ops) 16 len s1) (\<lambda>payload_in.
     res_bind payload_out (\<lambda>pl.
     res_bind (send_xx_msg ops (dhlen ops * 2 + mac_length ops) pl (mac_length ops) s1) (\<lambda>s2.
     Ok (payload_in, s2)))))"

definition process_msg_b ::
    "'ns noise_ops \<Rightarrow> bytes res \<Rightarrow> nat \<Rightarrow> 'ns low_level \<Rightarrow> (bytes \<times> 'ns low_level) res" where
  "process_msg_b ops payload_out len s =
     res_bind (recv_xx_msg ops len s) (\<lambda>s1.
     res_bind (handshake_payload (dhlen ops * 2 + mac_length ops) (mac_length ops) len s1) (\<lambda>payload_in.
     res_bind payload_out (\<lambda>pl.
     res_bind (send_xx_msg ops (dhlen ops + mac_length ops) pl (mac_length ops) s1) (\<lambda>s2.
     res_bind (set_nodelay_false s2) (\<lambda>s3.
     Ok (payload_in, s3))))))"

definition process_msg_c ::
    "'ns noise_ops \<Rightarrow> nat \<Rightarrow> 'ns low_level \<Rightarrow> (bytes \<times> 'ns low_level) res" where
  "process_msg_c ops len s =
     res_bind (recv_xx_msg ops len s) (\<lambda>s1.
     res_bind (handshake_payload (dhlen ops + mac_length ops) (mac_length ops) len s1) (\<lambda>payload_in.
     res_bind (set_nodelay_false s1) (\<lambda>s2.
     Ok (payload_in, s2))))"

section \<open>Input\<close>

definition attempt_to_read_length :: "'ns noise_ops \<Rightarrow> 'ns low_level \<Rightarrow> 'ns low_level res" where
  "attempt_to_read_length ops s =
     (let im = incoming_msg s; sb = socket_buffer s
      in if PAYLOAD_SIZE < length (size_bytes im) then Panic
         else
           let k = min (remaining sb) (PAYLOAD_SIZE - length (size_bytes im))
           in res_bind (sb_slice sb k) (\<lambda>bs.
              res_bind (sb_shift k sb) (\<lambda>sb'.
              let sz = size_bytes im @ bs; s' = s\<lparr>socket_buffer := sb'\<rparr>
              in if length sz = PAYLOAD_SIZE
                 then
                   let expected_size = from_be_bytes sz
                   in if expected_size = 0 then Err (Bail ''I got a zero-sized message'')
                      else if \<not> is_post_handshake ops s \<and> expected_size \<ge> HANDSHAKE_SIZE_LIMIT
                      then Err (Bail ''expected message size exceeds the handshake size limit'')
                      else if expected_size > PROTOCOL_MAX_MESSAGE_SIZE
                      then Err (Bail ''expected message size exceeds the maximum protocol size'')
                      else Ok (s'\<lparr>incoming_msg :=
                                 im\<lparr>size_bytes := [], pending_bytes := expected_size, message := []\<rparr>\<rparr>)
                 else Ok (s'\<lparr>incoming_msg := im\<lparr>size_bytes := sz\<rparr>\<rparr>))))"

text \<open>\<^verbatim>\<open>Cursor::write_all\<close> on a vector: overwrite from the position, extending when past the end.\<close>

definition cursor_write :: "nat \<Rightarrow> bytes \<Rightarrow> bytes \<Rightarrow> bytes" where
  "cursor_write pos bs v =
     take pos (v @ replicate (pos - length v) 0) @ bs @ drop (pos + length bs) v"

definition decrypt_chunk ::
    "'ns noise_ops \<Rightarrow> nat \<Rightarrow> bytes \<times> 'ns low_level \<Rightarrow> (bytes \<times> 'ns low_level) res" where
  "decrypt_chunk ops offset_mul = (\<lambda>(msg, s).
     let pos = offset_mul * NOISE_MAX_MESSAGE_LEN;
         rsize = min NOISE_MAX_MESSAGE_LEN (length msg - pos);
         rest = drop rsize (noise_buffer s)
     in if length msg < pos \<or> length (noise_buffer s) < rsize then Panic
        else case recv_message ops (noise_session s) (take rsize (drop pos msg)) of
               None \<Rightarrow> Err (Bail ''noise'')
             | Some (plain, ns) \<Rightarrow>
                 if rsize < mac_length ops then Panic
                 else Ok (cursor_write (offset_mul * NOISE_MAX_PAYLOAD_LEN)
                            (take (rsize - mac_length ops) plain) msg,
                          s\<lparr>noise_session := ns, noise_buffer := plain @ rest\<rparr>))"

fun decrypt_loop ::
    "'ns noise_ops \<Rightarrow> nat list \<Rightarrow> bytes \<times> 'ns low_level \<Rightarrow> (bytes \<times> 'ns low_level) res" where
  "decrypt_loop ops [] ms = Ok ms"
| "decrypt_loop ops (i # is) ms = res_bind (decrypt_chunk ops i ms) (decrypt_loop ops is)"

definition decrypt :: "'ns noise_ops \<Rightarrow> 'ns low_level \<Rightarrow> (bytes \<times> 'ns low_level) res" where
  "decrypt ops s =
     (let msg = message (incoming_msg s);
          len = length msg;
          last_chunk_size = len mod NOISE_MAX_MESSAGE_LEN;
          num_all_chunks = len div NOISE_MAX_MESSAGE_LEN + (if last_chunk_size > 0 then 1 else 0);
          s' = s\<lparr>incoming_msg := (incoming_msg s)\<lparr>message := []\<rparr>\<rparr>
      in res_bind (decrypt_loop ops [0..<num_all_chunks] (msg, s')) (\<lambda>(msg', s'').
           if len < num_all_chunks * mac_length ops then Panic
           else Ok (take (len - num_all_chunks * mac_length ops) msg', s'')))"

text \<open>The handshake arm of \<^verbatim>\<open>process_incoming_msg\<close>.\<close>

definition process_handshake_msg ::
    "'ns noise_ops \<Rightarrow> bytes res \<Rightarrow> nat \<Rightarrow> 'ns low_level \<Rightarrow> (read_result \<times> 'ns low_level) res" where
  "process_handshake_msg ops payload_out to_read s =
     (let count = get_message_count ops (noise_session s);
          initiator = is_initiator ops (noise_session s)
      in res_bind
           (if count = 0 \<and> \<not> initiator then process_msg_a ops payload_out to_read s
            else if count = 1 \<and> initiator then process_msg_b ops payload_out to_read s
            else if count = 2 \<and> \<not> initiator then process_msg_c ops to_read s
            else Err (Bail ''invalid XX handshake''))
           (\<lambda>(pl, s').
              let s'' = s'\<lparr>socket_buffer := sb_reset (socket_buffer s')\<rparr>;
                  responder = \<not> is_initiator ops (noise_session s');
                  count' = get_message_count ops (noise_session s')
              in if responder \<and> count' = 1 \<and> pl \<noteq> PSK then Err (Bail ''Invalid PSK'')
                 else if responder \<and> count' = 2 then Ok (Incomplete, s'')
                 else Ok (Complete pl, s'')))"

definition process_incoming_msg ::
    "'ns noise_ops \<Rightarrow> bytes res \<Rightarrow> 'ns low_level \<Rightarrow> (read_result \<times> 'ns low_level) res" where
  "process_incoming_msg ops payload_out s =
     (let im = incoming_msg s; sb = socket_buffer s;
          to_read = min (pending_bytes im) (remaining sb)
      in res_bind (sb_slice sb to_read) (\<lambda>bs.
         let s1 = s\<lparr>incoming_msg := im\<lparr>message := message im @ bs,
                                        pending_bytes := pending_bytes im - to_read\<rparr>\<rparr>
         in res_bind (if is_post_handshake ops s1
                      then res_bind (sb_shift to_read sb) (\<lambda>sb'. Ok (s1\<lparr>socket_buffer := sb'\<rparr>))
                      else Ok s1) (\<lambda>s2.
            if pending_bytes (incoming_msg s2) = 0
            then (if \<not> is_post_handshake ops s2 then process_handshake_msg ops payload_out to_read s2
                  else res_bind (decrypt ops s2) (\<lambda>(m, s3). Ok (Complete m, s3)))
            else Ok (Incomplete, s2))))"

text \<open>\<^verbatim>\<open>read_from_socket\<close> once the buffer holds bytes.\<close>

definition process_buffered ::
    "'ns noise_ops \<Rightarrow> bytes res \<Rightarrow> 'ns low_level \<Rightarrow> (read_result \<times> 'ns low_level) res" where
  "process_buffered ops payload_out s =
     res_bind (if pending_bytes (incoming_msg s) = 0 then attempt_to_read_length ops s else Ok s) (\<lambda>s'.
       if pending_bytes (incoming_msg s') \<noteq> 0 then process_incoming_msg ops payload_out s'
       else Ok (Incomplete, s'))"

definition read_from_socket ::
    "'ns noise_ops \<Rightarrow> bytes res \<Rightarrow> 'ns low_level \<Rightarrow> (read_result \<times> 'ns low_level) res" where
  "read_from_socket ops payload_out s0 =
     (let s = (if is_exhausted (socket_buffer s0)
               then s0\<lparr>socket_buffer := sb_reset (socket_buffer s0)\<rparr> else s0);
          sb = socket_buffer s
      in if remaining sb = 0
         then (if read_size s < offset sb then Panic
               else case socket_read (read_size s - offset sb) (socket s) of
                      (ReadData bs, sk) \<Rightarrow>
                        (let s' = s\<lparr>socket := sk\<rparr>
                         in if length bs = 0 then Ok (Closed, s')
                            else process_buffered ops payload_out
                                   (s'\<lparr>socket_buffer := (sb_write bs sb)\<lparr>remaining := length bs\<rparr>\<rparr>))
                    | (ReadBlocks, sk) \<Rightarrow> Ok (WouldBlock, s\<lparr>socket := sk\<rparr>)
                    | (ReadFails, sk) \<Rightarrow> Err IoError)
         else process_buffered ops payload_out s)"

text \<open>
  \<^verbatim>\<open>Connection::read_stream\<close>: read until the socket would block or is closed, handing every
  complete message to \<open>process\<close>, which works on the rest \<open>c\<close> of the connection and the node.
  The loop has fuel, one unit per call of \<^verbatim>\<open>read_from_socket\<close>; \<open>None\<close> is running out of it.
\<close>

fun read_stream_loop ::
    "nat \<Rightarrow> 'ns noise_ops \<Rightarrow> bytes res \<Rightarrow> (bytes \<Rightarrow> 'c \<Rightarrow> unit res \<times> 'c) \<Rightarrow> 'c \<Rightarrow> 'ns low_level
      \<Rightarrow> (bool res \<times> 'c \<times> 'ns low_level) option" where
  "read_stream_loop 0 ops payload_out process c s = None"
| "read_stream_loop (Suc fuel) ops payload_out process c s =
     (case read_from_socket ops payload_out s of
        Err e \<Rightarrow> Some (Err e, c, s)
      | Panic \<Rightarrow> Some (Panic, c, s)
      | Ok (Complete msg, s') \<Rightarrow>
          (case process msg c of
             (Err e, c') \<Rightarrow> Some (Err e, c', s')
           | (Panic, c') \<Rightarrow> Some (Panic, c', s')
           | (Ok _, c') \<Rightarrow> read_stream_loop fuel ops payload_out process c' s')
      | Ok (Incomplete, s') \<Rightarrow> read_stream_loop fuel ops payload_out process c s'
      | Ok (WouldBlock, s') \<Rightarrow> Some (Ok True, c, s')
      | Ok (Closed, s') \<Rightarrow> Some (Ok False, c, s'))"

end
