(* ===== verification/Wire.thy ===== *)
theory Wire
  imports Network "HOL-Library.Countable"
begin

text \<open>
  Serialisation of network messages (\<^verbatim>\<open>network/serialization/fbs.rs\<close>) over the tables of
  \<^verbatim>\<open>network/serialization/schema.fbs\<close>. A table is a record with optional table and vector fields,
  an enumeration is its byte, a union is its type byte with an optional value. The byte layout
  of flat buffers, the \<^verbatim>\<open>semver\<close> and block-hash conversions and the iteration order of a hash
  set are fields of an environment record. A vector built with \<^verbatim>\<open>push\<close> grows at the front, so
  pushing a sequence yields its reverse.
\<close>

section \<open>Tables of the schema\<close>

record fb_destination =
  fb_dest_variant :: u8
  fb_target :: u64

record fb_packet =
  fb_destination :: "fb_destination option"
  fb_network_id :: u16
  fb_packet_payload :: "bytes option"

record fb_handshake =
  fb_hs_version :: u8
  fb_node_id :: u64
  fb_port :: u16
  fb_network_ids :: "u16 list option"
  fb_node_version :: "bytes option option"
  fb_wire_versions :: "bytes option"
  fb_genesis_blocks :: "bytes option list option"
  fb_zk :: "bytes option"

datatype fb_request_payload =
    FbNetworkIds "u16 list option"
  | FbHandshake fb_handshake
  | FbNetworkId u16

record fb_request =
  fb_request_variant :: u8
  fb_request_payload :: "fb_request_payload option"

record fb_ip_addr =
  fb_ip_variant :: u8
  fb_octets :: "bytes option"

record fb_p2p_peer =
  fb_peer_id :: u64
  fb_peer_addr :: "fb_ip_addr option"
  fb_peer_port :: u16
  fb_peer_variant :: u8

record fb_response =
  fb_response_variant :: u8
  fb_response_payload :: "fb_p2p_peer list option option"

datatype fb_payload = FbPacket fb_packet | FbRequest fb_request | FbResponse fb_response

record fb_message =
  fb_timestamp :: u64
  fb_payload_type :: u8
  fb_payload :: "fb_payload option"

text \<open>Values of the enumerations and of the union type bytes.\<close>

definition direction_Direct :: u8 where "direction_Direct = 0"
definition direction_Broadcast :: u8 where "direction_Broadcast = 1"
definition request_Ping :: u8 where "request_Ping = 0"
definition request_GetPeers :: u8 where "request_GetPeers = 1"
definition request_Handshake :: u8 where "request_Handshake = 2"
definition request_JoinNetwork :: u8 where "request_JoinNetwork = 5"
definition request_LeaveNetwork :: u8 where "request_LeaveNetwork = 6"
definition response_Pong :: u8 where "response_Pong = 0"
definition response_PeerList :: u8 where "response_PeerList = 1"
definition ip_V4 :: u8 where "ip_V4 = 0"
definition ip_V6 :: u8 where "ip_V6 = 1"
definition peer_Node :: u8 where "peer_Node = 0"
definition peer_Bootstrapper :: u8 where "peer_Bootstrapper = 1"
definition payload_NetworkPacket :: u8 where "payload_NetworkPacket = 1"
definition payload_NetworkRequest :: u8 where "payload_NetworkRequest = 2"
definition payload_NetworkResponse :: u8 where "payload_NetworkResponse = 3"

lemmas fb_enum_defs = direction_Direct_def direction_Broadcast_def request_Ping_def request_GetPeers_def
  request_Handshake_def request_JoinNetwork_def request_LeaveNetwork_def response_Pong_def
  response_PeerList_def ip_V4_def ip_V6_def peer_Node_def peer_Bootstrapper_def
  payload_NetworkPacket_def payload_NetworkRequest_def payload_NetworkResponse_def

definition HANDSHAKE_MESSAGE_VERSION :: u8 where
  "HANDSHAKE_MESSAGE_VERSION = 0"

record wire_env =
  fb_finish :: "fb_message \<Rightarrow> bytes"
  fb_root :: "bytes \<Rightarrow> fb_message res"
  fb_has_identifier :: "bytes \<Rightarrow> bool"
  semver_to_bytes :: "version \<Rightarrow> bytes"
  semver_parse :: "bytes \<Rightarrow> version option"
  block_hash_try_from :: "bytes \<Rightarrow> block_hash option"
  networks_iter :: "networks \<Rightarrow> u16 list"

text \<open>What the code relies on: each external pair of conversions is a round trip.\<close>

definition wire_env_ok :: "wire_env \<Rightarrow> bool" where
  "wire_env_ok env \<longleftrightarrow>
     (\<forall>t. fb_root env (fb_finish env t) = Ok t \<and> fb_has_identifier env (fb_finish env t) \<and>
          12 \<le> length (fb_finish env t)) \<and>
     (\<forall>v. semver_parse env (semver_to_bytes env v) = Some v) \<and>
     (\<forall>h. length h = 32 \<longrightarrow> block_hash_try_from env h = Some h) \<and>
     (\<forall>s. fset_of_list (networks_iter env s) = s)"

section \<open>Serialisation\<close>

definition pushed :: "'a list \<Rightarrow> 'a list" where
  "pushed xs = rev xs"

definition serialize_packet :: "network_packet \<Rightarrow> fb_payload" where
  "serialize_packet p = FbPacket
     \<lparr>fb_destination = Some (case destination p of
          Direct target_id \<Rightarrow> \<lparr>fb_dest_variant = direction_Direct, fb_target = target_id\<rparr>
        | Broadcast _ \<Rightarrow> \<lparr>fb_dest_variant = direction_Broadcast, fb_target = 0\<rparr>),
      fb_network_id = packet_network_id p,
      fb_packet_payload = Some (packet_message p)\<rparr>"

definition serialize_handshake :: "wire_env \<Rightarrow> handshake \<Rightarrow> fb_handshake" where
  "serialize_handshake env h =
     \<lparr>fb_hs_version = 0, fb_node_id = remote_id h, fb_port = remote_port h,
      fb_network_ids = Some (pushed (networks_iter env (hs_networks h))),
      fb_node_version = Some (Some (pushed (rev (semver_to_bytes env (node_version h))))),
      fb_wire_versions = Some (pushed (rev (wire_versions h))),
      fb_genesis_blocks =
        Some (pushed (rev (map (\<lambda>b. Some (pushed (rev b))) (genesis_blocks h)))),
      fb_zk = None\<rparr>"

definition serialize_request :: "wire_env \<Rightarrow> network_request \<Rightarrow> fb_payload" where
  "serialize_request env r = FbRequest
     (case r of
        Ping \<Rightarrow> \<lparr>fb_request_variant = request_Ping, fb_request_payload = None\<rparr>
      | GetPeers nets \<Rightarrow>
          \<lparr>fb_request_variant = request_GetPeers,
           fb_request_payload = Some (FbNetworkIds (Some (pushed (networks_iter env nets))))\<rparr>
      | Handshake h \<Rightarrow>
          \<lparr>fb_request_variant = request_Handshake,
           fb_request_payload = Some (FbHandshake (serialize_handshake env h))\<rparr>
      | JoinNetwork i \<Rightarrow>
          \<lparr>fb_request_variant = request_JoinNetwork, fb_request_payload = Some (FbNetworkId i)\<rparr>
      | LeaveNetwork i \<Rightarrow>
          \<lparr>fb_request_variant = request_LeaveNetwork, fb_request_payload = Some (FbNetworkId i)\<rparr>)"

definition serialize_peer :: "p2p_peer \<Rightarrow> fb_p2p_peer" where
  "serialize_peer p =
     (let (ipv, octets) = (case addr_ip (p2p_addr p) of
            V4 ip \<Rightarrow> (ip_V4, be_bytes 4 (unat ip))
          | V6 ip \<Rightarrow> (ip_V6, be_bytes 16 (unat ip)))
      in \<lparr>fb_peer_id = p2p_id p,
          fb_peer_addr = Some \<lparr>fb_ip_variant = ipv, fb_octets = Some (pushed (rev octets))\<rparr>,
          fb_peer_port = addr_port (p2p_addr p),
          fb_peer_variant =
            (case p2p_type p of Node \<Rightarrow> peer_Node | Bootstrapper \<Rightarrow> peer_Bootstrapper)\<rparr>)"

definition serialize_response :: "network_response \<Rightarrow> fb_payload" where
  "serialize_response r = FbResponse
     (case r of
        Pong \<Rightarrow> \<lparr>fb_response_variant = response_Pong, fb_response_payload = None\<rparr>
      | PeerList peerlist \<Rightarrow>
          \<lparr>fb_response_variant = response_PeerList,
           fb_response_payload = Some (Some (map serialize_peer peerlist))\<rparr>)"

text \<open>The timestamp is taken when the message is serialised, not when it was created.\<close>

definition serialize :: "wire_env \<Rightarrow> u64 \<Rightarrow> network_message \<Rightarrow> bytes" where
  "serialize env now m =
     (let (ptype, pl) = (case payload m of
            NetworkPacket p \<Rightarrow> (payload_NetworkPacket, serialize_packet p)
          | NetworkRequest r \<Rightarrow> (payload_NetworkRequest, serialize_request env r)
          | NetworkResponse r \<Rightarrow> (payload_NetworkResponse, serialize_response r))
      in fb_finish env \<lparr>fb_timestamp = now, fb_payload_type = ptype, fb_payload = Some pl\<rparr>)"

section \<open>Deserialisation\<close>

definition deserialize_packet :: "fb_message \<Rightarrow> network_payload res" where
  "deserialize_packet root =
     (case fb_payload root of
        Some (FbPacket p) \<Rightarrow>
          res_bind
            (case fb_destination p of
               Some d \<Rightarrow>
                 if fb_dest_variant d = direction_Direct then Ok (Direct (fb_target d))
                 else if fb_dest_variant d = direction_Broadcast then Ok (Broadcast [])
                 else Err (Bail ''Unsupported destination'')
             | None \<Rightarrow> Err (Bail ''missing direction on network packet''))
            (\<lambda>dest.
               case fb_packet_payload p of
                 Some bs \<Rightarrow> Ok (NetworkPacket \<lparr>destination = dest, packet_network_id = fb_network_id p,
                                               packet_message = bs\<rparr>)
               | None \<Rightarrow> Err (Bail ''missing packet payload''))
      | _ \<Rightarrow> Err (Bail ''missing network message payload (expected a packet)''))"

fun collect_hashes :: "wire_env \<Rightarrow> bytes option list \<Rightarrow> block_hash list res" where
  "collect_hashes env [] = Ok []"
| "collect_hashes env (None # bs) = Err (Bail ''Missing block hash'')"
| "collect_hashes env (Some b # bs) =
     (case block_hash_try_from env b of
        None \<Rightarrow> Err (Bail ''invalid block hash'')
      | Some h \<Rightarrow> res_bind (collect_hashes env bs) (\<lambda>hs. Ok (h # hs)))"

definition deserialize_handshake :: "wire_env \<Rightarrow> fb_handshake \<Rightarrow> handshake res" where
  "deserialize_handshake env h =
     (case fb_network_ids h of
        None \<Rightarrow> Err (Bail ''missing network ids in a Handshake'')
      | Some nets \<Rightarrow>
     (case Option.bind (fb_node_version h) (\<lambda>x. x) of
        None \<Rightarrow> Err (Bail ''missing node version in a Handshake'')
      | Some nv \<Rightarrow>
     (case semver_parse env nv of
        None \<Rightarrow> Err (Bail ''invalid node version'')
      | Some v \<Rightarrow>
     (case fb_wire_versions h of
        None \<Rightarrow> Err (Bail ''missing wire version in a Handshake'')
      | Some wv \<Rightarrow>
     (case fb_genesis_blocks h of
        None \<Rightarrow> Err (Bail ''missing genesis blocks in a Handshake'')
      | Some gbs \<Rightarrow>
          res_bind (collect_hashes env gbs) (\<lambda>hs.
            Ok \<lparr>remote_id = fb_node_id h, remote_port = fb_port h, hs_networks = fset_of_list nets,
                node_version = v, wire_versions = wv, genesis_blocks = hs, proof_bytes = []\<rparr>))))))"

definition deserialize_request :: "wire_env \<Rightarrow> fb_message \<Rightarrow> network_payload res" where
  "deserialize_request env root =
     (case fb_payload root of
        Some (FbRequest r) \<Rightarrow>
          (if fb_request_variant r = request_Ping then Ok (NetworkRequest Ping)
           else if fb_request_variant r = request_GetPeers
           then (case fb_request_payload r of
                   Some (FbNetworkIds (Some ids)) \<Rightarrow> Ok (NetworkRequest (GetPeers (fset_of_list ids)))
                 | _ \<Rightarrow> Err (Bail ''missing network ids in a GetPeers request''))
           else if fb_request_variant r = request_Handshake
           then (case fb_request_payload r of
                   Some (FbHandshake h) \<Rightarrow>
                     res_bind (deserialize_handshake env h) (\<lambda>hs. Ok (NetworkRequest (Handshake hs)))
                 | _ \<Rightarrow> Err (Bail ''missing handshake payload''))
           else if fb_request_variant r = request_JoinNetwork \<or> fb_request_variant r = request_LeaveNetwork
           then (case fb_request_payload r of
                   Some (FbNetworkId i) \<Rightarrow>
                     Ok (NetworkRequest (if fb_request_variant r = request_JoinNetwork
                                         then JoinNetwork i else LeaveNetwork i))
                 | _ \<Rightarrow> Err (Bail ''missing network id in a join/leave network request''))
           else Err (Bail ''Unsupported request variant''))
      | _ \<Rightarrow> Err (Bail ''missing network message payload (expected a request)''))"

text \<open>\<^verbatim>\<open>read_exact\<close> of the octets fails with an input/output error when there are too few.\<close>

definition deserialize_addr :: "fb_ip_addr \<Rightarrow> u16 \<Rightarrow> socket_addr res" where
  "deserialize_addr a port =
     (case fb_octets a of
        None \<Rightarrow> Err (Bail ''missing peer ip in a PeerList response'')
      | Some ip \<Rightarrow>
          (if fb_ip_variant a = ip_V4
           then (if length ip < 4 then Err IoError
                 else Ok (SocketAddr (V4 (word_of_nat (from_be_bytes (take 4 ip)))) port))
           else if fb_ip_variant a = ip_V6
           then (if length ip < 16 then Err IoError
                 else Ok (SocketAddr (V6 (word_of_nat (from_be_bytes (take 16 ip)))) port))
           else Err (Bail ''Unsupported IP variant'')))"

definition deserialize_peer :: "fb_p2p_peer \<Rightarrow> p2p_peer res" where
  "deserialize_peer p =
     (case fb_peer_addr p of
        None \<Rightarrow> Err (Bail ''missing peer address in a PeerList response'')
      | Some a \<Rightarrow>
          res_bind (deserialize_addr a (fb_peer_port p)) (\<lambda>sa.
            if fb_peer_variant p = peer_Node
            then Ok \<lparr>p2p_id = fb_peer_id p, p2p_addr = sa, p2p_type = Node\<rparr>
            else if fb_peer_variant p = peer_Bootstrapper
            then Ok \<lparr>p2p_id = fb_peer_id p, p2p_addr = sa, p2p_type = Bootstrapper\<rparr>
            else Err (Bail ''Unsupported peer variant'')))"

fun deserialize_peers :: "fb_p2p_peer list \<Rightarrow> p2p_peer list res" where
  "deserialize_peers [] = Ok []"
| "deserialize_peers (p # ps) =
     res_bind (deserialize_peer p) (\<lambda>q. res_bind (deserialize_peers ps) (\<lambda>qs. Ok (q # qs)))"

definition deserialize_response :: "fb_message \<Rightarrow> network_payload res" where
  "deserialize_response root =
     (case fb_payload root of
        Some (FbResponse r) \<Rightarrow>
          (if fb_response_variant r = response_Pong then Ok (NetworkResponse Pong)
           else if fb_response_variant r = response_PeerList
           then (case fb_response_payload r of
                   Some (Some peers) \<Rightarrow>
                     res_bind (deserialize_peers peers) (\<lambda>list. Ok (NetworkResponse (PeerList list)))
                 | _ \<Rightarrow> Err (Bail ''missing peers in a PeerList response''))
           else Err (Bail ''Unsupported response variant''))
      | _ \<Rightarrow> Err (Bail ''missing network message payload (expected a response)''))"

definition deserialize_inner :: "wire_env \<Rightarrow> u64 \<Rightarrow> bytes \<Rightarrow> network_message res" where
  "deserialize_inner env now buffer =
     (if length buffer < 12 then Err (Bail ''the buffer is too small'')
      else if \<not> fb_has_identifier env buffer then Err (Bail ''unrecognized protocol name'')
      else
        res_bind (fb_root env buffer) (\<lambda>root.
        res_bind
          (if fb_payload_type root = payload_NetworkPacket then deserialize_packet root
           else if fb_payload_type root = payload_NetworkRequest then deserialize_request env root
           else if fb_payload_type root = payload_NetworkResponse then deserialize_response root
           else Err (Bail ''invalid network message payload type''))
          (\<lambda>pl. Ok \<lparr>created = fb_timestamp root, received = Some now, payload = pl\<rparr>)))"

text \<open>\<^verbatim>\<open>deserialize\<close> turns a panic of the buffer accessors into an error.\<close>

definition deserialize :: "wire_env \<Rightarrow> u64 \<Rightarrow> bytes \<Rightarrow> network_message res" where
  "deserialize env now buffer =
     (case deserialize_inner env now buffer of
        Panic \<Rightarrow> Err (Bail ''caught a panic: received a mangled buffer'')
      | r \<Rightarrow> r)"

section \<open>Round trip\<close>

lemma pushed_rev [simp]: "pushed (rev xs) = xs"
  by (simp add: pushed_def)

lemma fset_of_list_pushed: "fset_of_list (pushed xs) = fset_of_list xs"
  by (simp add: pushed_def)

lemma collect_hashes_Some:
  "wire_env_ok env \<Longrightarrow> list_all (\<lambda>h. length h = 32) hs \<Longrightarrow> collect_hashes env (map Some hs) = Ok hs"
  by (induction hs) (auto simp: wire_env_ok_def)

lemma deserialize_peer_serialize: "deserialize_peer (serialize_peer p) = Ok p"
proof -
  obtain a port where sa: "p2p_addr p = SocketAddr a port" by (cases "p2p_addr p")
  have "unat x < 2 ^ 32" for x :: "32 word" using unsigned_less [of x] by simp
  moreover have "unat x < 2 ^ 128" for x :: "128 word" using unsigned_less [of x] by simp
  ultimately show ?thesis
    using sa by (cases a; cases "p2p_type p")
      (simp_all add: serialize_peer_def deserialize_peer_def deserialize_addr_def fb_enum_defs
        from_be_bytes_be_bytes)
qed

lemma deserialize_peers_serialize: "deserialize_peers (map serialize_peer ps) = Ok ps"
  by (induction ps) (simp_all add: deserialize_peer_serialize)

lemma deserialize_handshake_serialize:
  assumes "wire_env_ok env" and "list_all (\<lambda>h. length h = 32) (genesis_blocks h)"
  shows "deserialize_handshake env (serialize_handshake env h) = Ok (h\<lparr>proof_bytes := []\<rparr>)"
proof -
  have "semver_parse env (semver_to_bytes env v) = Some v" "fset_of_list (networks_iter env s) = s" for v s
    using assms(1) by (auto simp: wire_env_ok_def)
  then show ?thesis
    using collect_hashes_Some [OF assms]
    by (simp add: deserialize_handshake_def serialize_handshake_def fset_of_list_pushed)
qed

text \<open>What the wire format keeps of a payload: the exclusion list of a broadcast and the proof do not travel.\<close>

fun on_wire :: "network_payload \<Rightarrow> network_payload" where
  "on_wire (NetworkPacket p) =
     NetworkPacket (case destination p of Direct _ \<Rightarrow> p | Broadcast _ \<Rightarrow> p\<lparr>destination := Broadcast []\<rparr>)"
| "on_wire (NetworkRequest (Handshake h)) = NetworkRequest (Handshake (h\<lparr>proof_bytes := []\<rparr>))"
| "on_wire pl = pl"

fun payload_wf :: "network_payload \<Rightarrow> bool" where
  "payload_wf (NetworkRequest (Handshake h)) = list_all (\<lambda>b. length b = 32) (genesis_blocks h)"
| "payload_wf pl = True"

lemma deserialize_payload:
  assumes "wire_env_ok env" and "payload_wf pl"
  shows "case pl of
      NetworkPacket p \<Rightarrow> deserialize_packet (root\<lparr>fb_payload := Some (serialize_packet p)\<rparr>) = Ok (on_wire pl)
    | NetworkRequest r \<Rightarrow> deserialize_request env (root\<lparr>fb_payload := Some (serialize_request env r)\<rparr>) = Ok (on_wire pl)
    | NetworkResponse r \<Rightarrow> deserialize_response (root\<lparr>fb_payload := Some (serialize_response r)\<rparr>) = Ok (on_wire pl)"
proof (cases pl)
  case (NetworkPacket p)
  then show ?thesis
    by (cases "destination p") (simp_all add: deserialize_packet_def serialize_packet_def fb_enum_defs)
next
  case (NetworkRequest r)
  have "fset_of_list (networks_iter env s) = s" for s using assms(1) by (simp add: wire_env_ok_def)
  then show ?thesis
    using NetworkRequest assms deserialize_handshake_serialize [OF assms(1)]
    by (cases r) (simp_all add: deserialize_request_def serialize_request_def fb_enum_defs fset_of_list_pushed)
next
  case (NetworkResponse r)
  then show ?thesis
    by (cases r) (simp_all add: deserialize_response_def serialize_response_def fb_enum_defs
        deserialize_peers_serialize)
qed

text \<open>
  Property C2: Reading back a serialised message gives the same payload, up to the broadcast
  exclusion list and the unused proof, which are not transmitted; the creation time is the
  time of serialisation and the receipt time that of reading.
\<close>

theorem network_message_round_trip:
  assumes "wire_env_ok env" and "payload_wf (payload m)"
  shows "deserialize env t2 (serialize env t1 m) =
    Ok \<lparr>created = t1, received = Some t2, payload = on_wire (payload m)\<rparr>"
proof -
  have env: "fb_root env (fb_finish env t) = Ok t" "fb_has_identifier env (fb_finish env t)"
    "\<not> length (fb_finish env t) < 12" for t
    using assms(1) by (auto simp: wire_env_ok_def not_less)
  note pl = deserialize_payload [OF assms]
  show ?thesis
  proof (cases "payload m")
    case (NetworkPacket p)
    with pl [of "\<lparr>fb_timestamp = t1, fb_payload_type = payload_NetworkPacket, fb_payload = None\<rparr>"] show ?thesis
      by (simp add: deserialize_def deserialize_inner_def serialize_def env)
  next
    case (NetworkRequest r)
    with pl [of "\<lparr>fb_timestamp = t1, fb_payload_type = payload_NetworkRequest, fb_payload = None\<rparr>"] show ?thesis
      by (simp add: deserialize_def deserialize_inner_def serialize_def env payload_NetworkPacket_def payload_NetworkRequest_def)
  next
    case (NetworkResponse r)
    with pl [of "\<lparr>fb_timestamp = t1, fb_payload_type = payload_NetworkResponse, fb_payload = None\<rparr>"] show ?thesis
      by (simp add: deserialize_def deserialize_inner_def serialize_def env payload_NetworkPacket_def
          payload_NetworkRequest_def payload_NetworkResponse_def)
  qed
qed

section \<open>An environment\<close>

text \<open>
  The assumptions on the environment can be met: every table is countable, so that it can be
  coded by the length of a buffer.
\<close>

instance fb_destination_ext :: (countable) countable
  by (rule countable_classI [of "\<lambda>r. to_nat (fb_dest_variant r, fb_target r, fb_destination.more r)"]) simp

instance fb_packet_ext :: (countable) countable
  by (rule countable_classI [of "\<lambda>r. to_nat (fb_destination r, fb_network_id r, fb_packet_payload r, fb_packet.more r)"]) simp

instance fb_handshake_ext :: (countable) countable
  by (rule countable_classI [of "\<lambda>r. to_nat (fb_hs_version r, fb_node_id r, fb_port r, fb_network_ids r, fb_node_version r, fb_wire_versions r, fb_genesis_blocks r, fb_zk r, fb_handshake.more r)"]) simp

instance fb_request_payload :: countable
  by countable_datatype

instance fb_request_ext :: (countable) countable
  by (rule countable_classI [of "\<lambda>r. to_nat (fb_request_variant r, fb_request_payload r, fb_request.more r)"]) simp

instance fb_ip_addr_ext :: (countable) countable
  by (rule countable_classI [of "\<lambda>r. to_nat (fb_ip_variant r, fb_octets r, fb_ip_addr.more r)"]) simp

instance fb_p2p_peer_ext :: (countable) countable
  by (rule countable_classI [of "\<lambda>r. to_nat (fb_peer_id r, fb_peer_addr r, fb_peer_port r, fb_peer_variant r, fb_p2p_peer.more r)"]) simp

instance fb_response_ext :: (countable) countable
  by (rule countable_classI [of "\<lambda>r. to_nat (fb_response_variant r, fb_response_payload r, fb_response.more r)"]) simp

instance fb_payload :: countable
  by countable_datatype

instance fb_message_ext :: (countable) countable
  by (rule countable_classI [of "\<lambda>r. to_nat (fb_timestamp r, fb_payload_type r, fb_payload r, fb_message.more r)"]) simp

instance version_ext :: (countable) countable
  by (rule countable_classI [of "\<lambda>r. to_nat (major r, minor r, patch r, pre_release r, build_metadata r, version.more r)"]) simp

definition example_wire_env :: wire_env where
  "example_wire_env =
     \<lparr>fb_finish = (\<lambda>t. replicate (12 + to_nat t) 0), fb_root = (\<lambda>bs. Ok (from_nat (length bs - 12))),
      fb_has_identifier = (\<lambda>bs. True), semver_to_bytes = (\<lambda>v. replicate (to_nat v) 0),
      semver_parse = (\<lambda>bs. Some (from_nat (length bs))),
      block_hash_try_from = (\<lambda>bs. if length bs = 32 then Some bs else None),
      networks_iter = sorted_list_of_fset\<rparr>"

lemma example_wire_env_ok: "wire_env_ok example_wire_env"
  by (simp add: wire_env_ok_def example_wire_env_def)

definition example_handshake :: handshake where
  "example_handshake = \<lparr>remote_id = 7, remote_port = 8888, hs_networks = {|100|},
     node_version = \<lparr>major = 5, minor = 2, patch = 0, pre_release = [], build_metadata = []\<rparr>,
     wire_versions = [1], genesis_blocks = [replicate 32 3], proof_bytes = [1]\<rparr>"

theorem network_message_round_trip_witness:
  "deserialize example_wire_env 60 (serialize example_wire_env 50
     (netmsg 40 (NetworkRequest (Handshake example_handshake)))) =
   Ok \<lparr>created = 50, received = Some 60,
       payload = NetworkRequest (Handshake (example_handshake\<lparr>proof_bytes := []\<rparr>))\<rparr>"
proof -
  have "payload_wf (payload (netmsg 40 (NetworkRequest (Handshake example_handshake))))"
    by (simp add: netmsg_def example_handshake_def)
  from network_message_round_trip [OF example_wire_env_ok this, of 60 50] show ?thesis
    by (simp add: netmsg_def)
qed

lemma deserialize_not_panic: "deserialize env now buffer \<noteq> Panic"
  by (simp add: deserialize_def split: res.splits)

end
