(* ===== verification/CatchUp.thy ===== *)
theory CatchUp
  imports Peer
begin

text \<open>
  The catch-up peer list (\<^verbatim>\<open>consensus_ffi/catch_up.rs\<close>) and the transitions the consensus
  plugin (\<^verbatim>\<open>plugins/consensus.rs\<close>) applies to it: a table of peer states, a queue of pending
  peers and the peer currently being caught up with. The theory proves the invariant that ties
  the three together and that a pending peer is always found.
\<close>

section \<open>Data\<close>

datatype peer_status = UpToDate | Pending | CatchingUp

text \<open>The derived order compares the discriminants 0, 1 and 2.\<close>

primrec peer_status_rank :: "peer_status \<Rightarrow> nat" where
  "peer_status_rank UpToDate = 0"
| "peer_status_rank Pending = 1"
| "peer_status_rank CatchingUp = 2"

instantiation peer_status :: linorder
begin

definition less_eq_peer_status :: "peer_status \<Rightarrow> peer_status \<Rightarrow> bool" where
  "a \<le> b \<longleftrightarrow> peer_status_rank a \<le> peer_status_rank b"

definition less_peer_status :: "peer_status \<Rightarrow> peer_status \<Rightarrow> bool" where
  "a < b \<longleftrightarrow> peer_status_rank a < peer_status_rank b"

instance
proof
  fix x y :: peer_status
  show "x \<le> y \<Longrightarrow> y \<le> x \<Longrightarrow> x = y"
    by (cases x; cases y) (auto simp: less_eq_peer_status_def)
qed (auto simp: less_eq_peer_status_def less_peer_status_def)

end

record peer_state =
  status :: peer_status
  timestamp :: u64

datatype ordering = Less | Equal | Greater

definition ord_cmp :: "'a::linorder \<Rightarrow> 'a \<Rightarrow> ordering" where
  "ord_cmp x y = (if x < y then Less else if x = y then Equal else Greater)"

definition peer_state_new :: "u64 \<Rightarrow> peer_status \<Rightarrow> peer_state" where
  "peer_state_new now st = \<lparr>status = st, timestamp = now\<rparr>"

definition is_catching_up :: "peer_state \<Rightarrow> bool" where
  "is_catching_up s \<longleftrightarrow> CatchingUp = status s"

definition peer_state_cmp :: "peer_state \<Rightarrow> peer_state \<Rightarrow> ordering" where
  "peer_state_cmp s other =
     (if status s \<noteq> status other then ord_cmp (status s) (status other)
      else ord_cmp (timestamp other) (timestamp s))"

record peer_list =
  peer_states :: "(remote_peer_id, peer_status) hash_map"
  catch_up_stamp :: u64
  catch_up_peer :: "remote_peer_id option"
  pending_queue :: "remote_peer_id list"

definition peer_list_default :: peer_list where
  "peer_list_default =
     \<lparr>peer_states = [], catch_up_stamp = 0, catch_up_peer = None, pending_queue = []\<rparr>"

section \<open>Operations of PeerList\<close>

text \<open>The loop of \<^verbatim>\<open>next_pending\<close>: the queue is popped until a peer that really is pending.\<close>

fun next_pending_loop ::
    "(remote_peer_id, peer_status) hash_map \<Rightarrow> remote_peer_id list
      \<Rightarrow> (remote_peer_id, peer_status) hash_map \<times> remote_peer_id list \<times> remote_peer_id option" where
  "next_pending_loop sts [] = (sts, [], None)"
| "next_pending_loop sts (p # q) =
     (if map_of sts p = Some Pending then (hm_insert p CatchingUp sts, q, Some p)
      else next_pending_loop sts q)"

definition next_pending :: "peer_list \<Rightarrow> remote_peer_id option \<times> peer_list" where
  "next_pending pl =
     (case next_pending_loop (peer_states pl) (pending_queue pl) of
        (sts, q, nxt) \<Rightarrow>
          (nxt, pl\<lparr>peer_states := sts, pending_queue := q, catch_up_peer := nxt\<rparr>))"

definition mark_all_pending :: "peer_list \<Rightarrow> peer_list" where
  "mark_all_pending pl = pl\<lparr>
     peer_states := map (\<lambda>(p, st). (p, if st = UpToDate then Pending else st)) (peer_states pl),
     pending_queue := pending_queue pl
       @ map fst (filter (\<lambda>(p, st). st = UpToDate) (peer_states pl))\<rparr>"

definition peer_list_clear :: "peer_list \<Rightarrow> peer_list" where
  "peer_list_clear pl = pl\<lparr>peer_states := [], catch_up_peer := None, pending_queue := []\<rparr>"

section \<open>Transitions of the consensus plugin\<close>

text \<open>
  \<^verbatim>\<open>update_peer_list\<close>: forget peers that are no longer connected, then add the new ones as
  pending. The subtraction \<^verbatim>\<open>peer_ids.len() - peers.peer_states.len()\<close> is on \<^verbatim>\<open>usize\<close>: below
  zero it is a panic.
\<close>

definition add_new_peer :: "remote_peer_id \<Rightarrow> peer_list \<Rightarrow> peer_list" where
  "add_new_peer p pl =
     (case map_of (peer_states pl) p of
        None \<Rightarrow> pl\<lparr>peer_states := hm_insert p Pending (peer_states pl),
                   pending_queue := pending_queue pl @ [p]\<rparr>
      | Some _ \<Rightarrow> pl)"

definition drop_lost_peers :: "remote_peer_id list \<Rightarrow> peer_list \<Rightarrow> peer_list" where
  "drop_lost_peers ids pl =
     (let sts = hm_retain (\<lambda>p _. p \<in> set ids) (peer_states pl);
          q = filter (\<lambda>p. p \<in> set ids) (pending_queue pl);
          cp = (case catch_up_peer pl of
                  Some p \<Rightarrow> if map_of sts p = None then None else Some p
                | None \<Rightarrow> None)
      in pl\<lparr>peer_states := sts, pending_queue := q, catch_up_peer := cp\<rparr>)"

definition update_peer_list_with :: "remote_peer_id list \<Rightarrow> peer_list \<Rightarrow> peer_list res" where
  "update_peer_list_with ids pl =
     (let pl' = drop_lost_peers ids pl
      in if length ids < length (peer_states pl') then Panic
         else Ok (fold add_new_peer ids pl'))"

text \<open>The arms of \<^verbatim>\<open>update_peer_states\<close> that change the list.\<close>

definition peer_finished :: "remote_peer_id \<Rightarrow> peer_list \<Rightarrow> peer_list" where
  "peer_finished src pl =
     (if catch_up_peer pl = Some src then pl\<lparr>catch_up_peer := None\<rparr> else pl)"

definition peer_success :: "remote_peer_id \<Rightarrow> peer_list \<Rightarrow> peer_list" where
  "peer_success src pl =
     peer_finished src (pl\<lparr>peer_states := hm_insert src UpToDate (peer_states pl)\<rparr>)"

definition peer_behind :: "remote_peer_id \<Rightarrow> peer_list \<Rightarrow> peer_list" where
  "peer_behind src pl =
     peer_finished src
       (pl\<lparr>peer_states := hm_insert src Pending (peer_states pl),
           pending_queue :=
             (if map_of (peer_states pl) src = Some Pending then pending_queue pl
              else pending_queue pl @ [src])\<rparr>)"

definition peer_continue :: "remote_peer_id \<Rightarrow> peer_list \<Rightarrow> peer_list" where
  "peer_continue src pl =
     (if map_of (peer_states pl) src = Some UpToDate
      then pl\<lparr>peer_states := hm_insert src Pending (peer_states pl),
              pending_queue := pending_queue pl @ [src]\<rparr>
      else pl)"

text \<open>The catch-up peer is given up: its connection is gone, or no message could be sent.\<close>

definition forget_catch_up_peer :: "remote_peer_id \<Rightarrow> peer_list \<Rightarrow> peer_list" where
  "forget_catch_up_peer p pl =
     pl\<lparr>catch_up_peer := None, peer_states := hm_remove p (peer_states pl)\<rparr>"

text \<open>
  \<^verbatim>\<open>try_catch_up\<close>: take the next pending peer, stamp the attempt, and forget the peer when
  \<^verbatim>\<open>send_direct_message\<close> reached no connection (\<open>sent\<close> is the number it returned).
\<close>

definition try_catch_up_with :: "u64 \<Rightarrow> (remote_peer_id \<Rightarrow> nat) \<Rightarrow> peer_list \<Rightarrow> peer_list" where
  "try_catch_up_with now sent pl =
     (case next_pending pl of
        (None, pl') \<Rightarrow> pl'
      | (Some p, pl') \<Rightarrow>
          (let pl'' = pl'\<lparr>catch_up_stamp := now\<rparr>
           in if 0 < sent p then pl'' else forget_catch_up_peer p pl''))"

section \<open>The list as a state machine\<close>

text \<open>
  The events are the calls the plugin and the poll loop make on the list. Catch-up is only
  attempted when no peer is being caught up with, and the identifiers handed to
  \<^verbatim>\<open>update_peer_list\<close> are those of distinct connections.
\<close>

datatype peer_event =
    PeersChanged "remote_peer_id list"
  | RegenesisHappened
  | TryCatchUp u64 "remote_peer_id \<Rightarrow> nat"
  | CatchUpConnectionLost remote_peer_id
  | StatusSuccess remote_peer_id
  | StatusBehind remote_peer_id
  | StatusContinue remote_peer_id
  | NetworkStopped

fun peer_event_enabled :: "peer_list \<Rightarrow> peer_event \<Rightarrow> bool" where
  "peer_event_enabled pl (PeersChanged ids) = distinct ids"
| "peer_event_enabled pl (TryCatchUp now sent) = (catch_up_peer pl = None)"
| "peer_event_enabled pl (CatchUpConnectionLost p) = (catch_up_peer pl = Some p)"
| "peer_event_enabled pl _ = True"

fun peer_event_step :: "peer_list \<Rightarrow> peer_event \<Rightarrow> peer_list" where
  "peer_event_step pl (PeersChanged ids) =
     (case update_peer_list_with ids pl of Ok pl' \<Rightarrow> pl' | _ \<Rightarrow> pl)"
| "peer_event_step pl RegenesisHappened = mark_all_pending pl"
| "peer_event_step pl (TryCatchUp now sent) = try_catch_up_with now sent pl"
| "peer_event_step pl (CatchUpConnectionLost p) = forget_catch_up_peer p pl"
| "peer_event_step pl (StatusSuccess src) = peer_success src pl"
| "peer_event_step pl (StatusBehind src) = peer_behind src pl"
| "peer_event_step pl (StatusContinue src) = peer_continue src pl"
| "peer_event_step pl NetworkStopped = peer_list_clear pl"

section \<open>The invariant\<close>

text \<open>
  Every pending peer is queued, and the peer that is being caught up with is exactly the one in
  state \<^const>\<open>CatchingUp\<close>; stated over the lookup function of the table.
\<close>

definition catch_up_rel ::
    "(remote_peer_id \<Rightarrow> peer_status option) \<Rightarrow> remote_peer_id list \<Rightarrow> remote_peer_id option \<Rightarrow> bool" where
  "catch_up_rel f q c \<longleftrightarrow>
     (\<forall>p. f p = Some Pending \<longrightarrow> p \<in> set q) \<and>
     (\<forall>p. f p = Some CatchingUp \<longrightarrow> c = Some p) \<and>
     (case c of None \<Rightarrow> True | Some p \<Rightarrow> f p = Some CatchingUp)"

definition catch_up_inv :: "peer_list \<Rightarrow> bool" where
  "catch_up_inv pl \<longleftrightarrow>
     hm_wf (peer_states pl) \<and>
     catch_up_rel (map_of (peer_states pl)) (pending_queue pl) (catch_up_peer pl)"

lemma catch_up_inv_wf: "catch_up_inv pl \<Longrightarrow> hm_wf (peer_states pl)"
  by (simp add: catch_up_inv_def)

lemma catch_up_inv_rel:
  "catch_up_inv pl \<Longrightarrow>
     catch_up_rel (map_of (peer_states pl)) (pending_queue pl) (catch_up_peer pl)"
  by (simp add: catch_up_inv_def)

lemma catch_up_inv_default: "catch_up_inv peer_list_default"
  by (simp add: catch_up_inv_def catch_up_rel_def peer_list_default_def)

subsection \<open>Looking for the next pending peer\<close>

text \<open>The loop finds the first queued peer that is pending, and keeps what follows it.\<close>

lemma next_pending_loop_Some:
  "next_pending_loop sts q = (sts', q', Some p) \<Longrightarrow>
     map_of sts p = Some Pending \<and> sts' = hm_insert p CatchingUp sts \<and>
     (\<exists>pre. q = pre @ p # q' \<and> (\<forall>x \<in> set pre. map_of sts x \<noteq> Some Pending))"
proof (induction sts q rule: next_pending_loop.induct)
  case (2 sts a q)
  show ?case
  proof (cases "map_of sts a = Some Pending")
    case True
    with "2.prems" show ?thesis by auto
  next
    case False
    with "2.prems" have "next_pending_loop sts q = (sts', q', Some p)" by simp
    from "2.IH" [OF False this] obtain pre where
      "map_of sts p = Some Pending" "sts' = hm_insert p CatchingUp sts"
      "q = pre @ p # q'" "\<forall>x \<in> set pre. map_of sts x \<noteq> Some Pending"
      by auto
    with False show ?thesis by (auto intro: exI [of _ "a # pre"])
  qed
qed simp

lemma next_pending_loop_None:
  "next_pending_loop sts q = (sts', q', None) \<Longrightarrow>
     sts' = sts \<and> q' = [] \<and> (\<forall>x \<in> set q. map_of sts x \<noteq> Some Pending)"
  by (induction sts q rule: next_pending_loop.induct) (auto split: if_splits)

lemma next_pending_cases:
  assumes "next_pending pl = (r, pl')"
  obtains (None) "r = None" "pl' = pl\<lparr>pending_queue := [], catch_up_peer := None\<rparr>"
      "\<forall>x \<in> set (pending_queue pl). map_of (peer_states pl) x \<noteq> Some Pending"
  | (Some) p pre q where "r = Some p" "map_of (peer_states pl) p = Some Pending"
      "pending_queue pl = pre @ p # q" "\<forall>x \<in> set pre. map_of (peer_states pl) x \<noteq> Some Pending"
      "pl' = pl\<lparr>peer_states := hm_insert p CatchingUp (peer_states pl),
                pending_queue := q, catch_up_peer := Some p\<rparr>"
proof -
  obtain sts q where l: "next_pending_loop (peer_states pl) (pending_queue pl) = (sts, q, r)"
    and pl': "pl' = pl\<lparr>peer_states := sts, pending_queue := q, catch_up_peer := r\<rparr>"
    using assms by (auto simp: next_pending_def split: prod.splits)
  show thesis
  proof (cases r)
    case None
    with next_pending_loop_None [OF l [unfolded None]] pl' show thesis
      by (intro that(1)) auto
  next
    case (Some p)
    with next_pending_loop_Some [OF l [unfolded Some]] pl' show thesis
      by (auto intro: that(2))
  qed
qed

lemma next_pending_inv:
  assumes "catch_up_inv pl" and "catch_up_peer pl = None" and "next_pending pl = (r, pl')"
  shows "catch_up_inv pl'"
  using assms(3)
proof (cases rule: next_pending_cases)
  case None
  with assms(1,2) show ?thesis by (auto simp: catch_up_inv_def catch_up_rel_def)
next
  case (Some p pre q)
  from assms(1,2) Some(2-4)
  have "catch_up_rel ((map_of (peer_states pl))(p \<mapsto> CatchingUp)) q (Some p)"
    by (auto simp: catch_up_inv_def catch_up_rel_def)
  with assms(1) Some(5) show ?thesis
    by (simp add: catch_up_inv_def update_conv' hm_wf_insert)
qed

text \<open>Under the invariant a pending peer is always found.\<close>

lemma next_pending_finds:
  assumes "catch_up_inv pl" and "map_of (peer_states pl) p = Some Pending"
  shows "\<exists>p' pl'. next_pending pl = (Some p', pl') \<and>
           map_of (peer_states pl) p' = Some Pending \<and>
           map_of (peer_states pl') p' = Some CatchingUp"
proof -
  obtain r pl' where np: "next_pending pl = (r, pl')" by (cases "next_pending pl")
  from assms have "p \<in> set (pending_queue pl)"
    by (auto simp: catch_up_inv_def catch_up_rel_def)
  with np assms(2) show ?thesis
    by (cases rule: next_pending_cases [OF np]) (auto simp: update_conv')
qed

subsection \<open>Every transition keeps the invariant\<close>

lemma map_of_mark: "map_of (map (\<lambda>(p, st). (p, f st)) m) = map_option f \<circ> map_of m"
  by (induction m) auto

lemma mark_all_pending_inv:
  assumes "catch_up_inv pl"
  shows "catch_up_inv (mark_all_pending pl)"
proof -
  have "map_of (peer_states pl) p = Some UpToDate \<Longrightarrow>
      p \<in> fst ` {x \<in> set (peer_states pl). case x of (p, st) \<Rightarrow> st = UpToDate}" for p
    by (force dest: map_of_SomeD)
  with catch_up_inv_rel [OF assms] have "catch_up_rel (map_of (peer_states (mark_all_pending pl)))
      (pending_queue (mark_all_pending pl)) (catch_up_peer (mark_all_pending pl))"
    by (cases "catch_up_peer pl")
      (auto simp: catch_up_rel_def mark_all_pending_def map_of_mark split: if_splits)
  with catch_up_inv_wf [OF assms] show ?thesis
    by (simp add: catch_up_inv_def mark_all_pending_def case_prod_unfold comp_def)
qed

lemma peer_list_clear_inv: "catch_up_inv (peer_list_clear pl)"
  by (simp add: catch_up_inv_def catch_up_rel_def peer_list_clear_def)

lemma drop_lost_peers_states:
  assumes "hm_wf (peer_states pl)"
  shows "map_of (peer_states (drop_lost_peers ids pl)) =
    (\<lambda>p. if p \<in> set ids then map_of (peer_states pl) p else None)"
  using assms
  by (auto simp: drop_lost_peers_def Let_def fun_eq_iff hm_get_retain split: option.splits)

lemma drop_lost_peers_inv:
  assumes "catch_up_inv pl"
  shows "catch_up_inv (drop_lost_peers ids pl)"
proof -
  note st = drop_lost_peers_states [OF catch_up_inv_wf [OF assms], of ids]
  have wf: "hm_wf (peer_states (drop_lost_peers ids pl))"
    using catch_up_inv_wf [OF assms] by (simp add: drop_lost_peers_def Let_def hm_wf_retain)
  have q: "pending_queue (drop_lost_peers ids pl) = filter (\<lambda>p. p \<in> set ids) (pending_queue pl)"
    by (simp add: drop_lost_peers_def Let_def)
  have cp: "catch_up_peer (drop_lost_peers ids pl) = (case catch_up_peer pl of None \<Rightarrow> None
      | Some p \<Rightarrow> if map_of (peer_states (drop_lost_peers ids pl)) p = None then None else Some p)"
    by (simp add: drop_lost_peers_def Let_def split: option.splits)
  from catch_up_inv_rel [OF assms] have "catch_up_rel (map_of (peer_states (drop_lost_peers ids pl)))
      (pending_queue (drop_lost_peers ids pl)) (catch_up_peer (drop_lost_peers ids pl))"
    unfolding st q cp catch_up_rel_def by (cases "catch_up_peer pl") auto
  with wf show ?thesis by (simp only: catch_up_inv_def)
qed

lemma add_new_peer_inv: "catch_up_inv pl \<Longrightarrow> catch_up_inv (add_new_peer p pl)"
  by (cases "catch_up_peer pl") (auto simp: catch_up_inv_def catch_up_rel_def add_new_peer_def update_conv' hm_wf_insert
      split: option.splits)

lemma fold_add_new_peer_inv: "catch_up_inv pl \<Longrightarrow> catch_up_inv (fold add_new_peer ids pl)"
  by (induction ids arbitrary: pl) (auto simp: add_new_peer_inv)

lemma peer_success_inv: "catch_up_inv pl \<Longrightarrow> catch_up_inv (peer_success src pl)"
  by (cases "catch_up_peer pl") (auto simp: catch_up_inv_def catch_up_rel_def peer_success_def peer_finished_def update_conv'
      hm_wf_insert)

lemma peer_behind_inv: "catch_up_inv pl \<Longrightarrow> catch_up_inv (peer_behind src pl)"
  by (cases "catch_up_peer pl") (auto simp: catch_up_inv_def catch_up_rel_def peer_behind_def peer_finished_def update_conv'
      hm_wf_insert)

lemma peer_continue_inv:
  assumes "catch_up_inv pl"
  shows "catch_up_inv (peer_continue src pl)"
proof (cases "map_of (peer_states pl) src = Some UpToDate")
  case True
  with catch_up_inv_rel [OF assms]
  have "catch_up_rel ((map_of (peer_states pl))(src \<mapsto> Pending)) (pending_queue pl @ [src])
      (catch_up_peer pl)"
    by (auto simp: catch_up_rel_def split: option.splits)
  with True catch_up_inv_wf [OF assms] show ?thesis
    by (simp add: catch_up_inv_def peer_continue_def update_conv' hm_wf_insert)
qed (use assms in \<open>simp add: peer_continue_def\<close>)

lemma forget_catch_up_peer_inv:
  "catch_up_inv pl \<Longrightarrow> catch_up_peer pl = Some p \<Longrightarrow> catch_up_inv (forget_catch_up_peer p pl)"
  by (auto simp: catch_up_inv_def catch_up_rel_def forget_catch_up_peer_def delete_conv' hm_wf_remove)

lemma catch_up_stamp_inv: "catch_up_inv pl \<Longrightarrow> catch_up_inv (pl\<lparr>catch_up_stamp := t\<rparr>)"
  by (simp add: catch_up_inv_def)

lemma try_catch_up_inv:
  assumes "catch_up_inv pl" and "catch_up_peer pl = None"
  shows "catch_up_inv (try_catch_up_with now sent pl)"
proof -
  obtain r pl' where np: "next_pending pl = (r, pl')" by (cases "next_pending pl")
  have inv: "catch_up_inv pl'" by (rule next_pending_inv [OF assms np])
  show ?thesis
  proof (cases r)
    case None
    with np inv show ?thesis by (simp add: try_catch_up_with_def)
  next
    case (Some p)
    with np have "catch_up_peer pl' = Some p"
      by (cases rule: next_pending_cases [OF np]) auto
    with np Some inv show ?thesis
      by (simp add: try_catch_up_with_def Let_def catch_up_stamp_inv forget_catch_up_peer_inv)
  qed
qed

section \<open>Peers that come and go\<close>

lemma update_peer_list_with_inv:
  "catch_up_inv pl \<Longrightarrow> update_peer_list_with ids pl = Ok pl' \<Longrightarrow> catch_up_inv pl'"
  by (auto simp: update_peer_list_with_def Let_def drop_lost_peers_inv fold_add_new_peer_inv
      split: if_splits)

lemma add_new_peer_states:
  "map_of (peer_states (add_new_peer p pl)) =
     (map_of (peer_states pl))(p := Some (case map_of (peer_states pl) p of None \<Rightarrow> Pending | Some st \<Rightarrow> st))"
  by (auto simp: add_new_peer_def update_conv' fun_eq_iff split: option.splits)

lemma fold_add_new_peer_states:
  "map_of (peer_states (fold add_new_peer ids pl)) = (\<lambda>p.
     if p \<in> set ids then Some (case map_of (peer_states pl) p of None \<Rightarrow> Pending | Some st \<Rightarrow> st)
     else map_of (peer_states pl) p)"
  by (induction ids arbitrary: pl) (auto simp: add_new_peer_states fun_eq_iff split: option.splits)

lemma drop_lost_peers_length:
  assumes "hm_wf (peer_states pl)" and "distinct ids"
  shows "length (peer_states (drop_lost_peers ids pl)) \<le> length ids"
proof -
  have wf: "hm_wf (peer_states (drop_lost_peers ids pl))"
    using assms(1) by (simp add: drop_lost_peers_def Let_def hm_wf_retain)
  have "dom (map_of (peer_states (drop_lost_peers ids pl))) \<subseteq> set ids"
    by (auto simp: drop_lost_peers_states [OF assms(1)] split: if_splits)
  then show ?thesis
    using hm_length_card [OF wf] card_mono [of "set ids"] distinct_card [OF assms(2)] by force
qed

text \<open>
  \<^verbatim>\<open>update_peer_list\<close> never underflows its \<^verbatim>\<open>usize\<close> subtraction when the
  identifiers are distinct, and the resulting table has exactly the connected peers as keys:
  known peers keep their state and new ones are pending.
\<close>

theorem update_peer_list_tracks_connections:
  assumes "hm_wf (peer_states pl)" and "distinct ids"
  shows "\<exists>pl'. update_peer_list_with ids pl = Ok pl' \<and>
    map_of (peer_states pl') = (\<lambda>p. if p \<in> set ids
      then Some (case map_of (peer_states pl) p of None \<Rightarrow> Pending | Some st \<Rightarrow> st) else None)"
  using drop_lost_peers_length [OF assms]
  by (auto simp: update_peer_list_with_def Let_def fold_add_new_peer_states
      drop_lost_peers_states [OF assms(1)] fun_eq_iff)

theorem update_peer_list_tracks_connections_witness:
  "\<exists>pl'. update_peer_list_with [7, 3]
        (peer_list_default\<lparr>peer_states := [(3, CatchingUp), (5, UpToDate)]\<rparr>) = Ok pl' \<and>
    map_of (peer_states pl') = (\<lambda>p. if p \<in> {7, 3} then Some (if p = 3 then CatchingUp else Pending) else None)"
proof -
  have "\<exists>pl'. update_peer_list_with [7, 3]
        (peer_list_default\<lparr>peer_states := [(3, CatchingUp), (5, UpToDate)]\<rparr>) = Ok pl' \<and>
    map_of (peer_states pl') = (\<lambda>p. if p \<in> set [7, 3] then Some
      (case map_of (peer_states (peer_list_default\<lparr>peer_states := [(3, CatchingUp), (5, UpToDate)]\<rparr>)) p of
         None \<Rightarrow> Pending | Some st \<Rightarrow> st) else None)"
    by (rule update_peer_list_tracks_connections) simp_all
  moreover have "(\<lambda>p. if p \<in> set [7, 3] then Some
      (case map_of (peer_states (peer_list_default\<lparr>peer_states := [(3, CatchingUp), (5, UpToDate)]\<rparr>)) p of
         None \<Rightarrow> Pending | Some st \<Rightarrow> st) else None)
    = (\<lambda>p::usize. if p \<in> {7, 3} then Some (if p = 3 then CatchingUp else Pending) else None)"
    by (auto simp: fun_eq_iff)
  ultimately show ?thesis by simp
qed

section \<open>Runs of the machine\<close>

lemma peer_event_step_inv:
  assumes "catch_up_inv pl" and "peer_event_enabled pl e"
  shows "catch_up_inv (peer_event_step pl e)"
proof (cases e)
  case (PeersChanged ids)
  then show ?thesis
    using assms by (auto split: res.splits intro: update_peer_list_with_inv)
qed (use assms in \<open>auto intro: mark_all_pending_inv try_catch_up_inv forget_catch_up_peer_inv
  peer_success_inv peer_behind_inv peer_continue_inv peer_list_clear_inv\<close>)

interpretation peers: invariant_system peer_list_default peer_event_enabled peer_event_step catch_up_inv
  by unfold_locales (auto intro: catch_up_inv_default peer_event_step_inv)

text \<open>
  In every run of the catch-up list from its default state, at most one peer is in
  state \<^const>\<open>CatchingUp\<close>, it is the one recorded as \<open>catch_up_peer\<close>, and every pending peer
  is in the queue.
\<close>

theorem catch_up_run_invariant:
  assumes "run_steps peer_event_enabled peer_event_step peer_list_default es = Some pl"
  shows "(map_of (peer_states pl) p = Some CatchingUp \<longleftrightarrow> catch_up_peer pl = Some p) \<and>
    (map_of (peer_states pl) p = Some Pending \<longrightarrow> p \<in> set (pending_queue pl))"
proof -
  have "catch_up_rel (map_of (peer_states pl)) (pending_queue pl) (catch_up_peer pl)"
    by (rule catch_up_inv_rel [OF peers.run_good [OF assms]])
  then show ?thesis
    unfolding catch_up_rel_def by (cases "catch_up_peer pl") (simp, simp, blast)
qed

definition catch_up_example :: "peer_event list" where
  "catch_up_example = [PeersChanged [1, 2], TryCatchUp 5 (\<lambda>_. 1), StatusBehind 2]"

theorem catch_up_run_invariant_witness:
  "\<exists>pl. run_steps peer_event_enabled peer_event_step peer_list_default catch_up_example = Some pl \<and>
     (map_of (peer_states pl) 1 = Some CatchingUp \<longleftrightarrow> catch_up_peer pl = Some 1)"
proof -
  have "run_steps peer_event_enabled peer_event_step peer_list_default catch_up_example \<noteq> None"
    by (simp add: catch_up_example_def update_peer_list_with_def drop_lost_peers_def Let_def
        add_new_peer_def peer_list_default_def hm_retain_def)
  then obtain pl where "run_steps peer_event_enabled peer_event_step peer_list_default catch_up_example = Some pl"
    by blast
  with catch_up_run_invariant [OF this, of 1] show ?thesis by blast
qed

text \<open>
  Catch-up makes progress: in every state of a run in which some peer is pending,
  \<^verbatim>\<open>next_pending\<close> returns a peer that was pending and is now being caught up with.
\<close>

theorem pending_peer_is_served:
  assumes "run_steps peer_event_enabled peer_event_step peer_list_default es = Some pl"
    and "map_of (peer_states pl) p = Some Pending"
  shows "\<exists>p' pl'. next_pending pl = (Some p', pl') \<and>
    map_of (peer_states pl) p' = Some Pending \<and> map_of (peer_states pl') p' = Some CatchingUp \<and>
    catch_up_peer pl' = Some p'"
proof -
  from next_pending_finds [OF peers.run_good [OF assms(1)] assms(2)]
  obtain p' pl' where np: "next_pending pl = (Some p', pl')"
    "map_of (peer_states pl) p' = Some Pending" "map_of (peer_states pl') p' = Some CatchingUp"
    by blast
  then show ?thesis by (cases rule: next_pending_cases [OF np(1)]) auto
qed

theorem pending_peer_is_served_witness:
  "\<exists>pl p' pl'. run_steps peer_event_enabled peer_event_step peer_list_default [PeersChanged [4]] = Some pl \<and>
     map_of (peer_states pl) 4 = Some Pending \<and> next_pending pl = (Some p', pl') \<and>
     catch_up_peer pl' = Some p'"
proof -
  define pl where "pl = peer_list_default\<lparr>peer_states := [(4, Pending)], pending_queue := [4]\<rparr>"
  have r: "run_steps peer_event_enabled peer_event_step peer_list_default [PeersChanged [4]] = Some pl"
    by (simp add: pl_def update_peer_list_with_def drop_lost_peers_def Let_def
        add_new_peer_def peer_list_default_def hm_retain_def)
  moreover have p: "map_of (peer_states pl) 4 = Some Pending" by (simp add: pl_def)
  ultimately show ?thesis using pending_peer_is_served [OF r p] by blast
qed

section \<open>Every pending peer gets its turn\<close>

text \<open>
  The number of queued entries before a peer bounds its waiting time: no event that leaves the peer
  pending puts another one before it, and every attempt to catch up takes at least one away.
\<close>

definition turns_before :: "remote_peer_id \<Rightarrow> peer_list \<Rightarrow> nat" where
  "turns_before p pl = length (takeWhile (\<lambda>x. x \<noteq> p) (pending_queue pl))"

fun is_attempt :: "peer_event \<Rightarrow> bool" where
  "is_attempt (TryCatchUp now sent) = True"
| "is_attempt _ = False"

definition is_pending :: "remote_peer_id \<Rightarrow> peer_list \<Rightarrow> bool" where
  "is_pending p pl \<longleftrightarrow> map_of (peer_states pl) p = Some Pending"

lemma takeWhile_append_member: "x \<in> set xs \<Longrightarrow> takeWhile (\<lambda>y. y \<noteq> x) (xs @ ys) = takeWhile (\<lambda>y. y \<noteq> x) xs"
  by (induction xs) auto

lemma takeWhile_later_member:
  "x \<notin> set pre \<Longrightarrow> y \<noteq> x \<Longrightarrow> takeWhile (\<lambda>z. z \<noteq> x) (pre @ y # rest) = pre @ y # takeWhile (\<lambda>z. z \<noteq> x) rest"
  by (induction pre) auto

lemma takeWhile_filter_le: "P x \<Longrightarrow> length (takeWhile (\<lambda>y. y \<noteq> x) (filter P xs)) \<le> length (takeWhile (\<lambda>y. y \<noteq> x) xs)"
  by (induction xs) auto

lemma fold_add_new_peer_queue: "\<exists>ys. pending_queue (fold add_new_peer ids pl) = pending_queue pl @ ys"
proof (induction ids arbitrary: pl)
  case (Cons i ids)
  obtain ys where "pending_queue (fold add_new_peer ids (add_new_peer i pl)) = pending_queue (add_new_peer i pl) @ ys"
    using Cons.IH by blast
  moreover have "\<exists>zs. pending_queue (add_new_peer i pl) = pending_queue pl @ zs"
    by (simp add: add_new_peer_def split: option.splits)
  ultimately show ?case by fastforce
qed simp

lemma turns_before_append:
  assumes "catch_up_inv pl" "is_pending p pl" "pending_queue pl' = pending_queue pl @ ys"
  shows "turns_before p pl' = turns_before p pl"
proof -
  have "p \<in> set (pending_queue pl)"
    using assms(1,2) by (auto simp: catch_up_inv_def catch_up_rel_def is_pending_def)
  then show ?thesis by (simp add: turns_before_def assms(3) takeWhile_append_member)
qed

lemma turns_before_peers_changed:
  assumes "catch_up_inv pl" "is_pending p pl" "update_peer_list_with ids pl = Ok pl'" "distinct ids" "is_pending p pl'"
  shows "turns_before p pl' \<le> turns_before p pl"
proof -
  obtain pl2 where "update_peer_list_with ids pl = Ok pl2"
    "map_of (peer_states pl2) p = (if p \<in> set ids then Some (case map_of (peer_states pl) p of None \<Rightarrow> Pending | Some st \<Rightarrow> st) else None)"
    using drop_lost_peers_length [OF catch_up_inv_wf [OF assms(1)] assms(4)] assms(3)
    by (auto simp: update_peer_list_with_def Let_def fold_add_new_peer_states
        drop_lost_peers_states [OF catch_up_inv_wf [OF assms(1)]] fun_eq_iff)
  with assms(3,5) have p: "p \<in> set ids" by (auto simp: is_pending_def split: if_splits)
  have q: "p \<in> set (pending_queue pl)"
    using assms(1,2) by (auto simp: catch_up_inv_def catch_up_rel_def is_pending_def)
  have d: "pending_queue (drop_lost_peers ids pl) = filter (\<lambda>p. p \<in> set ids) (pending_queue pl)"
    by (simp add: drop_lost_peers_def Let_def)
  obtain ys where "pending_queue pl' = filter (\<lambda>p. p \<in> set ids) (pending_queue pl) @ ys"
    using assms(3) fold_add_new_peer_queue [of ids "drop_lost_peers ids pl"]
    by (auto simp: update_peer_list_with_def Let_def d split: if_splits)
  then show ?thesis
    using p q takeWhile_filter_le [of "\<lambda>p. p \<in> set ids" p] by (simp add: turns_before_def takeWhile_append_member)
qed

text \<open>An attempt selects the peer, or removes an entry before it.\<close>

lemma turns_before_attempt:
  assumes "catch_up_inv pl" "is_pending p pl"
  shows "fst (next_pending pl) = Some p \<or>
    is_pending p (try_catch_up_with now sent pl) \<and> turns_before p (try_catch_up_with now sent pl) < turns_before p pl"
proof -
  obtain r pl' where np: "next_pending pl = (r, pl')" by (cases "next_pending pl")
  have q: "p \<in> set (pending_queue pl)"
    using assms(1,2) by (auto simp: catch_up_inv_def catch_up_rel_def is_pending_def)
  from np show ?thesis
  proof (cases rule: next_pending_cases)
    case None
    with q assms(2) show ?thesis by (auto simp: is_pending_def)
  next
    case (Some p' pre rest)
    then have "p \<notin> set pre" using assms(2) by (auto simp: is_pending_def)
    show ?thesis
    proof (cases "p' = p")
      case True
      then show ?thesis by (simp add: np Some(1))
    next
      case False
      let ?t = "try_catch_up_with now sent pl"
      have "pending_queue ?t = rest" "map_of (peer_states ?t) p = map_of (peer_states pl) p"
        using False by (simp_all add: try_catch_up_with_def np Some(1,5) forget_catch_up_peer_def Let_def hm_simps)
      then show ?thesis
        using assms(2) False \<open>p \<notin> set pre\<close>
        by (simp add: is_pending_def turns_before_def Some(3) takeWhile_later_member)
    qed
  qed
qed

lemma attempt_selects:
  assumes "fst (next_pending pl) = Some p"
  shows "\<not> is_pending p (try_catch_up_with now sent pl)"
proof -
  obtain pl' where np: "next_pending pl = (Some p, pl')" using assms by (cases "next_pending pl") auto
  from np show ?thesis
  proof (cases rule: next_pending_cases)
    case (Some p' pre rest)
    then show ?thesis by (simp add: np try_catch_up_with_def is_pending_def forget_catch_up_peer_def Let_def hm_simps)
  qed simp
qed

lemma turns_before_step:
  assumes "catch_up_inv pl" "is_pending p pl" "peer_event_enabled pl e" "is_pending p (peer_event_step pl e)"
  shows "turns_before p (peer_event_step pl e) + (if is_attempt e then 1 else 0) \<le> turns_before p pl"
proof (cases e)
  case (PeersChanged ids)
  show ?thesis
  proof (cases "update_peer_list_with ids pl")
    case (Ok pl')
    with turns_before_peers_changed [OF assms(1,2) Ok] assms(3,4) PeersChanged show ?thesis by simp
  qed (simp_all add: PeersChanged)
next
  case (TryCatchUp now sent)
  with assms(4) have "fst (next_pending pl) \<noteq> Some p" using attempt_selects by auto
  with turns_before_attempt [OF assms(1,2), of now sent] TryCatchUp show ?thesis by simp
next
  case NetworkStopped
  with assms(4) show ?thesis by (simp add: is_pending_def peer_list_clear_def)
next
  case RegenesisHappened
  have "turns_before p (mark_all_pending pl) = turns_before p pl"
    by (rule turns_before_append [OF assms(1,2)]) (simp add: mark_all_pending_def)
  with RegenesisHappened show ?thesis by simp
next
  case (CatchUpConnectionLost x)
  then show ?thesis by (simp add: forget_catch_up_peer_def turns_before_def)
next
  case (StatusSuccess x)
  then show ?thesis by (simp add: peer_success_def peer_finished_def turns_before_def)
next
  case (StatusBehind x)
  have "\<exists>ys. pending_queue (peer_behind x pl) = pending_queue pl @ ys"
    by (simp add: peer_behind_def peer_finished_def)
  with turns_before_append [OF assms(1,2), of "peer_behind x pl"] StatusBehind show ?thesis by auto
next
  case (StatusContinue x)
  have "\<exists>ys. pending_queue (peer_continue x pl) = pending_queue pl @ ys"
    by (simp add: peer_continue_def)
  with turns_before_append [OF assms(1,2), of "peer_continue x pl"] StatusContinue show ?thesis by auto
qed

text \<open>
  Property C6: every pending peer gets its turn. A pending peer waits for at most as many attempts
  to catch up as there are entries before it in the queue: in a run with more attempts than that
  there is an event at which it stops being pending; and when this is an attempt, it is the attempt
  that selects this peer.
\<close>

theorem pending_peer_gets_its_turn:
  assumes "run_steps peer_event_enabled peer_event_step peer_list_default es0 = Some pl" "is_pending p pl"
    and "run_steps peer_event_enabled peer_event_step pl es = Some pl'"
    and "turns_before p pl < length (filter is_attempt es)"
  shows "\<exists>es1 e es2 s. es = es1 @ e # es2 \<and> run_steps peer_event_enabled peer_event_step pl es1 = Some s \<and>
    is_pending p s \<and> \<not> is_pending p (peer_event_step s e) \<and> (is_attempt e \<longrightarrow> fst (next_pending s) = Some p)"
  using peers.run_good [OF assms(1)] assms(2-4)
proof (induction es arbitrary: pl)
  case (Cons e es)
  let ?s = "peer_event_step pl e"
  have en: "peer_event_enabled pl e" and run: "run_steps peer_event_enabled peer_event_step ?s es = Some pl'"
    using Cons.prems(3) by (auto split: if_splits)
  show ?case
  proof (cases "is_pending p ?s")
    case True
    from turns_before_step [OF Cons.prems(1,2) en True] Cons.prems(4)
    have "turns_before p ?s < length (filter is_attempt es)" by (auto split: if_splits)
    from Cons.IH [OF peer_event_step_inv [OF Cons.prems(1) en] True run this]
    obtain es1 e' es2 s where "es = es1 @ e' # es2" "run_steps peer_event_enabled peer_event_step ?s es1 = Some s"
      "is_pending p s" "\<not> is_pending p (peer_event_step s e')" "is_attempt e' \<longrightarrow> fst (next_pending s) = Some p" by blast
    then show ?thesis using en by (intro exI [of _ "e # es1"] exI [of _ e'] exI [of _ es2] exI [of _ s]) auto
  next
    case False
    have "is_attempt e \<longrightarrow> fst (next_pending pl) = Some p"
      using turns_before_attempt [OF Cons.prems(1,2)] False by (cases e) auto
    then show ?thesis using False Cons.prems(2) by (intro exI [of _ "[]"] exI [of _ e] exI [of _ es] exI [of _ pl]) auto
  qed
qed simp

definition turns_example :: "peer_event list" where
  "turns_example = [TryCatchUp 5 (\<lambda>_. 1), StatusSuccess 4, TryCatchUp 6 (\<lambda>_. 1)]"

theorem pending_peer_gets_its_turn_witness:
  "\<exists>pl pl' es1 e es2 s. run_steps peer_event_enabled peer_event_step peer_list_default [PeersChanged [4, 9]] = Some pl \<and>
     is_pending 9 pl \<and> run_steps peer_event_enabled peer_event_step pl turns_example = Some pl' \<and>
     turns_example = es1 @ e # es2 \<and> run_steps peer_event_enabled peer_event_step pl es1 = Some s \<and>
     is_pending 9 s \<and> \<not> is_pending 9 (peer_event_step s e)"
proof -
  define pl where "pl = peer_list_default\<lparr>peer_states := [(4, Pending), (9, Pending)], pending_queue := [4, 9]\<rparr>"
  have r: "run_steps peer_event_enabled peer_event_step peer_list_default [PeersChanged [4, 9]] = Some pl"
    by (simp add: pl_def update_peer_list_with_def drop_lost_peers_def Let_def
        add_new_peer_def peer_list_default_def hm_retain_def)
  moreover have p: "is_pending 9 pl" by (simp add: pl_def is_pending_def)
  moreover have "run_steps peer_event_enabled peer_event_step pl turns_example \<noteq> None"
    by (simp add: pl_def turns_example_def peer_list_default_def try_catch_up_with_def next_pending_def
        peer_success_def peer_finished_def Let_def)
  then obtain pl' where r': "run_steps peer_event_enabled peer_event_step pl turns_example = Some pl'" by blast
  moreover have "turns_before 9 pl < length (filter is_attempt turns_example)"
    by (simp add: turns_before_def pl_def turns_example_def)
  ultimately show ?thesis using pending_peer_gets_its_turn [OF r p r'] by blast
qed

end
