(* ===== verification/ConsensusTypes.thy ===== *)
theory ConsensusTypes
  imports CatchUp Network
begin

text \<open>
  What the node and its consensus layer exchange: packet types and return codes
  (\<^verbatim>\<open>consensus_ffi/helpers.rs\<close>), consensus messages (\<^verbatim>\<open>consensus_ffi/messaging.rs\<close>), the bounded
  queues between them and the baker switch (\<^verbatim>\<open>consensus_ffi/consensus.rs\<close>).

  A channel of the crate \<^verbatim>\<open>crossbeam_channel\<close> is the list of its messages, oldest first, with its
  sending operations as arguments; the consensus library behind the foreign interface is seen
  through the calls made to it.
\<close>

section \<open>Packet types\<close>

datatype packet_type = Block | Transaction | FinalizationRecord | FinalizationMessage | CatchUpStatus

definition PACKET_TYPE_FROM_INT :: "packet_type list" where
  "PACKET_TYPE_FROM_INT = [Block, Transaction, FinalizationRecord, FinalizationMessage, CatchUpStatus]"

definition packet_type_tag :: "packet_type \<Rightarrow> u8" where
  "packet_type_tag p =
     (case p of Block \<Rightarrow> 0 | Transaction \<Rightarrow> 1 | FinalizationRecord \<Rightarrow> 2
              | FinalizationMessage \<Rightarrow> 3 | CatchUpStatus \<Rightarrow> 4)"

definition packet_type_try_from :: "u8 \<Rightarrow> packet_type res" where
  "packet_type_try_from v =
     (if unat v < length PACKET_TYPE_FROM_INT then Ok (PACKET_TYPE_FROM_INT ! unat v)
      else Err (Bail ''Unsupported packet type''))"

definition packet_type_to_string :: "packet_type \<Rightarrow> string" where
  "packet_type_to_string p =
     (case p of Block \<Rightarrow> ''block'' | Transaction \<Rightarrow> ''transaction''
              | FinalizationRecord \<Rightarrow> ''finalization record''
              | FinalizationMessage \<Rightarrow> ''finalization message''
              | CatchUpStatus \<Rightarrow> ''catch-up status message'')"

definition packet_type_is_rebroadcastable :: "packet_type \<Rightarrow> bool" where
  "packet_type_is_rebroadcastable p =
     (case p of Block \<Rightarrow> True | Transaction \<Rightarrow> True | FinalizationRecord \<Rightarrow> True
              | FinalizationMessage \<Rightarrow> True | CatchUpStatus \<Rightarrow> False)"

section \<open>Return codes of the consensus layer\<close>

datatype (plugins only: code) consensus_ffi_response =
    BakerNotFound | Success | DeserializationError | InvalidResult | PendingBlock
  | PendingFinalization | Asynchronous | DuplicateEntry | Stale | IncorrectFinalizationSession
  | Unverifiable | ContinueCatchUp | BlockTooEarly | MissingImportFile | ConsensusShutDown
  | ExpiryTooLate | VerificationFailed | NonexistingSenderAccount | DuplicateNonce | NonceTooLarge
  | TooLowEnergy | InvalidGenesisIndex | DuplicateAccountRegistrationID
  | CredentialDeploymentInvalidSignatures | CredentialDeploymentInvalidIP
  | CredentialDeploymentInvalidAR | CredentialDeploymentExpired | ChainUpdateInvalidEffectiveTime
  | ChainUpdateSequenceNumberTooOld | ChainUpdateInvalidSignatures | MaxBlockEnergyExceeded
  | InsufficientFunds

text \<open>The variants in order of declaration; the first has discriminant \<open>- 1\<close>.\<close>

definition ffi_responses :: "consensus_ffi_response list" where
  "ffi_responses =
     [BakerNotFound, Success, DeserializationError, InvalidResult, PendingBlock,
      PendingFinalization, Asynchronous, DuplicateEntry, Stale, IncorrectFinalizationSession,
      Unverifiable, ContinueCatchUp, BlockTooEarly, MissingImportFile, ConsensusShutDown,
      ExpiryTooLate, VerificationFailed, NonexistingSenderAccount, DuplicateNonce, NonceTooLarge,
      TooLowEnergy, InvalidGenesisIndex, DuplicateAccountRegistrationID,
      CredentialDeploymentInvalidSignatures, CredentialDeploymentInvalidIP,
      CredentialDeploymentInvalidAR, CredentialDeploymentExpired, ChainUpdateInvalidEffectiveTime,
      ChainUpdateSequenceNumberTooOld, ChainUpdateInvalidSignatures, MaxBlockEnergyExceeded,
      InsufficientFunds]"

fun position_from :: "int \<Rightarrow> 'a \<Rightarrow> 'a list \<Rightarrow> int" where
  "position_from i x [] = i"
| "position_from i x (y # ys) = (if x = y then i else position_from (i + 1) x ys)"

definition ffi_discriminant :: "consensus_ffi_response \<Rightarrow> int" where
  "ffi_discriminant r = position_from (- 1) r ffi_responses"

definition is_successful :: "consensus_ffi_response \<Rightarrow> bool" where
  "is_successful r \<longleftrightarrow> r \<in> set [Success, PendingBlock, PendingFinalization, Asynchronous]"

definition is_pending :: "consensus_ffi_response \<Rightarrow> bool" where
  "is_pending r \<longleftrightarrow> r \<in> set [PendingBlock, PendingFinalization, InvalidGenesisIndex]"

definition is_acceptable :: "consensus_ffi_response \<Rightarrow> bool" where
  "is_acceptable r \<longleftrightarrow> r \<notin> set
     [BakerNotFound, DeserializationError, InvalidResult, Unverifiable, BlockTooEarly, ExpiryTooLate,
      VerificationFailed, NonexistingSenderAccount, DuplicateNonce, NonceTooLarge, TooLowEnergy,
      ConsensusShutDown, InvalidGenesisIndex, InsufficientFunds]"

definition is_rebroadcastable :: "consensus_ffi_response \<Rightarrow> packet_type \<Rightarrow> bool" where
  "is_rebroadcastable r p =
     (case r of
        PendingBlock \<Rightarrow> p \<noteq> Block
      | Success \<Rightarrow> True
      | PendingFinalization \<Rightarrow> True
      | Asynchronous \<Rightarrow> True
      | _ \<Rightarrow> False)"

definition ffi_response_try_from :: "int \<Rightarrow> consensus_ffi_response option" where
  "ffi_response_try_from v =
     (if v = - 1 then Some BakerNotFound
      else if v = 0 then Some Success
      else if v = 1 then Some DeserializationError
      else if v = 2 then Some InvalidResult
      else if v = 3 then Some PendingBlock
      else if v = 4 then Some PendingFinalization
      else if v = 5 then Some Asynchronous
      else if v = 6 then Some DuplicateEntry
      else if v = 7 then Some Stale
      else if v = 8 then Some IncorrectFinalizationSession
      else if v = 9 then Some Unverifiable
      else if v = 10 then Some ContinueCatchUp
      else if v = 11 then Some BlockTooEarly
      else if v = 12 then Some MissingImportFile
      else if v = 13 then Some ConsensusShutDown
      else if v = 14 then Some ExpiryTooLate
      else if v = 15 then Some VerificationFailed
      else if v = 16 then Some NonexistingSenderAccount
      else if v = 17 then Some DuplicateNonce
      else if v = 18 then Some NonceTooLarge
      else if v = 19 then Some TooLowEnergy
      else if v = 20 then Some InvalidGenesisIndex
      else if v = 21 then Some DuplicateAccountRegistrationID
      else if v = 22 then Some CredentialDeploymentInvalidSignatures
      else if v = 23 then Some CredentialDeploymentInvalidIP
      else if v = 24 then Some CredentialDeploymentInvalidAR
      else if v = 25 then Some CredentialDeploymentExpired
      else if v = 26 then Some ChainUpdateInvalidEffectiveTime
      else if v = 27 then Some ChainUpdateSequenceNumberTooOld
      else if v = 28 then Some ChainUpdateInvalidSignatures
      else if v = 29 then Some MaxBlockEnergyExceeded
      else if v = 30 then Some InsufficientFunds
      else None)"

datatype baking_committee_response =
  BakingActive | BakingNotInCommittee | BakingAddedNotActive | BakingWrongKeys

definition baking_committee_try_from :: "u8 \<Rightarrow> baking_committee_response res" where
  "baking_committee_try_from v =
     (if v = 0 then Ok BakingActive else if v = 1 then Ok BakingNotInCommittee
      else if v = 2 then Ok BakingAddedNotActive else if v = 3 then Ok BakingWrongKeys
      else Err (Bail ''Unsupported FFI return code for committee status''))"

datatype finalization_committee_response =
  FinalizationNotInCommittee | FinalizationAddedNotActive | FinalizationActive

definition finalization_committee_try_from :: "u8 \<Rightarrow> finalization_committee_response res" where
  "finalization_committee_try_from v =
     (if v = 0 then Ok FinalizationNotInCommittee else if v = 1 then Ok FinalizationAddedNotActive
      else if v = 2 then Ok FinalizationActive
      else Err (Bail ''Unsupported FFI return code for committee status''))"

datatype consensus_query_response = QueryInvalidArgument | QueryInternalError | QueryOk | QueryNotFound

definition query_response_try_from :: "int \<Rightarrow> consensus_query_response option" where
  "query_response_try_from v =
     (if v = - 2 then Some QueryInvalidArgument else if v = - 1 then Some QueryInternalError
      else if v = 0 then Some QueryOk else if v = 1 then Some QueryNotFound else None)"

datatype tonic_code =
    StatusInvalidArgument | StatusInternal | StatusNotFound | StatusUnimplemented | StatusUnauthenticated
  | StatusFailedPrecondition | StatusAborted | StatusAlreadyExists | StatusUnavailable

definition ensure_ok :: "consensus_query_response \<Rightarrow> tonic_code + unit" where
  "ensure_ok r =
     (case r of QueryInvalidArgument \<Rightarrow> Inl StatusInvalidArgument
              | QueryInternalError \<Rightarrow> Inl StatusInternal
              | QueryOk \<Rightarrow> Inr ()
              | QueryNotFound \<Rightarrow> Inl StatusNotFound)"

section \<open>Consensus messages\<close>

datatype distribution_mode = DirectMode | BroadcastMode

datatype message_type =
    Inbound remote_peer_id distribution_mode
  | Outbound "remote_peer_id option"

record consensus_message =
  direction :: message_type
  variant :: packet_type
  cm_payload :: bytes
  dont_relay_to :: "remote_peer_id list"
  omit_status :: "peer_status option"

definition message_distribution_mode :: "consensus_message \<Rightarrow> distribution_mode" where
  "message_distribution_mode m =
     (case direction m of
        Inbound _ mode \<Rightarrow> mode
      | Outbound (Some _) \<Rightarrow> DirectMode
      | Outbound None \<Rightarrow> BroadcastMode)"

definition target_peer :: "consensus_message \<Rightarrow> remote_peer_id option res" where
  "target_peer m = (case direction m of Outbound target \<Rightarrow> Ok target | Inbound _ _ \<Rightarrow> Panic)"

definition source_peer :: "consensus_message \<Rightarrow> remote_peer_id res" where
  "source_peer m = (case direction m of Inbound source _ \<Rightarrow> Ok source | Outbound _ \<Rightarrow> Panic)"

section \<open>Queues\<close>

datatype 'm queue_msg = Relay 'm | Stop

text \<open>
  A non-blocking send on a bounded channel fails exactly when the channel is full; a blocking
  one waits (\<open>None\<close>) until there is room.
\<close>

record 'm channel_ops =
  ch_try_send :: "nat \<Rightarrow> 'm queue_msg list \<Rightarrow> 'm queue_msg \<Rightarrow> 'm queue_msg list option"
  ch_send :: "nat \<Rightarrow> 'm queue_msg list \<Rightarrow> 'm queue_msg \<Rightarrow> 'm queue_msg list option"

definition channel_law :: "'m channel_ops \<Rightarrow> bool" where
  "channel_law ops \<longleftrightarrow> (\<forall>cap q x.
     ch_try_send ops cap q x = (if length q < cap then Some (q @ [x]) else None) \<and>
     ch_send ops cap q x = (if length q < cap then Some (q @ [x]) else None))"

record 'm channel =
  ch_capacity :: nat
  ch_queue :: "'m queue_msg list"

definition channel_bounded :: "nat \<Rightarrow> 'm channel" where
  "channel_bounded cap = \<lparr>ch_capacity = cap, ch_queue = []\<rparr>"

definition send_msg :: "'m channel_ops \<Rightarrow> 'm \<Rightarrow> 'm channel \<Rightarrow> unit res \<times> 'm channel" where
  "send_msg ops m ch =
     (case ch_try_send ops (ch_capacity ch) (ch_queue ch) (Relay m) of
        Some q \<Rightarrow> (Ok (), ch\<lparr>ch_queue := q\<rparr>)
      | None \<Rightarrow> (Err (Bail ''sending on a full channel''), ch))"

definition send_blocking_msg :: "'m channel_ops \<Rightarrow> 'm \<Rightarrow> 'm channel \<Rightarrow> 'm channel option" where
  "send_blocking_msg ops m ch =
     map_option (\<lambda>q. ch\<lparr>ch_queue := q\<rparr>) (ch_send ops (ch_capacity ch) (ch_queue ch) (Relay m))"

definition send_stop :: "'m channel_ops \<Rightarrow> 'm channel \<Rightarrow> 'm channel option" where
  "send_stop ops ch =
     map_option (\<lambda>q. ch\<lparr>ch_queue := q\<rparr>) (ch_send ops (ch_capacity ch) (ch_queue ch) Stop)"

definition CONSENSUS_QUEUE_DEPTH_OUT_HI :: nat where
  "CONSENSUS_QUEUE_DEPTH_OUT_HI = 8 * 1024"

definition CONSENSUS_QUEUE_DEPTH_OUT_LO :: nat where
  "CONSENSUS_QUEUE_DEPTH_OUT_LO = 16 * 1024"

definition CONSENSUS_QUEUE_DEPTH_IN_HI :: nat where
  "CONSENSUS_QUEUE_DEPTH_IN_HI = 16 * 1024"

definition CONSENSUS_QUEUE_DEPTH_IN_LO :: nat where
  "CONSENSUS_QUEUE_DEPTH_IN_LO = 32 * 1024"

record consensus_queues =
  in_high :: "consensus_message channel"
  in_low :: "consensus_message channel"
  out_high :: "consensus_message channel"
  out_low :: "consensus_message channel"

definition consensus_queues_default :: consensus_queues where
  "consensus_queues_default =
     \<lparr>in_high = channel_bounded CONSENSUS_QUEUE_DEPTH_IN_HI, in_low = channel_bounded CONSENSUS_QUEUE_DEPTH_IN_LO,
      out_high = channel_bounded CONSENSUS_QUEUE_DEPTH_OUT_HI, out_low = channel_bounded CONSENSUS_QUEUE_DEPTH_OUT_LO\<rparr>"

type_synonym cm_channel_ops = "consensus_message channel_ops"

definition send_in_high_priority_message ::
    "cm_channel_ops \<Rightarrow> consensus_message \<Rightarrow> consensus_queues \<Rightarrow> unit res \<times> consensus_queues" where
  "send_in_high_priority_message ops m q =
     (case send_msg ops m (in_high q) of (r, ch) \<Rightarrow> (r, q\<lparr>in_high := ch\<rparr>))"

definition send_in_low_priority_message ::
    "cm_channel_ops \<Rightarrow> consensus_message \<Rightarrow> consensus_queues \<Rightarrow> unit res \<times> consensus_queues" where
  "send_in_low_priority_message ops m q =
     (case send_msg ops m (in_low q) of (r, ch) \<Rightarrow> (r, q\<lparr>in_low := ch\<rparr>))"

definition send_out_message ::
    "cm_channel_ops \<Rightarrow> consensus_message \<Rightarrow> consensus_queues \<Rightarrow> unit res \<times> consensus_queues" where
  "send_out_message ops m q =
     (case send_msg ops m (out_low q) of (r, ch) \<Rightarrow> (r, q\<lparr>out_low := ch\<rparr>))"

definition send_out_blocking_msg ::
    "cm_channel_ops \<Rightarrow> consensus_message \<Rightarrow> consensus_queues \<Rightarrow> consensus_queues option" where
  "send_out_blocking_msg ops m q =
     map_option (\<lambda>ch. q\<lparr>out_high := ch\<rparr>) (send_blocking_msg ops m (out_high q))"

text \<open>\<^verbatim>\<open>clear\<close> drains the queues whose receiver could be locked.\<close>

record queue_locks =
  lock_out_low :: bool
  lock_out_high :: bool
  lock_in_low :: bool
  lock_in_high :: bool

definition drain_channel :: "bool \<Rightarrow> 'm channel \<Rightarrow> 'm channel" where
  "drain_channel locked ch = (if locked then ch\<lparr>ch_queue := []\<rparr> else ch)"

definition queues_clear :: "queue_locks \<Rightarrow> consensus_queues \<Rightarrow> consensus_queues" where
  "queues_clear lk q =
     q\<lparr>out_low := drain_channel (lock_out_low lk) (out_low q),
       out_high := drain_channel (lock_out_high lk) (out_high q),
       in_low := drain_channel (lock_in_low lk) (in_low q),
       in_high := drain_channel (lock_in_high lk) (in_high q)\<rparr>"

definition queues_stop :: "cm_channel_ops \<Rightarrow> consensus_queues \<Rightarrow> consensus_queues option" where
  "queues_stop ops q =
     Option.bind (send_stop ops (out_low q)) (\<lambda>ol.
     Option.bind (send_stop ops (out_high q)) (\<lambda>oh.
     Option.bind (send_stop ops (in_low q)) (\<lambda>il.
     Option.bind (send_stop ops (in_high q)) (\<lambda>ih.
     Some (q\<lparr>out_low := ol, out_high := oh, in_low := il, in_high := ih\<rparr>)))))"

section \<open>The baker switch\<close>

datatype consensus_type = Active | Passive

datatype ffi_call = StartBaker | StopBaker | StopConsensus

record consensus_container =
  is_baking :: bool
  consensus_type :: consensus_type
  ffi_calls :: "ffi_call list"

definition consensus_container_new :: "bytes option \<Rightarrow> consensus_container" where
  "consensus_container_new private_data =
     \<lparr>is_baking = False,
      consensus_type = (if private_data \<noteq> None then Active else Passive),
      ffi_calls = []\<rparr>"

definition is_active :: "consensus_container \<Rightarrow> bool" where
  "is_active c \<longleftrightarrow> consensus_type c = Active"

definition start_baker :: "consensus_container \<Rightarrow> bool \<times> consensus_container" where
  "start_baker c =
     (if \<not> is_active c \<or> is_baking c then (False, c)
      else (True, c\<lparr>ffi_calls := ffi_calls c @ [StartBaker], is_baking := True\<rparr>))"

definition stop_baker :: "consensus_container \<Rightarrow> bool \<times> consensus_container" where
  "stop_baker c =
     (if \<not> is_active c \<or> \<not> is_baking c then (False, c)
      else (True, c\<lparr>ffi_calls := ffi_calls c @ [StopBaker], is_baking := False\<rparr>))"

definition consensus_stop ::
    "queue_locks \<Rightarrow> consensus_container \<times> consensus_queues \<Rightarrow> consensus_container \<times> consensus_queues" where
  "consensus_stop lk = (\<lambda>(c, q).
     let c' = snd (stop_baker c)
     in (c'\<lparr>ffi_calls := ffi_calls c' @ [StopConsensus]\<rparr>, queues_clear lk q))"

record regenesis =
  regenesis_blocks :: "block_hash list"
  trigger_catchup :: bool
  stop_network_flag :: bool

definition regenesis_default :: regenesis where
  "regenesis_default = \<lparr>regenesis_blocks = [], trigger_catchup = False, stop_network_flag = False\<rparr>"

definition regenesis_from_blocks :: "block_hash list \<Rightarrow> regenesis" where
  "regenesis_from_blocks bs = \<lparr>regenesis_blocks = bs, trigger_catchup = False, stop_network_flag = False\<rparr>"

section \<open>Properties of the codes\<close>

text \<open>
  The integer codes and the variants correspond one to one: a code converts to a
  response exactly when it is the discriminant of that response.
\<close>

theorem ffi_codes_round_trip:
  "ffi_response_try_from v = Some r \<longleftrightarrow> v = ffi_discriminant r"
proof
  assume "ffi_response_try_from v = Some r"
  then show "v = ffi_discriminant r"
    unfolding ffi_response_try_from_def ffi_discriminant_def ffi_responses_def
    by (auto split: if_split_asm)
next
  assume "v = ffi_discriminant r"
  then show "ffi_response_try_from v = Some r"
    by (cases r) (simp_all add: ffi_response_try_from_def ffi_discriminant_def ffi_responses_def)
qed

text \<open>
  A tag byte converts to a packet type exactly when it is the tag of that type.
\<close>

theorem packet_type_tags_round_trip:
  "packet_type_try_from v = Ok p \<longleftrightarrow> v = packet_type_tag p"
proof
  assume v: "packet_type_try_from v = Ok p"
  then have "unat v < 5" and p: "p = PACKET_TYPE_FROM_INT ! unat v"
    by (auto simp: packet_type_try_from_def PACKET_TYPE_FROM_INT_def split: if_splits)
  from \<open>unat v < 5\<close> have "unat v \<in> {0, 1, 2, 3, 4}" by auto
  then have "word_of_nat (unat v) \<in> (word_of_nat ` {0, 1, 2, 3, 4} :: u8 set)" by blast
  then have "v \<in> {0, 1, 2, 3, 4}" by simp
  then show "v = packet_type_tag p"
    using p by (auto simp: packet_type_tag_def PACKET_TYPE_FROM_INT_def)
next
  assume "v = packet_type_tag p"
  then show "packet_type_try_from v = Ok p"
    by (cases p) (simp_all add: packet_type_try_from_def packet_type_tag_def PACKET_TYPE_FROM_INT_def)
qed

text \<open>
  What is relayed is what was accepted: a response allows relaying exactly when it is
  successful, except that blocks with a missing parent are kept back, and every such response
  is acceptable.
\<close>

theorem rebroadcast_iff_successful:
  "(is_rebroadcastable r p \<longleftrightarrow> is_successful r \<and> \<not> (r = PendingBlock \<and> p = Block)) \<and>
   (is_successful r \<longrightarrow> is_acceptable r)"
  by (cases r) (simp_all add: is_rebroadcastable_def is_successful_def is_acceptable_def)

theorem rebroadcast_iff_successful_witness:
  "is_successful PendingBlock \<and> is_acceptable PendingBlock \<and> is_rebroadcastable PendingBlock Transaction \<and>
   \<not> is_rebroadcastable PendingBlock Block"
  using rebroadcast_iff_successful [of PendingBlock Transaction] rebroadcast_iff_successful [of PendingBlock Block]
  by (simp add: is_successful_def)

section \<open>Properties of the queues\<close>

lemma send_msg_spec:
  "channel_law ops \<Longrightarrow> send_msg ops m ch =
     (if length (ch_queue ch) < ch_capacity ch then (Ok (), ch\<lparr>ch_queue := ch_queue ch @ [Relay m]\<rparr>)
      else (Err (Bail ''sending on a full channel''), ch))"
  by (simp add: send_msg_def channel_law_def)

lemma fold_send_msg:
  assumes "channel_law ops" and "length (ch_queue ch) \<le> ch_capacity ch"
  shows "fold (\<lambda>m c. snd (send_msg ops m c)) ms ch =
    ch\<lparr>ch_queue := ch_queue ch @ map Relay (take (ch_capacity ch - length (ch_queue ch)) ms)\<rparr>"
  using assms(2)
proof (induction ms arbitrary: ch)
  case Nil
  then show ?case by simp
next
  case (Cons m ms)
  show ?case
  proof (cases "length (ch_queue ch) < ch_capacity ch")
    case True
    then obtain k where k: "ch_capacity ch - length (ch_queue ch) = Suc k"
      "ch_capacity ch - Suc (length (ch_queue ch)) = k"
      by (metis Suc_diff_Suc diff_Suc_eq_diff_pred diff_commute)
    with True Cons.IH [of "ch\<lparr>ch_queue := ch_queue ch @ [Relay m]\<rparr>"] show ?thesis
      by (simp add: send_msg_spec [OF assms(1)])
  next
    case False
    with Cons show ?thesis by (simp add: send_msg_spec [OF assms(1)])
  qed
qed

lemma fold_in_high:
  "in_high (fold (\<lambda>m q. snd (send_in_high_priority_message ops m q)) ms q) =
     fold (\<lambda>m c. snd (send_msg ops m c)) ms (in_high q)"
  by (induction ms arbitrary: q) (simp_all add: send_in_high_priority_message_def split: prod.splits)

text \<open>
  The inbound high-priority queue is a bounded first-in first-out queue: of the messages
  sent to it while nothing is received it keeps the first ones, in order, up to its depth, and
  the later ones are refused without disturbing it.
\<close>

theorem inbound_queue_bounded_fifo:
  assumes "channel_law ops"
  shows "ch_queue (in_high (fold (\<lambda>m q. snd (send_in_high_priority_message ops m q)) ms consensus_queues_default)) =
    map Relay (take CONSENSUS_QUEUE_DEPTH_IN_HI ms)"
  by (simp add: fold_in_high fold_send_msg [OF assms] consensus_queues_default_def channel_bounded_def)

definition bounded_channel_ops :: "'m channel_ops" where
  "bounded_channel_ops =
     \<lparr>ch_try_send = (\<lambda>cap q x. if length q < cap then Some (q @ [x]) else None),
      ch_send = (\<lambda>cap q x. if length q < cap then Some (q @ [x]) else None)\<rparr>"

lemma bounded_channel_ops_law: "channel_law bounded_channel_ops"
  by (simp add: channel_law_def bounded_channel_ops_def)

definition example_message :: consensus_message where
  "example_message = \<lparr>direction = Inbound 3 DirectMode, variant = Block, cm_payload = [1],
     dont_relay_to = [], omit_status = None\<rparr>"

theorem inbound_queue_bounded_fifo_witness:
  "ch_queue (in_high (fold (\<lambda>m q. snd (send_in_high_priority_message bounded_channel_ops m q))
     [example_message] consensus_queues_default)) = [Relay example_message]"
  using inbound_queue_bounded_fifo [OF bounded_channel_ops_law, of "[example_message]"]
  by (simp add: CONSENSUS_QUEUE_DEPTH_IN_HI_def)

section \<open>Starting and stopping the baker\<close>

datatype baker_event = CallStart | CallStop

fun baker_step :: "consensus_container \<Rightarrow> baker_event \<Rightarrow> consensus_container" where
  "baker_step c CallStart = snd (start_baker c)"
| "baker_step c CallStop = snd (stop_baker c)"

definition alternating_calls :: "ffi_call list \<Rightarrow> bool" where
  "alternating_calls cs \<longleftrightarrow> list_all (\<lambda>i. cs ! i = (if even i then StartBaker else StopBaker)) [0..<length cs]"

definition baker_inv :: "bytes option \<Rightarrow> consensus_container \<Rightarrow> bool" where
  "baker_inv private_data c \<longleftrightarrow> alternating_calls (ffi_calls c) \<and> (is_baking c \<longleftrightarrow> odd (length (ffi_calls c))) \<and>
     (is_active c \<longleftrightarrow> private_data \<noteq> None) \<and> (private_data = None \<longrightarrow> ffi_calls c = [])"

lemma alternating_calls_snoc:
  "alternating_calls cs \<Longrightarrow> x = (if even (length cs) then StartBaker else StopBaker) \<Longrightarrow>
     alternating_calls (cs @ [x])"
  by (auto simp: alternating_calls_def list_all_iff nth_append)

interpretation baker: invariant_system "consensus_container_new pd" "\<lambda>c e. True" baker_step "baker_inv pd"
  for pd
proof
  show "baker_inv pd (consensus_container_new pd)"
    by (simp add: baker_inv_def consensus_container_new_def alternating_calls_def is_active_def)
  fix c :: consensus_container and e
  assume "baker_inv pd c"
  then show "baker_inv pd (baker_step c e)"
    by (cases e) (auto simp: baker_inv_def start_baker_def stop_baker_def is_active_def
        intro!: alternating_calls_snoc)
qed

text \<open>
  Whatever sequence of start and stop requests arrives, the consensus library sees
  strictly alternating \<^verbatim>\<open>startBaker\<close> and \<^verbatim>\<open>stopBaker\<close> calls beginning with a start, none at all
  without baker credentials, and the flag tells whether the last call was a start.
\<close>

theorem baker_calls_alternate:
  assumes "run_steps (\<lambda>c e. True) baker_step (consensus_container_new pd) es = Some c"
  shows "alternating_calls (ffi_calls c) \<and> (is_baking c \<longleftrightarrow> odd (length (ffi_calls c))) \<and>
    (pd = None \<longrightarrow> ffi_calls c = [])"
  using baker.run_good [OF assms] by (simp add: baker_inv_def)

theorem baker_calls_alternate_witness:
  "\<exists>c. run_steps (\<lambda>c e. True) baker_step (consensus_container_new (Some []))
       [CallStart, CallStart, CallStop] = Some c \<and> ffi_calls c = [StartBaker, StopBaker] \<and>
     alternating_calls (ffi_calls c)"
proof -
  obtain c where c: "run_steps (\<lambda>c e. True) baker_step (consensus_container_new (Some []))
       [CallStart, CallStart, CallStop] = Some c" "ffi_calls c = [StartBaker, StopBaker]"
    by (simp add: start_baker_def stop_baker_def consensus_container_new_def is_active_def)
  then show ?thesis using baker_calls_alternate [OF c(1)] by blast
qed

end
