(* ===== verification/Float64.thy ===== *)
theory Float64
  imports Complex_Main Prelude
begin

text \<open>
  The double-precision arithmetic the configuration and the relaying use: a nonnegative
  \<^verbatim>\<open>f64\<close> is the rational number it represents, and a product or quotient is the exact one
  rounded to 53 bits, ties to even. Overflow to infinity and subnormal numbers do not occur for
  the values in question.
\<close>

fun bit_length :: "nat \<Rightarrow> nat" where
  "bit_length n = (if n = 0 then 0 else Suc (bit_length (n div 2)))"

declare bit_length.simps [simp del]

definition round_half_even :: "rat \<Rightarrow> int" where
  "round_half_even x =
     (let f = \<lfloor>x\<rfloor>; d = x - of_int f
      in if d < 1 / 2 then f else if 1 / 2 < d then f + 1 else if even f then f else f + 1)"

definition scale_by :: "int \<Rightarrow> rat \<Rightarrow> rat" where
  "scale_by e x = (if 0 \<le> e then x * 2 ^ nat e else x / 2 ^ nat (- e))"

definition round_f64 :: "rat \<Rightarrow> rat" where
  "round_f64 x =
     (if x \<le> 0 then 0
      else
        let (a, b) = quotient_of x;
            e0 = int (bit_length (nat a)) - int (bit_length (nat b)) - 53;
            e = (if 2 ^ 53 \<le> scale_by (- e0) x then e0 + 1 else e0)
        in scale_by e (of_int (round_half_even (scale_by (- e) x))))"

definition f64_mul :: "rat \<Rightarrow> rat \<Rightarrow> rat" where
  "f64_mul x y = round_f64 (x * y)"

definition f64_div :: "rat \<Rightarrow> rat \<Rightarrow> rat" where
  "f64_div x y = round_f64 (x / y)"

text \<open>\<^verbatim>\<open>f64::floor\<close> followed by a saturating conversion to an unsigned integer of \<open>w\<close> bits.\<close>

definition f64_floor_to :: "nat \<Rightarrow> rat \<Rightarrow> nat" where
  "f64_floor_to w x = min (nat \<lfloor>x\<rfloor>) (2 ^ w - 1)"

lemma f64_mul_0 [simp]: "f64_mul x 0 = 0" "f64_mul 0 x = 0"
  by (simp_all add: f64_mul_def round_f64_def)

lemma f64_floor_to_0 [simp]: "f64_floor_to w 0 = 0"
  by (simp add: f64_floor_to_def)

section \<open>Rounding\<close>

lemma bit_length_bound: "n < 2 ^ bit_length n"
proof (induction n rule: bit_length.induct)
  case (1 n)
  then show ?case by (subst bit_length.simps) auto
qed

lemma bit_length_lower: "0 < n \<Longrightarrow> 2 ^ (bit_length n - 1) \<le> n"
proof (induction n rule: bit_length.induct)
  case (1 n)
  show ?case
  proof (cases "n div 2 = 0")
    case True
    with "1.prems" have "n = 1" by auto
    then show ?thesis by (simp add: bit_length.simps)
  next
    case False
    then have "0 < bit_length (n div 2)" by (subst bit_length.simps) simp
    moreover have "2 ^ (bit_length (n div 2) - 1) \<le> n div 2" using "1.IH" "1.prems" False by simp
    ultimately have "2 ^ bit_length (n div 2) \<le> 2 * (n div 2)"
      by (metis Suc_diff_1 mult_le_mono2 power_Suc)
    then show ?thesis using "1.prems" by (subst bit_length.simps) auto
  qed
qed

lemma scale_by_powi: "scale_by e x = x * 2 powi e"
  by (simp add: scale_by_def power_int_def field_simps)

lemma scale_by_mono: "x \<le> y \<Longrightarrow> scale_by e x \<le> scale_by e y"
  by (simp add: scale_by_powi mult_right_mono)

lemma scale_by_inverse: "scale_by e (scale_by (- e) x) = x"
  by (simp add: scale_by_powi power_int_minus)

lemma round_half_even_ge: "of_int k \<le> x \<Longrightarrow> k \<le> round_half_even x"
  using le_floor_iff [of k x] by (auto simp: round_half_even_def Let_def)

lemma leading_bits:
  assumes "0 < x" "quotient_of x = (a, b)"
  shows "2 ^ 52 \<le> scale_by (- (int (bit_length (nat a)) - int (bit_length (nat b)) - 53)) x"
proof -
  have b: "0 < b" using quotient_of_denom_pos [OF assms(2)] .
  have x: "x = of_int a / of_int b" using quotient_of_div [OF assms(2)] .
  with assms(1) b have a: "0 < a" by (simp add: zero_less_divide_iff)
  define L where "L = bit_length (nat a) - 1"
  have L: "int (bit_length (nat a)) - 1 = int L"
    using a by (simp add: L_def bit_length.simps [of "nat a"])
  have "2 ^ L \<le> nat a" unfolding L_def using a by (intro bit_length_lower) simp
  then have "int (2 ^ L) \<le> int (nat a)" by (simp only: of_nat_le_iff)
  then have "(2 :: int) ^ L \<le> a" using a by simp
  then have "of_int (2 ^ L) \<le> (of_int a :: rat)" by (simp only: of_int_le_iff)
  then have la: "2 powi (int (bit_length (nat a)) - 1) \<le> (of_int a :: rat)" by (simp add: L)
  have "nat b < 2 ^ bit_length (nat b)" by (rule bit_length_bound)
  then have "b < 2 ^ bit_length (nat b)" using b by (simp add: nat_less_iff)
  then have "(of_int b :: rat) < of_int (2 ^ bit_length (nat b))" by (simp only: of_int_less_iff)
  then have lb: "(of_int b :: rat) \<le> 2 powi int (bit_length (nat b))" by simp
  have "2 powi (int (bit_length (nat a)) - 1) / 2 powi int (bit_length (nat b)) \<le> x"
    unfolding x using la lb a b by (intro frac_le) auto
  then have "2 powi (int (bit_length (nat a)) - 1 - int (bit_length (nat b))) \<le> x"
    by (simp add: power_int_diff)
  from scale_by_mono [OF this, of "- (int (bit_length (nat a)) - int (bit_length (nat b)) - 53)"]
  show ?thesis by (simp add: scale_by_powi power_int_add [symmetric])
qed

lemma round_half_even_le: "x \<le> of_int k \<Longrightarrow> round_half_even x \<le> k"
  using floor_le_iff [of x k] floor_mono [of x "of_int k"]
  by (auto simp: round_half_even_def Let_def)

text \<open>The exponent that is chosen leaves at least 53 bits before the point.\<close>

lemma round_f64_exponent:
  assumes "0 < x"
  obtains e where "round_f64 x = scale_by e (of_int (round_half_even (scale_by (- e) x)))"
    and "2 ^ 52 \<le> scale_by (- e) x"
proof -
  obtain a b where q: "quotient_of x = (a, b)" by (cases "quotient_of x")
  define e0 where "e0 = int (bit_length (nat a)) - int (bit_length (nat b)) - 53"
  define e where "e = (if 2 ^ 53 \<le> scale_by (- e0) x then e0 + 1 else e0)"
  have "round_f64 x = scale_by e (of_int (round_half_even (scale_by (- e) x)))"
    using assms q by (simp add: round_f64_def e0_def e_def Let_def)
  moreover have "2 ^ 52 \<le> scale_by (- e0) x" using leading_bits [OF assms q] by (simp add: e0_def)
  then have "2 ^ 52 \<le> scale_by (- e) x"
    by (auto simp: e_def scale_by_powi power_int_diff divide_simps)
  ultimately show ?thesis by (rule that)
qed

lemma large_exponent:
  assumes "0 < e" "2 ^ 52 \<le> y"
  shows "2 ^ 53 \<le> scale_by e y"
proof -
  have "(2 :: rat) ^ 1 \<le> 2 ^ nat e" using assms(1) by (intro power_increasing) auto
  with assms(2) have "2 ^ 52 * 2 ^ 1 \<le> y * 2 ^ nat e" by (intro mult_mono) auto
  then show ?thesis using assms(1) by (simp add: scale_by_def)
qed

lemma scale_by_int: "e \<le> 0 \<Longrightarrow> scale_by (- e) (of_nat n) = of_int (int n * 2 ^ nat (- e))"
  by (simp add: scale_by_def)

lemma small_nat: "n < 2 ^ 53 \<Longrightarrow> of_nat n < (2 :: rat) ^ 53"
  by (metis of_nat_less_iff of_nat_numeral of_nat_power)

text \<open>Rounding does not cross an integer below \<open>2 ^ 53\<close>.\<close>

lemma round_f64_ge:
  assumes "of_nat n \<le> x" "n < 2 ^ 53"
  shows "of_nat n \<le> round_f64 x"
proof (cases "0 < x")
  case False
  then show ?thesis using assms(1) by (simp add: round_f64_def)
next
  case True
  then obtain e where r: "round_f64 x = scale_by e (of_int (round_half_even (scale_by (- e) x)))"
    and big: "2 ^ 52 \<le> scale_by (- e) x" by (rule round_f64_exponent)
  show ?thesis
  proof (cases "0 < e")
    case True
    have "2 ^ 52 \<le> round_half_even (scale_by (- e) x)" by (rule round_half_even_ge) (use big in simp)
    then have "of_int (2 ^ 52) \<le> (of_int (round_half_even (scale_by (- e) x)) :: rat)" by (simp only: of_int_le_iff)
    then have "2 ^ 53 \<le> round_f64 x" unfolding r by (intro large_exponent [OF True]) simp
    with small_nat [OF assms(2)] show ?thesis by linarith
  next
    case False
    then have i: "scale_by (- e) (of_nat n) = of_int (int n * 2 ^ nat (- e))" by (intro scale_by_int) simp
    have "int n * 2 ^ nat (- e) \<le> round_half_even (scale_by (- e) x)"
      by (rule round_half_even_ge) (use scale_by_mono [OF assms(1), of "- e"] i in simp)
    then have "scale_by e (scale_by (- e) (of_nat n)) \<le> round_f64 x"
      unfolding r i by (intro scale_by_mono) (simp only: of_int_le_iff)
    then show ?thesis by (simp only: scale_by_inverse)
  qed
qed

lemma round_f64_le:
  assumes "x \<le> of_nat n" "n < 2 ^ 53"
  shows "round_f64 x \<le> of_nat n"
proof (cases "0 < x")
  case False
  then show ?thesis by (simp add: round_f64_def)
next
  case True
  then obtain e where r: "round_f64 x = scale_by e (of_int (round_half_even (scale_by (- e) x)))"
    and big: "2 ^ 52 \<le> scale_by (- e) x" by (rule round_f64_exponent)
  have "e \<le> 0"
  proof (rule ccontr)
    assume "\<not> e \<le> 0"
    then have "2 ^ 53 \<le> scale_by e (scale_by (- e) x)" using big by (intro large_exponent) auto
    with assms(1) small_nat [OF assms(2)] show False by (simp add: scale_by_inverse)
  qed
  then have i: "scale_by (- e) (of_nat n) = of_int (int n * 2 ^ nat (- e))" by (rule scale_by_int)
  have "round_half_even (scale_by (- e) x) \<le> int n * 2 ^ nat (- e)"
    by (rule round_half_even_le) (use scale_by_mono [OF assms(1), of "- e"] i in simp)
  then have "round_f64 x \<le> scale_by e (scale_by (- e) (of_nat n))"
    unfolding r i by (intro scale_by_mono) (simp only: of_int_le_iff)
  then show ?thesis by (simp only: scale_by_inverse)
qed

end
