(* ===== verification/Actions.thy ===== *)
theory Actions
  imports Prelude
begin

text \<open>
  Operations of the node that change state and may fail. An action returns a result and the
  state it leaves, also when it fails: what a Rust function has changed before it returns an
  error stays changed. \<open>keeps I m\<close> says that the invariant \<open>I\<close> survives every outcome of \<open>m\<close>,
  and \<open>never_panics I m\<close> that \<open>m\<close> does not panic in a state satisfying \<open>I\<close>.
\<close>

type_synonym ('s, 'a) action = "'s \<Rightarrow> 'a res \<times> 's"

definition act_return :: "'a \<Rightarrow> ('s, 'a) action" where
  "act_return x s = (Ok x, s)"

definition act_fail :: "string \<Rightarrow> ('s, 'a) action" where
  "act_fail msg s = (Err (Bail msg), s)"

definition act_result :: "'a res \<Rightarrow> ('s, 'a) action" where
  "act_result r s = (r, s)"

definition act_modify :: "('s \<Rightarrow> 's) \<Rightarrow> ('s, unit) action" where
  "act_modify f s = (Ok (), f s)"

definition act_update :: "('s \<Rightarrow> 's res) \<Rightarrow> ('s, unit) action" where
  "act_update f s = (case f s of Ok s' \<Rightarrow> (Ok (), s') | Err e \<Rightarrow> (Err e, s) | Panic \<Rightarrow> (Panic, s))"

definition act_bind :: "('s, 'a) action \<Rightarrow> ('a \<Rightarrow> ('s, 'b) action) \<Rightarrow> ('s, 'b) action" where
  "act_bind m f s =
     (case m s of (Ok x, s') \<Rightarrow> f x s' | (Err e, s') \<Rightarrow> (Err e, s') | (Panic, s') \<Rightarrow> (Panic, s'))"

definition act_then :: "('s, unit) action \<Rightarrow> ('s, 'b) action \<Rightarrow> ('s, 'b) action" where
  "act_then m k = act_bind m (\<lambda>_. k)"

definition act_ensure :: "bool \<Rightarrow> string \<Rightarrow> ('s, unit) action" where
  "act_ensure b msg = (if b then act_return () else act_fail msg)"

text \<open>Reading the state to choose what to do.\<close>

definition act_get :: "('s \<Rightarrow> ('s, 'a) action) \<Rightarrow> ('s, 'a) action" where
  "act_get f s = f s s"

text \<open>Errors of which the caller only logs the message.\<close>

definition act_log_error :: "('s, 'a) action \<Rightarrow> ('s, unit) action" where
  "act_log_error m s = (case m s of (Panic, s') \<Rightarrow> (Panic, s') | (_, s') \<Rightarrow> (Ok (), s'))"

fun act_each :: "('x \<Rightarrow> ('s, unit) action) \<Rightarrow> 'x list \<Rightarrow> ('s, unit) action" where
  "act_each f [] = act_return ()"
| "act_each f (x # xs) = act_then (f x) (act_each f xs)"

named_theorems act_simps \<open>equations that run actions\<close>

declare act_return_def [act_simps] act_fail_def [act_simps] act_result_def [act_simps]
  act_modify_def [act_simps] act_update_def [act_simps] act_bind_def [act_simps]
  act_then_def [act_simps] act_ensure_def [act_simps] act_get_def [act_simps]
  act_log_error_def [act_simps]

section \<open>Invariants and panics\<close>

definition keeps :: "('s \<Rightarrow> bool) \<Rightarrow> ('s, 'a) action \<Rightarrow> bool" where
  "keeps I m \<longleftrightarrow> (\<forall>s. I s \<longrightarrow> I (snd (m s)))"

definition never_panics :: "('s \<Rightarrow> bool) \<Rightarrow> ('s, 'a) action \<Rightarrow> bool" where
  "never_panics I m \<longleftrightarrow> (\<forall>s. I s \<longrightarrow> fst (m s) \<noteq> Panic)"

named_theorems keeps_intros \<open>introduction rules for preserved invariants\<close>

lemma keepsI: "(\<And>s. I s \<Longrightarrow> I (snd (m s))) \<Longrightarrow> keeps I m"
  by (simp add: keeps_def)

lemma keepsD: "keeps I m \<Longrightarrow> I s \<Longrightarrow> I (snd (m s))"
  by (simp add: keeps_def)

lemma keeps_return [keeps_intros]: "keeps I (act_return x)"
  by (simp add: keeps_def act_simps)

lemma keeps_fail [keeps_intros]: "keeps I (act_fail msg)"
  by (simp add: keeps_def act_simps)

lemma keeps_result [keeps_intros]: "keeps I (act_result r)"
  by (simp add: keeps_def act_simps)

lemma keeps_ensure [keeps_intros]: "keeps I (act_ensure b msg)"
  by (simp add: keeps_def act_simps)

lemma keeps_modify [keeps_intros]: "(\<And>s. I s \<Longrightarrow> I (f s)) \<Longrightarrow> keeps I (act_modify f)"
  by (simp add: keeps_def act_simps)

lemma keeps_update [keeps_intros]:
  "(\<And>s s'. I s \<Longrightarrow> f s = Ok s' \<Longrightarrow> I s') \<Longrightarrow> keeps I (act_update f)"
  by (auto simp: keeps_def act_simps split: res.split)

lemma keeps_bind [keeps_intros]:
  assumes "keeps I m" "\<And>x. keeps I (f x)"
  shows "keeps I (act_bind m f)"
proof (rule keepsI)
  fix s
  assume "I s"
  obtain r s' where ms: "m s = (r, s')" by (cases "m s")
  have "I s'" using keepsD [OF assms(1) \<open>I s\<close>] ms by simp
  then show "I (snd (act_bind m f s))"
    using ms keepsD [OF assms(2)] by (cases r) (simp_all add: act_simps)
qed

lemma keeps_then [keeps_intros]: "keeps I m \<Longrightarrow> keeps I k \<Longrightarrow> keeps I (act_then m k)"
  unfolding act_then_def by (rule keeps_bind)

lemma keeps_if [keeps_intros]: "keeps I m \<Longrightarrow> keeps I k \<Longrightarrow> keeps I (if b then m else k)"
  by simp

lemma keeps_get [keeps_intros]: "(\<And>t. I t \<Longrightarrow> keeps I (f t)) \<Longrightarrow> keeps I (act_get f)"
  by (simp add: keeps_def act_simps)

lemma keeps_log_error [keeps_intros]: "keeps I m \<Longrightarrow> keeps I (act_log_error m)"
  by (fastforce simp: keeps_def act_simps split: prod.split res.split)

lemma keeps_each [keeps_intros]: "(\<And>x. x \<in> set xs \<Longrightarrow> keeps I (f x)) \<Longrightarrow> keeps I (act_each f xs)"
  by (induction xs) (auto intro: keeps_intros)

lemma modify_then: "act_then (act_modify f) k s = k (f s)"
  by (simp add: act_simps)

text \<open>A panic ends the actions it occurs in.\<close>

lemma panic_bind: "fst (m s) = Panic \<Longrightarrow> fst (act_bind m f s) = Panic"
  by (cases "m s") (simp add: act_simps)

lemma panic_then: "fst (m s) = Panic \<Longrightarrow> fst (act_then m k s) = Panic"
  unfolding act_then_def by (rule panic_bind)

lemma panic_log_error: "fst (m s) = Panic \<Longrightarrow> fst (act_log_error m s) = Panic"
  by (cases "m s") (simp add: act_simps)

text \<open>
  Actions that use something up: \<open>triple P m Q\<close> says that \<open>m\<close>, started in a state satisfying \<open>P\<close>,
  ends in one satisfying \<open>Q\<close>, whatever its result.
\<close>

definition triple :: "('s \<Rightarrow> bool) \<Rightarrow> ('s, 'a) action \<Rightarrow> ('s \<Rightarrow> bool) \<Rightarrow> bool" where
  "triple P m Q \<longleftrightarrow> (\<forall>s. P s \<longrightarrow> Q (snd (m s)))"

lemma tripleI: "(\<And>s. P s \<Longrightarrow> Q (snd (m s))) \<Longrightarrow> triple P m Q"
  by (simp add: triple_def)

lemma tripleD: "triple P m Q \<Longrightarrow> P s \<Longrightarrow> Q (snd (m s))"
  by (simp add: triple_def)

lemma keeps_triple: "keeps I m \<Longrightarrow> triple I m I"
  by (simp add: keeps_def triple_def)

lemma triple_bind:
  assumes "triple P m Q" "\<And>x. triple Q (f x) R" "\<And>s. Q s \<Longrightarrow> R s"
  shows "triple P (act_bind m f) R"
proof (rule tripleI)
  fix s
  assume "P s"
  obtain r s' where ms: "m s = (r, s')" by (cases "m s")
  have "Q s'" using tripleD [OF assms(1) \<open>P s\<close>] ms by simp
  then show "R (snd (act_bind m f s))"
    using ms tripleD [OF assms(2)] assms(3) by (cases r) (simp_all add: act_simps)
qed

lemma triple_then:
  "triple P m Q \<Longrightarrow> triple Q k R \<Longrightarrow> (\<And>s. Q s \<Longrightarrow> R s) \<Longrightarrow> triple P (act_then m k) R"
  unfolding act_then_def by (rule triple_bind)

end
