(* ===== verification/NodeState.thy ===== *)
theory NodeState
  imports Buckets Dedup ConnectionStats LowLevel Wire ConsensusTypes Float64 Actions
    "HOL-Library.Multiset"
begin

text \<open>
  The state of a node (\<^verbatim>\<open>p2p/maintenance.rs\<close>), of its connections (\<^verbatim>\<open>connection/mod.rs\<close>) and of
  its exported statistics (\<^verbatim>\<open>stats_export_service.rs\<close>), and the environment it runs in. Every
  lock is held for the whole of the operation that takes it, so that state is passed along.
  Time stamps are milliseconds; an \<^verbatim>\<open>Instant\<close> is a number of milliseconds of its own clock.
\<close>

section \<open>Exported statistics\<close>

text \<open>Counters and gauges are atomic 64-bit cells; the signed gauges are read with \<^const>\<open>sint\<close>.\<close>

record export_stats =
  peers_gauge :: "64 word"
  pkts_received_counter :: u64
  pkts_sent_counter :: u64
  connections_received :: u64
  high_drops_counter :: u64
  low_drops_counter :: u64
  high_counter :: u64
  low_counter :: u64
  in_high_size :: "64 word"
  in_low_size :: "64 word"
  out_high_size :: "64 word"
  out_low_size :: "64 word"
  last_throughput_measurement :: "64 word"
  total_bytes_received :: u64
  total_bytes_sent :: u64
  avg_bps_in :: u64
  avg_bps_out :: u64

definition export_stats_new :: export_stats where
  "export_stats_new =
     \<lparr>peers_gauge = 0, pkts_received_counter = 0, pkts_sent_counter = 0, connections_received = 0,
      high_drops_counter = 0, low_drops_counter = 0, high_counter = 0, low_counter = 0,
      in_high_size = 0, in_low_size = 0, out_high_size = 0, out_low_size = 0,
      last_throughput_measurement = 0, total_bytes_received = 0, total_bytes_sent = 0, avg_bps_in = 0,
      avg_bps_out = 0\<rparr>"

definition peers_inc :: "export_stats \<Rightarrow> export_stats" where
  "peers_inc s = s\<lparr>peers_gauge := peers_gauge s + 1\<rparr>"

definition peers_dec :: "export_stats \<Rightarrow> export_stats" where
  "peers_dec s = s\<lparr>peers_gauge := peers_gauge s - 1\<rparr>"

definition pkt_received_inc :: "export_stats \<Rightarrow> export_stats" where
  "pkt_received_inc s = s\<lparr>pkts_received_counter := pkts_received_counter s + 1\<rparr>"

definition pkt_sent_inc :: "export_stats \<Rightarrow> export_stats" where
  "pkt_sent_inc s = s\<lparr>pkts_sent_counter := pkts_sent_counter s + 1\<rparr>"

definition conn_received_inc :: "export_stats \<Rightarrow> export_stats" where
  "conn_received_inc s = s\<lparr>connections_received := connections_received s + 1\<rparr>"

definition inbound_high_priority_consensus_drops_inc :: "export_stats \<Rightarrow> export_stats" where
  "inbound_high_priority_consensus_drops_inc s = s\<lparr>high_drops_counter := high_drops_counter s + 1\<rparr>"

definition inbound_low_priority_consensus_drops_inc :: "export_stats \<Rightarrow> export_stats" where
  "inbound_low_priority_consensus_drops_inc s = s\<lparr>low_drops_counter := low_drops_counter s + 1\<rparr>"

definition inbound_high_priority_consensus_inc :: "export_stats \<Rightarrow> export_stats" where
  "inbound_high_priority_consensus_inc s = s\<lparr>high_counter := high_counter s + 1\<rparr>"

definition inbound_low_priority_consensus_inc :: "export_stats \<Rightarrow> export_stats" where
  "inbound_low_priority_consensus_inc s = s\<lparr>low_counter := low_counter s + 1\<rparr>"

definition set_inbound_high_priority_consensus_size :: "64 word \<Rightarrow> export_stats \<Rightarrow> export_stats" where
  "set_inbound_high_priority_consensus_size v s = s\<lparr>in_high_size := v\<rparr>"

definition set_inbound_low_priority_consensus_size :: "64 word \<Rightarrow> export_stats \<Rightarrow> export_stats" where
  "set_inbound_low_priority_consensus_size v s = s\<lparr>in_low_size := v\<rparr>"

definition set_outbound_high_priority_consensus_size :: "64 word \<Rightarrow> export_stats \<Rightarrow> export_stats" where
  "set_outbound_high_priority_consensus_size v s = s\<lparr>out_high_size := v\<rparr>"

definition set_outbound_low_priority_consensus_size :: "64 word \<Rightarrow> export_stats \<Rightarrow> export_stats" where
  "set_outbound_low_priority_consensus_size v s = s\<lparr>out_low_size := v\<rparr>"

definition set_last_throughput_measurement_timestamp :: "64 word \<Rightarrow> export_stats \<Rightarrow> export_stats" where
  "set_last_throughput_measurement_timestamp v s = s\<lparr>last_throughput_measurement := v\<rparr>"

definition set_bytes_received :: "64 word \<Rightarrow> export_stats \<Rightarrow> export_stats" where
  "set_bytes_received v s = s\<lparr>total_bytes_received := v\<rparr>"

definition set_bytes_sent :: "64 word \<Rightarrow> export_stats \<Rightarrow> export_stats" where
  "set_bytes_sent v s = s\<lparr>total_bytes_sent := v\<rparr>"

definition set_avg_bps_in :: "64 word \<Rightarrow> export_stats \<Rightarrow> export_stats" where
  "set_avg_bps_in v s = s\<lparr>avg_bps_in := v\<rparr>"

definition set_avg_bps_out :: "64 word \<Rightarrow> export_stats \<Rightarrow> export_stats" where
  "set_avg_bps_out v s = s\<lparr>avg_bps_out := v\<rparr>"

section \<open>Connections\<close>

record 'ns connection =
  remote_peer :: remote_peer
  low_level :: "'ns low_level"
  remote_end_networks :: networks
  stats :: connection_stats
  pending_messages :: message_queues
  wire_version :: wire_protocol_version

datatype conn_change =
    ExpulsionByToken token
  | NewConn socket_addr peer_type bool
  | NewPeers "p2p_peer list"
  | Promotion token
  | RemovalByToken token
  | RemoveAllByTokens "token list"

definition conn_token :: "'ns connection \<Rightarrow> token" where
  "conn_token c = to_token (local_id (remote_peer c))"

definition conn_remote_addr :: "'ns connection \<Rightarrow> socket_addr" where
  "conn_remote_addr c = remote_addr (remote_peer c)"

definition conn_remote_id :: "'ns connection \<Rightarrow> p2p_node_id option" where
  "conn_remote_id c = self_id (remote_peer c)"

definition conn_remote_peer_type :: "'ns connection \<Rightarrow> peer_type" where
  "conn_remote_peer_type c = remote_peer_type (remote_peer c)"

definition conn_get_latency :: "'ns connection \<Rightarrow> u64" where
  "conn_get_latency c = get_latency (stats c)"

definition conn_last_seen :: "'ns connection \<Rightarrow> u64" where
  "conn_last_seen c = last_seen (stats c)"

definition conn_is_post_handshake :: "'ns connection \<Rightarrow> bool" where
  "conn_is_post_handshake c \<longleftrightarrow> self_id (remote_peer c) \<noteq> None"

definition async_send :: "bytes \<Rightarrow> message_sending_priority \<Rightarrow> 'ns connection \<Rightarrow> 'ns connection" where
  "async_send msg priority c = c\<lparr>pending_messages := enqueue priority msg (pending_messages c)\<rparr>"

section \<open>The node\<close>

datatype ban_id = BanIp ip_addr | BanSocket socket_addr

record node_config =
  no_net :: bool
  desired_nodes_count :: u16
  no_bootstrap_dns :: bool
  no_clear_bans :: bool
  disallow_multiple_peers_on_ip :: bool
  bootstrap_nodes :: "string list"
  given_addresses :: "socket_addr list"
  max_allowed_nodes :: u16
  relay_broadcast_percentage :: rat
  poll_interval :: u64
  housekeeping_interval :: u64
  bootstrapping_interval :: u64
  print_peers :: bool
  bootstrapper_wait_minimum_peers :: u16
  max_latency :: "u64 option"
  hard_connection_limit :: u16
  conn_requests_batch_limit :: u16
  catch_up_batch_limit :: int
  timeout_bucket_entry_period :: u64
  bucket_cleanup_interval :: u64
  thread_pool_size :: usize
  dedup_size_long :: usize
  dedup_size_short :: usize
  socket_read_size :: usize
  socket_write_size :: usize
  drop_rebroadcast_probability :: "rat option"
  bootstrapper_peer_list_size :: usize
  default_network :: network_id
  socket_so_linger :: "u16 option"
  events_queue_size :: usize
  deduplication_hashing_algorithm :: dedup_algorithm
  max_normal_keep_alive_ms :: u64

text \<open>
  The counters of bad events between two rounds of housekeeping; the shared \<^verbatim>\<open>Regenesis\<close> object
  of the configuration and the data directory are part of the node and of the environment.
\<close>

record bad_events =
  dropped_high_queue :: "(remote_peer_id, u64) hash_map"
  dropped_low_queue :: "(remote_peer_id, u64) hash_map"
  invalid_messages :: "(remote_peer_id, u64) hash_map"

definition bad_events_default :: bad_events where
  "bad_events_default = \<lparr>dropped_high_queue = [], dropped_low_queue = [], invalid_messages = []\<rparr>"

definition count_event :: "remote_peer_id \<Rightarrow> (remote_peer_id, u64) hash_map \<Rightarrow> (remote_peer_id, u64) hash_map" where
  "count_event p m = hm_insert p (case map_of m p of Some n \<Rightarrow> n + 1 | None \<Rightarrow> 1) m"

definition inc_dropped_high_queue :: "remote_peer_id \<Rightarrow> bad_events \<Rightarrow> bad_events" where
  "inc_dropped_high_queue p b = b\<lparr>dropped_high_queue := count_event p (dropped_high_queue b)\<rparr>"

definition inc_dropped_low_queue :: "remote_peer_id \<Rightarrow> bad_events \<Rightarrow> bad_events" where
  "inc_dropped_low_queue p b = b\<lparr>dropped_low_queue := count_event p (dropped_low_queue b)\<rparr>"

definition inc_invalid_messages :: "remote_peer_id \<Rightarrow> bad_events \<Rightarrow> bad_events" where
  "inc_invalid_messages p b = b\<lparr>invalid_messages := count_event p (invalid_messages b)\<rparr>"

type_synonym 'ns connections = "(token, 'ns connection) hash_map"

record 'ns node =
  self_peer :: p2p_peer
  config :: node_config
  next_token :: usize
  node_buckets :: buckets
  conn_candidates :: "'ns connections"
  connections :: "'ns connections"
  conn_changes :: "conn_change list"
  soft_bans :: "(ban_id, nat) hash_map"
  node_networks_set :: networks
  deduplication_queues :: dedup_queues
  last_bootstrap :: u64
  last_peer_update :: u64
  total_received :: u64
  total_sent :: u64
  export :: export_stats
  ban_store :: "bytes list"
  node_peers :: peer_list
  node_bad_events :: bad_events
  regenesis :: regenesis
  callback_queue :: consensus_queues

section \<open>The environment\<close>

record 'ns node_env =
  now_ms :: u64
  instant :: nat
  noise :: "'ns noise_ops"
  init_session :: "bool \<Rightarrow> 'ns"
  wire :: wire_env
  dedup :: dedup_env
  own_version :: "version option"
  tcp_connect :: "socket_addr \<Rightarrow> socket option"
  poll_register :: "token \<Rightarrow> bool"
  choose_ids :: "nat \<Rightarrow> usize list \<Rightarrow> usize list"
  choose_peers :: "nat \<Rightarrow> remote_peer list \<Rightarrow> remote_peer list"
  shuffle_peers :: "p2p_peer list \<Rightarrow> p2p_peer list"
  change_try_send :: "nat \<Rightarrow> conn_change list \<Rightarrow> conn_change \<Rightarrow> conn_change list option"
  channels :: "consensus_message channel_ops"
  resolve_addrs :: "string \<Rightarrow> socket_addr list option"
  ip_serial :: "ip_addr \<Rightarrow> bytes"
  ip_deserial :: "bytes \<Rightarrow> (ip_addr \<times> bytes) option"
  kv_put :: "bytes \<Rightarrow> bytes list \<Rightarrow> bytes list option"
  kv_delete :: "bytes \<Rightarrow> bytes list \<Rightarrow> bytes list option"
  kv_get :: "bytes \<Rightarrow> bytes list \<Rightarrow> bool option"
  kv_iter :: "bytes list \<Rightarrow> bytes list option"
  kv_clear :: "bytes list \<Rightarrow> bytes list option"

text \<open>
  The documented behaviour of the libraries: \<^verbatim>\<open>choose_multiple\<close> picks distinct positions, as
  many as asked for if there are enough; \<^verbatim>\<open>shuffle\<close> permutes; a bounded channel refuses a
  message only when it is full.
\<close>

definition random_law :: "'ns node_env \<Rightarrow> bool" where
  "random_law env \<longleftrightarrow>
     (\<forall>n xs. mset (choose_ids env n xs) \<subseteq># mset xs \<and> length (choose_ids env n xs) = min n (length xs)) \<and>
     (\<forall>n xs. mset (choose_peers env n xs) \<subseteq># mset xs \<and> length (choose_peers env n xs) = min n (length xs)) \<and>
     (\<forall>xs. mset (shuffle_peers env xs) = mset xs)"

definition change_channel_law :: "'ns node_env \<Rightarrow> bool" where
  "change_channel_law env \<longleftrightarrow>
     (\<forall>cap q x. change_try_send env cap q x = (if length q < cap then Some (q @ [x]) else None))"

section \<open>Basic operations of the node\<close>

definition peer_type_of :: "'ns node \<Rightarrow> peer_type" where
  "peer_type_of n = p2p_type (self_peer n)"

definition on_export :: "(export_stats \<Rightarrow> export_stats) \<Rightarrow> 'ns node \<Rightarrow> 'ns node" where
  "on_export f n = n\<lparr>export := f (export n)\<rparr>"

text \<open>A change that does not fit into the channel is lost (the log says it is delayed).\<close>

definition register_conn_change :: "'ns node_env \<Rightarrow> conn_change \<Rightarrow> 'ns node \<Rightarrow> 'ns node" where
  "register_conn_change env change n =
     (case change_try_send env (unat (hard_connection_limit (config n))) (conn_changes n) change of
        Some q \<Rightarrow> n\<lparr>conn_changes := q\<rparr>
      | None \<Rightarrow> n)"

definition update_last_bootstrap :: "'ns node_env \<Rightarrow> 'ns node \<Rightarrow> 'ns node" where
  "update_last_bootstrap env n = n\<lparr>last_bootstrap := now_ms env\<rparr>"

definition bump_last_peer_update :: "'ns node_env \<Rightarrow> 'ns node \<Rightarrow> 'ns node" where
  "bump_last_peer_update env n = n\<lparr>last_peer_update := now_ms env\<rparr>"

definition is_bucket_cleanup_enabled :: "'ns node \<Rightarrow> bool" where
  "is_bucket_cleanup_enabled n \<longleftrightarrow> timeout_bucket_entry_period (config n) > 0"

definition is_given_connection :: "'ns node \<Rightarrow> 'ns connection \<Rightarrow> bool" where
  "is_given_connection n c \<longleftrightarrow>
     conn_remote_addr c \<in> set (given_addresses (config n)) \<or>
     external_addr (remote_peer c) \<in> set (given_addresses (config n))"

definition unconnected_given_addresses :: "'ns node \<Rightarrow> socket_addr list" where
  "unconnected_given_addresses n =
     fold (\<lambda>c ret. removeAll (external_addr (remote_peer c)) (removeAll (conn_remote_addr c) ret))
       (hm_values (connections n)) (given_addresses (config n))"

definition is_connected :: "socket_addr \<Rightarrow> 'ns node \<Rightarrow> bool" where
  "is_connected a n \<longleftrightarrow>
     list_ex (\<lambda>c. conn_remote_addr c = a \<or> external_addr (remote_peer c) = a) (hm_values (connections n))"

definition is_soft_banned :: "socket_addr \<Rightarrow> 'ns node \<Rightarrow> bool" where
  "is_soft_banned a n \<longleftrightarrow>
     map_of (soft_bans n) (BanIp (addr_ip a)) \<noteq> None \<or> map_of (soft_bans n) (BanSocket a) \<noteq> None"

definition is_network_stopped :: "'ns node \<Rightarrow> bool" where
  "is_network_stopped n \<longleftrightarrow> stop_network_flag (regenesis n)"

definition stop_network :: "'ns node \<Rightarrow> 'ns node" where
  "stop_network n = n\<lparr>regenesis := (regenesis n)\<lparr>stop_network_flag := True\<rparr>\<rparr>"

definition add_network :: "network_id \<Rightarrow> 'ns node \<Rightarrow> 'ns node" where
  "add_network i n = n\<lparr>node_networks_set := finsert i (node_networks_set n)\<rparr>"

text \<open>The handshake request with which both sides of a connection introduce themselves.\<close>

definition produce_handshake_request :: "'ns node_env \<Rightarrow> 'ns node \<Rightarrow> bytes res" where
  "produce_handshake_request env n =
     (case own_version env of
        None \<Rightarrow> Err (Bail ''invalid version'')
      | Some v \<Rightarrow>
          Ok (serialize (wire env) (now_ms env) (netmsg (now_ms env) (NetworkRequest (Handshake
            \<lparr>remote_id = p2p_id (self_peer n), remote_port = p2p_peer_port (self_peer n),
             hs_networks = node_networks_set n, node_version = v,
             wire_versions = WIRE_PROTOCOL_VERSIONS,
             genesis_blocks = regenesis_blocks (regenesis n), proof_bytes = []\<rparr>)))))"

text \<open>The statistics of the post-handshake peers; \<^verbatim>\<open>unwrap\<close> of a missing identifier panics.\<close>

definition conn_peer_stats :: "'ns connection \<Rightarrow> peer_stats res" where
  "conn_peer_stats c =
     (case self_id (remote_peer c) of
        None \<Rightarrow> Panic
      | Some sid \<Rightarrow>
          Ok (peer_stats_new (local_id (remote_peer c)) sid (conn_remote_addr c)
                (external_port (remote_peer c)) (conn_remote_peer_type c) (stats c)))"

fun collect_res :: "'a res list \<Rightarrow> 'a list res" where
  "collect_res [] = Ok []"
| "collect_res (r # rs) = res_bind r (\<lambda>x. res_bind (collect_res rs) (\<lambda>xs. Ok (x # xs)))"

definition get_peer_stats :: "peer_type option \<Rightarrow> 'ns node \<Rightarrow> peer_stats list res" where
  "get_peer_stats pt n =
     collect_res (map conn_peer_stats
       (filter (\<lambda>c. pt = None \<or> pt = Some (conn_remote_peer_type c)) (hm_values (connections n))))"

definition get_node_peer_tokens :: "'ns node \<Rightarrow> remote_peer_id list res" where
  "get_node_peer_tokens n = res_bind (get_peer_stats (Some Node) n) (\<lambda>s. Ok (map ps_local_id s))"

definition find_conn_token_by_id :: "remote_peer_id \<Rightarrow> 'ns node \<Rightarrow> token option" where
  "find_conn_token_by_id i n =
     map_option conn_token (find (\<lambda>c. local_id (remote_peer c) = i) (hm_values (connections n)))"

definition find_conn_to :: "socket_addr \<Rightarrow> 'ns node \<Rightarrow> token option" where
  "find_conn_to a n =
     map_option conn_token (find (\<lambda>c. conn_remote_addr c = a)
       (hm_values (conn_candidates n) @ hm_values (connections n)))"

definition find_conn_tokens_by_ip :: "ip_addr \<Rightarrow> 'ns node \<Rightarrow> token list" where
  "find_conn_tokens_by_ip ip n =
     map conn_token (filter (\<lambda>c. addr_ip (conn_remote_addr c) = ip)
       (hm_values (conn_candidates n) @ hm_values (connections n)))"

text \<open>Dropping a connection: the gauge goes down when its handshake was complete.\<close>

definition drop_connection :: "'ns connection \<Rightarrow> 'ns node \<Rightarrow> 'ns node" where
  "drop_connection c n = (if conn_remote_id c \<noteq> None then on_export peers_dec n else n)"

definition drop_connections :: "'ns connection list \<Rightarrow> 'ns node \<Rightarrow> 'ns node" where
  "drop_connections cs n = fold drop_connection cs n"

end
