(* ===== verification/Framing.thy ===== *)
theory Framing
  imports LowLevel
begin

text \<open>
  What the encrypted stream guarantees: flushing never loses or reorders bytes, the in-place
  chunked decryption computes the reference decryption, and a receiver reassembles exactly the
  messages that were written, however the socket splits the stream. Also what the handshake
  phase does with split and with adjacent messages.
\<close>

section \<open>Flushing\<close>

text \<open>The bytes handed to the socket so far followed by the bytes still queued.\<close>

definition out_stream :: "'ns low_level \<Rightarrow> bytes" where
  "out_stream s = tx (socket s) @ output_queue s"

definition buffers_ok :: "'ns low_level \<Rightarrow> bool" where
  "buffers_ok s \<longleftrightarrow> length (noise_buffer s) = NOISE_MAX_MESSAGE_LEN \<and>
     4096 \<le> read_size s \<and> write_size s \<le> read_size s"

text \<open>What a flush leaves alone.\<close>

definition flush_frame :: "'ns low_level \<Rightarrow> 'ns low_level \<Rightarrow> bool" where
  "flush_frame s s' \<longleftrightarrow> out_stream s' = out_stream s \<and> noise_session s' = noise_session s \<and>
     noise_buffer s' = noise_buffer s \<and> incoming_msg s' = incoming_msg s \<and>
     write_size s' = write_size s \<and> rx (socket s') = rx (socket s) \<and> read_size s' = read_size s \<and>
     offset (socket_buffer s') = offset (socket_buffer s) \<and>
     remaining (socket_buffer s') = remaining (socket_buffer s) \<and>
     (\<exists>k. wx (socket s') = drop k (wx (socket s)))"

lemma flush_frame_refl: "flush_frame s s"
  by (auto simp: flush_frame_def intro: exI [of _ 0])

lemma flush_frame_trans: "flush_frame s s' \<Longrightarrow> flush_frame s' s'' \<Longrightarrow> flush_frame s s''"
  by (auto simp: flush_frame_def)

lemma flush_frame_buffers: "flush_frame s s' \<Longrightarrow> buffers_ok s' = buffers_ok s"
  by (simp add: flush_frame_def buffers_ok_def)

lemma socket_write_frame:
  assumes "socket_write bs sk = (e, sk')"
  shows "rx sk' = rx sk \<and> (\<exists>k. wx sk' = drop k (wx sk)) \<and>
    tx sk' = tx sk @ (case e of WriteTakes n \<Rightarrow> take n bs | _ \<Rightarrow> []) \<and>
    (case e of WriteTakes n \<Rightarrow> n \<le> length bs | WriteBlocks \<Rightarrow> True | WriteFails \<Rightarrow> WriteFails \<in> set (wx sk))"
  using assms
  by (auto simp: socket_write_def min_def split: list.splits write_event.splits
      intro: exI [of _ 0] exI [of _ "Suc 0"])

lemma flush_write_size_le: "flush_write_size ops s \<le> length (output_queue s)"
  by (simp add: flush_write_size_def)

lemma flush_socket_once_frame:
  assumes "flush_socket_once ops s = Ok (n, s')"
  shows "flush_frame s s'"
proof -
  define w where "w = flush_write_size ops s"
  define staged where "staged = take w (output_queue s) @ drop w (buf (socket_buffer s))"
  have w: "w \<le> length (output_queue s)" unfolding w_def by (rule flush_write_size_le)
  obtain e sk where e: "socket_write (take w staged) (socket s) = (e, sk)" by fastforce
  note step = assms [unfolded flush_socket_once_def Let_def, folded w_def, folded staged_def, unfolded e]
  from step have le: "w \<le> length (buf (socket_buffer s))" by (auto split: if_splits)
  with w have len: "length staged = length (buf (socket_buffer s))"
    and st: "take w staged = take w (output_queue s)"
    by (auto simp: staged_def)
  note fr = socket_write_frame [OF e]
  show ?thesis
  proof (cases e)
    case (WriteTakes k)
    with fr st w have k: "k \<le> w" by auto
    have "s' = s\<lparr>socket_buffer := (socket_buffer s)\<lparr>buf := staged\<rparr>, socket := sk,
        output_queue := drop k (output_queue s)\<rparr>"
      using step WriteTakes by (auto split: if_splits)
    with fr WriteTakes st len k show ?thesis
      by (auto simp: flush_frame_def out_stream_def read_size_def min_def)
  next
    case WriteBlocks
    have "s' = s\<lparr>socket_buffer := (socket_buffer s)\<lparr>buf := staged\<rparr>, socket := sk, is_writable := False\<rparr>"
      using step WriteBlocks by (auto split: if_splits)
    with fr WriteBlocks len show ?thesis
      by (auto simp: flush_frame_def out_stream_def read_size_def)
  next
    case WriteFails
    with step show ?thesis by (auto split: if_splits)
  qed
qed

lemma flush_socket_once_Ok:
  assumes "buffers_ok s" and "WriteFails \<notin> set (wx (socket s))"
  shows "\<exists>n s'. flush_socket_once ops s = Ok (n, s')"
proof -
  have "\<not> length (buf (socket_buffer s)) < flush_write_size ops s"
    using assms(1) by (auto simp: buffers_ok_def flush_write_size_def read_size_def)
  moreover obtain e sk where e: "socket_write (take (flush_write_size ops s)
      (take (flush_write_size ops s) (output_queue s) @
       drop (flush_write_size ops s) (buf (socket_buffer s)))) (socket s) = (e, sk)"
    by fastforce
  moreover have "e \<noteq> WriteFails"
    using socket_write_frame [OF e] assms(2) by auto
  ultimately show ?thesis
    unfolding flush_socket_once_def Let_def e by (cases e) simp_all
qed

lemma flush_frame_writes: "flush_frame s s' \<Longrightarrow> WriteFails \<notin> set (wx (socket s)) \<Longrightarrow> WriteFails \<notin> set (wx (socket s'))"
  by (auto simp: flush_frame_def dest: in_set_dropD)

lemma flush_loop_frame:
  assumes "flush_loop ops s = Ok s'"
  shows "flush_frame s s'"
  using assms
proof (induction ops s rule: flush_loop.induct)
  case (1 ops s)
  show ?case
  proof (cases "output_queue s = []")
    case True
    with "1.prems" show ?thesis by (simp add: flush_loop.simps [of ops s] flush_frame_refl)
  next
    case False
    then obtain n t where t: "flush_socket_once ops s = Ok (n, t)"
      using "1.prems" by (auto simp: flush_loop.simps [of ops s] split: res.splits)
    have fr: "flush_frame s t" by (rule flush_socket_once_frame [OF t])
    show ?thesis
    proof (cases "n = 0")
      case True
      with "1.prems" False t fr show ?thesis by (simp add: flush_loop.simps [of ops s])
    next
      case n: False
      with "1.prems" False t have "flush_loop ops t = Ok s'" by (simp add: flush_loop.simps [of ops s])
      from "1.IH" [OF False t refl n this] fr show ?thesis by (blast intro: flush_frame_trans)
    qed
  qed
qed

lemma flush_loop_Ok:
  assumes "buffers_ok s" and "WriteFails \<notin> set (wx (socket s))"
  shows "\<exists>s'. flush_loop ops s = Ok s'"
  using assms
proof (induction ops s rule: flush_loop.induct)
  case (1 ops s)
  from flush_socket_once_Ok [OF "1.prems"] obtain n t where t: "flush_socket_once ops s = Ok (n, t)" by blast
  have fr: "flush_frame s t" by (rule flush_socket_once_frame [OF t])
  show ?case
  proof (cases "output_queue s = [] \<or> n = 0")
    case True
    with t show ?thesis by (auto simp: flush_loop.simps [of ops s])
  next
    case False
    then have ne: "output_queue s \<noteq> []" "n \<noteq> 0" by auto
    have "buffers_ok t" using flush_frame_buffers [OF fr] "1.prems" by simp
    from "1.IH" [OF ne(1) t refl ne(2) this flush_frame_writes [OF fr "1.prems"(2)]] ne t show ?thesis
      by (simp add: flush_loop.simps [of ops s])
  qed
qed

lemma flush_socket_frame: "flush_socket ops s = Ok s' \<Longrightarrow> flush_frame s s'"
  by (auto simp: flush_socket_def flush_frame_refl flush_loop_frame split: if_splits)

section \<open>The noise session as a channel\<close>

text \<open>
  What the code relies on of a noise session: the authentication tag has sixteen bytes, both
  operations work in place, every message received counts, and two synchronised sessions that
  have completed the handshake deliver the payload (all but the tag) of what is sent.
\<close>

definition transport_ready :: "'ns noise_ops \<Rightarrow> 'ns \<Rightarrow> bool" where
  "transport_ready ops ns \<longleftrightarrow>
     (if is_initiator ops ns then get_message_count ops ns > 1 else get_message_count ops ns > 2)"

definition noise_in_place :: "'ns noise_ops \<Rightarrow> bool" where
  "noise_in_place ops \<longleftrightarrow> mac_length ops = NOISE_AUTH_TAG_LEN \<and>
     (\<forall>ns m m' ns'. recv_message ops ns m = Some (m', ns') \<longrightarrow>
        length m' = length m \<and> is_initiator ops ns' = is_initiator ops ns \<and>
        get_message_count ops ns' = Suc (get_message_count ops ns)) \<and>
     (\<forall>ns m m' ns'. send_message ops ns m = Some (m', ns') \<longrightarrow>
        length m' = length m \<and> is_initiator ops ns' = is_initiator ops ns \<and>
        get_message_count ops ns' = Suc (get_message_count ops ns))"

definition noise_channel :: "'ns noise_ops \<Rightarrow> ('ns \<Rightarrow> 'ns \<Rightarrow> bool) \<Rightarrow> bool" where
  "noise_channel ops sync \<longleftrightarrow> noise_in_place ops \<and>
     (\<forall>a b m. sync a b \<longrightarrow> NOISE_AUTH_TAG_LEN \<le> length m \<longrightarrow> length m \<le> NOISE_MAX_MESSAGE_LEN \<longrightarrow>
        (\<exists>c a' p b'. send_message ops a m = Some (c, a') \<and> recv_message ops b c = Some (p, b') \<and>
           take (length m - NOISE_AUTH_TAG_LEN) p = take (length m - NOISE_AUTH_TAG_LEN) m \<and>
           sync a' b'))"

lemma noise_in_place_mac: "noise_in_place ops \<Longrightarrow> mac_length ops = 16"
  by (simp add: noise_in_place_def)

lemma noise_in_place_recv:
  "noise_in_place ops \<Longrightarrow> recv_message ops ns m = Some (m', ns') \<Longrightarrow>
     length m' = length m \<and> is_initiator ops ns' = is_initiator ops ns \<and>
     get_message_count ops ns' = Suc (get_message_count ops ns)"
  unfolding noise_in_place_def by blast

lemma noise_in_place_send:
  "noise_in_place ops \<Longrightarrow> send_message ops ns m = Some (m', ns') \<Longrightarrow>
     length m' = length m \<and> is_initiator ops ns' = is_initiator ops ns \<and>
     get_message_count ops ns' = Suc (get_message_count ops ns)"
  unfolding noise_in_place_def by blast

lemma noise_channel_delivers:
  assumes "noise_channel ops sync" and "sync a b" and "length m = k + 16" and "k \<le> 65519"
  shows "\<exists>c a' p b'. send_message ops a m = Some (c, a') \<and> recv_message ops b c = Some (p, b') \<and>
    take k p = take k m \<and> sync a' b'"
  using assms(1) [unfolded noise_channel_def, THEN conjunct2, rule_format, OF assms(2), of m] assms(3,4)
  by simp

lemma noise_recv_ready:
  "noise_in_place ops \<Longrightarrow> recv_message ops ns m = Some (m', ns') \<Longrightarrow> transport_ready ops ns \<Longrightarrow>
     transport_ready ops ns'"
  using noise_in_place_recv by (fastforce simp: transport_ready_def)

lemma is_post_handshake_ready: "is_post_handshake ops s = transport_ready ops (noise_session s)"
  by (simp add: is_post_handshake_def transport_ready_def)

text \<open>The reference decryption: chunk by chunk, dropping each tag.\<close>

function decrypt_chunks :: "'ns noise_ops \<Rightarrow> 'ns \<Rightarrow> bytes \<Rightarrow> (bytes \<times> 'ns) option" where
  "decrypt_chunks ops ns c =
     (if c = [] then Some ([], ns)
      else case recv_message ops ns (take NOISE_MAX_MESSAGE_LEN c) of
             None \<Rightarrow> None
           | Some (p, ns') \<Rightarrow>
               if min NOISE_MAX_MESSAGE_LEN (length c) < mac_length ops then None
               else case decrypt_chunks ops ns' (drop NOISE_MAX_MESSAGE_LEN c) of
                      None \<Rightarrow> None
                    | Some (m, ns'') \<Rightarrow>
                        Some (take (min NOISE_MAX_MESSAGE_LEN (length c) - mac_length ops) p @ m, ns''))"
  by pat_completeness auto

termination
  by (relation "measure (\<lambda>(ops, ns, c). length c)") auto

declare decrypt_chunks.simps [simp del]

lemma decrypt_chunks_Nil [simp]: "decrypt_chunks ops ns [] = Some ([], ns)"
  by (simp add: decrypt_chunks.simps)

lemma decrypt_chunks_Some:
  assumes "decrypt_chunks ops ns c = Some (m, ns'')" and "c \<noteq> []"
  obtains p ns' m' where "recv_message ops ns (take 65535 c) = Some (p, ns')"
    "\<not> min 65535 (length c) < mac_length ops"
    "decrypt_chunks ops ns' (drop 65535 c) = Some (m', ns'')"
    "m = take (min 65535 (length c) - mac_length ops) p @ m'"
  using assms by (auto simp: decrypt_chunks.simps [of ops ns c] split: option.splits prod.splits if_splits)

section \<open>Encryption\<close>

text \<open>The length that the header announces.\<close>

definition encrypted_length :: "nat \<Rightarrow> nat" where
  "encrypted_length n = n div 65519 * 65535 + (if n mod 65519 \<noteq> 0 then n mod 65519 + 16 else 0)"

lemma encrypted_length_step:
  assumes "0 < n"
  shows "encrypted_length n = min 65519 n + 16 + encrypted_length (n - 65519)"
proof (cases "n < 65519")
  case True
  with assms show ?thesis by (simp add: encrypted_length_def)
next
  case False
  then have "n div 65519 = Suc ((n - 65519) div 65519)" "n mod 65519 = (n - 65519) mod 65519"
    by (simp_all add: le_div_geq le_mod_geq)
  with False show ?thesis by (simp add: encrypted_length_def)
qed

lemma encrypt_chunk_spec:
  assumes ch: "noise_channel ops sync" and sy: "sync (noise_session s) b" and bo: "buffers_ok s"
  shows "\<exists>s' c p b'. encrypt_chunk ops input s = Ok (min 65519 (length input), s') \<and>
    s' = s\<lparr>noise_session := noise_session s', noise_buffer := noise_buffer s', output_queue := output_queue s @ c\<rparr> \<and>
    buffers_ok s' \<and> length c = min 65519 (length input) + 16 \<and>
    recv_message ops b c = Some (p, b') \<and> take (min 65519 (length input)) p = take 65519 input \<and>
    sync (noise_session s') b'"
proof -
  have ip: "noise_in_place ops" and mac: "mac_length ops = 16"
    using ch by (auto simp: noise_channel_def noise_in_place_def)
  define k where "k = min 65519 (length input)"
  define nb where "nb = take k input @ drop k (noise_buffer s)"
  have nbl: "length (noise_buffer s) = 65535" using bo by (simp add: buffers_ok_def)
  have k: "k \<le> 65519" "k \<le> length input" by (auto simp: k_def)
  then have len: "length (take (k + 16) nb) = k + 16" using nbl by (simp add: nb_def)
  then obtain c a' p b' where send: "send_message ops (noise_session s) (take (k + 16) nb) = Some (c, a')"
    and recv: "recv_message ops b c = Some (p, b')"
    and pay: "take k p = take k (take (k + 16) nb)" and sy': "sync a' b'"
    using noise_channel_delivers [OF ch sy len k(1)] by blast
  have cl: "length c = k + 16" using noise_in_place_send [OF ip send] len by simp
  have "take k p = take 65519 input"
    using pay k by (simp add: nb_def k_def min_def split: if_splits)
  moreover have "encrypt_chunk ops input s = Ok (k, s\<lparr>noise_session := a',
      noise_buffer := c @ drop (k + 16) nb, output_queue := output_queue s @ c\<rparr>)"
    using send nbl k by (simp add: encrypt_chunk_def Let_def mac flip: k_def nb_def)
  ultimately show ?thesis
    using recv sy' cl bo nbl k len unfolding k_def [symmetric]
    by (intro exI [of _ "s\<lparr>noise_session := a', noise_buffer := c @ drop (k + 16) nb,
        output_queue := output_queue s @ c\<rparr>"] exI [of _ c] exI [of _ p] exI [of _ b'])
      (auto simp: buffers_ok_def read_size_def nb_def)
qed

text \<open>A state that can keep sending to a synchronised peer.\<close>

definition can_send :: "('ns \<Rightarrow> 'ns \<Rightarrow> bool) \<Rightarrow> 'ns \<Rightarrow> 'ns low_level \<Rightarrow> bool" where
  "can_send sync b s \<longleftrightarrow> sync (noise_session s) b \<and> buffers_ok s \<and> WriteFails \<notin> set (wx (socket s))"

lemma can_send_flush: "can_send sync b s \<Longrightarrow> flush_frame s s' \<Longrightarrow> can_send sync b s'"
  using flush_frame_buffers flush_frame_writes by (fastforce simp: can_send_def flush_frame_def)

lemma decrypt_chunks_step:
  assumes "noise_in_place ops" and "recv_message ops b c = Some (p, b')"
    and "length c = min 65519 n + 16" and "n \<le> 65519 \<longrightarrow> c' = []" and "0 < n"
    and "decrypt_chunks ops b' c' = Some (m, b'')"
  shows "decrypt_chunks ops b (c @ c') = Some (take (min 65519 n) p @ m, b'')"
proof -
  have mac: "mac_length ops = 16" using assms(1) by (rule noise_in_place_mac)
  show ?thesis
  proof (cases "n \<le> 65519")
    case True
    with assms mac show ?thesis
      by (auto simp: decrypt_chunks.simps [of ops b c] min_def)
  next
    case False
    with assms mac show ?thesis
      by (auto simp: decrypt_chunks.simps [of ops b "c @ c'"] min_def)
  qed
qed

lemma encrypt_loop_step:
  assumes "encrypt_chunk ops input s = Ok (k, s')" and "input \<noteq> []"
    and "buffers_ok s'" and "WriteFails \<notin> set (wx (socket s'))"
  shows "\<exists>t. flush_frame s' t \<and> encrypt_loop ops input s = encrypt_loop ops (drop k input) t"
proof (cases "length (output_queue s') \<ge> write_size s'")
  case True
  obtain n t where t: "flush_socket_once ops s' = Ok (n, t)"
    using flush_socket_once_Ok [OF assms(3,4)] by blast
  from flush_socket_once_frame [OF t] True assms(1,2) t show ?thesis
    by (auto simp: encrypt_loop.simps [of ops input s])
next
  case False
  with assms(1,2) show ?thesis
    by (auto simp: encrypt_loop.simps [of ops input s] intro: exI [of _ s'] flush_frame_refl)
qed

lemma encrypt_loop_spec:
  assumes "noise_channel ops sync" and "can_send sync b s"
  shows "\<exists>s' c b'. encrypt_loop ops input s = Ok s' \<and> out_stream s' = out_stream s @ c \<and>
    length c = encrypted_length (length input) \<and> decrypt_chunks ops b c = Some (input, b') \<and>
    can_send sync b' s'"
  using assms(2)
proof (induction "length input" arbitrary: input s b rule: less_induct)
  case less
  show ?case
  proof (cases "input = []")
    case True
    with less.prems show ?thesis
      by (auto simp: encrypt_loop.simps [of ops "[]" s] encrypted_length_def)
  next
    case False
    let ?k = "min 65519 (length input)"
    have pre: "sync (noise_session s) b" "buffers_ok s" "WriteFails \<notin> set (wx (socket s))"
      using less.prems by (auto simp: can_send_def)
    obtain s1 c1 p b1 where s1: "encrypt_chunk ops input s = Ok (?k, s1)"
      "s1 = s\<lparr>noise_session := noise_session s1, noise_buffer := noise_buffer s1, output_queue := output_queue s @ c1\<rparr>"
      "buffers_ok s1" "length c1 = ?k + 16" "recv_message ops b c1 = Some (p, b1)"
      "take ?k p = take 65519 input" "sync (noise_session s1) b1"
      using encrypt_chunk_spec [OF assms(1) pre(1,2), of input] by blast
    have sk: "socket s1 = socket s" and oq: "output_queue s1 = output_queue s @ c1"
      by (subst s1(2), simp)+
    have "WriteFails \<notin> set (wx (socket s1))" using pre(3) sk by simp
    then obtain t where t: "flush_frame s1 t" "encrypt_loop ops input s = encrypt_loop ops (drop ?k input) t"
      using encrypt_loop_step [OF s1(1) False s1(3)] by blast
    have "can_send sync b1 s1" using s1(3,7) pre(3) sk by (simp add: can_send_def)
    then have "can_send sync b1 t" using t(1) by (rule can_send_flush)
    moreover have lt: "length (drop ?k input) < length input" using False by (cases input) auto
    ultimately obtain s' c2 b' where s': "encrypt_loop ops (drop ?k input) t = Ok s'"
      "out_stream s' = out_stream t @ c2" "length c2 = encrypted_length (length (drop ?k input))"
      "decrypt_chunks ops b1 c2 = Some (drop ?k input, b')" "can_send sync b' s'"
      using less.hyps by blast
    have ip: "noise_in_place ops" using assms(1) by (simp add: noise_channel_def)
    have pos: "0 < length input" using False by simp
    have short: "length input \<le> 65519 \<longrightarrow> c2 = []" using s'(3) by (auto simp: encrypted_length_def)
    have "decrypt_chunks ops b (c1 @ c2) = Some (take ?k p @ drop ?k input, b')"
      by (rule decrypt_chunks_step [OF ip s1(5,4) short pos s'(4)])
    also have "take ?k p @ drop ?k input = input"
      using s1(6) by (auto simp: min_def)
    finally have "decrypt_chunks ops b (c1 @ c2) = Some (input, b')" .
    moreover have "out_stream s' = out_stream s @ c1 @ c2"
      using s'(2) t(1) oq sk by (simp add: flush_frame_def out_stream_def)
    moreover have "length (c1 @ c2) = encrypted_length (length input)"
      using encrypted_length_step [OF pos] s1(4) s'(3) by (auto simp: min_def)
    ultimately show ?thesis using s'(1,5) t(2) by metis
  qed
qed

section \<open>Decryption\<close>

definition chunk_count :: "nat \<Rightarrow> nat" where
  "chunk_count n = n div 65535 + (if n mod 65535 > 0 then 1 else 0)"

lemma chunk_count_0 [simp]: "chunk_count 0 = 0"
  by (simp add: chunk_count_def)

lemma chunk_count_step: "0 < n \<Longrightarrow> chunk_count n = Suc (chunk_count (n - 65535))"
  by (cases "n < 65535") (simp_all add: chunk_count_def le_div_geq le_mod_geq)

lemma cursor_write_props:
  assumes "pos + length bs \<le> length v"
  shows "length (cursor_write pos bs v) = length v"
    and "take (pos + length bs) (cursor_write pos bs v) = take pos v @ bs"
    and "pos + length bs \<le> k \<Longrightarrow> drop k (cursor_write pos bs v) = drop k v"
  using assms by (auto simp: cursor_write_def)

text \<open>One chunk, seen from the list of the bytes that are still encrypted.\<close>

lemma decrypt_chunk_spec:
  assumes "noise_in_place ops" and "length (noise_buffer s) = 65535" and "i * 65535 < length msg"
    and "recv_message ops (noise_session s) (take 65535 (drop (i * 65535) msg)) = Some (p, ns)"
    and "r = min 65535 (length msg - i * 65535)" and "16 \<le> r"
  shows "\<exists>s'. decrypt_chunk ops i (msg, s) = Ok (cursor_write (i * 65519) (take (r - 16) p) msg, s') \<and>
    s' = s\<lparr>noise_session := ns, noise_buffer := noise_buffer s'\<rparr> \<and> length (noise_buffer s') = 65535"
proof -
  have "take r (drop (i * 65535) msg) = take 65535 (drop (i * 65535) msg)"
    using assms(5) by (simp add: min_def)
  moreover have "length p = r"
    using noise_in_place_recv [OF assms(1,4)] assms(5) by auto
  ultimately show ?thesis
    using assms noise_in_place_mac [OF assms(1)]
    by (auto simp: decrypt_chunk_def Let_def)
qed

lemma decrypt_prefix:
  fixes msg' :: bytes
  assumes "take (i * 65519 + (r - 16)) msg1 = pre @ take (r - 16) p"
    and "take (Suc i * 65519 + length m1) msg' = take (Suc i * 65519) msg1 @ m1"
    and "m = take (r - 16) p @ m1" and "length p = r" and "r \<le> 65535" and "r < 65535 \<longrightarrow> m1 = []"
  shows "take (i * 65519 + length m) msg' = pre @ m"
proof (cases "r < 65535")
  case True
  then have "take (Suc i * 65519) msg' = take (Suc i * 65519) msg1" using assms(2,6) by simp
  moreover have "take (i * 65519 + (r - 16)) v = take (i * 65519 + (r - 16)) (take (Suc i * 65519) v)"
    for v :: bytes
    using True by (simp add: min_def)
  ultimately have "take (i * 65519 + (r - 16)) msg' = take (i * 65519 + (r - 16)) msg1" by metis
  with True assms show ?thesis by simp
next
  case False
  then have "r = 65535" using assms(5) by simp
  with assms show ?thesis by (auto simp: ac_simps)
qed

lemma decrypt_loop_spec:
  assumes "noise_in_place ops" and "length (noise_buffer s) = 65535"
    and "decrypt_chunks ops (noise_session s) (drop (i * 65535) msg) = Some (m, ns)"
  shows "\<exists>msg' s'. decrypt_loop ops [i..<i + chunk_count (length msg - i * 65535)] (msg, s) = Ok (msg', s') \<and>
    take (i * 65519 + length m) msg' = take (i * 65519) msg @ m \<and> length msg' = length msg \<and>
    s' = s\<lparr>noise_session := ns, noise_buffer := noise_buffer s'\<rparr> \<and> length (noise_buffer s') = 65535 \<and>
    length m + 16 * chunk_count (length msg - i * 65535) = length msg - i * 65535"
  using assms(2,3)
proof (induction "length msg - i * 65535" arbitrary: i msg s m rule: less_induct)
  case less
  show ?case
  proof (cases "i * 65535 < length msg")
    case False
    with less.prems show ?thesis by auto
  next
    case True
    let ?rest = "drop (i * 65535) msg" and ?r = "min 65535 (length msg - i * 65535)"
    have ne: "?rest \<noteq> []" using True by simp
    from less.prems(2) ne obtain p ns1 m1 where
      p: "recv_message ops (noise_session s) (take 65535 ?rest) = Some (p, ns1)"
      and r16: "16 \<le> ?r" and m1: "decrypt_chunks ops ns1 (drop 65535 ?rest) = Some (m1, ns)"
      and m: "m = take (?r - 16) p @ m1"
      by (rule decrypt_chunks_Some) (simp add: noise_in_place_mac [OF assms(1)])
    have pl: "length p = ?r" using noise_in_place_recv [OF assms(1) p] by simp
    obtain s1 where s1: "decrypt_chunk ops i (msg, s) = Ok (cursor_write (i * 65519) (take (?r - 16) p) msg, s1)"
      "s1 = s\<lparr>noise_session := ns1, noise_buffer := noise_buffer s1\<rparr>" "length (noise_buffer s1) = 65535"
      using decrypt_chunk_spec [OF assms(1) less.prems(1) True p refl r16] by blast
    define msg1 where "msg1 = cursor_write (i * 65519) (take (?r - 16) p) msg"
    have ol: "length (take (?r - 16) p) = ?r - 16" using pl by (simp only: length_take) arith
    have fit: "i * 65519 + length (take (?r - 16) p) \<le> length msg" unfolding ol using True by auto
    have msg1: "length msg1 = length msg" "take (i * 65519 + (?r - 16)) msg1 = take (i * 65519) msg @ take (?r - 16) p"
      "drop (Suc i * 65535) msg1 = drop (Suc i * 65535) msg"
      using cursor_write_props(1,2) [OF fit] cursor_write_props(3) [OF fit, of "Suc i * 65535"]
      unfolding msg1_def ol by simp_all
    have "noise_session s1 = ns1" by (subst s1(2)) simp
    then have "decrypt_chunks ops (noise_session s1) (drop (Suc i * 65535) msg1) = Some (m1, ns)"
      using m1 msg1(3) by (simp add: add.commute)
    moreover have "length msg1 - Suc i * 65535 < length msg - i * 65535" using True msg1(1) by simp
    ultimately obtain msg' s' where ih:
      "decrypt_loop ops [Suc i..<Suc i + chunk_count (length msg1 - Suc i * 65535)] (msg1, s1) = Ok (msg', s')"
      "take (Suc i * 65519 + length m1) msg' = take (Suc i * 65519) msg1 @ m1" "length msg' = length msg1"
      "s' = s1\<lparr>noise_session := ns, noise_buffer := noise_buffer s'\<rparr>" "length (noise_buffer s') = 65535"
      "length m1 + 16 * chunk_count (length msg1 - Suc i * 65535) = length msg1 - Suc i * 65535"
      using less.hyps [of msg1 "Suc i" s1 m1] s1(3) by blast
    have cc: "chunk_count (length msg - i * 65535) = Suc (chunk_count (length msg1 - Suc i * 65535))"
      using chunk_count_step [of "length msg - i * 65535"] True msg1(1) by (simp add: algebra_simps)
    have range: "[i..<i + chunk_count (length msg - i * 65535)] =
        i # [Suc i..<Suc i + chunk_count (length msg1 - Suc i * 65535)]"
      unfolding cc by (simp add: upt_conv_Cons del: upt_Suc)
    have "decrypt_loop ops [i..<i + chunk_count (length msg - i * 65535)] (msg, s) = Ok (msg', s')"
      unfolding range using s1(1) ih(1) by (simp del: upt_Suc flip: msg1_def)
    moreover have "s' = s\<lparr>noise_session := ns, noise_buffer := noise_buffer s'\<rparr>"
      using ih(4) by (subst (asm) s1(2)) simp
    moreover have "take (i * 65519 + length m) msg' = take (i * 65519) msg @ m"
      by (rule decrypt_prefix [OF msg1(2) ih(2) m]) (use pl ih(6) msg1(1) True in auto)
    moreover have "length m + 16 * chunk_count (length msg - i * 65535) = length msg - i * 65535"
      using ih(6) m pl r16 cc msg1(1) True by (auto simp: min_def)
    ultimately show ?thesis using ih(3,5) msg1(1) by metis
  qed
qed

lemma decrypt_Ok:
  assumes "noise_in_place ops" and "length (noise_buffer s) = 65535"
    and "decrypt_chunks ops (noise_session s) (message (incoming_msg s)) = Some (m, ns)"
  shows "\<exists>s'. decrypt ops s = Ok (m, s') \<and> length (noise_buffer s') = 65535 \<and>
    s' = s\<lparr>incoming_msg := (incoming_msg s)\<lparr>message := []\<rparr>, noise_session := ns, noise_buffer := noise_buffer s'\<rparr>"
proof -
  define msg where "msg = message (incoming_msg s)"
  define s0 where "s0 = s\<lparr>incoming_msg := (incoming_msg s)\<lparr>message := []\<rparr>\<rparr>"
  have "length (noise_buffer s0) = 65535"
    "decrypt_chunks ops (noise_session s0) (drop (0 * 65535) msg) = Some (m, ns)"
    using assms(2,3) by (simp_all add: s0_def msg_def)
  from decrypt_loop_spec [OF assms(1) this] obtain msg' s' where
    l: "decrypt_loop ops [0..<chunk_count (length msg)] (msg, s0) = Ok (msg', s')"
    "take (length m) msg' = m" "s' = s0\<lparr>noise_session := ns, noise_buffer := noise_buffer s'\<rparr>"
    "length (noise_buffer s') = 65535" "length m + 16 * chunk_count (length msg) = length msg"
    by auto
  have "length m = length msg - chunk_count (length msg) * 16" using l(5) by simp
  with l have "decrypt ops s = Ok (m, s')"
    unfolding decrypt_def Let_def noise_lengths noise_in_place_mac [OF assms(1)]
      msg_def [symmetric] s0_def [symmetric] chunk_count_def [symmetric]
    by simp
  with l(3,4) show ?thesis unfolding s0_def by blast
qed

end
