(* ===== verification/ReadLoop.thy ===== *)
theory ReadLoop
  imports Framing
begin

text \<open>
  The reading loop ends. Every call of \<^const>\<open>read_from_socket\<close> that lets it go on makes progress:
  it takes bytes off the socket, or moves on in the buffer, or completes a length header, or
  copies a part of a handshake message. \<open>read_stream_all\<close> is the loop without fuel.
\<close>

section \<open>Progress\<close>

definition rx_size :: "read_event list \<Rightarrow> nat" where
  "rx_size es = sum_list (map (\<lambda>e. case e of ReadData bs \<Rightarrow> Suc (length bs) | _ \<Rightarrow> 1) es)"

abbreviation read_order :: "('ns low_level \<times> 'ns low_level) set" where
  "read_order \<equiv> measures [\<lambda>s. rx_size (rx (socket s)), \<lambda>s. remaining (socket_buffer s),
     \<lambda>s. length (size_bytes (incoming_msg s)), \<lambda>s. pending_bytes (incoming_msg s)]"

text \<open>What handling a complete message keeps and does to the buffer.\<close>

definition same_input :: "'ns low_level \<Rightarrow> 'ns low_level \<Rightarrow> bool" where
  "same_input s s' \<longleftrightarrow> rx (socket s') = rx (socket s)"

lemma send_xx_msg_input: "send_xx_msg ops a pl b s = Ok s' \<Longrightarrow> same_input s s'"
  by (auto simp: send_xx_msg_def same_input_def flush_frame_def dest!: flush_socket_frame split: option.splits)

lemma recv_xx_msg_input: "recv_xx_msg ops len s = Ok s' \<Longrightarrow> same_input s s'"
  by (auto simp: recv_xx_msg_def same_input_def res_simps split: option.splits)

lemma process_msg_input:
  "process_msg_a ops po len s = Ok (pl, s') \<Longrightarrow> same_input s s'"
  "process_msg_b ops po len s = Ok (pl, s') \<Longrightarrow> same_input s s'"
  "process_msg_c ops len s = Ok (pl, s') \<Longrightarrow> same_input s s'"
  by (auto simp: process_msg_a_def process_msg_b_def process_msg_c_def set_nodelay_false_def res_simps
      same_input_def dest!: send_xx_msg_input recv_xx_msg_input split: if_splits)

lemma process_handshake_msg_input:
  assumes "process_handshake_msg ops po n s = Ok (r, s')"
  shows "same_input s s' \<and> remaining (socket_buffer s') = 0"
  using assms process_msg_input
  by (auto simp: process_handshake_msg_def Let_def res_simps sb_reset_def same_input_def split: if_splits)

lemma decrypt_chunk_input:
  "decrypt_chunk ops i (m, s) = Ok (m', s') \<Longrightarrow> same_input s s' \<and> socket_buffer s' = socket_buffer s"
  by (auto simp: decrypt_chunk_def Let_def same_input_def split: if_splits option.splits)

lemma decrypt_loop_input:
  "decrypt_loop ops is (m, s) = Ok (m', s') \<Longrightarrow> same_input s s' \<and> socket_buffer s' = socket_buffer s"
proof (induction "is" arbitrary: m s)
  case Nil
  then show ?case by (simp add: same_input_def)
next
  case (Cons i "is")
  then obtain m1 s1 where "decrypt_chunk ops i (m, s) = Ok (m1, s1)" "decrypt_loop ops is (m1, s1) = Ok (m', s')"
    by (auto simp: res_simps)
  with Cons.IH [of m1 s1] decrypt_chunk_input [of ops i m s m1 s1] show ?case by (simp add: same_input_def)
qed

lemma decrypt_input:
  assumes "decrypt ops s = Ok (m, s')"
  shows "same_input s s' \<and> socket_buffer s' = socket_buffer s"
proof -
  from assms obtain "is" msg msg' where "decrypt_loop ops is (msg, s\<lparr>incoming_msg := (incoming_msg s)\<lparr>message := []\<rparr>\<rparr>) = Ok (msg', s')"
    by (auto simp: decrypt_def Let_def res_simps split: if_splits)
  from decrypt_loop_input [OF this] show ?thesis by (simp add: same_input_def)
qed

lemma process_incoming_msg_progress:
  assumes "process_incoming_msg ops po s = Ok (r, s')" and "0 < pending_bytes (incoming_msg s)"
  shows "same_input s s' \<and> (remaining (socket_buffer s') < remaining (socket_buffer s) \<or>
    remaining (socket_buffer s') = remaining (socket_buffer s) \<and>
    size_bytes (incoming_msg s') = size_bytes (incoming_msg s) \<and>
    (0 < remaining (socket_buffer s) \<longrightarrow> pending_bytes (incoming_msg s') < pending_bytes (incoming_msg s)) \<or>
    remaining (socket_buffer s) = 0 \<and> remaining (socket_buffer s') = 0)"
  using assms
  by (auto simp: process_incoming_msg_def Let_def res_simps same_input_def sb_shift_def min_def
      dest!: process_handshake_msg_input decrypt_input split: if_splits)

lemma sb_slice_length: "sb_slice sb k = Ok bs \<Longrightarrow> length bs = k"
  by (auto simp: sb_slice_def split: if_splits)

lemma attempt_to_read_length_progress:
  assumes "attempt_to_read_length ops s = Ok s'" and "0 < remaining (socket_buffer s)"
  shows "same_input s s' \<and> (remaining (socket_buffer s') < remaining (socket_buffer s) \<or>
    remaining (socket_buffer s') = remaining (socket_buffer s) \<and>
    length (size_bytes (incoming_msg s')) < length (size_bytes (incoming_msg s)))"
proof -
  define k where "k = min (remaining (socket_buffer s)) (PAYLOAD_SIZE - length (size_bytes (incoming_msg s)))"
  have le: "length (size_bytes (incoming_msg s)) \<le> PAYLOAD_SIZE"
    using assms(1) by (auto simp: attempt_to_read_length_def Let_def split: if_splits)
  from assms(1) obtain bs sb' where bs: "sb_slice (socket_buffer s) k = Ok bs"
    and sh: "sb_shift k (socket_buffer s) = Ok sb'"
    unfolding attempt_to_read_length_def Let_def k_def [symmetric]
    by (cases "sb_slice (socket_buffer s) k"; cases "sb_shift k (socket_buffer s)") (simp_all split: if_splits)
  have s': "s' = s\<lparr>socket_buffer := sb', incoming_msg := incoming_msg s'\<rparr>"
    and sz: "length (size_bytes (incoming_msg s) @ bs) = PAYLOAD_SIZE \<Longrightarrow> size_bytes (incoming_msg s') = []"
    using assms(1) unfolding attempt_to_read_length_def Let_def k_def [symmetric] bs sh
    by (auto split: if_splits)
  have sb': "remaining (socket_buffer s') = remaining (socket_buffer s) - k" "socket s' = socket s"
    using sh by (subst s', auto simp: sb_shift_def split: if_splits)+
  show ?thesis
  proof (cases "k = 0")
    case True
    then have "length (size_bytes (incoming_msg s)) = PAYLOAD_SIZE" using le assms(2) by (simp add: k_def)
    then show ?thesis using True sz sb' sb_slice_length [OF bs] by (simp add: same_input_def PAYLOAD_SIZE_def)
  next
    case False
    then show ?thesis using sb' assms(2) by (simp add: same_input_def)
  qed
qed

lemma process_buffered_progress:
  assumes "process_buffered ops po s = Ok (r, s')" and "0 < remaining (socket_buffer s)"
  shows "same_input s s' \<and> (s', s) \<in> read_order"
proof (cases "pending_bytes (incoming_msg s) = 0")
  case True
  with assms(1) obtain s1 where s1: "attempt_to_read_length ops s = Ok s1"
    and r: "if pending_bytes (incoming_msg s1) \<noteq> 0 then process_incoming_msg ops po s1 = Ok (r, s') else s' = s1"
    by (auto simp: process_buffered_def res_simps split: if_splits)
  note p = attempt_to_read_length_progress [OF s1 assms(2)]
  show ?thesis
  proof (cases "pending_bytes (incoming_msg s1) = 0")
    case False
    with r process_incoming_msg_progress [of ops po s1 r s'] p assms(2) show ?thesis by (auto simp: same_input_def)
  qed (use p r in \<open>auto simp: same_input_def\<close>)
next
  case False
  with assms(1) have "process_incoming_msg ops po s = Ok (r, s')" by (simp add: process_buffered_def)
  from process_incoming_msg_progress [OF this] False assms(2) show ?thesis by (auto simp: same_input_def)
qed

lemma rx_size_Cons: "rx_size (e # es) = (case e of ReadData bs \<Rightarrow> Suc (length bs) | _ \<Rightarrow> 1) + rx_size es"
  by (simp add: rx_size_def)

lemma socket_read_progress:
  assumes "socket_read len sk = (ReadData bs, sk')" and "bs \<noteq> []"
  shows "rx_size (rx sk') < rx_size (rx sk)"
  using assms by (auto simp: socket_read_def rx_size_Cons split: list.splits read_event.splits if_splits)

lemma read_from_socket_progress:
  assumes "read_from_socket ops po s = Ok (r, s')" and "r = Complete m \<or> r = Incomplete"
  shows "(s', s) \<in> read_order"
proof -
  define t where "t = (if is_exhausted (socket_buffer s)
    then s\<lparr>socket_buffer := sb_reset (socket_buffer s)\<rparr> else s)"
  have t: "socket t = socket s" "incoming_msg t = incoming_msg s"
    "remaining (socket_buffer t) \<le> remaining (socket_buffer s)"
    by (simp_all add: t_def sb_reset_def)
  show ?thesis
  proof (cases "remaining (socket_buffer t) = 0")
    case False
    then have "process_buffered ops po t = Ok (r, s')"
      using assms(1) by (simp add: read_from_socket_def t_def Let_def)
    from process_buffered_progress [OF this] False t show ?thesis by (auto simp: same_input_def)
  next
    case True
    with assms obtain bs sk u where bs: "socket_read (read_size t - offset (socket_buffer t)) (socket t) = (ReadData bs, sk)"
      and ne: "bs \<noteq> []" and u: "u = t\<lparr>socket := sk,
        socket_buffer := (sb_write bs (socket_buffer t))\<lparr>remaining := length bs\<rparr>\<rparr>"
      and p: "process_buffered ops po u = Ok (r, s')"
      unfolding read_from_socket_def Let_def t_def [symmetric]
      by (auto split: if_splits prod.splits read_event.splits)
    have "0 < remaining (socket_buffer u)" using ne u by simp
    from process_buffered_progress [OF p this] have "same_input u s'" by simp
    with socket_read_progress [OF bs ne] u t show ?thesis by (simp add: same_input_def)
  qed
qed

section \<open>The loop without fuel\<close>

function read_stream_all ::
    "'ns noise_ops \<Rightarrow> bytes res \<Rightarrow> (bytes \<Rightarrow> 'c \<Rightarrow> unit res \<times> 'c) \<Rightarrow> 'c \<Rightarrow> 'ns low_level
      \<Rightarrow> bool res \<times> 'c \<times> 'ns low_level" where
  "read_stream_all ops payload_out process c s =
     (case read_from_socket ops payload_out s of
        Err e \<Rightarrow> (Err e, c, s)
      | Panic \<Rightarrow> (Panic, c, s)
      | Ok (Complete msg, s') \<Rightarrow>
          (case process msg c of
             (Err e, c') \<Rightarrow> (Err e, c', s')
           | (Panic, c') \<Rightarrow> (Panic, c', s')
           | (Ok _, c') \<Rightarrow> read_stream_all ops payload_out process c' s')
      | Ok (Incomplete, s') \<Rightarrow> read_stream_all ops payload_out process c s'
      | Ok (WouldBlock, s') \<Rightarrow> (Ok True, c, s')
      | Ok (Closed, s') \<Rightarrow> (Ok False, c, s'))"
  by pat_completeness auto

termination
  by (relation "inv_image read_order (\<lambda>(ops, po, p, c, s). s)")
    (auto intro: read_from_socket_progress simp del: in_measures)

declare read_stream_all.simps [simp del]

lemma read_stream_loop_agrees:
  "\<exists>n. \<forall>fuel\<ge>n. read_stream_loop fuel ops po process c s = Some (read_stream_all ops po process c s)"
proof (induction ops po process c s rule: read_stream_all.induct)
  case (1 ops po process c s)
  let ?P = "\<lambda>c s n. \<forall>fuel\<ge>n. read_stream_loop fuel ops po process c s = Some (read_stream_all ops po process c s)"
  have step: "?P c s (Suc n)"
    if "\<And>fuel. n \<le> fuel \<Longrightarrow> read_stream_loop (Suc fuel) ops po process c s = Some (read_stream_all ops po process c s)" for n
    using that by (metis Suc_le_D Suc_le_mono)
  show ?case
  proof (cases "read_from_socket ops po s")
    case (Ok rs)
    obtain r s' where rs: "rs = (r, s')" by (cases rs)
    show ?thesis
    proof (cases r)
      case (Complete msg)
      obtain pr c' where pr: "process msg c = (pr, c')" by (cases "process msg c")
      show ?thesis
      proof (cases pr)
        case (Ok u)
        from "1.IH"(1) [OF \<open>read_from_socket ops po s = Ok rs\<close> rs [symmetric] Complete pr [symmetric] Ok] obtain n where "?P c' s' n" by blast
        then have "?P c s (Suc n)"
          using \<open>read_from_socket ops po s = Ok rs\<close> rs Complete pr Ok by (intro step) (simp add: read_stream_all.simps [of ops po process c s])
        then show ?thesis by blast
      qed (use \<open>read_from_socket ops po s = Ok rs\<close> rs Complete pr in
        \<open>auto intro!: exI [of _ "Suc 0"] simp: read_stream_all.simps [of ops po process c s] Suc_le_eq gr0_conv_Suc\<close>)
    next
      case Incomplete
      from "1.IH"(2) [OF Ok rs [symmetric] Incomplete] obtain n where "?P c s' n" by blast
      then have "?P c s (Suc n)"
        using Ok rs Incomplete by (intro step) (simp add: read_stream_all.simps [of ops po process c s])
      then show ?thesis by blast
    qed (use Ok rs in \<open>auto intro!: exI [of _ "Suc 0"] simp: read_stream_all.simps [of ops po process c s] Suc_le_eq gr0_conv_Suc\<close>)
  qed (auto intro!: exI [of _ "Suc 0"] simp: read_stream_all.simps [of ops po process c s] Suc_le_eq gr0_conv_Suc)
qed

text \<open>
  Property C14: The reading loop always ends, whatever the peer sends and however the messages are
  handled: with enough fuel it returns what the loop without fuel computes.
\<close>

theorem read_stream_terminates:
  "\<exists>n. \<forall>k. read_stream_loop (n + k) ops payload_out process c s =
     Some (read_stream_all ops payload_out process c s)"
  using read_stream_loop_agrees [of ops payload_out process c s] by (meson le_add1)

end
