(* ===== verification/ConnectionHandlers.thy ===== *)
theory ConnectionHandlers
  imports NodeState ReadLoop
begin

text \<open>
  A connection and its node (\<^verbatim>\<open>connection/mod.rs\<close> and \<^verbatim>\<open>connection/message_handlers.rs\<close>): what a
  received message does, the high-level handshake, and the sending of queued messages. An
  operation acts on the connection and the node it belongs to.
\<close>

section \<open>Operations\<close>

type_synonym 'ns conn_state = "'ns connection \<times> 'ns node"

definition on_conn :: "('ns connection \<Rightarrow> 'ns connection) \<Rightarrow> ('ns conn_state, unit) action" where
  "on_conn f = act_modify (\<lambda>(c, n). (f c, n))"

definition on_node :: "('ns node \<Rightarrow> 'ns node) \<Rightarrow> ('ns conn_state, unit) action" where
  "on_node f = act_modify (\<lambda>(c, n). (c, f n))"

definition in_node :: "('ns node, 'a) action \<Rightarrow> ('ns conn_state, 'a) action" where
  "in_node m = (\<lambda>(c, n). case m n of (r, n') \<Rightarrow> (r, c, n'))"

definition on_buckets :: "(buckets \<Rightarrow> buckets res) \<Rightarrow> ('ns conn_state, unit) action" where
  "on_buckets f = in_node (act_update (\<lambda>n. res_bind (f (node_buckets n)) (\<lambda>b. Ok (n\<lparr>node_buckets := b\<rparr>))))"

text \<open>A fresh connection; registering its socket with the poll may fail.\<close>

definition connection_new ::
    "'ns node_env \<Rightarrow> 'ns node \<Rightarrow> socket \<Rightarrow> token \<Rightarrow> remote_peer \<Rightarrow> bool \<Rightarrow> 'ns connection res" where
  "connection_new env n sk tok peer initiator =
     (let ll = low_level_new (socket_so_linger (config n)) (init_session env) sk initiator
                 (unat (socket_read_size (config n))) (unat (socket_write_size (config n)))
      in if poll_register env tok
         then Ok \<lparr>remote_peer = peer, low_level = ll, remote_end_networks = {||},
                  stats = connection_stats_new (now_ms env), pending_messages = message_queues_new,
                  wire_version = WIRE_PROTOCOL_CURRENT_VERSION\<rparr>
         else Err IoError)"

text \<open>Only broadcasts are deduplicated, and only the four kinds that have a queue.\<close>

definition is_packet_duplicate :: "'ns node_env \<Rightarrow> network_packet \<Rightarrow> ('ns node, bool) action" where
  "is_packet_duplicate env p n =
     (case packet_message p of
        [] \<Rightarrow> (Err (Bail ''Invalid message type.''), n)
      | tag # _ \<Rightarrow>
          (case packet_type_try_from tag of
             Err e \<Rightarrow> (Err e, n)
           | Panic \<Rightarrow> (Panic, n)
           | Ok ptype \<Rightarrow>
               (case destination p of
                  Direct _ \<Rightarrow> (Ok False, n)
                | Broadcast _ \<Rightarrow>
                    (let q = deduplication_queues n; msg = packet_message p
                     in case ptype of
                          FinalizationMessage \<Rightarrow>
                            (case check_and_insert (dedup env) (finalizations q) msg of
                               (r, d) \<Rightarrow> (r, n\<lparr>deduplication_queues := q\<lparr>finalizations := d\<rparr>\<rparr>))
                        | Transaction \<Rightarrow>
                            (case check_and_insert (dedup env) (transactions q) msg of
                               (r, d) \<Rightarrow> (r, n\<lparr>deduplication_queues := q\<lparr>transactions := d\<rparr>\<rparr>))
                        | Block \<Rightarrow>
                            (case check_and_insert (dedup env) (blocks q) msg of
                               (r, d) \<Rightarrow> (r, n\<lparr>deduplication_queues := q\<lparr>blocks := d\<rparr>\<rparr>))
                        | FinalizationRecord \<Rightarrow>
                            (case check_and_insert (dedup env) (fin_records q) msg of
                               (r, d) \<Rightarrow> (r, n\<lparr>deduplication_queues := q\<lparr>fin_records := d\<rparr>\<rparr>))
                        | CatchUpStatus \<Rightarrow> (Ok False, n)))))"

definition update_last_seen :: "'ns node_env \<Rightarrow> ('ns conn_state, unit) action" where
  "update_last_seen env = act_get (\<lambda>(c, n).
     if peer_type_of n \<noteq> Bootstrapper then on_conn (\<lambda>c. c\<lparr>stats := (stats c)\<lparr>last_seen := now_ms env\<rparr>\<rparr>)
     else act_return ())"

definition populate_remote_end_networks ::
    "'ns node_env \<Rightarrow> remote_peer \<Rightarrow> networks \<Rightarrow> ('ns conn_state, unit) action" where
  "populate_remote_end_networks env peer nets =
     act_then (on_conn (\<lambda>c. c\<lparr>remote_end_networks := remote_end_networks c |\<union>| nets\<rparr>))
     (act_get (\<lambda>(c, n).
        if conn_remote_peer_type c \<noteq> Bootstrapper
        then on_buckets (insert_into_bucket (now_ms env) peer nets)
        else act_return ()))"

definition add_remote_end_network :: "'ns node_env \<Rightarrow> network_id \<Rightarrow> ('ns conn_state, unit) action" where
  "add_remote_end_network env i = act_get (\<lambda>(c, n).
     act_then (act_ensure (fcard (remote_end_networks c) < MAX_PEER_NETWORKS) ''refusing to add any more networks'')
     (act_then (on_conn (\<lambda>c. c\<lparr>remote_end_networks := finsert i (remote_end_networks c)\<rparr>))
     (act_then (act_ensure (conn_is_post_handshake c) ''missing handshake'')
     (act_get (\<lambda>(c, n). on_buckets (update_network_ids (now_ms env) (remote_peer c) (remote_end_networks c)))))))"

definition remove_remote_end_network :: "'ns node_env \<Rightarrow> network_id \<Rightarrow> ('ns conn_state, unit) action" where
  "remove_remote_end_network env i =
     act_then (on_conn (\<lambda>c. c\<lparr>remote_end_networks := remote_end_networks c |-| {|i|}\<rparr>))
     (act_get (\<lambda>(c, n).
        act_then (act_ensure (conn_is_post_handshake c) ''missing handshake'')
        (on_buckets (update_network_ids (now_ms env) (remote_peer c) (remote_end_networks c)))))"

definition send_ping :: "'ns node_env \<Rightarrow> 'ns connection \<Rightarrow> 'ns connection res" where
  "send_ping env c =
     (let serialized = serialize (wire env) (now_ms env) (netmsg (now_ms env) (NetworkRequest Ping))
      in res_bind (notify_ping (now_ms env) (stats c)) (\<lambda>st.
         Ok (async_send serialized High (c\<lparr>stats := st\<rparr>))))"

definition send_pong :: "'ns node_env \<Rightarrow> 'ns connection \<Rightarrow> 'ns connection" where
  "send_pong env c =
     async_send (serialize (wire env) (now_ms env) (netmsg (now_ms env) (NetworkResponse Pong))) High c"

text \<open>The peers a requestor is told about: random nodes of the buckets, or the other peers.\<close>

definition peer_list_for :: "'ns node_env \<Rightarrow> networks \<Rightarrow> peer_stats list \<Rightarrow> 'ns connection \<Rightarrow> 'ns node \<Rightarrow> p2p_peer list" where
  "peer_list_for env nets conn_stats c n =
     (case peer_type_of n of
        Bootstrapper \<Rightarrow>
          (let random_nodes = List.map_filter remote_peer_peer
                 (get_random_nodes (choose_peers env) (local_id (remote_peer c))
                    (unat (bootstrapper_peer_list_size (config n))) nets (node_buckets n))
           in if random_nodes \<noteq> [] \<and> unat (bootstrapper_wait_minimum_peers (config n)) \<le> length random_nodes
              then random_nodes else [])
      | Node \<Rightarrow>
          map (\<lambda>st. \<lparr>p2p_id = ps_self_id st, p2p_addr = external_address st, p2p_type = ps_peer_type st\<rparr>)
            (filter (\<lambda>st. ps_local_id st \<noteq> local_id (remote_peer c)) conn_stats))"

definition send_peer_list_resp ::
    "'ns node_env \<Rightarrow> networks \<Rightarrow> peer_stats list \<Rightarrow> ('ns conn_state, unit) action" where
  "send_peer_list_resp env nets conn_stats = act_get (\<lambda>(c, n).
     case peer_list_for env nets conn_stats c n of
       [] \<Rightarrow> act_return ()
     | nodes \<Rightarrow> on_conn (async_send (serialize (wire env) (now_ms env)
                   (netmsg (now_ms env) (NetworkResponse (PeerList nodes)))) Normal))"

section \<open>Consensus packets\<close>

definition on_queues :: "(consensus_queues \<Rightarrow> unit res \<times> consensus_queues) \<Rightarrow> 'ns node \<Rightarrow> bool \<times> 'ns node" where
  "on_queues f n = (case f (callback_queue n) of (r, q) \<Rightarrow> (is_ok r, n\<lparr>callback_queue := q\<rparr>))"

text \<open>
  \<^verbatim>\<open>handle_pkt_out\<close>: transactions go to the low priority queue, everything else to the high
  priority one. A message that does not fit is counted and dropped. The queues are never
  disconnected: both of their ends live in a static object.
\<close>

definition handle_pkt_out ::
    "'ns node_env \<Rightarrow> remote_peer_id list \<Rightarrow> remote_peer_id \<Rightarrow> bytes \<Rightarrow> bool \<Rightarrow> ('ns node, unit) action" where
  "handle_pkt_out env dont_relay peer_id msg is_broadcast n =
     (case msg of
        [] \<Rightarrow> (Err (Bail ''Packet payload can't be empty''), n)
      | tag # pl \<Rightarrow>
          (case packet_type_try_from tag of
             Err e \<Rightarrow> (Err e, n)
           | Panic \<Rightarrow> (Panic, n)
           | Ok ptype \<Rightarrow>
               (let request = \<lparr>direction = Inbound peer_id (if is_broadcast then BroadcastMode else DirectMode),
                               variant = ptype, cm_payload = msg, dont_relay_to = dont_relay, omit_status = None\<rparr>
                in if ptype = Transaction
                   then (if length pl > PROTOCOL_MAX_TRANSACTION_SIZE
                         then (Err (Bail ''Transaction size exceeds the limit''), n)
                         else case on_queues (send_in_low_priority_message (channels env) request) n of
                                (True, n') \<Rightarrow> (Ok (), on_export inbound_low_priority_consensus_inc n')
                              | (False, n') \<Rightarrow> (Ok (), on_export inbound_low_priority_consensus_drops_inc
                                  (n'\<lparr>node_bad_events := inc_dropped_low_queue peer_id (node_bad_events n')\<rparr>)))
                   else case on_queues (send_in_high_priority_message (channels env) request) n of
                          (True, n') \<Rightarrow> (Ok (), on_export inbound_high_priority_consensus_inc n')
                        | (False, n') \<Rightarrow> (Ok (), on_export inbound_high_priority_consensus_drops_inc
                            (n'\<lparr>node_bad_events := inc_dropped_high_queue peer_id (node_bad_events n')\<rparr>)))))"

definition handle_incoming_packet ::
    "'ns node_env \<Rightarrow> network_packet \<Rightarrow> remote_peer_id \<Rightarrow> ('ns node, unit) action" where
  "handle_incoming_packet env p peer_id =
     handle_pkt_out env [peer_id] peer_id (packet_message p)
       (case destination p of Broadcast _ \<Rightarrow> True | Direct _ \<Rightarrow> False)"

section \<open>The high-level handshake\<close>

definition promote_to_post_handshake ::
    "'ns node_env \<Rightarrow> p2p_node_id \<Rightarrow> u16 \<Rightarrow> networks \<Rightarrow> wire_protocol_version \<Rightarrow> ('ns conn_state, unit) action" where
  "promote_to_post_handshake env i port nets wv =
     act_then (on_conn (\<lambda>c. c\<lparr>remote_peer := (remote_peer c)\<lparr>self_id := Some i, external_port := port\<rparr>\<rparr>))
     (act_then (on_node (on_export peers_inc))
     (act_then (act_get (\<lambda>(c, n). if conn_remote_peer_type c = Bootstrapper
                                   then on_node (update_last_bootstrap env) else act_return ()))
     (act_then (act_get (\<lambda>(c, n). populate_remote_end_networks env (remote_peer c) nets))
     (act_then (on_conn (\<lambda>c. c\<lparr>wire_version := wv\<rparr>))
     (act_get (\<lambda>(c, n). on_node (register_conn_change env (Promotion (conn_token c)))))))))"

text \<open>The genesis blocks agree when no position that both lists have differs.\<close>

definition genesis_compatible :: "block_hash list \<Rightarrow> block_hash list \<Rightarrow> bool" where
  "genesis_compatible ours theirs \<longleftrightarrow> find (\<lambda>(a, b). a \<noteq> b) (zip ours theirs) = None"

definition check_handshake :: "handshake \<Rightarrow> 'ns node \<Rightarrow> wire_protocol_version res" where
  "check_handshake h n =
     (if \<not> is_compatible_version (node_version h) then Err (Bail ''incompatible client'')
      else if wire_versions h = [] then Err (Bail ''Handshake message lacked wire versions.'')
      else case is_compatible_wire_version (wire_versions h) of
             None \<Rightarrow> Err (Bail ''incompatible wire protocol versions'')
           | Some wv \<Rightarrow>
               if fcard (hs_networks h) > MAX_PEER_NETWORKS then Err (Bail ''too many networks.'')
               else if \<not> genesis_compatible (regenesis_blocks (regenesis n)) (genesis_blocks h)
               then Err (Bail ''Didn't find a common prefix on the genesis block hashes'')
               else Ok wv)"

definition handle_handshake_req ::
    "'ns node_env \<Rightarrow> handshake \<Rightarrow> peer_stats list \<Rightarrow> ('ns conn_state, unit) action" where
  "handle_handshake_req env h conn_stats =
     act_bind (act_get (\<lambda>(c, n). act_result (check_handshake h n))) (\<lambda>wv.
     act_then (promote_to_post_handshake env (remote_id h) (remote_port h) (hs_networks h) wv)
     (act_get (\<lambda>(c, n).
        if peer_type_of n = Bootstrapper then send_peer_list_resp env (hs_networks h) conn_stats
        else act_return ())))"

definition handle_pong :: "'ns node_env \<Rightarrow> ('ns conn_state, unit) action" where
  "handle_pong env = (\<lambda>(c, n). case notify_pong (now_ms env) (stats c) of (r, st) \<Rightarrow> (r, c\<lparr>stats := st\<rparr>, n))"

section \<open>Dispatch\<close>

definition handle_incoming_message ::
    "'ns node_env \<Rightarrow> network_message \<Rightarrow> peer_stats list \<Rightarrow> ('ns conn_state, unit) action" where
  "handle_incoming_message env m conn_stats =
     (case payload m of
        NetworkRequest (Handshake h) \<Rightarrow> handle_handshake_req env h conn_stats
      | pl \<Rightarrow> act_get (\<lambda>(c, n).
          act_then (act_ensure (conn_is_post_handshake c) ''has not yet completed the handshake'')
          (case pl of
             NetworkRequest (Handshake _) \<Rightarrow> act_return ()
           | NetworkRequest Ping \<Rightarrow> on_conn (send_pong env)
           | NetworkResponse Pong \<Rightarrow> handle_pong env
           | NetworkRequest (GetPeers nets) \<Rightarrow> send_peer_list_resp env nets conn_stats
           | NetworkResponse (PeerList ps) \<Rightarrow> on_node (register_conn_change env (NewPeers ps))
           | NetworkRequest (JoinNetwork i) \<Rightarrow> add_remote_end_network env i
           | NetworkRequest (LeaveNetwork i) \<Rightarrow> remove_remote_end_network env i
           | NetworkPacket p \<Rightarrow> in_node (handle_incoming_packet env p (local_id (remote_peer c))))))"

definition process_message :: "'ns node_env \<Rightarrow> peer_stats list \<Rightarrow> bytes \<Rightarrow> ('ns conn_state, unit) action" where
  "process_message env conn_stats bs =
     act_then (update_last_seen env)
     (act_then (on_conn (\<lambda>c. c\<lparr>stats := (stats c)\<lparr>messages_received := messages_received (stats c) + 1,
                  bytes_received := bytes_received (stats c) + word_of_nat (length bs)\<rparr>\<rparr>))
     (act_then (on_node (\<lambda>n. on_export pkt_received_inc (n\<lparr>total_received := total_received n + 1\<rparr>)))
     (act_bind (act_result (deserialize (wire env) (now_ms env) bs)) (\<lambda>m.
        case payload m of
          NetworkPacket p \<Rightarrow> act_get (\<lambda>(c, n).
            if peer_type_of n = Bootstrapper then act_return ()
            else act_bind (in_node (is_packet_duplicate env p)) (\<lambda>dup.
                   if dup then act_return () else handle_incoming_message env m conn_stats))
        | _ \<Rightarrow> handle_incoming_message env m conn_stats))))"

definition read_stream :: "'ns node_env \<Rightarrow> peer_stats list \<Rightarrow> ('ns conn_state, bool) action" where
  "read_stream env conn_stats = (\<lambda>(c, n).
     case read_stream_all (noise env) (produce_handshake_request env n) (process_message env conn_stats)
            (c, n) (low_level c) of
       (r, (c', n'), ll) \<Rightarrow> (r, c'\<lparr>low_level := ll\<rparr>, n'))"

section \<open>Sending\<close>

text \<open>A message is off the queue when writing it fails.\<close>

function send_pending_messages :: "'ns node_env \<Rightarrow> ('ns conn_state, unit) action" where
  "send_pending_messages env (c, n) =
     (case dequeue (pending_messages c) of
        None \<Rightarrow> (Ok (), c, n)
      | Some (msg, q) \<Rightarrow>
          (let c1 = c\<lparr>pending_messages := q\<rparr>
           in case write_to_socket (noise env) msg (low_level c1) of
                Err e \<Rightarrow> (Err e, c1, n)
              | Panic \<Rightarrow> (Panic, c1, n)
              | Ok ll \<Rightarrow>
                  send_pending_messages env
                    (c1\<lparr>low_level := ll,
                        stats := (stats c1)\<lparr>messages_sent := messages_sent (stats c1) + 1,
                                            bytes_sent := bytes_sent (stats c1) + word_of_nat (length msg)\<rparr>\<rparr>,
                     on_export pkt_sent_inc (n\<lparr>total_sent := total_sent n + 1\<rparr>))))"
  by pat_completeness auto

termination
  by (relation "measure (\<lambda>(env, c, n). length (high (pending_messages c)) + length (low (pending_messages c)))")
    (auto simp: dequeue_def split: list.splits)

declare send_pending_messages.simps [simp del]

definition conn_flush_socket :: "'ns node_env \<Rightarrow> ('ns conn_state, unit) action" where
  "conn_flush_socket env = (\<lambda>(c, n).
     case flush_socket (noise env) (low_level c) of
       Ok ll \<Rightarrow> (Ok (), c\<lparr>low_level := ll\<rparr>, n) | Err e \<Rightarrow> (Err e, c, n) | Panic \<Rightarrow> (Panic, c, n))"

end
