(* ===== verification/Reassembly.thy ===== *)
theory Reassembly
  imports Framing
begin

text \<open>
  The receiving side of the stream: whatever way the socket cuts the bytes into reads, the
  reader hands out the messages that were written, one by one and in order, and stops with an
  empty buffer.
\<close>

section \<open>What the reader expects\<close>

definition unread :: "'ns low_level \<Rightarrow> bytes" where
  "unread s = take (remaining (socket_buffer s)) (drop (offset (socket_buffer s)) (buf (socket_buffer s)))"

text \<open>The stream is the framing of the messages, for a receiver in session state \<open>ns\<close>.\<close>

fun frames :: "'ns noise_ops \<Rightarrow> 'ns \<Rightarrow> bytes list \<Rightarrow> bytes \<Rightarrow> bool" where
  "frames ops ns [] str \<longleftrightarrow> str = []"
| "frames ops ns (m # ms) str \<longleftrightarrow>
     (\<exists>c rest ns'. str = be_bytes 4 (length c) @ c @ rest \<and> c \<noteq> [] \<and>
        length c \<le> PROTOCOL_MAX_MESSAGE_SIZE \<and> decrypt_chunks ops ns c = Some (m, ns') \<and>
        frames ops ns' ms rest)"

definition reader_ok :: "'ns noise_ops \<Rightarrow> 'ns low_level \<Rightarrow> bool" where
  "reader_ok ops s \<longleftrightarrow> length (noise_buffer s) = 65535 \<and> 0 < read_size s \<and>
     offset (socket_buffer s) + remaining (socket_buffer s) \<le> read_size s \<and>
     (remaining (socket_buffer s) = 0 \<longrightarrow> offset (socket_buffer s) = 0) \<and>
     transport_ready ops (noise_session s)"

text \<open>
  The reader is between messages or inside one; the bytes it has seen of the current item, the
  unread ones of the buffer and those to come (\<open>str\<close>) make up the framing of \<open>ms\<close>.
\<close>

definition awaits :: "'ns noise_ops \<Rightarrow> 'ns low_level \<Rightarrow> bytes list \<Rightarrow> bytes \<Rightarrow> bool" where
  "awaits ops s ms str \<longleftrightarrow>
     (if pending_bytes (incoming_msg s) = 0
      then length (size_bytes (incoming_msg s)) < 4 \<and>
        frames ops (noise_session s) ms (size_bytes (incoming_msg s) @ unread s @ str)
      else size_bytes (incoming_msg s) = [] \<and>
        (\<exists>c m ms' ns' rest. ms = m # ms' \<and> decrypt_chunks ops (noise_session s) c = Some (m, ns') \<and>
           message (incoming_msg s) @ unread s @ str = c @ rest \<and>
           length (message (incoming_msg s)) + pending_bytes (incoming_msg s) = length c \<and>
           frames ops ns' ms' rest))"

lemma awaits_cong:
  "incoming_msg s' = incoming_msg s \<Longrightarrow> noise_session s' = noise_session s \<Longrightarrow>
     unread s' @ str' = unread s @ str \<Longrightarrow> awaits ops s' ms str' = awaits ops s ms str"
  by (simp add: awaits_def)

lemma length_unread: "reader_ok ops s \<Longrightarrow> length (unread s) = remaining (socket_buffer s)"
  by (auto simp: reader_ok_def unread_def read_size_def)

lemma sb_slice_unread:
  "reader_ok ops s \<Longrightarrow> k \<le> remaining (socket_buffer s) \<Longrightarrow>
     sb_slice (socket_buffer s) k = Ok (take k (unread s))"
  by (auto simp: reader_ok_def sb_slice_def unread_def read_size_def min_def)

text \<open>Shifting consumes the front of the unread bytes.\<close>

lemma sb_shift_unread:
  assumes "reader_ok ops s" and "k \<le> remaining (socket_buffer s)"
  shows "\<exists>sb. sb_shift k (socket_buffer s) = Ok sb \<and> reader_ok ops (s\<lparr>socket_buffer := sb\<rparr>) \<and>
    unread (s\<lparr>socket_buffer := sb\<rparr>) = drop k (unread s) \<and>
    remaining sb = remaining (socket_buffer s) - k"
  using assms
  by (auto simp: sb_shift_def reader_ok_def read_size_def unread_def drop_take add.commute)

lemma reader_ok_update [simp]:
  "reader_ok ops (s\<lparr>incoming_msg := im\<rparr>) = reader_ok ops s"
  "unread (s\<lparr>incoming_msg := im\<rparr>) = unread s"
  "unread (s\<lparr>noise_session := ns\<rparr>) = unread s"
  "unread (s\<lparr>noise_buffer := nb\<rparr>) = unread s"
  "unread (s\<lparr>socket := sk\<rparr>) = unread s"
  "reader_ok ops (s\<lparr>socket := sk\<rparr>) = reader_ok ops s"
  by (simp_all add: reader_ok_def unread_def read_size_def)

lemma frames_header:
  assumes "frames ops ns ms str" and "str \<noteq> []"
  obtains c rest m ms' ns' where "ms = m # ms'" "str = be_bytes 4 (length c) @ c @ rest" "c \<noteq> []"
    "length c \<le> PROTOCOL_MAX_MESSAGE_SIZE" "decrypt_chunks ops ns c = Some (m, ns')" "frames ops ns' ms' rest"
  using assms by (cases ms) auto

lemma frames_short: "frames ops ns ms str \<Longrightarrow> length str < 4 \<Longrightarrow> ms = [] \<and> str = []"
  by (cases ms) auto

lemma decode_length: "length c \<le> PROTOCOL_MAX_MESSAGE_SIZE \<Longrightarrow> from_be_bytes (be_bytes 4 (length c)) = length c"
  by (simp add: from_be_bytes_be_bytes PROTOCOL_MAX_MESSAGE_SIZE_def)

section \<open>Reading the length\<close>

lemma attempt_to_read_length_awaits:
  assumes ok: "reader_ok ops s" and aw: "awaits ops s ms str"
    and pend: "pending_bytes (incoming_msg s) = 0" and rem: "0 < remaining (socket_buffer s)"
  shows "\<exists>s'. attempt_to_read_length ops s = Ok s' \<and> reader_ok ops s' \<and> awaits ops s' ms str \<and>
    socket s' = socket s \<and> remaining (socket_buffer s') < remaining (socket_buffer s)"
proof -
  define im where "im = incoming_msg s"
  define k where "k = min (remaining (socket_buffer s)) (4 - length (size_bytes im))"
  have sz: "length (size_bytes im) < 4" and fr: "frames ops (noise_session s) ms (size_bytes im @ unread s @ str)"
    using aw pend by (auto simp: awaits_def im_def)
  have k: "k \<le> remaining (socket_buffer s)" "0 < k" using sz rem by (auto simp: k_def)
  obtain sb where sb: "sb_shift k (socket_buffer s) = Ok sb" "reader_ok ops (s\<lparr>socket_buffer := sb\<rparr>)"
    "unread (s\<lparr>socket_buffer := sb\<rparr>) = drop k (unread s)" "remaining sb = remaining (socket_buffer s) - k"
    using sb_shift_unread [OF ok k(1)] by blast
  define hd' where "hd' = size_bytes im @ take k (unread s)"
  have split: "size_bytes im @ unread s @ str = hd' @ drop k (unread s) @ str"
    by (simp add: hd'_def)
  have lh: "length hd' = length (size_bytes im) + k"
    using length_unread [OF ok] k by (simp add: hd'_def)
  have post: "is_post_handshake ops s" using ok by (simp add: is_post_handshake_ready reader_ok_def)
  note unfold = attempt_to_read_length_def Let_def PAYLOAD_SIZE_def
  show ?thesis
  proof (cases "length hd' = 4")
    case False
    then have "attempt_to_read_length ops s = Ok (s\<lparr>socket_buffer := sb, incoming_msg := im\<lparr>size_bytes := hd'\<rparr>\<rparr>)"
      using sz sb(1) sb_slice_unread [OF ok k(1)]
      by (simp add: unfold hd'_def flip: im_def k_def)
    moreover have "length hd' < 4" using False lh sz unfolding k_def by linarith
    ultimately show ?thesis
      using sb k fr [unfolded split] pend rem by (auto simp: awaits_def im_def)
  next
    case True
    have "size_bytes im @ unread s @ str \<noteq> []" using True split by auto
    with fr obtain c rest m ms' ns' where c: "ms = m # ms'"
      "size_bytes im @ unread s @ str = be_bytes 4 (length c) @ c @ rest" "c \<noteq> []"
      "length c \<le> PROTOCOL_MAX_MESSAGE_SIZE" "decrypt_chunks ops (noise_session s) c = Some (m, ns')"
      "frames ops ns' ms' rest"
      by (rule frames_header)
    from c(2) split True have hd: "hd' = be_bytes 4 (length c)" "drop k (unread s) @ str = c @ rest"
      by (simp_all add: append_eq_append_conv)
    moreover have "length (size_bytes im) + min (length (unread s)) k = 4"
      using True by (simp add: hd'_def)
    ultimately have "attempt_to_read_length ops s = Ok (s\<lparr>socket_buffer := sb,
        incoming_msg := im\<lparr>size_bytes := [], pending_bytes := length c, message := []\<rparr>\<rparr>)"
      using sz sb(1) sb_slice_unread [OF ok k(1)] post c(3,4) True
      by (simp add: unfold decode_length flip: im_def k_def hd'_def)
    then show ?thesis
      using sb k c hd(2) by (auto simp: awaits_def)
  qed
qed

section \<open>Reading a message\<close>

lemma reader_ok_session:
  "reader_ok ops s \<Longrightarrow> transport_ready ops ns \<Longrightarrow> length nb = 65535 \<Longrightarrow>
     reader_ok ops (s\<lparr>noise_session := ns, noise_buffer := nb\<rparr>)"
  by (simp add: reader_ok_def read_size_def)

lemma decrypt_chunks_ready:
  "noise_in_place ops \<Longrightarrow> decrypt_chunks ops ns c = Some (m, ns') \<Longrightarrow> transport_ready ops ns \<Longrightarrow>
     transport_ready ops ns'"
proof (induction ops ns c arbitrary: m rule: decrypt_chunks.induct)
  case (1 ops ns c)
  show ?case
  proof (cases "c = []")
    case False
    with "1.prems"(2) obtain p ns1 m1 where r: "recv_message ops ns (take 65535 c) = Some (p, ns1)"
      "\<not> min 65535 (length c) < mac_length ops" "decrypt_chunks ops ns1 (drop 65535 c) = Some (m1, ns')"
      by (rule decrypt_chunks_Some)
    have "transport_ready ops ns1" by (rule noise_recv_ready [OF "1.prems"(1) r(1) "1.prems"(3)])
    with "1.IH" [OF False, of "(p, ns1)" p ns1] r "1.prems"(1) show ?thesis by simp
  qed (use "1.prems" in simp)
qed

text \<open>The whole message has arrived: it is decrypted and the reader is between messages again.\<close>

lemma decrypt_awaits:
  assumes "noise_in_place ops" and "reader_ok ops s"
    and "decrypt_chunks ops (noise_session s) (message (incoming_msg s)) = Some (m, ns)"
    and "pending_bytes (incoming_msg s) = 0" and "size_bytes (incoming_msg s) = []"
    and "frames ops ns ms (unread s @ str)"
  shows "\<exists>s'. decrypt ops s = Ok (m, s') \<and> reader_ok ops s' \<and> awaits ops s' ms str \<and>
    socket s' = socket s \<and> socket_buffer s' = socket_buffer s"
proof -
  have "length (noise_buffer s) = 65535" using assms(2) by (simp add: reader_ok_def)
  from decrypt_Ok [OF assms(1) this assms(3)] obtain nb s' where
    s': "decrypt ops s = Ok (m, s')" "length nb = 65535"
    "s' = s\<lparr>incoming_msg := (incoming_msg s)\<lparr>message := []\<rparr>, noise_session := ns, noise_buffer := nb\<rparr>"
    by blast
  have "transport_ready ops ns"
    using decrypt_chunks_ready [OF assms(1,3)] assms(2) by (simp add: reader_ok_def)
  with s' assms(2,4-6) show ?thesis
    by (auto simp: awaits_def reader_ok_def read_size_def)
qed

lemma process_incoming_msg_awaits:
  assumes ip: "noise_in_place ops" and ok: "reader_ok ops s" and aw: "awaits ops s ms str"
    and pend: "pending_bytes (incoming_msg s) \<noteq> 0"
  shows "\<exists>r s'. process_incoming_msg ops payload_out s = Ok (r, s') \<and> reader_ok ops s' \<and> socket s' = socket s \<and>
    remaining (socket_buffer s') = remaining (socket_buffer s)
      - min (pending_bytes (incoming_msg s)) (remaining (socket_buffer s)) \<and>
    (r = Incomplete \<and> awaits ops s' ms str \<or>
     (\<exists>m ms'. r = Complete m \<and> ms = m # ms' \<and> awaits ops s' ms' str))"
proof -
  define im where "im = incoming_msg s"
  define k where "k = min (pending_bytes im) (remaining (socket_buffer s))"
  from aw pend obtain c m ms' ns' rest where c: "ms = m # ms'" "size_bytes im = []"
    "decrypt_chunks ops (noise_session s) c = Some (m, ns')"
    "message im @ unread s @ str = c @ rest" "length (message im) + pending_bytes im = length c"
    "frames ops ns' ms' rest"
    unfolding awaits_def im_def by auto
  have k: "k \<le> remaining (socket_buffer s)" "k \<le> pending_bytes im" by (auto simp: k_def)
  obtain sb where sb: "sb_shift k (socket_buffer s) = Ok sb" "reader_ok ops (s\<lparr>socket_buffer := sb\<rparr>)"
    "unread (s\<lparr>socket_buffer := sb\<rparr>) = drop k (unread s)" "remaining sb = remaining (socket_buffer s) - k"
    using sb_shift_unread [OF ok k(1)] by blast
  define im2 where "im2 = im\<lparr>message := message im @ take k (unread s), pending_bytes := pending_bytes im - k\<rparr>"
  define s2 where "s2 = s\<lparr>incoming_msg := im2, socket_buffer := sb\<rparr>"
  have post: "is_post_handshake ops (s\<lparr>incoming_msg := x\<rparr>)"
    "is_post_handshake ops (s\<lparr>incoming_msg := x, socket_buffer := y\<rparr>)" for x y
    using ok by (auto simp: is_post_handshake_def reader_ok_def transport_ready_def)
  have step: "process_incoming_msg ops payload_out s =
      (if pending_bytes im2 = 0 then res_bind (decrypt ops s2) (\<lambda>(m, s3). Ok (Complete m, s3)) else Ok (Incomplete, s2))"
    using sb(1) sb_slice_unread [OF ok k(1)] post
    by (simp add: process_incoming_msg_def Let_def im2_def s2_def flip: im_def k_def)
  have ok2: "reader_ok ops s2" and un2: "unread s2 = drop k (unread s)"
    using sb(2,3) by (simp_all add: s2_def reader_ok_def unread_def read_size_def)
  have str: "message im2 @ unread s2 @ str = c @ rest" using c(4) by (simp add: im2_def un2)
  have len: "length (message im2) + pending_bytes im2 = length c"
    using c(5) k length_unread [OF ok] by (simp add: im2_def)
  show ?thesis
  proof (cases "pending_bytes im2 = 0")
    case False
    have "awaits ops s2 ms str"
      unfolding awaits_def using False c str len by (auto simp: s2_def im2_def)
    with False step ok2 sb(4) show ?thesis by (auto simp: s2_def simp flip: im_def k_def)
  next
    case True
    with str len have "message im2 = c" "unread s2 @ str = rest" by (simp_all add: append_eq_append_conv)
    with decrypt_awaits [OF ip ok2, of m ns' ms' str] True c obtain s3 where
      "decrypt ops s2 = Ok (m, s3)" "reader_ok ops s3" "awaits ops s3 ms' str" "socket s3 = socket s2"
      "socket_buffer s3 = socket_buffer s2"
      by (auto simp: s2_def im2_def)
    with True step c(1) sb(4) show ?thesis by (auto simp: s2_def simp flip: im_def k_def)
  qed
qed

section \<open>One call of the reader\<close>

lemma process_buffered_awaits:
  assumes ip: "noise_in_place ops" and ok: "reader_ok ops s" and aw: "awaits ops s ms str"
    and rem: "0 < remaining (socket_buffer s)"
  shows "\<exists>r s'. process_buffered ops payload_out s = Ok (r, s') \<and> reader_ok ops s' \<and> socket s' = socket s \<and>
    remaining (socket_buffer s') < remaining (socket_buffer s) \<and>
    (r = Incomplete \<and> awaits ops s' ms str \<or>
     (\<exists>m ms'. r = Complete m \<and> ms = m # ms' \<and> awaits ops s' ms' str))"
proof (cases "pending_bytes (incoming_msg s) = 0")
  case True
  obtain s1 where s1: "attempt_to_read_length ops s = Ok s1" "reader_ok ops s1" "awaits ops s1 ms str"
    "socket s1 = socket s" "remaining (socket_buffer s1) < remaining (socket_buffer s)"
    using attempt_to_read_length_awaits [OF ok aw True rem] by blast
  show ?thesis
  proof (cases "pending_bytes (incoming_msg s1) = 0")
    case p: True
    with True s1 show ?thesis by (auto simp: process_buffered_def)
  next
    case p: False
    with True s1(1) have "process_buffered ops payload_out s = process_incoming_msg ops payload_out s1"
      by (simp add: process_buffered_def)
    with process_incoming_msg_awaits [OF ip s1(2,3) p, of payload_out] s1(4,5) show ?thesis by force
  qed
next
  case False
  then have "process_buffered ops payload_out s = process_incoming_msg ops payload_out s"
    by (simp add: process_buffered_def)
  with process_incoming_msg_awaits [OF ip ok aw False, of payload_out] rem False show ?thesis by force
qed

text \<open>The socket delivers the stream in nonempty segments.\<close>

definition delivers :: "socket \<Rightarrow> bytes \<Rightarrow> bool" where
  "delivers sk str \<longleftrightarrow> (\<exists>segs. rx sk = map ReadData segs \<and> [] \<notin> set segs \<and> concat segs = str)"

lemma socket_read_delivers:
  assumes "delivers sk str" and "0 < len"
  shows "(str = [] \<and> socket_read len sk = (ReadBlocks, sk)) \<or>
    (\<exists>bs rest sk'. socket_read len sk = (ReadData bs, sk') \<and> bs \<noteq> [] \<and> length bs \<le> len \<and>
       str = bs @ rest \<and> delivers sk' rest)"
proof -
  obtain segs where s: "rx sk = map ReadData segs" "[] \<notin> set segs" "concat segs = str"
    using assms(1) by (auto simp: delivers_def)
  show ?thesis
  proof (cases segs)
    case Nil
    with s show ?thesis by (simp add: socket_read_def)
  next
    case (Cons b bs)
    show ?thesis
    proof (cases "length b \<le> len")
      case True
      with s Cons show ?thesis by (auto simp: socket_read_def delivers_def)
    next
      case False
      then have "rx (snd (socket_read len sk)) = map ReadData (drop len b # bs)" "drop len b \<noteq> []"
        using s(1) Cons by (simp_all add: socket_read_def)
      then have "delivers (snd (socket_read len sk)) (drop len b @ concat bs)"
        using s(2) Cons unfolding delivers_def by (intro exI [of _ "drop len b # bs"]) auto
      moreover have "socket_read len sk = (ReadData (take len b), snd (socket_read len sk))"
        using s(1) Cons False by (simp add: socket_read_def)
      moreover have "take len b \<noteq> []" using False assms(2) by auto
      moreover have "str = take len b @ drop len b @ concat bs" using s(3) Cons by simp
      moreover have "length (take len b) \<le> len" by simp
      ultimately show ?thesis by blast
    qed
  qed
qed

definition input_left :: "'ns low_level \<Rightarrow> bytes \<Rightarrow> nat" where
  "input_left s str = remaining (socket_buffer s) + length str"

lemma fill_buffer:
  assumes "reader_ok ops s" and "remaining (socket_buffer s) = 0" and "length bs \<le> read_size s"
    and "bs \<noteq> []" and "awaits ops s ms (bs @ rest)"
    and s'_def: "s' = s\<lparr>socket := sk, socket_buffer := (sb_write bs (socket_buffer s))\<lparr>remaining := length bs\<rparr>\<rparr>"
  shows "reader_ok ops s'" and "awaits ops s' ms rest"
proof -
  have off: "offset (socket_buffer s) = 0" using assms(1,2) by (simp add: reader_ok_def)
  then have un: "unread s' = bs" "unread s = []"
    using assms(2) by (simp_all add: s'_def unread_def sb_write_def)
  show "reader_ok ops s'"
    using assms(1,3,4) off by (auto simp: s'_def reader_ok_def read_size_def sb_write_def)
  show "awaits ops s' ms rest"
    using assms(5) un by (subst awaits_cong [of _ s _ "bs @ rest"]) (simp_all add: s'_def)
qed

lemma read_from_socket_awaits:
  assumes ip: "noise_in_place ops" and ok: "reader_ok ops s" and aw: "awaits ops s ms str"
    and dl: "delivers (socket s) str"
  shows "\<exists>r s' str'. read_from_socket ops payload_out s = Ok (r, s') \<and> reader_ok ops s' \<and> delivers (socket s') str' \<and>
    (input_left s str = 0 \<and> r = WouldBlock \<and> s' = s \<or>
     input_left s' str' < input_left s str \<and>
       (r = Incomplete \<and> awaits ops s' ms str' \<or>
        (\<exists>m ms'. r = Complete m \<and> ms = m # ms' \<and> awaits ops s' ms' str')))"
proof -
  have nex: "\<not> is_exhausted (socket_buffer s)"
    using ok by (cases "remaining (socket_buffer s) = 0") (auto simp: is_exhausted_def reader_ok_def read_size_def)
  show ?thesis
  proof (cases "remaining (socket_buffer s) = 0")
    case False
    then have "read_from_socket ops payload_out s = process_buffered ops payload_out s"
      using nex by (simp add: read_from_socket_def Let_def)
    with process_buffered_awaits [OF ip ok aw, of payload_out] False dl show ?thesis
      by (fastforce simp: input_left_def)
  next
    case rem: True
    then have off: "offset (socket_buffer s) = 0" using ok by (simp add: reader_ok_def)
    have pos: "0 < read_size s" using ok by (simp add: reader_ok_def)
    from socket_read_delivers [OF dl pos] consider
      (blocked) "str = []" "socket_read (read_size s) (socket s) = (ReadBlocks, socket s)"
    | (read_some) bs rest sk where "socket_read (read_size s) (socket s) = (ReadData bs, sk)" "bs \<noteq> []"
        "length bs \<le> read_size s" "str = bs @ rest" "delivers sk rest"
      by blast
    then show ?thesis
    proof cases
      case blocked
      with nex rem off ok dl show ?thesis
        by (auto simp: read_from_socket_def Let_def input_left_def)
    next
      case read_some
      define s1 where "s1 = s\<lparr>socket := sk, socket_buffer := (sb_write bs (socket_buffer s))\<lparr>remaining := length bs\<rparr>\<rparr>"
      have "awaits ops s ms (bs @ rest)" using aw read_some(4) by simp
      note s1 = fill_buffer [OF ok rem read_some(3,2) this s1_def]
      have "read_from_socket ops payload_out s = process_buffered ops payload_out s1"
        using nex rem off read_some(1,2) by (simp add: read_from_socket_def Let_def s1_def)
      moreover have "0 < remaining (socket_buffer s1)" "socket s1 = sk" "input_left s1 rest = input_left s str"
        using read_some(2,4) rem by (simp_all add: s1_def input_left_def)
      ultimately show ?thesis
        using process_buffered_awaits [OF ip s1, of payload_out] read_some(5) by (fastforce simp: input_left_def)
    qed
  qed
qed

section \<open>The reading loop\<close>

text \<open>Processing the messages one after the other, up to the first that fails.\<close>

fun process_all :: "(bytes \<Rightarrow> 'c \<Rightarrow> unit res \<times> 'c) \<Rightarrow> bytes list \<Rightarrow> 'c \<Rightarrow> bool res \<times> 'c" where
  "process_all process [] c = (Ok True, c)"
| "process_all process (m # ms) c =
     (case process m c of
        (Ok _, c') \<Rightarrow> process_all process ms c'
      | (Err e, c') \<Rightarrow> (Err e, c')
      | (Panic, c') \<Rightarrow> (Panic, c'))"

lemma awaits_nothing_left:
  assumes "awaits ops s ms str" and "reader_ok ops s" and "input_left s str = 0"
  shows "ms = []"
proof -
  have un: "unread s = []" "str = []"
    using length_unread [OF assms(2)] assms(3) by (auto simp: input_left_def)
  show ?thesis
  proof (cases "pending_bytes (incoming_msg s) = 0")
    case True
    with assms(1) un have "frames ops (noise_session s) ms (size_bytes (incoming_msg s))"
      "length (size_bytes (incoming_msg s)) < 4" by (auto simp: awaits_def)
    then show ?thesis by (blast dest: frames_short)
  next
    case False
    with assms(1) un obtain c rest where "message (incoming_msg s) = c @ rest"
      "length (message (incoming_msg s)) + pending_bytes (incoming_msg s) = length c"
      unfolding awaits_def by auto
    with False show ?thesis by simp
  qed
qed

lemma read_stream_loop_awaits:
  assumes "noise_in_place ops" and "reader_ok ops s" and "awaits ops s ms str" and "delivers (socket s) str"
    and "input_left s str < fuel"
  shows "\<exists>s'. read_stream_loop fuel ops payload_out process c s =
      Some (fst (process_all process ms c), snd (process_all process ms c), s') \<and>
    (is_ok (fst (process_all process ms c)) \<longrightarrow> remaining (socket_buffer s') = 0)"
  using assms(2-5)
proof (induction fuel arbitrary: s ms str c)
  case 0
  then show ?case by simp
next
  case (Suc fuel)
  from read_from_socket_awaits [OF assms(1) Suc.prems(1-3), of payload_out] obtain r s1 str1 where
    r: "read_from_socket ops payload_out s = Ok (r, s1)" "reader_ok ops s1" "delivers (socket s1) str1"
    and alt: "input_left s str = 0 \<and> r = WouldBlock \<and> s1 = s \<or>
     input_left s1 str1 < input_left s str \<and>
       (r = Incomplete \<and> awaits ops s1 ms str1 \<or>
        (\<exists>m ms'. r = Complete m \<and> ms = m # ms' \<and> awaits ops s1 ms' str1))"
    by blast
  from alt consider (stop) "input_left s str = 0" "r = WouldBlock" "s1 = s"
    | (more) "input_left s1 str1 < input_left s str" "r = Incomplete" "awaits ops s1 ms str1"
    | (msg) m ms' where "input_left s1 str1 < input_left s str" "r = Complete m" "ms = m # ms'" "awaits ops s1 ms' str1"
    by auto
  then show ?case
  proof cases
    case stop
    have "ms = []" by (rule awaits_nothing_left [OF Suc.prems(2,1) stop(1)])
    with r(1) stop show ?thesis by (auto simp: input_left_def)
  next
    case more
    with Suc.prems(4) have "input_left s1 str1 < fuel" by simp
    from Suc.IH [OF r(2) more(3) r(3) this, of c] r(1) more(2) show ?thesis by auto
  next
    case msg
    with Suc.prems(4) have "input_left s1 str1 < fuel" by simp
    note ih = Suc.IH [OF r(2) msg(4) r(3) this]
    obtain q c1 where "process m c = (q, c1)" by fastforce
    then show ?thesis
      using ih [of c1] r(1) msg(2,3) by (cases q) (simp_all add: is_ok_iff)
  qed
qed

section \<open>From writer to reader\<close>

fun write_all :: "'ns noise_ops \<Rightarrow> bytes list \<Rightarrow> 'ns low_level \<Rightarrow> 'ns low_level res" where
  "write_all ops [] s = Ok s"
| "write_all ops (m # ms) s = res_bind (write_to_socket ops m s) (write_all ops ms)"

definition sendable :: "bytes \<Rightarrow> bool" where
  "sendable m \<longleftrightarrow> m \<noteq> [] \<and> encrypted_length (length m) \<le> PROTOCOL_MAX_MESSAGE_SIZE"

lemma write_to_socket_frames:
  assumes "noise_channel ops sync" and "can_send sync b s" and "sendable m"
  shows "\<exists>s' c b'. write_to_socket ops m s = Ok s' \<and> out_stream s' = out_stream s @ be_bytes 4 (length c) @ c \<and>
    c \<noteq> [] \<and> length c \<le> PROTOCOL_MAX_MESSAGE_SIZE \<and> decrypt_chunks ops b c = Some (m, b') \<and> can_send sync b' s'"
proof -
  define s0 where "s0 = s\<lparr>output_queue := output_queue s @ be_bytes 4 (encrypted_length (length m))\<rparr>"
  have mac: "mac_length ops = 16" using assms(1) by (simp add: noise_channel_def noise_in_place_def)
  have w: "write_to_socket ops m s = encrypt_loop ops m s0"
    unfolding write_to_socket_def encrypt_and_enqueue_def Let_def mac noise_lengths PAYLOAD_SIZE_def s0_def
      encrypted_length_def ..
  have "can_send sync b s0" using assms(2) by (simp add: s0_def can_send_def buffers_ok_def read_size_def)
  from encrypt_loop_spec [OF assms(1) this, of m] obtain s' c b' where c:
    "encrypt_loop ops m s0 = Ok s'" "out_stream s' = out_stream s0 @ c"
    "length c = encrypted_length (length m)" "decrypt_chunks ops b c = Some (m, b')" "can_send sync b' s'"
    by blast
  have "c \<noteq> []" using c(3,4) assms(3) by (auto simp: sendable_def)
  with c w assms(3) show ?thesis
    by (auto simp: sendable_def s0_def out_stream_def)
qed

lemma write_all_frames:
  assumes "noise_channel ops sync" and "can_send sync b s" and "list_all sendable ms"
  shows "\<exists>s' str. write_all ops ms s = Ok s' \<and> out_stream s' = out_stream s @ str \<and> frames ops b ms str"
  using assms(2,3)
proof (induction ms arbitrary: b s)
  case Nil
  then show ?case by simp
next
  case (Cons m ms)
  from Cons.prems have "sendable m" by simp
  from write_to_socket_frames [OF assms(1) Cons.prems(1) this] obtain s1 c b1 where c:
    "write_to_socket ops m s = Ok s1" "out_stream s1 = out_stream s @ be_bytes 4 (length c) @ c"
    "c \<noteq> []" "length c \<le> PROTOCOL_MAX_MESSAGE_SIZE" "decrypt_chunks ops b c = Some (m, b1)" "can_send sync b1 s1"
    by blast
  from Cons.IH [OF c(6)] Cons.prems(2) obtain s2 str where
    "write_all ops ms s1 = Ok s2" "out_stream s2 = out_stream s1 @ str" "frames ops b1 ms str" by auto
  with c show ?case
    by (intro exI [of _ s2] exI [of _ "be_bytes 4 (length c) @ c @ str"]) auto
qed

text \<open>A receiver that has just finished its handshake, in session state \<open>b\<close>.\<close>

definition idle_reader :: "'ns noise_ops \<Rightarrow> 'ns \<Rightarrow> 'ns low_level \<Rightarrow> bool" where
  "idle_reader ops b r \<longleftrightarrow> noise_session r = b \<and> transport_ready ops b \<and>
     length (noise_buffer r) = NOISE_MAX_MESSAGE_LEN \<and> 0 < read_size r \<and>
     offset (socket_buffer r) = 0 \<and> remaining (socket_buffer r) = 0 \<and>
     incoming_msg r = incoming_message_default"

text \<open>
  Property C1: Messages survive the stream: nonempty messages within the protocol limit that are
  written to a connection are encrypted and framed without error, and a peer with the matching
  session reads back exactly these messages in order, however the socket splits the bytes into
  reads; the reading loop ends within one call per byte and leaves no unread byte behind.
\<close>

theorem stream_reassembly:
  assumes "noise_channel ops sync" and "can_send sync b s" and "list_all sendable ms"
  shows "\<exists>s' str. write_all ops ms s = Ok s' \<and>
    tx (socket s') @ output_queue s' = tx (socket s) @ output_queue s @ str \<and>
    (\<forall>r segs payload_out process (c :: 'c). idle_reader ops b r \<longrightarrow> rx (socket r) = map ReadData segs \<longrightarrow>
       [] \<notin> set segs \<longrightarrow> concat segs = str \<longrightarrow>
       (\<exists>r'. read_stream_loop (Suc (length str)) ops payload_out process c r =
          Some (fst (process_all process ms c), snd (process_all process ms c), r') \<and>
        (is_ok (fst (process_all process ms c)) \<longrightarrow> remaining (socket_buffer r') = 0)))"
proof -
  have ip: "noise_in_place ops" using assms(1) by (simp add: noise_channel_def)
  obtain s' str where w: "write_all ops ms s = Ok s'" "out_stream s' = out_stream s @ str" "frames ops b ms str"
    using write_all_frames [OF assms] by blast
  show ?thesis
  proof (rule exI [of _ s'], rule exI [of _ str], intro conjI allI impI)
    show "write_all ops ms s = Ok s'" by (rule w(1))
    show "tx (socket s') @ output_queue s' = tx (socket s) @ output_queue s @ str"
      using w(2) by (simp add: out_stream_def)
    fix r segs payload_out process c
    assume r: "idle_reader ops b r" "rx (socket r) = map ReadData segs" "[] \<notin> set segs" "concat segs = str"
    show "\<exists>r'. read_stream_loop (Suc (length str)) ops payload_out process c r =
          Some (fst (process_all process ms c), snd (process_all process ms c), r') \<and>
        (is_ok (fst (process_all process ms c)) \<longrightarrow> remaining (socket_buffer r') = 0)"
    proof (rule read_stream_loop_awaits [OF ip, of _ _ str])
      show "reader_ok ops r" using r(1) by (auto simp: idle_reader_def reader_ok_def)
      show "awaits ops r ms str"
        using r(1) w(3) by (auto simp: idle_reader_def awaits_def incoming_message_default_def unread_def)
      show "delivers (socket r) str" using r(2-4) by (auto simp: delivers_def)
      show "input_left r str < Suc (length str)" using r(1) by (simp add: idle_reader_def input_left_def)
    qed
  qed
qed

text \<open>
  The example: sessions that only count, two connections with small buffers, and a socket that
  delivers the stream byte by byte.
\<close>

definition counting_noise :: "nat noise_ops" where
  "counting_noise = \<lparr>send_message = (\<lambda>n m. Some (m, Suc n)), recv_message = (\<lambda>n m. Some (m, Suc n)),
     get_message_count = (\<lambda>n. n), is_initiator = (\<lambda>_. True), dhlen = 32, mac_length = 16\<rparr>"

definition counting_sync :: "nat \<Rightarrow> nat \<Rightarrow> bool" where
  "counting_sync a b \<longleftrightarrow> a = b \<and> 1 < a"

lemma counting_channel: "noise_channel counting_noise counting_sync"
  by (auto simp: noise_channel_def noise_in_place_def counting_noise_def counting_sync_def)

definition example_socket :: "read_event list \<Rightarrow> socket" where
  "example_socket es = \<lparr>rx = es, tx = [], wx = [], nodelay = False, linger = None, options_ok = True\<rparr>"

definition example_connection :: "read_event list \<Rightarrow> nat low_level" where
  "example_connection es = low_level_new None (\<lambda>_. 2) (example_socket es) True 8192 4096"

lemma example_can_send: "can_send counting_sync 2 (example_connection es)"
  by (simp add: can_send_def example_connection_def low_level_new_def counting_sync_def buffers_ok_def
      read_size_def socket_buffer_new_def example_socket_def)

lemma example_idle: "idle_reader counting_noise 2 (example_connection es)"
  by (simp add: idle_reader_def example_connection_def low_level_new_def transport_ready_def
      counting_noise_def read_size_def socket_buffer_new_def)

theorem stream_reassembly_witness:
  "\<exists>s' str r'. write_all counting_noise [[1, 2, 3], [4]] (example_connection []) = Ok s' \<and>
     tx (socket s') @ output_queue s' = str \<and>
     read_stream_loop (Suc (length str)) counting_noise (Ok []) (\<lambda>m acc. (Ok (), acc @ [m])) []
       (example_connection (map ReadData (map (\<lambda>b. [b]) str))) = Some (Ok True, [[1, 2, 3], [4]], r')"
proof -
  have "list_all sendable [[1, 2, 3], [4]]"
    by (simp add: sendable_def encrypted_length_def PROTOCOL_MAX_MESSAGE_SIZE_def)
  note spec = stream_reassembly [where 'c = "bytes list", OF counting_channel example_can_send [of "[]"] this]
  have e: "tx (socket (example_connection [])) @ output_queue (example_connection []) @ str = str" for str
    by (simp add: example_connection_def low_level_new_def example_socket_def)
  from spec [unfolded e] obtain s' str where
    w: "write_all counting_noise [[1, 2, 3], [4]] (example_connection []) = Ok s'"
    "tx (socket s') @ output_queue s' = str"
    and r: "\<forall>r segs payload_out process c. idle_reader counting_noise 2 r \<longrightarrow> rx (socket r) = map ReadData segs \<longrightarrow>
       [] \<notin> set segs \<longrightarrow> concat segs = str \<longrightarrow>
       (\<exists>r'. read_stream_loop (Suc (length str)) counting_noise payload_out process (c :: bytes list) r =
          Some (fst (process_all process [[1, 2, 3], [4]] c), snd (process_all process [[1, 2, 3], [4]] c), r') \<and>
        (is_ok (fst (process_all process [[1, 2, 3], [4]] c)) \<longrightarrow> remaining (socket_buffer r') = 0))"
    by (elim exE conjE) (rule that)
  let ?segs = "map (\<lambda>b. [b]) str"
  have "rx (socket (example_connection (map ReadData ?segs))) = map ReadData ?segs" "[] \<notin> set ?segs" "concat ?segs = str"
    by (auto simp: example_connection_def low_level_new_def example_socket_def)
  from r [rule_format, OF example_idle this, of "Ok []" "\<lambda>m acc. (Ok (), acc @ [m])" "[]"] w
  show ?thesis by (auto simp del: read_stream_loop.simps write_all.simps)
qed

end
