(* ===== verification/Examples.thy ===== *)
theory Examples
  imports NodeState Reassembly
begin

text \<open>
  A concrete environment and a concrete node for the examples: counting Noise sessions, tiny
  hash functions, a store of keys in a list, clocks that stand still.
\<close>

definition example_ip_serial :: "ip_addr \<Rightarrow> bytes" where
  "example_ip_serial ip =
     (case ip of V4 w \<Rightarrow> 4 # be_bytes 4 (unat w) | V6 w \<Rightarrow> 6 # be_bytes 16 (unat w))"

definition example_ip_deserial :: "bytes \<Rightarrow> (ip_addr \<times> bytes) option" where
  "example_ip_deserial bs =
     (case bs of
        [] \<Rightarrow> None
      | t # r \<Rightarrow>
          if t = 4 then Some (V4 (word_of_nat (from_be_bytes (take 4 r))), drop 4 r)
          else Some (V6 (word_of_nat (from_be_bytes (take 16 r))), drop 16 r))"

definition example_env :: "nat node_env" where
  "example_env =
     \<lparr>now_ms = 5000000, instant = 1000, noise = counting_noise, init_session = (\<lambda>_. 0),
      wire = example_wire_env, dedup = example_dedup_env,
      own_version = Some \<lparr>major = 5, minor = 2, patch = 0, pre_release = [], build_metadata = []\<rparr>,
      tcp_connect = (\<lambda>_. Some (example_socket [])), poll_register = (\<lambda>_. True),
      choose_ids = take, choose_peers = take, shuffle_peers = (\<lambda>ps. ps),
      change_try_send = (\<lambda>cap q x. if length q < cap then Some (q @ [x]) else None),
      channels = bounded_channel_ops, resolve_addrs = (\<lambda>_. None),
      ip_serial = example_ip_serial, ip_deserial = example_ip_deserial,
      kv_put = (\<lambda>k s. Some (List.insert k s)), kv_delete = (\<lambda>k s. Some (removeAll k s)),
      kv_get = (\<lambda>k s. Some (k \<in> set s)), kv_iter = Some, kv_clear = (\<lambda>_. Some [])\<rparr>"

definition example_config :: node_config where
  "example_config =
     \<lparr>no_net = False, desired_nodes_count = 7, no_bootstrap_dns = True, no_clear_bans = False,
      disallow_multiple_peers_on_ip = False, bootstrap_nodes = [], given_addresses = [],
      max_allowed_nodes = 10, relay_broadcast_percentage = 1, poll_interval = 20,
      housekeeping_interval = 30, bootstrapping_interval = 7200, print_peers = True,
      bootstrapper_wait_minimum_peers = 0, max_latency = None, hard_connection_limit = 20,
      conn_requests_batch_limit = 7, catch_up_batch_limit = 0, timeout_bucket_entry_period = 0,
      bucket_cleanup_interval = 600000, thread_pool_size = 4, dedup_size_long = 65536,
      dedup_size_short = 4096, socket_read_size = 8192, socket_write_size = 4096,
      drop_rebroadcast_probability = None, bootstrapper_peer_list_size = 100, default_network = 100,
      socket_so_linger = None, events_queue_size = 1024, deduplication_hashing_algorithm = XxHash64,
      max_normal_keep_alive_ms = 1200000\<rparr>"

definition example_node :: "nat node" where
  "example_node =
     \<lparr>self_peer = \<lparr>p2p_id = 1, p2p_addr = SocketAddr (V4 1) 8888, p2p_type = Node\<rparr>,
      config = example_config, next_token = 1, node_buckets = buckets_default,
      conn_candidates = [], connections = [], conn_changes = [], soft_bans = [],
      node_networks_set = {|100|}, deduplication_queues = dedup_queues_new (1, 2, 3, 4) XxHash64 65536 4096,
      last_bootstrap = 0, last_peer_update = 0, total_received = 0, total_sent = 0,
      export = export_stats_new, ban_store = [], node_peers = peer_list_default,
      node_bad_events = bad_events_default, regenesis = regenesis_default,
      callback_queue = consensus_queues_default\<rparr>"

definition example_peer :: remote_peer where
  "example_peer = \<lparr>self_id = None, remote_addr = SocketAddr (V4 7) 1234, local_id = 1,
     external_port = 1234, remote_peer_type = Node\<rparr>"

definition example_conn :: "nat connection" where
  "example_conn = \<lparr>remote_peer = example_peer, low_level = example_connection [],
     remote_end_networks = {||}, stats = connection_stats_new 4999000,
     pending_messages = message_queues_new, wire_version = WIRE_PROTOCOL_CURRENT_VERSION\<rparr>"

text \<open>The environment behaves as documented.\<close>

lemma mset_take_subset: "mset (take n xs) \<subseteq># mset xs"
  by (metis append_take_drop_id mset_append mset_subset_eq_add_left)

lemma example_random_law: "random_law example_env"
  by (simp add: random_law_def example_env_def mset_take_subset min.commute)

lemma example_change_channel_law: "change_channel_law example_env"
  by (simp add: change_channel_law_def example_env_def)

lemma example_ip_codec: "example_ip_deserial (example_ip_serial ip @ rest) = Some (ip, rest)"
proof (cases ip)
  case (V4 w)
  have "unat w < 2 ^ 32" using unsigned_less [of w] by simp
  with V4 show ?thesis by (simp add: example_ip_deserial_def example_ip_serial_def from_be_bytes_be_bytes)
next
  case (V6 w)
  have "unat w < 2 ^ 128" using unsigned_less [of w] by simp
  with V6 show ?thesis by (simp add: example_ip_deserial_def example_ip_serial_def from_be_bytes_be_bytes)
qed

end
