(* ===== verification/Bans.thy ===== *)
theory Bans
  imports NodeState Examples
begin

text \<open>
  Bans (\<^verbatim>\<open>p2p/bans.rs\<close>). The persistent ban list is a key-value store outside the program; its
  state is the list of its keys, and its operations are those of the environment, \<open>None\<close> being
  any failure of the store. The keys are the serialised identifiers.
\<close>

section \<open>Operations\<close>

datatype persisted_ban_id = PersistedIp ip_addr

definition ban_id_from_persisted :: "persisted_ban_id \<Rightarrow> ban_id" where
  "ban_id_from_persisted p = (case p of PersistedIp ip \<Rightarrow> BanIp ip)"

definition ban_id_serial :: "'ns node_env \<Rightarrow> persisted_ban_id \<Rightarrow> bytes" where
  "ban_id_serial env p = (case p of PersistedIp ip \<Rightarrow> 0 # ip_serial env ip)"

definition ban_id_deserial :: "'ns node_env \<Rightarrow> bytes \<Rightarrow> persisted_ban_id res" where
  "ban_id_deserial env bs =
     (case bs of
        [] \<Rightarrow> Err IoError
      | tag # rest \<Rightarrow>
          if tag = 0
          then (case ip_deserial env rest of
                  Some (ip, _) \<Rightarrow> Ok (PersistedIp ip) | None \<Rightarrow> Err (Bail ''IpAddr''))
          else Err (Bail ''Unsupported type of `BanNode`''))"

definition store_error :: anyhow_error where
  "store_error = Bail ''ban database''"

definition drop_by_id :: "'ns node_env \<Rightarrow> remote_peer_id \<Rightarrow> 'ns node \<Rightarrow> bool \<times> 'ns node" where
  "drop_by_id env i n =
     (case find_conn_token_by_id i n of
        Some tok \<Rightarrow> (True, register_conn_change env (RemovalByToken tok) n)
      | None \<Rightarrow> (False, n))"

definition drop_by_ip_and_ban :: "'ns node_env \<Rightarrow> ip_addr \<Rightarrow> ('ns node, bool) action" where
  "drop_by_ip_and_ban env ip n =
     (case kv_put env (ban_id_serial env (PersistedIp ip)) (ban_store n) of
        None \<Rightarrow> (Err store_error, n)
      | Some st \<Rightarrow>
          (let n1 = n\<lparr>ban_store := st,
                      config := (config n)\<lparr>given_addresses :=
                        filter (\<lambda>a. addr_ip a \<noteq> ip) (given_addresses (config n))\<rparr>\<rparr>;
               tokens = find_conn_tokens_by_ip ip n1
           in (Ok (tokens \<noteq> []), register_conn_change env (RemoveAllByTokens tokens) n1)))"

definition drop_addr :: "'ns node_env \<Rightarrow> socket_addr \<Rightarrow> 'ns node \<Rightarrow> bool \<times> 'ns node" where
  "drop_addr env a n =
     (let n1 = n\<lparr>config := (config n)\<lparr>given_addresses := removeAll a (given_addresses (config n))\<rparr>\<rparr>
      in case find_conn_to a n1 of
           Some tok \<Rightarrow> (True, register_conn_change env (RemovalByToken tok) n1)
         | None \<Rightarrow> (False, n1))"

definition unban_node :: "'ns node_env \<Rightarrow> persisted_ban_id \<Rightarrow> ('ns node, unit) action" where
  "unban_node env p n =
     (case kv_delete env (ban_id_serial env p) (ban_store n) of
        None \<Rightarrow> (Err store_error, n)
      | Some st \<Rightarrow> (Ok (), n\<lparr>ban_store := st\<rparr>))"

definition is_banned :: "'ns node_env \<Rightarrow> persisted_ban_id \<Rightarrow> 'ns node \<Rightarrow> bool res" where
  "is_banned env p n =
     (case kv_get env (ban_id_serial env p) (ban_store n) of None \<Rightarrow> Err store_error | Some b \<Rightarrow> Ok b)"

text \<open>\<^verbatim>\<open>unwrap_or(false)\<close>, as the connection guards read the list.\<close>

definition is_banned_or_false :: "'ns node_env \<Rightarrow> persisted_ban_id \<Rightarrow> 'ns node \<Rightarrow> bool" where
  "is_banned_or_false env p n = (case is_banned env p n of Ok b \<Rightarrow> b | _ \<Rightarrow> False)"

definition get_banlist :: "'ns node_env \<Rightarrow> 'ns node \<Rightarrow> persisted_ban_id list res" where
  "get_banlist env n =
     (case kv_iter env (ban_store n) of
        None \<Rightarrow> Err store_error
      | Some keys \<Rightarrow> collect_res (map (ban_id_deserial env) keys))"

definition clear_bans :: "'ns node_env \<Rightarrow> ('ns node, unit) action" where
  "clear_bans env n =
     (case kv_clear env (ban_store n) of
        None \<Rightarrow> (Err store_error, n)
      | Some st \<Rightarrow> (Ok (), n\<lparr>ban_store := st\<rparr>))"

section \<open>What the store and the serialisation of addresses promise\<close>

text \<open>
  A store holds a set of keys; an operation that does not fail acts on that set. An address is
  read back as it was written, whatever follows.
\<close>

definition ban_store_law :: "'ns node_env \<Rightarrow> bool" where
  "ban_store_law env \<longleftrightarrow>
     (\<forall>k s s'. kv_put env k s = Some s' \<longrightarrow> set s' = insert k (set s)) \<and>
     (\<forall>k s s'. kv_delete env k s = Some s' \<longrightarrow> set s' = set s - {k}) \<and>
     (\<forall>k s b. kv_get env k s = Some b \<longrightarrow> (b \<longleftrightarrow> k \<in> set s)) \<and>
     (\<forall>s ks. kv_iter env s = Some ks \<longrightarrow> set ks = set s) \<and>
     (\<forall>s s'. kv_clear env s = Some s' \<longrightarrow> s' = [])"

definition ip_serial_law :: "'ns node_env \<Rightarrow> bool" where
  "ip_serial_law env \<longleftrightarrow> (\<forall>ip rest. ip_deserial env (ip_serial env ip @ rest) = Some (ip, rest))"

text \<open>The set of addresses that a well-formed store bans.\<close>

definition banned_ids :: "'ns node_env \<Rightarrow> 'ns node \<Rightarrow> persisted_ban_id set" where
  "banned_ids env n = {p. ban_id_serial env p \<in> set (ban_store n)}"

definition ban_store_wf :: "'ns node_env \<Rightarrow> 'ns node \<Rightarrow> bool" where
  "ban_store_wf env n \<longleftrightarrow> set (ban_store n) \<subseteq> range (ban_id_serial env)"

lemma ban_id_deserial_serial:
  assumes "ip_serial_law env"
  shows "ban_id_deserial env (ban_id_serial env p) = Ok p"
proof (cases p)
  case (PersistedIp ip)
  have "ip_deserial env (ip_serial env ip @ []) = Some (ip, [])"
    using assms unfolding ip_serial_law_def by blast
  with PersistedIp show ?thesis by (simp add: ban_id_deserial_def ban_id_serial_def)
qed

lemma ban_id_serial_inj: "ip_serial_law env \<Longrightarrow> ban_id_serial env p = ban_id_serial env q \<longleftrightarrow> p = q"
  by (metis ban_id_deserial_serial res.inject(1))

lemma collect_res_Ok: "(\<And>x. x \<in> set xs \<Longrightarrow> f x = Ok (g x)) \<Longrightarrow> collect_res (map f xs) = Ok (map g xs)"
  by (induction xs) auto

section \<open>The ban list is a set\<close>

datatype ban_event = Ban ip_addr | Unban persisted_ban_id | ClearBans

fun ban_call :: "'ns node_env \<Rightarrow> 'ns node \<Rightarrow> ban_event \<Rightarrow> bool \<times> 'ns node" where
  "ban_call env n (Ban ip) = (case drop_by_ip_and_ban env ip n of (r, n') \<Rightarrow> (is_ok r, n'))"
| "ban_call env n (Unban p) = (case unban_node env p n of (r, n') \<Rightarrow> (is_ok r, n'))"
| "ban_call env n ClearBans = (case clear_bans env n of (r, n') \<Rightarrow> (is_ok r, n'))"

fun ban_spec :: "ban_event \<Rightarrow> persisted_ban_id set \<Rightarrow> persisted_ban_id set" where
  "ban_spec (Ban ip) B = insert (PersistedIp ip) B"
| "ban_spec (Unban p) B = B - {p}"
| "ban_spec ClearBans B = {}"

abbreviation ban_run :: "'ns node_env \<Rightarrow> 'ns node \<Rightarrow> ban_event list \<Rightarrow> 'ns node option" where
  "ban_run env \<equiv> run_steps (\<lambda>n e. fst (ban_call env n e)) (\<lambda>n e. snd (ban_call env n e))"

lemma ban_store_register [simp]: "ban_store (register_conn_change env ch n) = ban_store n"
  by (simp add: register_conn_change_def split: option.split)

lemma ban_store_laws:
  assumes "ban_store_law env"
  shows "kv_put env k s = Some s' \<Longrightarrow> set s' = insert k (set s)"
    and "kv_delete env k s = Some s' \<Longrightarrow> set s' = set s - {k}"
    and "kv_get env k s = Some b \<Longrightarrow> b = (k \<in> set s)"
    and "kv_iter env s = Some ks \<Longrightarrow> set ks = set s"
    and "kv_clear env s = Some s' \<Longrightarrow> s' = []"
  using assms unfolding ban_store_law_def by blast+

lemma ban_call_store:
  assumes "ban_store_law env" "fst (ban_call env n e)"
  shows "set (ban_store (snd (ban_call env n e))) = (case e of
      Ban ip \<Rightarrow> insert (ban_id_serial env (PersistedIp ip)) (set (ban_store n))
    | Unban p \<Rightarrow> set (ban_store n) - {ban_id_serial env p}
    | ClearBans \<Rightarrow> {})"
proof (cases e)
  case (Ban ip)
  with assms(2) obtain s' where "kv_put env (ban_id_serial env (PersistedIp ip)) (ban_store n) = Some s'"
    by (auto simp: drop_by_ip_and_ban_def split: option.splits)
  with ban_store_laws(1) [OF assms(1) this] Ban show ?thesis by (simp add: drop_by_ip_and_ban_def Let_def)
next
  case (Unban p)
  with assms(2) obtain s' where "kv_delete env (ban_id_serial env p) (ban_store n) = Some s'"
    by (auto simp: unban_node_def split: option.splits)
  with ban_store_laws(2) [OF assms(1) this] Unban show ?thesis by (simp add: unban_node_def)
next
  case ClearBans
  with assms(2) obtain s' where "kv_clear env (ban_store n) = Some s'"
    by (auto simp: clear_bans_def split: option.splits)
  with ban_store_laws(5) [OF assms(1) this] ClearBans show ?thesis by (simp add: clear_bans_def)
qed

lemma ban_call_refines:
  assumes "ban_store_law env" "ip_serial_law env" "fst (ban_call env n e)"
  shows "banned_ids env (snd (ban_call env n e)) = ban_spec e (banned_ids env n)"
    and "ban_store_wf env n \<Longrightarrow> ban_store_wf env (snd (ban_call env n e))"
  unfolding banned_ids_def ban_store_wf_def ban_call_store [OF assms(1,3)]
  using ban_id_serial_inj [OF assms(2)] by (cases e; auto)+

lemma ban_run_refines:
  assumes "ban_store_law env" "ip_serial_law env"
  shows "ban_run env n es = Some n' \<Longrightarrow> ban_store_wf env n \<Longrightarrow>
    banned_ids env n' = fold ban_spec es (banned_ids env n) \<and> ban_store_wf env n'"
proof (induction es arbitrary: n)
  case (Cons e es)
  then have e: "fst (ban_call env n e)" by (auto split: if_splits)
  from ban_call_refines [OF assms e] Cons.IH [of "snd (ban_call env n e)"] Cons.prems e show ?case by simp
qed simp

lemma get_banlist_exact:
  assumes "ban_store_law env" "ip_serial_law env" "ban_store_wf env n" "kv_iter env (ban_store n) = Some ks"
  shows "\<exists>l. get_banlist env n = Ok l \<and> set l = banned_ids env n"
proof -
  have ks: "set ks = set (ban_store n)" by (rule ban_store_laws(4) [OF assms(1,4)])
  define g where "g = (\<lambda>k. THE p. k = ban_id_serial env p)"
  have g: "g (ban_id_serial env p) = p" for p
    using ban_id_serial_inj [OF assms(2)] by (simp add: g_def)
  have ex: "\<exists>p. k = ban_id_serial env p" if "k \<in> set ks" for k
    using that ks assms(3) unfolding ban_store_wf_def by blast
  have "ban_id_deserial env k = Ok (g k)" if "k \<in> set ks" for k
    using ex [OF that] g ban_id_deserial_serial [OF assms(2)] by auto
  then have "get_banlist env n = Ok (map g ks)"
    using assms(4) by (simp add: get_banlist_def collect_res_Ok)
  moreover have "p \<in> g ` set ks \<longleftrightarrow> ban_id_serial env p \<in> set ks" for p
    using ex g by (metis imageE imageI)
  then have "set (map g ks) = banned_ids env n" by (auto simp: banned_ids_def ks)
  ultimately show ?thesis by blast
qed

text \<open>
  Property C8: The persistent ban list behaves as a set: after any sequence of successful bans,
  unbans and resets the list that is read back holds exactly the addresses that were banned and
  not lifted since, and a successful membership test answers accordingly.
\<close>

theorem ban_list_is_a_set:
  assumes "ban_store_law env" and "ip_serial_law env" and "ban_store_wf env n"
    and "ban_run env n es = Some n'" and "kv_iter env (ban_store n') \<noteq> None"
  shows "\<exists>l. get_banlist env n' = Ok l \<and> set l = fold ban_spec es (banned_ids env n) \<and>
    (\<forall>p b. is_banned env p n' = Ok b \<longrightarrow> b = (p \<in> set l))"
proof -
  note r = ban_run_refines [OF assms(1,2,4,3)]
  from assms(5) obtain ks where "kv_iter env (ban_store n') = Some ks" by blast
  from get_banlist_exact [OF assms(1,2) _ this] r obtain l
    where l: "get_banlist env n' = Ok l" "set l = banned_ids env n'" by blast
  moreover have "b = (p \<in> banned_ids env n')" if "is_banned env p n' = Ok b" for p b
    using that ban_store_laws(3) [OF assms(1)] by (auto simp: is_banned_def banned_ids_def split: option.splits)
  ultimately show ?thesis using r by auto
qed

lemma example_ban_laws: "ban_store_law example_env" "ip_serial_law example_env"
  by (simp_all add: ban_store_law_def ip_serial_law_def example_env_def example_ip_codec)

theorem ban_list_is_a_set_witness:
  "\<exists>n' l. ban_run example_env example_node [Ban (V4 1), Ban (V4 2), Unban (PersistedIp (V4 1))] = Some n' \<and>
     get_banlist example_env n' = Ok l \<and> set l = {PersistedIp (V4 2)}"
proof -
  have wf: "ban_store_wf example_env example_node" "banned_ids example_env example_node = {}"
    by (simp_all add: ban_store_wf_def banned_ids_def example_node_def)
  obtain n' where n': "ban_run example_env example_node [Ban (V4 1), Ban (V4 2), Unban (PersistedIp (V4 1))] = Some n'"
    by (simp add: drop_by_ip_and_ban_def unban_node_def example_env_def Let_def)
  have "kv_iter example_env (ban_store n') \<noteq> None" by (simp add: example_env_def)
  from ban_list_is_a_set [OF example_ban_laws wf(1) n' this] n' wf(2) show ?thesis by auto
qed

end
