(* ===== verification/Connectivity.thy ===== *)
theory Connectivity
  imports ConnectionHandlers Bans
begin

text \<open>
  Connection handling of the node (\<^verbatim>\<open>p2p/connectivity.rs\<close>): sending packets, accepting and
  establishing connections, socket events, and the periodic housekeeping. The connections that
  the code processes in parallel are processed one after the other here, in the order of the
  map; each of them holds the lock of its own map and only shares atomic counters, queues and
  the buckets with the others.
\<close>

section \<open>Sending\<close>

definition SELF_TOKEN :: token where
  "SELF_TOKEN = 0"

definition send_over_all_connections ::
    "bytes \<Rightarrow> ('ns connection \<Rightarrow> bool) \<Rightarrow> 'ns node \<Rightarrow> nat \<times> 'ns node" where
  "send_over_all_connections data conn_filter n =
     (length (filter conn_filter (hm_values (connections n))),
      n\<lparr>connections := map (\<lambda>(t, c). (t, if conn_filter c then async_send data Normal c else c)) (connections n)\<rparr>)"

definition broadcast_network_request :: "'ns node_env \<Rightarrow> network_request \<Rightarrow> 'ns node \<Rightarrow> 'ns node" where
  "broadcast_network_request env request n =
     snd (send_over_all_connections
            (serialize (wire env) (now_ms env) (netmsg (now_ms env) (NetworkRequest request))) (\<lambda>_. True) n)"

definition send_join_network :: "'ns node_env \<Rightarrow> network_id \<Rightarrow> 'ns node \<Rightarrow> 'ns node" where
  "send_join_network env i = broadcast_network_request env (JoinNetwork i)"

definition send_leave_network :: "'ns node_env \<Rightarrow> network_id \<Rightarrow> 'ns node \<Rightarrow> 'ns node" where
  "send_leave_network env i = broadcast_network_request env (LeaveNetwork i)"

fun ping_all :: "'ns node_env \<Rightarrow> 'ns connections \<Rightarrow> 'ns connections res" where
  "ping_all env [] = Ok []"
| "ping_all env ((t, c) # cs) =
     (case send_ping env c of
        Panic \<Rightarrow> Panic
      | r \<Rightarrow> res_bind (ping_all env cs) (\<lambda>cs'.
          Ok ((t, case r of Ok c' \<Rightarrow> c' | _ \<Rightarrow> c) # cs')))"

definition measure_connection_latencies :: "'ns node_env \<Rightarrow> ('ns node, unit) action" where
  "measure_connection_latencies env =
     act_update (\<lambda>n. res_bind (ping_all env (connections n)) (\<lambda>cs. Ok (n\<lparr>connections := cs\<rparr>)))"

text \<open>
  A connection is applicable for a broadcast if it is not in the exclusion list, belongs to the
  same network, and does not belong to a bootstrapper.
\<close>

definition is_valid_broadcast_target :: "remote_peer_id list \<Rightarrow> network_id \<Rightarrow> 'ns connection \<Rightarrow> bool" where
  "is_valid_broadcast_target peers_to_skip i c \<longleftrightarrow>
     conn_remote_peer_type c \<noteq> Bootstrapper \<and> local_id (remote_peer c) \<notin> set peers_to_skip \<and>
     i |\<in>| remote_end_networks c"

definition peers_to_skip :: "'ns node_env \<Rightarrow> packet_destination \<Rightarrow> 'ns node \<Rightarrow> remote_peer_id list res" where
  "peers_to_skip env dest n =
     (case dest of
        Direct _ \<Rightarrow> Ok []
      | Broadcast dont_relay \<Rightarrow>
          if relay_broadcast_percentage (config n) < 1
          then res_bind (get_node_peer_tokens n) (\<lambda>ps.
                 let peers = filter (\<lambda>p. p \<notin> set dont_relay) ps;
                     peers_to_take = f64_floor_to 64
                       (f64_mul (of_nat (length peers mod 2 ^ 32)) (relay_broadcast_percentage (config n)))
                 in Ok (choose_ids env peers_to_take peers))
          else Ok dont_relay)"

definition process_network_packet :: "'ns node_env \<Rightarrow> network_packet \<Rightarrow> ('ns node, nat) action" where
  "process_network_packet env p n =
     (case peers_to_skip env (destination p) n of
        Err e \<Rightarrow> (Err e, n)
      | Panic \<Rightarrow> (Panic, n)
      | Ok skip \<Rightarrow>
          (let data = serialize (wire env) (now_ms env) (netmsg (now_ms env) (NetworkPacket p));
               sent = (case destination p of
                 Direct target \<Rightarrow> send_over_all_connections data (\<lambda>c. local_id (remote_peer c) = target) n
               | Broadcast _ \<Rightarrow>
                   send_over_all_connections data (is_valid_broadcast_target skip (packet_network_id p)) n)
           in (Ok (fst sent), snd sent)))"

definition send_message_over_network ::
    "'ns node_env \<Rightarrow> remote_peer_id option \<Rightarrow> remote_peer_id list \<Rightarrow> network_id \<Rightarrow> bytes \<Rightarrow> ('ns node, nat) action" where
  "send_message_over_network env target dont_relay i msg n =
     (case process_network_packet env
             \<lparr>destination = (case target of Some t \<Rightarrow> Direct t | None \<Rightarrow> Broadcast dont_relay),
              packet_network_id = i, packet_message = msg\<rparr> n of
        (Err e, n') \<Rightarrow> (Ok 0, n')
      | r \<Rightarrow> r)"

definition send_direct_message ::
    "'ns node_env \<Rightarrow> remote_peer_id \<Rightarrow> network_id \<Rightarrow> bytes \<Rightarrow> ('ns node, nat) action" where
  "send_direct_message env target i msg = send_message_over_network env (Some target) [] i msg"

definition send_broadcast_message ::
    "'ns node_env \<Rightarrow> remote_peer_id list \<Rightarrow> network_id \<Rightarrow> bytes \<Rightarrow> ('ns node, nat) action" where
  "send_broadcast_message env dont_relay i msg = send_message_over_network env None dont_relay i msg"

section \<open>Removing connections\<close>

definition remove_connection :: "'ns node_env \<Rightarrow> token \<Rightarrow> 'ns node \<Rightarrow> remote_peer option \<times> 'ns node" where
  "remove_connection env tok n =
     (case map_of (conn_candidates n) tok of
        Some c \<Rightarrow> (Some (remote_peer c), drop_connection c (n\<lparr>conn_candidates := hm_remove tok (conn_candidates n)\<rparr>))
      | None \<Rightarrow>
          (case map_of (connections n) tok of
             Some c \<Rightarrow> (Some (remote_peer c),
               drop_connection c (bump_last_peer_update env (n\<lparr>connections := hm_remove tok (connections n)\<rparr>)))
           | None \<Rightarrow> (None, n)))"

text \<open>The flags say whether a candidate and whether a peer was removed.\<close>

fun remove_tokens :: "token list \<Rightarrow> bool \<Rightarrow> bool \<Rightarrow> 'ns node \<Rightarrow> bool \<times> bool \<times> 'ns node" where
  "remove_tokens [] rc rp n = (rc, rp, n)"
| "remove_tokens (tok # toks) rc rp n =
     (case map_of (conn_candidates n) tok of
        Some c \<Rightarrow> remove_tokens toks True rp
                    (drop_connection c (n\<lparr>conn_candidates := hm_remove tok (conn_candidates n)\<rparr>))
      | None \<Rightarrow>
          (case map_of (connections n) tok of
             Some c \<Rightarrow> remove_tokens toks rc True
                         (drop_connection c (n\<lparr>connections := hm_remove tok (connections n)\<rparr>))
           | None \<Rightarrow> remove_tokens toks rc rp n))"

definition remove_connections :: "'ns node_env \<Rightarrow> token list \<Rightarrow> 'ns node \<Rightarrow> bool \<times> 'ns node" where
  "remove_connections env toks n =
     (case remove_tokens toks False False n of
        (rc, rp, n') \<Rightarrow> (rc \<or> rp, if rp then bump_last_peer_update env n' else n'))"

text \<open>\<^verbatim>\<open>retain\<close> on a map of connections drops the others.\<close>

definition retain_candidates :: "('ns connection \<Rightarrow> bool) \<Rightarrow> 'ns node \<Rightarrow> 'ns node" where
  "retain_candidates P n =
     drop_connections (filter (\<lambda>c. \<not> P c) (hm_values (conn_candidates n)))
       (n\<lparr>conn_candidates := hm_retain (\<lambda>_. P) (conn_candidates n)\<rparr>)"

definition retain_connections :: "('ns connection \<Rightarrow> bool) \<Rightarrow> 'ns node \<Rightarrow> 'ns node" where
  "retain_connections P n =
     drop_connections (filter (\<lambda>c. \<not> P c) (hm_values (connections n)))
       (n\<lparr>connections := hm_retain (\<lambda>_. P) (connections n)\<rparr>)"

definition remove_connection_to_addr :: "socket_addr \<Rightarrow> 'ns node \<Rightarrow> 'ns node" where
  "remove_connection_to_addr a n =
     retain_connections (\<lambda>c. conn_remote_addr c \<noteq> a) (retain_candidates (\<lambda>c. conn_remote_addr c \<noteq> a) n)"

section \<open>Socket events\<close>

record poll_event =
  ev_token :: token
  ev_readable :: bool
  ev_writable :: bool
  ev_closed :: bool

definition failed_connection :: "'ns node_env \<Rightarrow> anyhow_error \<Rightarrow> ('ns conn_state, unit) action" where
  "failed_connection env e = act_get (\<lambda>(c, n).
     on_node (register_conn_change env
       (case e of IoError \<Rightarrow> RemovalByToken (conn_token c) | _ \<Rightarrow> ExpulsionByToken (conn_token c))))"

definition close_connection :: "'ns node_env \<Rightarrow> ('ns conn_state, unit) action" where
  "close_connection env = act_get (\<lambda>(c, n). on_node (register_conn_change env (RemovalByToken (conn_token c))))"

definition has_event :: "(poll_event \<Rightarrow> bool) \<Rightarrow> poll_event list \<Rightarrow> 'ns connection \<Rightarrow> bool" where
  "has_event P events c \<longleftrightarrow> list_ex (\<lambda>ev. ev_token ev = conn_token c \<and> P ev) events"

definition act_or_else :: "('s, 'a) action \<Rightarrow> (anyhow_error \<Rightarrow> ('s, 'b) action) \<Rightarrow> ('a \<Rightarrow> ('s, 'b) action) \<Rightarrow> ('s, 'b) action" where
  "act_or_else m h k s =
     (case m s of (Ok x, s') \<Rightarrow> k x s' | (Err e, s') \<Rightarrow> h e s' | (Panic, s') \<Rightarrow> (Panic, s'))"

definition process_connection_events ::
    "'ns node_env \<Rightarrow> poll_event list \<Rightarrow> peer_stats list \<Rightarrow> ('ns conn_state, unit) action" where
  "process_connection_events env events conn_stats =
     act_then (act_get (\<lambda>(c, n).
       if has_event ev_writable events c then on_conn (\<lambda>c. c\<lparr>low_level := notify_writable (low_level c)\<rparr>)
       else act_return ()))
     (act_or_else (act_then (send_pending_messages env) (conn_flush_socket env)) (failed_connection env) (\<lambda>_.
        act_get (\<lambda>(c, n).
          act_or_else (if has_event ev_readable events c then read_stream env conn_stats else act_return True)
            (failed_connection env) (\<lambda>still_open.
               if \<not> still_open then close_connection env
               else act_get (\<lambda>(c, n). if has_event ev_closed events c then close_connection env else act_return ())))))"

definition process_candidate ::
    "'ns node_env \<Rightarrow> poll_event list \<Rightarrow> peer_stats list \<Rightarrow> token \<Rightarrow> ('ns node, unit) action" where
  "process_candidate env events conn_stats tok n =
     (case map_of (conn_candidates n) tok of
        None \<Rightarrow> (Ok (), n)
      | Some c \<Rightarrow>
          (case process_connection_events env events conn_stats (c, n) of
             (r, c', n') \<Rightarrow> (r, n'\<lparr>conn_candidates := hm_insert tok c' (conn_candidates n')\<rparr>)))"

definition process_peer ::
    "'ns node_env \<Rightarrow> poll_event list \<Rightarrow> peer_stats list \<Rightarrow> token \<Rightarrow> ('ns node, unit) action" where
  "process_peer env events conn_stats tok n =
     (case map_of (connections n) tok of
        None \<Rightarrow> (Ok (), n)
      | Some c \<Rightarrow>
          (case process_connection_events env events conn_stats (c, n) of
             (r, c', n') \<Rightarrow> (r, n'\<lparr>connections := hm_insert tok c' (connections n')\<rparr>)))"

definition process_network_events :: "'ns node_env \<Rightarrow> poll_event list \<Rightarrow> ('ns node, unit) action" where
  "process_network_events env events =
     act_bind (act_get (\<lambda>n. act_result (get_peer_stats (Some Node) n))) (\<lambda>conn_stats.
     act_get (\<lambda>n.
       act_then (act_each (process_candidate env events conn_stats) (hm_keys (conn_candidates n)))
                (act_each (process_peer env events conn_stats) (hm_keys (connections n)))))"

section \<open>Accepting and connecting\<close>

datatype accept_failure_reason =
    TooManyConnections socket_addr
  | AlreadyConnectedToIP ip_addr
  | DuplicateConnection socket_addr
  | Banned
  | SoftBanned
  | AcceptOther anyhow_error

text \<open>The first connection, candidates before peers, that stands in the way of a new one.\<close>

fun accept_conflict :: "node_config \<Rightarrow> socket_addr \<Rightarrow> 'ns connection list \<Rightarrow> accept_failure_reason option" where
  "accept_conflict conf a [] = None"
| "accept_conflict conf a (c # cs) =
     (if addr_ip (conn_remote_addr c) = addr_ip a
      then if disallow_multiple_peers_on_ip conf then Some (AlreadyConnectedToIP (addr_ip a))
           else if addr_port (conn_remote_addr c) = addr_port a \<or> external_port (remote_peer c) = addr_port a
           then Some (DuplicateConnection a)
           else accept_conflict conf a cs
      else accept_conflict conf a cs)"

definition accept_check :: "'ns node_env \<Rightarrow> socket_addr \<Rightarrow> 'ns node \<Rightarrow> accept_failure_reason option" where
  "accept_check env a n =
     (if is_banned_or_false env (PersistedIp (addr_ip a)) n then Some Banned
      else if peer_type_of n = Node \<and>
              unat (hard_connection_limit (config n)) \<le> length (conn_candidates n) + length (connections n)
      then Some (TooManyConnections a)
      else case accept_conflict (config n) a (hm_values (conn_candidates n) @ hm_values (connections n)) of
             Some e \<Rightarrow> Some e
           | None \<Rightarrow> if is_soft_banned a n then Some SoftBanned else None)"

text \<open>Taking the next token; the counter is atomic and wraps around.\<close>

definition fresh_token :: "'ns node \<Rightarrow> token \<times> 'ns node" where
  "fresh_token n = (next_token n, n\<lparr>next_token := next_token n + 1\<rparr>)"

definition insert_candidate :: "'ns connection \<Rightarrow> 'ns node \<Rightarrow> 'ns node" where
  "insert_candidate c n =
     drop_connections (case map_of (conn_candidates n) (conn_token c) of Some old \<Rightarrow> [old] | None \<Rightarrow> [])
       (n\<lparr>conn_candidates := hm_insert (conn_token c) c (conn_candidates n)\<rparr>)"

definition accept ::
    "'ns node_env \<Rightarrow> socket \<Rightarrow> socket_addr \<Rightarrow> 'ns node \<Rightarrow> (accept_failure_reason + token) \<times> 'ns node" where
  "accept env sk a n =
     (let n1 = on_export conn_received_inc n
      in case accept_check env a n1 of
           Some e \<Rightarrow> (Inl e, n1)
         | None \<Rightarrow>
             (case fresh_token n1 of (tok, n2) \<Rightarrow>
                (case connection_new env n2 sk tok
                        \<lparr>self_id = None, remote_addr = a, local_id = remote_peer_id_from_token tok,
                         external_port = addr_port a, remote_peer_type = Node\<rparr> False of
                   Ok c \<Rightarrow> (Inr tok, insert_candidate c n2)
                 | Err e \<Rightarrow> (Inl (AcceptOther e), n2)
                 | Panic \<Rightarrow> (Inl (AcceptOther (Bail ''unreachable'')), n2))))"

definition connect_conflict :: "socket_addr \<Rightarrow> 'ns node \<Rightarrow> bool" where
  "connect_conflict a n \<longleftrightarrow>
     list_ex (\<lambda>c. if disallow_multiple_peers_on_ip (config n)
                   then addr_ip (conn_remote_addr c) = addr_ip a
                   else conn_remote_addr c = a \<or> external_addr (remote_peer c) = a)
       (hm_values (connections n) @ hm_values (conn_candidates n))"

text \<open>The number of peers is truncated to sixteen bits before it is compared.\<close>

definition node_peer_count :: "'ns node \<Rightarrow> u16 res" where
  "node_peer_count n = res_bind (get_peer_stats (Some Node) n) (\<lambda>ps. Ok (word_of_nat (length ps)))"

definition connect_check :: "'ns node_env \<Rightarrow> peer_type \<Rightarrow> socket_addr \<Rightarrow> bool \<Rightarrow> 'ns node \<Rightarrow> unit res" where
  "connect_check env ptype a respect_max_peers n =
     res_bind (if respect_max_peers \<and> ptype = Node
               then res_bind (node_peer_count n) (\<lambda>k.
                      if max_allowed_nodes (config n) \<le> k then Err (Bail ''Maximum number of peers reached'')
                      else Ok ())
               else Ok ()) (\<lambda>_.
     if p2p_addr (self_peer n) = a then Err (Bail ''Attempted to connect to myself'')
     else if is_banned_or_false env (PersistedIp (addr_ip a)) n then Err (Bail ''Refusing to connect to a banned IP'')
     else if is_soft_banned a n then Err (Bail ''Refusing to connect to a soft-banned IP'')
     else if connect_conflict a n then Err (Bail ''Already connected'')
     else Ok ())"

definition soft_ban :: "ban_id \<Rightarrow> nat \<Rightarrow> 'ns node \<Rightarrow> 'ns node" where
  "soft_ban b expiry n = n\<lparr>soft_bans := hm_insert b expiry (soft_bans n)\<rparr>"

definition open_connection :: "'ns node_env \<Rightarrow> peer_type \<Rightarrow> socket_addr \<Rightarrow> socket \<Rightarrow> ('ns node, unit) action" where
  "open_connection env ptype a sk n0 =
     (case fresh_token (on_export conn_received_inc n0) of (tok, n) \<Rightarrow>
        (case res_bind (connection_new env n sk tok
                  \<lparr>self_id = None, remote_addr = a, local_id = remote_peer_id_from_token tok,
                   external_port = addr_port a, remote_peer_type = ptype\<rparr> True) (\<lambda>c.
                res_bind (send_handshake_message_a (noise env) (low_level c)) (\<lambda>ll. Ok (c\<lparr>low_level := ll\<rparr>))) of
           Ok c \<Rightarrow> (Ok (), insert_candidate c n)
         | Err e \<Rightarrow> (Err e, n)
         | Panic \<Rightarrow> (Panic, n)))"

definition connect ::
    "'ns node_env \<Rightarrow> peer_type \<Rightarrow> socket_addr \<Rightarrow> p2p_node_id option \<Rightarrow> bool \<Rightarrow> ('ns node, unit) action" where
  "connect env ptype a peer_id respect_max_peers n =
     (case connect_check env ptype a respect_max_peers n of
        Err e \<Rightarrow> (Err e, n)
      | Panic \<Rightarrow> (Panic, n)
      | Ok _ \<Rightarrow>
          (case tcp_connect env a of
             Some sk \<Rightarrow> open_connection env ptype a sk n
           | None \<Rightarrow> (Err IoError,
               if ptype = Node
               then soft_ban (BanSocket a) (instant env + UNREACHABLE_EXPIRATION_SECS * 1000) n else n)))"

section \<open>Housekeeping\<close>

definition get_bootstrap_nodes :: "'ns node_env \<Rightarrow> string list \<Rightarrow> socket_addr list res" where
  "get_bootstrap_nodes env nodes =
     (if nodes \<noteq> [] then Ok (concat (List.map_filter (resolve_addrs env) nodes))
      else Err (Bail ''No bootstrap nodes specified.''))"

definition attempt_bootstrap :: "'ns node_env \<Rightarrow> 'ns node \<Rightarrow> 'ns node" where
  "attempt_bootstrap env n =
     (if no_net (config n) then n
      else case get_bootstrap_nodes env (bootstrap_nodes (config n)) of
             Ok addrs \<Rightarrow> fold (\<lambda>a. register_conn_change env (NewConn a Bootstrapper False)) addrs n
           | _ \<Rightarrow> n)"

text \<open>Addition of time stamps is checked.\<close>

definition add_u64 :: "u64 \<Rightarrow> u64 \<Rightarrow> u64 res" where
  "add_u64 x y = (if unat x + unat y < 2 ^ 64 then Ok (x + y) else Panic)"

definition is_conn_faulty :: "'ns node \<Rightarrow> 'ns connection \<Rightarrow> bool" where
  "is_conn_faulty n c \<longleftrightarrow> (case max_latency (config n) of Some l \<Rightarrow> l \<le> conn_get_latency c | None \<Rightarrow> False)"

definition is_conn_inactive :: "u64 \<Rightarrow> 'ns node \<Rightarrow> 'ns connection \<Rightarrow> bool res" where
  "is_conn_inactive curr_stamp n c =
     (case peer_type_of n of
        Node \<Rightarrow> res_bind (add_u64 (conn_last_seen c) (max_normal_keep_alive_ms (config n))) (\<lambda>t. Ok (t < curr_stamp))
      | Bootstrapper \<Rightarrow>
          res_bind (add_u64 (stats_created (stats c)) (word_of_nat MAX_BOOTSTRAPPER_KEEP_ALIVE)) (\<lambda>t. Ok (t < curr_stamp)))"

definition is_conn_to_remove :: "u64 \<Rightarrow> 'ns node \<Rightarrow> 'ns connection \<Rightarrow> bool res" where
  "is_conn_to_remove curr_stamp n c = (if is_conn_faulty n c then Ok True else is_conn_inactive curr_stamp n c)"

definition is_conn_without_handshake :: "u64 \<Rightarrow> 'ns connection \<Rightarrow> bool res" where
  "is_conn_without_handshake curr_stamp c =
     res_bind (add_u64 (stats_created (stats c)) (word_of_nat MAX_PREHANDSHAKE_KEEP_ALIVE)) (\<lambda>t. Ok (t < curr_stamp))"

text \<open>A predicate that may panic, on every element of a map.\<close>

definition checked_pred :: "('a \<Rightarrow> bool res) \<Rightarrow> 'a list \<Rightarrow> ('a \<Rightarrow> bool) res" where
  "checked_pred P xs = (if list_ex (\<lambda>x. P x = Panic) xs then Panic else Ok (\<lambda>x. P x = Ok True))"

definition remove_stale_candidates :: "'ns node_env \<Rightarrow> ('ns node, unit) action" where
  "remove_stale_candidates env = act_update (\<lambda>n.
     res_bind (checked_pred (is_conn_without_handshake (now_ms env)) (hm_values (conn_candidates n))) (\<lambda>stale.
       Ok (retain_candidates (\<lambda>c. \<not> stale c) n)))"

definition remove_faulty_connections :: "'ns node_env \<Rightarrow> ('ns node, unit) action" where
  "remove_faulty_connections env = act_update (\<lambda>n.
     res_bind (checked_pred (is_conn_to_remove (now_ms env) n) (hm_values (connections n))) (\<lambda>bad.
       let n' = retain_connections (\<lambda>c. \<not> bad c) n
       in Ok (if list_ex bad (hm_values (connections n)) then bump_last_peer_update env n' else n')))"

definition non_given_tokens :: "'ns node \<Rightarrow> token list" where
  "non_given_tokens n = map fst (filter (\<lambda>(t, c). \<not> is_given_connection n c) (connections n))"

definition drop_excess_peers :: "'ns node_env \<Rightarrow> ('ns node, unit) action" where
  "drop_excess_peers env = act_get (\<lambda>n.
     if peer_type_of n \<noteq> Node then act_return ()
     else act_bind (act_result (node_peer_count n)) (\<lambda>k.
       if max_allowed_nodes (config n) < k
       then act_modify (\<lambda>n. snd (remove_connections env
              (choose_ids env (unat (k - max_allowed_nodes (config n))) (non_given_tokens n)) n))
       else act_return ()))"

definition lift_soft_bans :: "'ns node_env \<Rightarrow> 'ns node \<Rightarrow> 'ns node" where
  "lift_soft_bans env n = n\<lparr>soft_bans := hm_retain (\<lambda>_ expiry. instant env < expiry) (soft_bans n)\<rparr>"

definition reconnect_given :: "'ns node_env \<Rightarrow> ('ns node, unit) action" where
  "reconnect_given env = act_get (\<lambda>n.
     act_each (\<lambda>a. act_log_error (connect env Node a None False)) (unconnected_given_addresses n))"

definition mul_u64 :: "u64 \<Rightarrow> u64 \<Rightarrow> u64 res" where
  "mul_u64 x y = (if unat x * unat y < 2 ^ 64 then Ok (x * y) else Panic)"

definition bootstrap_due :: "u64 \<Rightarrow> 'ns node \<Rightarrow> bool res" where
  "bootstrap_due curr_stamp n =
     (if no_bootstrap_dns (config n) \<or> peer_type_of n \<noteq> Node then Ok False
      else res_bind (mul_u64 (bootstrapping_interval (config n)) 1000) (\<lambda>i.
           res_bind (add_u64 (node.last_bootstrap n) i) (\<lambda>t. Ok (t \<le> curr_stamp))))"

definition connection_housekeeping :: "'ns node_env \<Rightarrow> ('ns node, bool) action" where
  "connection_housekeeping env =
     act_then (remove_stale_candidates env)
     (act_then (remove_faulty_connections env)
     (act_then (drop_excess_peers env)
     (act_then (act_modify (lift_soft_bans env))
     (act_then (reconnect_given env)
     (act_then (act_modify (\<lambda>n. n\<lparr>node_bad_events := bad_events_default\<rparr>))
     (act_bind (act_get (\<lambda>n. act_result (bootstrap_due (now_ms env) n))) (\<lambda>due.
        if due then act_then (act_modify (attempt_bootstrap env)) (act_return True)
        else act_return False)))))))"

end
