(* ===== verification/ConsensusPlugin.thy ===== *)
theory ConsensusPlugin
  imports Connectivity
begin

text \<open>
  The consensus plugin (\<^verbatim>\<open>plugins/consensus.rs\<close>): what happens to the messages of the consensus
  queues, and the catch-up bookkeeping. The consensus library is called through a foreign interface; its answers are
  the fields of \<open>consensus_api\<close>. A finaliser it returns is executed at the end and is the result
  of handling the message.
\<close>

section \<open>Messages to and from the consensus layer\<close>

record 'cb consensus_api =
  u32_deserial :: "bytes \<Rightarrow> u32 option"
  receive_block :: "u32 \<Rightarrow> bytes \<Rightarrow> consensus_ffi_response \<times> 'cb option"
  send_finalization :: "u32 \<Rightarrow> bytes \<Rightarrow> consensus_ffi_response"
  send_finalization_record :: "u32 \<Rightarrow> bytes \<Rightarrow> consensus_ffi_response"
  receive_catch_up_status :: "u32 \<Rightarrow> bytes \<Rightarrow> remote_peer_id \<Rightarrow> int \<Rightarrow> consensus_ffi_response"
  send_transaction :: "bytes \<Rightarrow> consensus_ffi_response"
  get_catch_up_status :: bytes
  bernoulli :: "rat \<Rightarrow> bool option"

definition send_consensus_msg_to_net ::
    "'ns node_env \<Rightarrow> remote_peer_id list \<Rightarrow> remote_peer_id option \<Rightarrow> bytes \<Rightarrow> ('ns node, unit) action" where
  "send_consensus_msg_to_net env dont_relay target pl = act_get (\<lambda>n.
     act_bind (case target of
         Some t \<Rightarrow> send_direct_message env t (default_network (config n)) pl
       | None \<Rightarrow> send_broadcast_message env dont_relay (default_network (config n)) pl) (\<lambda>_. act_return ()))"

text \<open>The peers that are told: all but those whose status is the omitted one.\<close>

definition peers_not_in_status :: "peer_status \<Rightarrow> 'ns node \<Rightarrow> remote_peer_id list" where
  "peers_not_in_status st n = map fst (filter (\<lambda>(_, state). state \<noteq> st) (peer_states (node_peers n)))"

definition handle_consensus_outbound_msg :: "'ns node_env \<Rightarrow> consensus_message \<Rightarrow> ('ns node, unit) action" where
  "handle_consensus_outbound_msg env m =
     (case omit_status m of
        Some st \<Rightarrow> act_get (\<lambda>n. act_each (\<lambda>p. send_consensus_msg_to_net env [] (Some p) (cm_payload m))
                                    (peers_not_in_status st n))
      | None \<Rightarrow> act_bind (act_result (target_peer m)) (\<lambda>target.
          send_consensus_msg_to_net env (dont_relay_to m) target (cm_payload m)))"

text \<open>The genesis index is read from the first four bytes; slicing a shorter payload panics.\<close>

definition with_genesis_index :: "'cb consensus_api \<Rightarrow> bytes \<Rightarrow> (u32 \<Rightarrow> bytes \<Rightarrow> 'a) \<Rightarrow> 'a res" where
  "with_genesis_index api pl f =
     (if length pl < 4 then Panic
      else case u32_deserial api (take 4 pl) of
             None \<Rightarrow> Err IoError
           | Some i \<Rightarrow> Ok (f i (drop 4 pl)))"

definition call_consensus ::
    "'cb consensus_api \<Rightarrow> int \<Rightarrow> remote_peer_id \<Rightarrow> consensus_message \<Rightarrow> (consensus_ffi_response \<times> 'cb option) res" where
  "call_consensus api batch_limit source m =
     (case cm_payload m of
        [] \<Rightarrow> Panic
      | _ # pl \<Rightarrow>
          (case variant m of
             Block \<Rightarrow> with_genesis_index api pl (receive_block api)
           | FinalizationMessage \<Rightarrow> with_genesis_index api pl (\<lambda>i bs. (send_finalization api i bs, None))
           | FinalizationRecord \<Rightarrow> with_genesis_index api pl (\<lambda>i bs. (send_finalization_record api i bs, None))
           | CatchUpStatus \<Rightarrow> with_genesis_index api pl (\<lambda>i bs.
               (receive_catch_up_status api i bs source batch_limit, None))
           | Transaction \<Rightarrow> Ok (send_transaction api pl, None)))"

definition send_msg_to_consensus ::
    "'cb consensus_api \<Rightarrow> remote_peer_id \<Rightarrow> consensus_message \<Rightarrow> ('ns node, consensus_ffi_response \<times> 'cb option) action" where
  "send_msg_to_consensus api source m = act_get (\<lambda>n.
     act_bind (act_result (call_consensus api (catch_up_batch_limit (config n)) source m)) (\<lambda>resp.
       if is_acceptable (fst resp) then act_return resp
       else act_then (act_modify (\<lambda>n. n\<lparr>node_bad_events := inc_invalid_messages source (node_bad_events n)\<rparr>))
              (act_return resp)))"

section \<open>Catch-up state\<close>

definition on_peers :: "(peer_list \<Rightarrow> peer_list) \<Rightarrow> ('ns node, unit) action" where
  "on_peers f = act_modify (\<lambda>n. n\<lparr>node_peers := f (node_peers n)\<rparr>)"

definition update_peer_list :: "('ns node, unit) action" where
  "update_peer_list = act_get (\<lambda>n. act_bind (act_result (get_node_peer_tokens n)) (\<lambda>ids.
     act_update (\<lambda>n. res_bind (update_peer_list_with ids (node_peers n)) (\<lambda>pl. Ok (n\<lparr>node_peers := pl\<rparr>)))))"

definition try_catch_up :: "'ns node_env \<Rightarrow> 'cb consensus_api \<Rightarrow> ('ns node, unit) action" where
  "try_catch_up env api = act_get (\<lambda>n.
     case next_pending (node_peers n) of
       (None, pl) \<Rightarrow> on_peers (\<lambda>_. pl)
     | (Some p, pl) \<Rightarrow>
         act_then (on_peers (\<lambda>_. pl\<lparr>catch_up_stamp := now_ms env\<rparr>))
         (act_bind (send_direct_message env p (default_network (config n)) (get_catch_up_status api)) (\<lambda>sent.
            if sent > 0 then act_return () else on_peers (forget_catch_up_peer p))))"

definition check_peer_states :: "'ns node_env \<Rightarrow> 'cb consensus_api \<Rightarrow> ('ns node, unit) action" where
  "check_peer_states env api =
     act_then (act_modify (\<lambda>n. if trigger_catchup (regenesis n)
         then n\<lparr>regenesis := (regenesis n)\<lparr>trigger_catchup := False\<rparr>, node_peers := mark_all_pending (node_peers n)\<rparr>
         else n))
     (act_get (\<lambda>n.
        case catch_up_peer (node_peers n) of
          None \<Rightarrow> try_catch_up env api
        | Some p \<Rightarrow>
            if map_of (connections n) (to_token p) \<noteq> None
            then act_bind (act_result (add_u64 (catch_up_stamp (node_peers n)) (word_of_nat MAX_CATCH_UP_TIME))) (\<lambda>limit.
                   if limit < now_ms env
                   then act_modify (register_conn_change env (RemovalByToken (to_token p)))
                   else act_return ())
            else act_then (on_peers (forget_catch_up_peer p)) (try_catch_up env api)))"

text \<open>A peer that was up to date becomes pending again; this is the same step as for a response that asks to continue.\<close>

definition update_peer_states ::
    "'ns node_env \<Rightarrow> consensus_message \<Rightarrow> consensus_ffi_response \<Rightarrow> ('ns node, unit) action" where
  "update_peer_states env m resp =
     act_bind (act_result (source_peer m)) (\<lambda>source.
       if variant m = CatchUpStatus
       then (case resp of
               Success \<Rightarrow> on_peers (peer_success source)
             | PendingBlock \<Rightarrow> on_peers (peer_behind source)
             | PendingFinalization \<Rightarrow> on_peers (peer_behind source)
             | ContinueCatchUp \<Rightarrow> on_peers (peer_continue source)
             | InvalidResult \<Rightarrow> act_modify (register_conn_change env (ExpulsionByToken (to_token source)))
             | DeserializationError \<Rightarrow> act_modify (register_conn_change env (ExpulsionByToken (to_token source)))
             | _ \<Rightarrow> act_return ())
       else if variant m = Block \<or> variant m = FinalizationRecord
       then (case message_distribution_mode m of
               DirectMode \<Rightarrow>
                 if is_successful resp
                 then act_get (\<lambda>n. act_each (\<lambda>p. send_consensus_msg_to_net env [] (Some p) (cm_payload m))
                        (filter (\<lambda>p. p \<noteq> source) (peers_not_in_status Pending n)))
                 else act_return ()
             | BroadcastMode \<Rightarrow> if is_pending resp then on_peers (peer_continue source) else act_return ())
       else act_return ())"

definition draw_drop :: "'cb consensus_api \<Rightarrow> 'ns node \<Rightarrow> bool res" where
  "draw_drop api n =
     (case drop_rebroadcast_probability (config n) of
        None \<Rightarrow> Ok False
      | Some p \<Rightarrow> (case bernoulli api p of None \<Rightarrow> Err (Bail ''invalid probability'') | Some b \<Rightarrow> Ok b))"

definition handle_consensus_inbound_msg ::
    "'ns node_env \<Rightarrow> 'cb consensus_api \<Rightarrow> consensus_message \<Rightarrow> ('ns node, 'cb option) action" where
  "handle_consensus_inbound_msg env api m =
     act_bind (act_get (\<lambda>n. act_result (draw_drop api n))) (\<lambda>drop_message.
     act_bind (act_result (source_peer m)) (\<lambda>source.
     act_bind (send_msg_to_consensus api source m) (\<lambda>(resp, finalizer).
     act_then (update_peer_states env m resp)
     (act_then
        (if \<not> drop_message \<and> message_distribution_mode m = BroadcastMode \<and>
            packet_type_is_rebroadcastable (variant m) \<and> is_rebroadcastable resp (variant m)
         then send_consensus_msg_to_net env (dont_relay_to m) None (cm_payload m) else act_return ())
        (act_return finalizer)))))"

end
