(* ===== verification/Config.thy ===== *)
theory Config
  imports Network Dedup Float64
begin

text \<open>
  The configuration (\<^verbatim>\<open>configuration.rs\<close>): the parsed options the peer-to-peer layer reads and the
  validation that \<^verbatim>\<open>parse_config\<close> performs on them. The parsing of the command line is the
  library's; the options with a default have it in \<open>connection_config_default\<close> and
  \<open>bootstrapper_config_default\<close>. A floating-point option is the rational number it denotes.
\<close>

section \<open>Options\<close>

definition KEEP_ALIVE_FACTOR :: nat where
  "KEEP_ALIVE_FACTOR = 3"

record connection_config =
  desired_nodes :: u16
  max_allowed_nodes_opt :: "u16 option"
  max_allowed_nodes_percentage :: u16
  conf_no_bootstrap_dns :: bool
  conf_no_clear_bans :: bool
  conf_relay_broadcast_percentage :: rat
  connect_to :: "string list"
  conf_disallow_multiple_peers_on_ip :: bool
  dns_resolver :: "string list"
  conf_bootstrap_nodes :: "string list"
  conf_housekeeping_interval :: u64
  conf_bootstrapping_interval :: u64
  conf_max_latency :: "u64 option"
  conf_hard_connection_limit :: u16
  conf_conn_requests_batch_limit :: u16
  conf_catch_up_batch_limit :: int
  conf_thread_pool_size :: usize
  conf_dedup_size_long :: usize
  conf_dedup_size_short :: usize
  conf_socket_write_size :: usize
  conf_socket_read_size :: usize
  conf_socket_so_linger :: "u16 option"
  conf_events_queue_size :: usize
  conf_deduplication_hashing_algorithm :: dedup_algorithm
  max_normal_keep_alive :: u64

definition connection_config_default :: connection_config where
  "connection_config_default =
     \<lparr>desired_nodes = 7, max_allowed_nodes_opt = None, max_allowed_nodes_percentage = 150,
      conf_no_bootstrap_dns = False, conf_no_clear_bans = False, conf_relay_broadcast_percentage = 1,
      connect_to = [], conf_disallow_multiple_peers_on_ip = False, dns_resolver = [],
      conf_bootstrap_nodes = [], conf_housekeeping_interval = 30, conf_bootstrapping_interval = 7200,
      conf_max_latency = None, conf_hard_connection_limit = 50, conf_conn_requests_batch_limit = 9,
      conf_catch_up_batch_limit = 50, conf_thread_pool_size = 4, conf_dedup_size_long = 65536,
      conf_dedup_size_short = 4096, conf_socket_write_size = 16384, conf_socket_read_size = 131072,
      conf_socket_so_linger = None, conf_events_queue_size = 10,
      conf_deduplication_hashing_algorithm = XxHash64, max_normal_keep_alive = 120\<rparr>"

record common_config =
  conf_external_port :: "u16 option"
  conf_id :: "p2p_node_id option"
  listen_port :: u16
  listen_address :: "string option"
  network_ids :: "u16 list"
  min_peers_bucket :: usize
  conf_bucket_cleanup_interval :: u64

definition common_config_default :: common_config where
  "common_config_default =
     \<lparr>conf_external_port = None, conf_id = None, listen_port = 8888, listen_address = None,
      network_ids = [1000], min_peers_bucket = 100, conf_bucket_cleanup_interval = 600000\<rparr>"

text \<open>The block size is the only baker option that the validation reads.\<close>

record cli_config =
  no_network :: bool
  conf_poll_interval :: u64
  maximum_block_size :: u32
  conf_timeout_bucket_entry_period :: u64
  conf_drop_rebroadcast_probability :: "rat option"

definition cli_config_default :: cli_config where
  "cli_config_default =
     \<lparr>no_network = False, conf_poll_interval = 100, maximum_block_size = 4194304,
      conf_timeout_bucket_entry_period = 0, conf_drop_rebroadcast_probability = None\<rparr>"

record bootstrapper_config =
  max_nodes :: u16
  wait_until_minimum_nodes :: u16
  bootstrapper_timeout_bucket_entry_period :: u64
  peer_list_size :: usize
  regenesis_block_hashes :: "string option"

definition bootstrapper_config_default :: bootstrapper_config where
  "bootstrapper_config_default =
     \<lparr>max_nodes = 10000, wait_until_minimum_nodes = 0,
      bootstrapper_timeout_bucket_entry_period = 7200000, peer_list_size = 10,
      regenesis_block_hashes = None\<rparr>"

record config =
  common :: common_config
  conf_connection :: connection_config
  cli :: cli_config
  bootstrapper :: bootstrapper_config

definition config_default :: config where
  "config_default =
     \<lparr>common = common_config_default, conf_connection = connection_config_default,
      cli = cli_config_default, bootstrapper = bootstrapper_config_default\<rparr>"

definition add_options :: "string option \<Rightarrow> u16 \<Rightarrow> u16 list \<Rightarrow> usize \<Rightarrow> config \<Rightarrow> config" where
  "add_options address port ids min_peers conf =
     conf\<lparr>common := (common conf)\<lparr>listen_address := address, listen_port := port,
            network_ids := ids, min_peers_bucket := min_peers\<rparr>\<rparr>"

section \<open>Validation\<close>

text \<open>The literal \<open>0.9\<close> is the double nearest to it.\<close>

definition F64_0_9 :: rat where
  "F64_0_9 = 8106479329266893 / 9007199254740992"

definition f64_ceil_to :: "nat \<Rightarrow> rat \<Rightarrow> nat" where
  "f64_ceil_to w x = min (nat \<lceil>x\<rceil>) (2 ^ w - 1)"

definition block_size_ok :: "u32 \<Rightarrow> bool" where
  "block_size_ok b \<longleftrightarrow>
     unat b \<le> 4000000000 \<and>
     f64_ceil_to 32 (f64_mul (of_nat (unat b)) F64_0_9) \<le> PROTOCOL_MAX_MESSAGE_SIZE"

definition validate_config :: "config \<Rightarrow> config res" where
  "validate_config conf =
     (let c = conf_connection conf
      in if max_allowed_nodes_percentage c < 100 then Err (Bail ''percentage lower than 100'')
         else if \<not> (case max_allowed_nodes_opt c of None \<Rightarrow> True | Some m \<Rightarrow> desired_nodes c \<le> m)
         then Err (Bail ''Max allowed nodes must be greater or equal to desired amount of nodes'')
         else if conf_hard_connection_limit c < desired_nodes c
         then Err (Bail ''Hard connection limit less than desired nodes'')
         else if \<not> (0 \<le> conf_relay_broadcast_percentage c \<and> conf_relay_broadcast_percentage c \<le> 1)
         then Err (Bail ''Percentage must be between 0.0 and 1.0'')
         else if \<not> block_size_ok (maximum_block_size (cli conf))
         then Err (Bail ''Maximum block size set higher than 90% of network protocol max size'')
         else if unat (conf_socket_read_size c) < 65535
         then Err (Bail ''Socket read size must be set to at least 65535'')
         else if conf_socket_read_size c < conf_socket_write_size c
         then Err (Bail ''Socket read size must be greater or equal to the write size'')
         else if unat (peer_list_size (bootstrapper conf)) < unat (wait_until_minimum_nodes (bootstrapper conf))
         then Err (Bail ''wait-until-minimum-nodes must be lower than or equal to peer-list-size'')
         else if unat (conf_housekeeping_interval c) * KEEP_ALIVE_FACTOR \<ge> 2 ^ 64 then Panic
         else if unat (max_normal_keep_alive c) < unat (conf_housekeeping_interval c) * KEEP_ALIVE_FACTOR
         then Err (Bail ''max-normal-keep-alive too small'')
         else Ok conf)"

text \<open>The limit of peers: given, or a percentage of the desired number of nodes.\<close>

definition allowed_nodes :: "connection_config \<Rightarrow> u16" where
  "allowed_nodes c =
     (case max_allowed_nodes_opt c of
        Some m \<Rightarrow> m
      | None \<Rightarrow> word_of_nat (f64_floor_to 16 (f64_mul (of_nat (unat (desired_nodes c)))
                  (f64_div (of_nat (unat (max_allowed_nodes_percentage c))) 100))))"

section \<open>Properties\<close>

lemma f64_div_ge_1: "100 \<le> n \<Longrightarrow> 1 \<le> f64_div (of_nat n) 100"
proof -
  assume n: "100 \<le> n"
  then have "(100 :: rat) \<le> of_nat n" by (metis of_nat_le_iff of_nat_numeral)
  then have "of_nat 1 \<le> (of_nat n :: rat) / 100" by simp
  from round_f64_ge [OF this] show ?thesis by (simp add: f64_div_def)
qed

lemma percentage_of_desired:
  assumes "100 \<le> pct" "d < 2 ^ 16"
  shows "d \<le> f64_floor_to 16 (f64_mul (of_nat d) (f64_div (of_nat pct) 100))"
proof -
  have "of_nat d * 1 \<le> of_nat d * f64_div (of_nat pct) 100"
    using f64_div_ge_1 [OF assms(1)] by (intro mult_left_mono) auto
  then have "of_nat d \<le> of_nat d * f64_div (of_nat pct) 100" by simp
  from round_f64_ge [OF this] assms(2) have "(of_nat d :: rat) \<le> f64_mul (of_nat d) (f64_div (of_nat pct) 100)"
    by (simp add: f64_mul_def)
  then have "int d \<le> \<lfloor>f64_mul (of_nat d) (f64_div (of_nat pct) 100)\<rfloor>" by (simp add: le_floor_iff)
  then show ?thesis using assms(2) by (simp add: f64_floor_to_def le_nat_iff)
qed

lemma validate_config_Ok:
  assumes "validate_config conf = Ok conf'"
  defines "c \<equiv> conf_connection conf"
  shows "conf' = conf" "\<not> max_allowed_nodes_percentage c < 100"
    "case max_allowed_nodes_opt c of None \<Rightarrow> True | Some m \<Rightarrow> desired_nodes c \<le> m"
    "desired_nodes c \<le> conf_hard_connection_limit c"
    "65535 \<le> unat (conf_socket_read_size c)" "conf_socket_write_size c \<le> conf_socket_read_size c"
    "unat (conf_housekeeping_interval c) * KEEP_ALIVE_FACTOR \<le> unat (max_normal_keep_alive c)"
  using assms(1) unfolding validate_config_def Let_def c_def [symmetric]
  by (auto simp: not_less split: if_splits)

text \<open>
  A configuration that is accepted is consistent: the limit of peers is never below
  the desired number of nodes, also when it is computed in floating point from a percentage, the
  hard limit of connections and the keep-alive time leave room for them, and a socket write fits
  into the buffer it shares with reading.
\<close>

theorem accepted_config_consistent:
  assumes "validate_config conf = Ok conf'" and "c = conf_connection conf'"
  shows "conf' = conf \<and> desired_nodes c \<le> allowed_nodes c \<and> desired_nodes c \<le> conf_hard_connection_limit c \<and>
    conf_socket_write_size c \<le> conf_socket_read_size c \<and> 65535 \<le> unat (conf_socket_read_size c) \<and>
    3 * unat (conf_housekeeping_interval c) \<le> unat (max_normal_keep_alive c)"
proof -
  note v = validate_config_Ok [OF assms(1)]
  have c: "c = conf_connection conf" using assms(2) v(1) by simp
  have "unat (max_allowed_nodes_percentage c) \<ge> unat (100 :: u16)"
    using v(2) by (simp only: c not_less word_le_nat_alt)
  then have pct: "100 \<le> unat (max_allowed_nodes_percentage c)" by simp
  have "unat (desired_nodes c) < 2 ^ 16" using unsigned_less [of "desired_nodes c"] by simp
  from percentage_of_desired [OF pct this]
  have "desired_nodes c \<le> allowed_nodes c" if "max_allowed_nodes_opt c = None"
    using that by (simp add: allowed_nodes_def word_le_nat_alt unat_of_nat f64_floor_to_def take_bit_eq_mod)
  then have "desired_nodes c \<le> allowed_nodes c"
    using v(3) c by (auto simp: allowed_nodes_def split: option.splits)
  then show ?thesis using v c by (simp add: KEEP_ALIVE_FACTOR_def)
qed

lemma block_size_accepted:
  assumes "unat b \<le> 23000000"
  shows "block_size_ok b"
proof -
  have "(of_nat (unat b) :: rat) \<le> of_nat 23000000" using assms by (simp only: of_nat_le_iff)
  then have "of_nat (unat b) * F64_0_9 \<le> of_nat 23000000 * F64_0_9"
    by (intro mult_right_mono) (auto simp: F64_0_9_def)
  also have "\<dots> \<le> of_nat PROTOCOL_MAX_MESSAGE_SIZE" by (simp add: F64_0_9_def PROTOCOL_MAX_MESSAGE_SIZE_def)
  finally have "f64_mul (of_nat (unat b)) F64_0_9 \<le> of_nat PROTOCOL_MAX_MESSAGE_SIZE"
    unfolding f64_mul_def by (rule round_f64_le) (simp add: PROTOCOL_MAX_MESSAGE_SIZE_def)
  then have "\<lceil>f64_mul (of_nat (unat b)) F64_0_9\<rceil> \<le> int PROTOCOL_MAX_MESSAGE_SIZE" by (simp add: ceiling_le_iff)
  then show ?thesis using assms by (simp add: block_size_ok_def f64_ceil_to_def nat_le_iff min.coboundedI1)
qed

lemmas config_default_defs = config_default_def connection_config_default_def cli_config_default_def
  common_config_default_def bootstrapper_config_default_def

theorem accepted_config_consistent_witness:
  "validate_config config_default = Ok config_default \<and> 7 \<le> allowed_nodes connection_config_default"
proof -
  have "block_size_ok 4194304" by (rule block_size_accepted) simp
  then have "validate_config config_default = Ok config_default"
    by (simp add: validate_config_def config_default_defs KEEP_ALIVE_FACTOR_def)
  from accepted_config_consistent [OF this refl] this show ?thesis
    by (simp add: config_default_def) (simp add: connection_config_default_def)
qed

text \<open>
  The check of the block size is the wrong way round: a maximum block size of 23 MB is
  accepted, although a message of that size exceeds what the network layer accepts (it should be
  at most 90 percent of it).
\<close>

theorem oversized_blocks_accepted:
  "is_ok (validate_config (config_default\<lparr>cli := cli_config_default\<lparr>maximum_block_size := 23000000\<rparr>\<rparr>)) \<and>
   PROTOCOL_MAX_MESSAGE_SIZE < unat (23000000 :: u32)"
proof -
  have "block_size_ok 23000000" by (rule block_size_accepted) simp
  then show ?thesis
    by (simp add: validate_config_def config_default_defs KEEP_ALIVE_FACTOR_def PROTOCOL_MAX_MESSAGE_SIZE_def)
qed

end
