(* ===== verification/Maintenance.thy ===== *)
theory Maintenance
  imports ConsensusPlugin Config
begin

text \<open>
  Node maintenance: peer statistics and the search for peers (\<^verbatim>\<open>p2p/peers.rs\<close>), the creation of
  the node, changes to the set of connections, and the poll loop (\<^verbatim>\<open>p2p/maintenance.rs\<close>).
\<close>

section \<open>Peers\<close>

text \<open>Time stamps are \<^verbatim>\<open>i64\<close> here, byte counts \<^verbatim>\<open>u64\<close>; both are checked.\<close>

definition calculate_average_throughput ::
    "64 word \<Rightarrow> 64 word \<Rightarrow> u64 \<Rightarrow> u64 \<Rightarrow> u64 \<Rightarrow> u64 \<Rightarrow> (u64 \<times> u64) res" where
  "calculate_average_throughput before_millis now_millis prev_recv recv prev_sent sent =
     (let delta = sint now_millis - sint before_millis;
          rate = (\<lambda>prev cur. 1000 * (unat cur - unat prev))
      in if delta \<le> 0 then Err (Bail ''Time went backwards or did not change.'')
         else if 2 ^ 63 \<le> delta then Panic
         else if recv < prev_recv then Err (Bail ''Received bytes were lost.'')
         else if 2 ^ 64 \<le> rate prev_recv recv then Panic
         else if sent < prev_sent then Err (Bail ''Sent bytes were lost.'')
         else if 2 ^ 64 \<le> rate prev_sent sent then Panic
         else Ok (word_of_nat (rate prev_recv recv div nat delta), word_of_nat (rate prev_sent sent div nat delta)))"

fun sum_u64 :: "u64 list \<Rightarrow> u64 \<Rightarrow> u64 res" where
  "sum_u64 [] acc = Ok acc"
| "sum_u64 (x # xs) acc = res_bind (add_u64 acc x) (sum_u64 xs)"

definition measure_throughput :: "'ns node_env \<Rightarrow> peer_stats list \<Rightarrow> ('ns node, unit) action" where
  "measure_throughput env ps = act_get (\<lambda>n.
     let nodes = filter (\<lambda>p. ps_peer_type p = Node) ps; ex = export n
     in act_bind (act_result (sum_u64 (map ps_bytes_received nodes) 0)) (\<lambda>recv.
        act_bind (act_result (sum_u64 (map ps_bytes_sent nodes) 0)) (\<lambda>sent.
        act_then (act_modify (on_export (set_bytes_sent sent \<circ> set_bytes_received recv)))
        (act_bind (act_result (calculate_average_throughput (last_throughput_measurement ex) (now_ms env)
             (total_bytes_received ex) recv (total_bytes_sent ex) sent)) (\<lambda>(bps_in, bps_out).
          act_modify (on_export (set_last_throughput_measurement_timestamp (now_ms env)
            \<circ> set_avg_bps_out bps_out \<circ> set_avg_bps_in bps_in)))))))"

definition send_get_peers :: "'ns node_env \<Rightarrow> 'ns node \<Rightarrow> 'ns node" where
  "send_get_peers env n =
     snd (send_over_all_connections (serialize (wire env) (now_ms env)
            (netmsg (now_ms env) (NetworkRequest (GetPeers (node_networks_set n))))) (\<lambda>_. True) n)"

definition check_peers :: "'ns node_env \<Rightarrow> peer_stats list \<Rightarrow> bool \<Rightarrow> 'ns node \<Rightarrow> 'ns node" where
  "check_peers env ps attempted_bootstrap n =
     (if peer_type_of n = Node \<and> \<not> no_net (config n) \<and>
         length (filter (\<lambda>p. ps_peer_type p = Node) ps) < unat (desired_nodes_count (config n))
      then if ps = []
           then if \<not> attempted_bootstrap \<and> \<not> no_bootstrap_dns (config n) then attempt_bootstrap env n else n
           else send_get_peers env n
      else n)"

section \<open>Changes to the connections\<close>

definition promote :: "'ns node_env \<Rightarrow> token \<Rightarrow> 'ns node \<Rightarrow> 'ns node" where
  "promote env tok n =
     (case map_of (conn_candidates n) tok of
        None \<Rightarrow> n
      | Some c \<Rightarrow>
          (let n1 = n\<lparr>conn_candidates := hm_remove tok (conn_candidates n)\<rparr>
           in if is_connected (external_addr (remote_peer c)) n1 then drop_connection c n1
              else bump_last_peer_update env
                     (drop_connections (case map_of (connections n1) (conn_token c) of Some old \<Rightarrow> [old] | None \<Rightarrow> [])
                        (n1\<lparr>connections := hm_insert (conn_token c) c (connections n1)\<rparr>))))"

text \<open>Connecting to discovered peers until there are as many as desired.\<close>

fun connect_to_peers :: "'ns node_env \<Rightarrow> nat \<Rightarrow> p2p_peer list \<Rightarrow> ('ns node, unit) action" where
  "connect_to_peers env k [] = act_return ()"
| "connect_to_peers env k (p # ps) = act_get (\<lambda>n.
     if unat (desired_nodes_count (config n)) \<le> k then act_return ()
     else act_or_else (connect env Node (p2p_addr p) (Some (p2p_id p)) True)
            (\<lambda>_. connect_to_peers env k ps) (\<lambda>_. connect_to_peers env (Suc k) ps))"

definition add_given_address :: "socket_addr \<Rightarrow> 'ns node \<Rightarrow> 'ns node" where
  "add_given_address a n = n\<lparr>config := (config n)\<lparr>given_addresses := List.insert a (given_addresses (config n))\<rparr>\<rparr>"

definition process_conn_change :: "'ns node_env \<Rightarrow> conn_change \<Rightarrow> ('ns node, unit) action" where
  "process_conn_change env change =
     (case change of
        NewConn a ptype given \<Rightarrow>
          act_or_else (connect env ptype a None (\<not> given)) (\<lambda>_. act_return ())
            (\<lambda>_. if given then act_modify (add_given_address a) else act_return ())
      | Promotion tok \<Rightarrow> act_modify (promote env tok)
      | NewPeers ps \<Rightarrow>
          act_bind (act_get (\<lambda>n. act_result (get_peer_stats (Some Node) n))) (\<lambda>current.
            connect_to_peers env (length current) (shuffle_peers env ps))
      | ExpulsionByToken tok \<Rightarrow> act_modify (\<lambda>n.
          case remove_connection env tok n of
            (Some rp, n') \<Rightarrow> soft_ban (BanIp (addr_ip (remote_addr rp))) (instant env + SOFT_BAN_DURATION_SECS * 1000) n'
          | (None, n') \<Rightarrow> n')
      | RemovalByToken tok \<Rightarrow> act_modify (\<lambda>n. snd (remove_connection env tok n))
      | RemoveAllByTokens toks \<Rightarrow> act_modify (\<lambda>n. snd (remove_connections env toks n)))"

definition process_conn_changes :: "'ns node_env \<Rightarrow> ('ns node, unit) action" where
  "process_conn_changes env = act_get (\<lambda>n.
     act_each (\<lambda>change. act_then (act_modify (\<lambda>n. n\<lparr>conn_changes := tl (conn_changes n)\<rparr>))
                          (process_conn_change env change)) (conn_changes n))"

section \<open>Creating and closing the node\<close>

definition octet :: "nat \<Rightarrow> 32 word \<Rightarrow> nat" where
  "octet i w = unat w div 256 ^ (3 - i) mod 256"

definition get_ip_if_suitable :: "ip_addr \<Rightarrow> ip_addr option" where
  "get_ip_if_suitable a =
     (case a of
        V4 x \<Rightarrow>
          if octet 0 x \<noteq> 127 \<and> \<not> (octet 0 x = 169 \<and> octet 1 x = 254) \<and>
             \<not> (224 \<le> octet 0 x \<and> octet 0 x \<le> 239) \<and> x \<noteq> 0xFFFFFFFF
          then Some a else None
      | V6 _ \<Rightarrow> None)"

text \<open>The interfaces' addresses; \<open>None\<close> when they cannot be listed. The last suitable one wins.\<close>

definition LOCALHOST :: ip_addr where
  "LOCALHOST = V4 0x7F000001"

definition get_ip :: "ip_addr list option \<Rightarrow> ip_addr option" where
  "get_ip interfaces =
     (let ip = fold (\<lambda>a ip. case get_ip_if_suitable a of Some b \<Rightarrow> b | None \<Rightarrow> ip)
                 (case interfaces of Some as \<Rightarrow> as | None \<Rightarrow> []) LOCALHOST
      in if ip = LOCALHOST then None else Some ip)"

text \<open>What the operating system answers when the node starts.\<close>

record start_env =
  parse_ip :: "string \<Rightarrow> ip_addr option"
  interfaces :: "ip_addr list option"
  listen_on :: "socket_addr \<Rightarrow> bool"
  random_id :: p2p_node_id
  dedup_seeds :: "u64 \<times> u64 \<times> u64 \<times> u64"
  stored_bans :: "bytes list option"

definition own_ip :: "start_env \<Rightarrow> config \<Rightarrow> ip_addr res" where
  "own_ip se conf =
     (case listen_address (common conf) of
        Some addy \<Rightarrow> (case parse_ip se addy of Some ip \<Rightarrow> Ok ip | None \<Rightarrow> Err (Bail ''listen address''))
      | None \<Rightarrow> (case get_ip (interfaces se) of Some ip \<Rightarrow> Ok ip | None \<Rightarrow> Err (Bail ''Could not compute my own ip.'')))"

definition bind_address :: "start_env \<Rightarrow> config \<Rightarrow> socket_addr res" where
  "bind_address se conf =
     (case listen_address (common conf) of
        Some addy \<Rightarrow> (case parse_ip se addy of
            Some ip \<Rightarrow> Ok (SocketAddr ip (listen_port (common conf))) | None \<Rightarrow> Err (Bail ''listen address''))
      | None \<Rightarrow> Ok (SocketAddr (V4 0) (listen_port (common conf))))"

fun parse_config_nodes :: "'ns node_env \<Rightarrow> string list \<Rightarrow> socket_addr list \<Rightarrow> socket_addr list res" where
  "parse_config_nodes env [] out = Ok out"
| "parse_config_nodes env (c # cs) out =
     (case resolve_addrs env c of
        None \<Rightarrow> Err IoError
      | Some addrs \<Rightarrow> parse_config_nodes env cs (fold List.insert addrs out))"

definition node_config_new :: "config \<Rightarrow> peer_type \<Rightarrow> socket_addr list \<Rightarrow> node_config res" where
  "node_config_new conf ptype given =
     (let c = conf_connection conf; b = bootstrapper conf
      in if network_ids (common conf) = [] then Panic
         else res_bind (mul_u64 (max_normal_keep_alive c) 1000) (\<lambda>keep_alive.
           Ok \<lparr>no_net = no_network (cli conf), desired_nodes_count = desired_nodes c,
               no_bootstrap_dns = conf_no_bootstrap_dns c, no_clear_bans = conf_no_clear_bans c,
               disallow_multiple_peers_on_ip = conf_disallow_multiple_peers_on_ip c,
               bootstrap_nodes = conf_bootstrap_nodes c, given_addresses = given,
               max_allowed_nodes = allowed_nodes c,
               relay_broadcast_percentage = conf_relay_broadcast_percentage c,
               poll_interval = conf_poll_interval (cli conf),
               housekeeping_interval = conf_housekeeping_interval c,
               bootstrapping_interval = conf_bootstrapping_interval c, print_peers = True,
               bootstrapper_wait_minimum_peers =
                 (case ptype of Bootstrapper \<Rightarrow> wait_until_minimum_nodes b | Node \<Rightarrow> 0),
               max_latency = conf_max_latency c, hard_connection_limit = conf_hard_connection_limit c,
               conn_requests_batch_limit = conf_conn_requests_batch_limit c,
               catch_up_batch_limit = conf_catch_up_batch_limit c,
               timeout_bucket_entry_period =
                 (if ptype = Bootstrapper then bootstrapper_timeout_bucket_entry_period b
                  else conf_timeout_bucket_entry_period (cli conf)),
               bucket_cleanup_interval = conf_bucket_cleanup_interval (common conf),
               thread_pool_size = conf_thread_pool_size c, dedup_size_long = conf_dedup_size_long c,
               dedup_size_short = conf_dedup_size_short c, socket_read_size = conf_socket_read_size c,
               socket_write_size = conf_socket_write_size c,
               drop_rebroadcast_probability =
                 (case ptype of Node \<Rightarrow> conf_drop_rebroadcast_probability (cli conf) | _ \<Rightarrow> None),
               bootstrapper_peer_list_size = peer_list_size b,
               default_network = hd (network_ids (common conf)),
               socket_so_linger = conf_socket_so_linger c, events_queue_size = conf_events_queue_size c,
               deduplication_hashing_algorithm = conf_deduplication_hashing_algorithm c,
               max_normal_keep_alive_ms = keep_alive\<rparr>))"

text \<open>
  \<^verbatim>\<open>ConnectionHandler::new\<close> and \<^verbatim>\<open>P2PNode::new\<close>: a node without connections whose first token
  is one. A failure to reset the bans is only logged.
\<close>

definition initial_node ::
    "start_env \<Rightarrow> config \<Rightarrow> p2p_peer \<Rightarrow> node_config \<Rightarrow> regenesis \<Rightarrow> bytes list \<Rightarrow> 'ns node" where
  "initial_node se conf self nc regen bans =
     \<lparr>self_peer = self, node.config = nc, next_token = 1, node_buckets = buckets_default,
      conn_candidates = [], connections = [], conn_changes = [], soft_bans = [],
      node_networks_set = fset_of_list (network_ids (common conf)),
      deduplication_queues = dedup_queues_new (dedup_seeds se)
        (conf_deduplication_hashing_algorithm (conf_connection conf))
        (unat (conf_dedup_size_long (conf_connection conf))) (unat (conf_dedup_size_short (conf_connection conf))),
      last_bootstrap = 0, last_peer_update = 0, total_received = 0, total_sent = 0,
      export = export_stats_new, ban_store = bans, node_peers = peer_list_default,
      node_bad_events = bad_events_default, regenesis = regen, callback_queue = consensus_queues_default\<rparr>"

definition node_new ::
    "'ns node_env \<Rightarrow> start_env \<Rightarrow> p2p_node_id option \<Rightarrow> config \<Rightarrow> peer_type \<Rightarrow> regenesis \<Rightarrow> 'ns node res" where
  "node_new env se supplied_id conf ptype regen =
     res_bind (bind_address se conf) (\<lambda>addr.
     res_bind (own_ip se conf) (\<lambda>ip.
     let i = (case supplied_id of Some i \<Rightarrow> i | None \<Rightarrow> random_id se);
         own_port = (case conf_external_port (common conf) of Some p \<Rightarrow> p | None \<Rightarrow> listen_port (common conf));
         self = \<lparr>p2p_id = i, p2p_addr = SocketAddr ip own_port, p2p_type = ptype\<rparr>
     in if \<not> listen_on se addr then Err (Bail ''Could not listen on the given listen-port'')
        else res_bind (parse_config_nodes env (connect_to (conf_connection conf)) []) (\<lambda>given.
             res_bind (node_config_new conf ptype given) (\<lambda>nc.
             case stored_bans se of
               None \<Rightarrow> Err (Bail ''Could not create or obtain the ban database.'')
             | Some bans \<Rightarrow>
                 (let n = initial_node se conf self nc regen bans
                  in Ok (if no_clear_bans nc then n else snd (clear_bans env n)))))))"

definition node_close :: "'ns node_env \<Rightarrow> 'ns node \<Rightarrow> 'ns node option" where
  "node_close env n =
     (let n1 = stop_network n
      in map_option (\<lambda>q. n1\<lparr>callback_queue := q\<rparr>) (queues_stop (channels env) (callback_queue n1)))"

section \<open>The poll loop\<close>

record 'ns poll_state =
  poll_node :: "'ns node"
  log_time :: nat
  last_buckets_cleaned :: nat
  last_peer_list_update :: u64
  iterations_since_housekeeping :: nat
  unprocessed_attempts :: bool

definition poll_start :: "'ns node_env \<Rightarrow> 'ns node \<Rightarrow> 'ns poll_state" where
  "poll_start env n =
     \<lparr>poll_node = n, log_time = instant env, last_buckets_cleaned = instant env, last_peer_list_update = 0,
      iterations_since_housekeeping = 0, unprocessed_attempts = False\<rparr>"

definition in_poll :: "('ns node, 'a) action \<Rightarrow> ('ns poll_state, 'a) action" where
  "in_poll m s = (case m (poll_node s) of (r, n) \<Rightarrow> (r, s\<lparr>poll_node := n\<rparr>))"

datatype incoming = Incoming socket socket_addr | IncomingError

text \<open>Accepting at most a batch of waiting connections; the flag says whether some may be left.\<close>

fun accept_loop :: "'ns node_env \<Rightarrow> nat \<Rightarrow> incoming list \<Rightarrow> 'ns node \<Rightarrow> bool \<times> 'ns node" where
  "accept_loop env 0 ins n = (True, n)"
| "accept_loop env (Suc k) [] n = (False, n)"
| "accept_loop env (Suc k) (IncomingError # ins) n = accept_loop env k ins n"
| "accept_loop env (Suc k) (Incoming sk a # ins) n =
     (case accept env sk a n of
        (Inl (TooManyConnections _), n') \<Rightarrow> (True, n')
      | (_, n') \<Rightarrow> accept_loop env k ins n')"

definition poll_accept :: "'ns node_env \<Rightarrow> poll_event list \<Rightarrow> incoming list \<Rightarrow> 'ns poll_state \<Rightarrow> 'ns poll_state" where
  "poll_accept env events ins s =
     (if unprocessed_attempts s \<or> list_ex (\<lambda>ev. ev_token ev = SELF_TOKEN) events
      then (case accept_loop env (unat (conn_requests_batch_limit (node.config (poll_node s)))) ins (poll_node s) of
              (left, n) \<Rightarrow> s\<lparr>poll_node := n, unprocessed_attempts := left\<rparr>)
      else s)"

definition poll_consensus :: "'ns node_env \<Rightarrow> 'cb consensus_api option \<Rightarrow> ('ns poll_state, unit) action" where
  "poll_consensus env consensus =
     (case consensus of
        None \<Rightarrow> act_return ()
      | Some api \<Rightarrow> act_get (\<lambda>s.
          act_then
            (if last_peer_list_update s < last_peer_update (poll_node s)
             then act_then (in_poll update_peer_list)
                    (act_modify (\<lambda>s'. s'\<lparr>last_peer_list_update := last_peer_update (poll_node s)\<rparr>))
             else act_return ())
            (in_poll (check_peer_states env api))))"

definition node_housekeeping :: "'ns node_env \<Rightarrow> ('ns node, unit) action" where
  "node_housekeeping env =
     act_bind (connection_housekeeping env) (\<lambda>attempted.
     act_then (act_get (\<lambda>n. if peer_type_of n \<noteq> Bootstrapper then measure_connection_latencies env else act_return ()))
     (act_bind (act_get (\<lambda>n. act_result (get_peer_stats None n))) (\<lambda>ps.
       act_then (act_modify (check_peers env ps attempted))
                (act_log_error (measure_throughput env ps)))))"

definition poll_housekeeping :: "'ns node_env \<Rightarrow> ('ns poll_state, unit) action" where
  "poll_housekeeping env = act_get (\<lambda>s.
     if 10 \<le> iterations_since_housekeeping s
     then if unat (housekeeping_interval (node.config (poll_node s))) * 1000 \<le> instant env - log_time s
          then act_then (in_poll (node_housekeeping env))
                 (act_modify (\<lambda>s. s\<lparr>log_time := instant env, iterations_since_housekeeping := 0\<rparr>))
          else act_return ()
     else act_modify (\<lambda>s. s\<lparr>iterations_since_housekeeping := iterations_since_housekeeping s + 1\<rparr>))"

definition poll_clean_buckets :: "'ns node_env \<Rightarrow> ('ns poll_state, unit) action" where
  "poll_clean_buckets env = act_get (\<lambda>s.
     if is_bucket_cleanup_enabled (poll_node s) \<and>
        unat (bucket_cleanup_interval (node.config (poll_node s))) \<le> instant env - last_buckets_cleaned s
     then act_then (in_poll (act_update (\<lambda>n.
              res_bind (clean_buckets (now_ms env) (timeout_bucket_entry_period (node.config n)) (node_buckets n))
                (\<lambda>b. Ok (n\<lparr>node_buckets := b\<rparr>)))))
            (act_modify (\<lambda>s. s\<lparr>last_buckets_cleaned := instant env\<rparr>))
     else act_return ())"

text \<open>One iteration of the loop, once the poll has returned its events.\<close>

definition poll_iteration ::
    "'ns node_env \<Rightarrow> 'cb consensus_api option \<Rightarrow> poll_event list \<Rightarrow> incoming list \<Rightarrow> ('ns poll_state, unit) action" where
  "poll_iteration env consensus events ins =
     act_then (act_modify (poll_accept env events ins))
     (act_then (in_poll (process_conn_changes env))
     (act_then (poll_consensus env consensus)
     (act_then (in_poll (process_network_events env events))
     (act_then (poll_housekeeping env) (poll_clean_buckets env)))))"

definition poll_shutdown :: "'ns node \<Rightarrow> 'ns node" where
  "poll_shutdown n =
     (let n1 = retain_connections (\<lambda>_. False) (retain_candidates (\<lambda>_. False) n)
      in n1\<lparr>node_peers := peer_list_clear (node_peers n1)\<rparr>)"

end
