(* ===== verification/ConnectionFrames.thy ===== *)
theory ConnectionFrames
  imports Maintenance
begin

text \<open>
  What processing one connection leaves alone. While the events of a connection are handled, the
  maps of connections, the tokens, the soft bans, the configuration and the catch-up list of the
  node do not change; the connection
  keeps its token; and a promotion is only requested for the connection itself, once its peer
  has identified itself.
\<close>

section \<open>The frame\<close>

abbreviation node_core :: "'ns node \<Rightarrow> _" where
  "node_core n \<equiv> (conn_candidates n, connections n, next_token n, soft_bans n, config n, node_peers n)"

definition quiet :: "'ns node \<Rightarrow> 'ns node \<Rightarrow> bool" where
  "quiet n n' \<longleftrightarrow> node_core n' = node_core n \<and> node_buckets n' = node_buckets n \<and> conn_changes n' = conn_changes n"

definition conn_frame :: "'ns node \<Rightarrow> 'ns connection \<Rightarrow> 'ns conn_state \<Rightarrow> bool" where
  "conn_frame n0 c0 = (\<lambda>(c, n).
     node_core n = node_core n0 \<and> buckets_inv (node_buckets n) \<and> conn_token c = conn_token c0 \<and>
     (conn_remote_id c0 \<noteq> None \<longrightarrow> conn_remote_id c \<noteq> None) \<and>
     (\<forall>t. Promotion t \<in> set (conn_changes n) \<longrightarrow>
        Promotion t \<in> set (conn_changes n0) \<or> t = conn_token c0 \<and> conn_remote_id c \<noteq> None))"

lemma conn_frame_refl: "buckets_inv (node_buckets n) \<Longrightarrow> conn_frame n c (c, n)"
  by (simp add: conn_frame_def)

lemma register_conn_change_set:
  assumes "change_channel_law env"
  shows "set (conn_changes (register_conn_change env ch n)) \<subseteq> insert ch (set (conn_changes n))"
proof -
  have "change_try_send env cap q x = (if length q < cap then Some (q @ [x]) else None)" for cap q x
    using assms unfolding change_channel_law_def by blast
  then show ?thesis by (auto simp: register_conn_change_def)
qed

lemma register_conn_change_same [simp]:
  "conn_candidates (register_conn_change env ch n) = conn_candidates n"
  "connections (register_conn_change env ch n) = connections n"
  "next_token (register_conn_change env ch n) = next_token n"
  "soft_bans (register_conn_change env ch n) = soft_bans n"
  "config (register_conn_change env ch n) = config n"
  "node_peers (register_conn_change env ch n) = node_peers n"
  "node_buckets (register_conn_change env ch n) = node_buckets n"
  by (simp_all add: register_conn_change_def split: option.split)

lemma on_export_quiet [simp]: "quiet n (on_export f m) = quiet n m"
  by (simp add: quiet_def on_export_def)

lemma frame_on_conn [keeps_intros]:
  assumes "\<And>c. remote_peer (f c) = remote_peer c"
  shows "keeps (conn_frame n0 c0) (on_conn f)"
  unfolding on_conn_def
  by (rule keeps_modify) (auto simp: conn_frame_def conn_token_def conn_remote_id_def assms)

lemma frame_quiet: "conn_frame n0 c0 (c, n) \<Longrightarrow> quiet n n' \<Longrightarrow> conn_frame n0 c0 (c, n')"
  by (simp add: conn_frame_def quiet_def)

lemma frame_on_node [keeps_intros]:
  assumes "\<And>n. quiet n (f n)"
  shows "keeps (conn_frame n0 c0) (on_node f)"
  unfolding on_node_def by (rule keeps_modify) (auto intro: frame_quiet [OF _ assms])

lemma frame_in_node [keeps_intros]:
  assumes "\<And>n. quiet n (snd (m n))"
  shows "keeps (conn_frame n0 c0) (in_node m)"
proof (rule keepsI)
  fix s
  assume s: "conn_frame n0 c0 s"
  obtain c n where cn: "s = (c, n)" by (cases s)
  show "conn_frame n0 c0 (snd (in_node m s))"
    using frame_quiet [OF s [unfolded cn] assms] by (cases "m n") (simp add: in_node_def cn)
qed

lemma frame_on_buckets [keeps_intros]:
  assumes "\<And>b. buckets_inv b \<Longrightarrow> \<exists>b'. f b = Ok b' \<and> buckets_inv b'"
  shows "keeps (conn_frame n0 c0) (on_buckets f)"
proof (rule keepsI)
  fix s
  assume s: "conn_frame n0 c0 s"
  obtain c n where cn: "s = (c, n)" by (cases s)
  then obtain b where b: "f (node_buckets n) = Ok b" "buckets_inv b"
    using s assms [of "node_buckets n"] by (auto simp: conn_frame_def)
  then show "conn_frame n0 c0 (snd (on_buckets f s))"
    using s by (simp add: on_buckets_def in_node_def cn act_simps conn_frame_def)
qed

lemma frame_register:
  assumes "change_channel_law env" and "\<And>t. ch \<noteq> Promotion t"
  shows "keeps (conn_frame n0 c0) (on_node (register_conn_change env ch))"
  unfolding on_node_def
proof (rule keeps_modify)
  fix s
  assume s: "conn_frame n0 c0 s"
  obtain c n where cn: "s = (c, n)" by (cases s)
  have "Promotion t \<in> set (conn_changes (register_conn_change env ch n)) \<Longrightarrow> Promotion t \<in> set (conn_changes n)" for t
    using register_conn_change_set [OF assms(1), of ch n] assms(2) [of t] by auto
  with s show "conn_frame n0 c0 (case s of (c, n) \<Rightarrow> (c, register_conn_change env ch n))"
    by (auto simp: cn conn_frame_def)
qed

lemma bucket_update_ok:
  "buckets_inv b \<Longrightarrow> \<exists>b'. insert_into_bucket now p nets b = Ok b' \<and> buckets_inv b'"
  "buckets_inv b \<Longrightarrow> \<exists>b'. update_network_ids now p nets b = Ok b' \<and> buckets_inv b'"
  using bucket_call_total [of b "InsertNode now p nets"] bucket_call_total [of b "UpdateNode now p nets"] by simp_all

section \<open>The handlers\<close>

lemma quiet_check_duplicate: "quiet n (snd (is_packet_duplicate env p n))"
  by (simp add: is_packet_duplicate_def quiet_def Let_def
      split: list.split res.split packet_destination.split packet_type.split prod.split)

lemma quiet_handle_pkt_out: "quiet n (snd (handle_pkt_out env dr p msg b n))"
  by (auto simp: handle_pkt_out_def Let_def quiet_def on_queues_def on_export_def
      split: list.split res.split prod.split bool.split)

lemma frame_populate [keeps_intros]: "keeps (conn_frame n0 c0) (populate_remote_end_networks env p nets)"
  unfolding populate_remote_end_networks_def
  by (intro keeps_intros) (auto intro!: keeps_intros bucket_update_ok)

lemma frame_add_network [keeps_intros]: "keeps (conn_frame n0 c0) (add_remote_end_network env i)"
  unfolding add_remote_end_network_def
  by (intro keeps_intros) (auto intro!: keeps_intros bucket_update_ok)

lemma frame_remove_network [keeps_intros]: "keeps (conn_frame n0 c0) (remove_remote_end_network env i)"
  unfolding remove_remote_end_network_def
  by (intro keeps_intros) (auto intro!: keeps_intros bucket_update_ok)

lemma frame_last_seen [keeps_intros]: "keeps (conn_frame n0 c0) (update_last_seen env)"
  unfolding update_last_seen_def by (intro keeps_intros) (auto intro!: keeps_intros)

lemma frame_peer_list [keeps_intros]: "keeps (conn_frame n0 c0) (send_peer_list_resp env nets st)"
  unfolding send_peer_list_resp_def
  by (intro keeps_intros) (auto intro!: keeps_intros simp: async_send_def split: list.split)

lemma frame_pong [keeps_intros]: "keeps (conn_frame n0 c0) (handle_pong env)"
  by (rule keepsI)
    (auto simp: handle_pong_def conn_frame_def conn_token_def conn_remote_id_def split: prod.split)

text \<open>The promotion of the connection: its identifier is set before the promotion is requested.\<close>

lemma conn_frame_trans:
  assumes "conn_frame n0 c0 (c, n)" and "conn_frame n c1 (c', n')"
    and "conn_token c1 = conn_token c" and "conn_remote_id c \<noteq> None \<Longrightarrow> conn_remote_id c1 \<noteq> None"
  shows "conn_frame n0 c0 (c', n')"
  using assms unfolding conn_frame_def prod.case by metis

lemma frame_register_promotion:
  assumes "change_channel_law env" and "conn_remote_id c0 \<noteq> None"
  shows "keeps (conn_frame n0 c0) (act_get (\<lambda>(c, n). on_node (register_conn_change env (Promotion (conn_token c)))))"
proof (rule keepsI)
  fix s
  assume s: "conn_frame n0 c0 s"
  obtain c n where cn: "s = (c, n)" by (cases s)
  have "Promotion t \<in> set (conn_changes (register_conn_change env (Promotion (conn_token c)) n)) \<Longrightarrow>
      Promotion t \<in> set (conn_changes n) \<or> t = conn_token c" for t
    using register_conn_change_set [OF assms(1), of "Promotion (conn_token c)" n] by auto
  with s assms(2) show "conn_frame n0 c0 (snd (act_get (\<lambda>(c, n). on_node (register_conn_change env (Promotion (conn_token c)))) s))"
    by (auto simp: cn conn_frame_def act_simps on_node_def)
qed

lemma update_last_bootstrap_quiet: "quiet n (update_last_bootstrap env n)"
  by (simp add: quiet_def update_last_bootstrap_def)

lemma peers_inc_quiet: "quiet n (on_export f n)"
  by (simp add: quiet_def on_export_def)

lemma frame_promote:
  assumes "change_channel_law env"
  shows "keeps (conn_frame n0 c0) (promote_to_post_handshake env i port nets wv)"
proof (rule keepsI)
  fix s
  assume s: "conn_frame n0 c0 s"
  obtain c n where cn: "s = (c, n)" by (cases s)
  define c1 where "c1 = c\<lparr>remote_peer := (remote_peer c)\<lparr>self_id := Some i, external_port := port\<rparr>\<rparr>"
  define rest where "rest = act_then (on_node (on_export peers_inc))
     (act_then (act_get (\<lambda>(c, n). if conn_remote_peer_type c = Bootstrapper
                                   then on_node (update_last_bootstrap env) else act_return ()))
     (act_then (act_get (\<lambda>(c, n). populate_remote_end_networks env (remote_peer c) nets))
     (act_then (on_conn (\<lambda>c. c\<lparr>wire_version := wv\<rparr>))
     (act_get (\<lambda>(c, n). on_node (register_conn_change env (Promotion (conn_token c))))))))"
  have id: "conn_remote_id c1 \<noteq> None" by (simp add: c1_def conn_remote_id_def)
  have keep: "keeps (conn_frame n c1) rest"
    unfolding rest_def
    by (intro keeps_then frame_register_promotion [OF assms id] keeps_get)
      (auto intro!: keeps_intros peers_inc_quiet update_last_bootstrap_quiet)
  have "buckets_inv (node_buckets n)" using s by (simp add: cn conn_frame_def)
  then have "conn_frame n c1 (snd (rest (c1, n)))" by (rule keepsD [OF keep conn_frame_refl])
  moreover have "promote_to_post_handshake env i port nets wv s = rest (c1, n)"
    by (simp add: promote_to_post_handshake_def cn on_conn_def modify_then c1_def rest_def)
  moreover have "conn_token c1 = conn_token c" by (simp add: c1_def conn_token_def)
  ultimately show "conn_frame n0 c0 (snd (promote_to_post_handshake env i port nets wv s))"
    using conn_frame_trans [OF s [unfolded cn], of c1 "fst (snd (rest (c1, n)))" "snd (snd (rest (c1, n)))"] id by simp
qed

lemma frame_handshake:
  assumes "change_channel_law env"
  shows "keeps (conn_frame n0 c0) (handle_handshake_req env h st)"
  unfolding handle_handshake_req_def
  by (intro keeps_bind keeps_then keeps_get frame_promote [OF assms]) (auto intro!: keeps_intros)

lemma frame_message:
  assumes "change_channel_law env"
  shows "keeps (conn_frame n0 c0) (handle_incoming_message env m st)"
  unfolding handle_incoming_message_def
  by (auto intro!: keeps_intros frame_handshake [OF assms] frame_register [OF assms] quiet_handle_pkt_out
      simp: handle_incoming_packet_def send_pong_def async_send_def
      split: network_payload.split network_request.split network_response.split)

lemma frame_process_message:
  assumes "change_channel_law env"
  shows "keeps (conn_frame n0 c0) (process_message env st bs)"
  unfolding process_message_def
  by (auto intro!: keeps_intros frame_message [OF assms] quiet_check_duplicate
      simp: quiet_def split: network_payload.split) (simp_all add: on_export_def)

section \<open>Reading and writing\<close>

lemma read_stream_all_keeps:
  "(\<And>bs c. I c \<Longrightarrow> I (snd (process bs c))) \<Longrightarrow> I c \<Longrightarrow> I (fst (snd (read_stream_all ops po process c s)))"
proof (induction ops po process c s rule: read_stream_all.induct)
  case (1 ops po process c s)
  note p = "1.prems"(1)
  show ?case
  proof (cases "read_from_socket ops po s")
    case (Ok rs)
    obtain r s' where rs: "rs = (r, s')" by (cases rs)
    show ?thesis
    proof (cases r)
      case (Complete msg)
      obtain pr c' where pr: "process msg c = (pr, c')" by (cases "process msg c")
      have "I c'" using p [OF "1.prems"(2), of msg] pr by simp
      then show ?thesis
        using "1.IH"(1) [OF Ok rs [symmetric] Complete pr [symmetric] _ p] Ok rs Complete pr
        by (cases pr) (simp_all add: read_stream_all.simps [of ops po process c s])
    next
      case Incomplete
      then show ?thesis using "1.IH"(2) [OF Ok rs [symmetric] Incomplete p "1.prems"(2)] Ok rs
        by (simp add: read_stream_all.simps [of ops po process c s])
    qed (use Ok rs "1.prems"(2) in \<open>simp_all add: read_stream_all.simps [of ops po process c s]\<close>)
  qed (use "1.prems"(2) in \<open>simp_all add: read_stream_all.simps [of ops po process c s]\<close>)
qed

lemma frame_low_level: "conn_frame n0 c0 (c\<lparr>low_level := ll\<rparr>, n) = conn_frame n0 c0 (c, n)"
  by (simp add: conn_frame_def conn_token_def conn_remote_id_def)

lemma frame_read_stream:
  assumes "change_channel_law env"
  shows "keeps (conn_frame n0 c0) (read_stream env st)"
proof (rule keepsI)
  fix s
  assume s: "conn_frame n0 c0 s"
  obtain c n where cn: "s = (c, n)" by (cases s)
  let ?r = "read_stream_all (noise env) (produce_handshake_request env n) (process_message env st) s (low_level c)"
  have "conn_frame n0 c0 (fst (snd ?r))"
    by (rule read_stream_all_keeps [OF keepsD [OF frame_process_message [OF assms]] s])
  then show "conn_frame n0 c0 (snd (read_stream env st s))"
    by (cases ?r) (auto simp: read_stream_def cn frame_low_level split: prod.split)
qed

lemma frame_send_pending [keeps_intros]: "keeps (conn_frame n0 c0) (send_pending_messages env)"
proof (rule keepsI)
  fix s
  show "conn_frame n0 c0 s \<Longrightarrow> conn_frame n0 c0 (snd (send_pending_messages env s))"
  proof (induction env s rule: send_pending_messages.induct)
    case (1 env c n)
    show ?case
    proof (cases "dequeue (pending_messages c)")
      case None
      then show ?thesis using "1.prems" by (simp add: send_pending_messages.simps)
    next
      case (Some mq)
      obtain msg q where mq: "mq = (msg, q)" by (cases mq)
      define c1 where "c1 = c\<lparr>pending_messages := q\<rparr>"
      have c1: "conn_frame n0 c0 (c1, n)"
        using "1.prems" by (simp add: c1_def conn_frame_def conn_token_def conn_remote_id_def)
      show ?thesis
      proof (cases "write_to_socket (noise env) msg (low_level c1)")
        case (Ok ll)
        define c2 where "c2 = c1\<lparr>low_level := ll, stats := (stats c1)\<lparr>messages_sent := messages_sent (stats c1) + 1,
          bytes_sent := bytes_sent (stats c1) + word_of_nat (length msg)\<rparr>\<rparr>"
        define n2 where "n2 = on_export pkt_sent_inc (n\<lparr>total_sent := total_sent n + 1\<rparr>)"
        have "conn_frame n0 c0 (c2, n2)"
          using c1 by (simp add: c2_def n2_def conn_frame_def conn_token_def conn_remote_id_def on_export_def)
        with "1.IH" [OF Some mq [symmetric] c1_def Ok, folded c2_def n2_def]
        have "conn_frame n0 c0 (snd (send_pending_messages env (c2, n2)))" by blast
        moreover have "send_pending_messages env (c, n) = send_pending_messages env (c2, n2)"
          using Some mq Ok by (subst send_pending_messages.simps) (simp add: Let_def c1_def c2_def n2_def)
        ultimately show ?thesis by simp
      qed (use Some mq c1 in \<open>simp_all add: send_pending_messages.simps [of env c n] Let_def c1_def\<close>)
    qed
  qed
qed

lemma frame_flush [keeps_intros]: "keeps (conn_frame n0 c0) (conn_flush_socket env)"
  by (rule keepsI) (auto simp: conn_flush_socket_def frame_low_level split: res.split)

lemma keeps_or_else [keeps_intros]:
  assumes "keeps I m" "\<And>e. keeps I (h e)" "\<And>x. keeps I (k x)"
  shows "keeps I (act_or_else m h k)"
proof (rule keepsI)
  fix s
  assume "I s"
  obtain r s' where ms: "m s = (r, s')" by (cases "m s")
  have "I s'" using keepsD [OF assms(1) \<open>I s\<close>] ms by simp
  then show "I (snd (act_or_else m h k s))"
    using ms keepsD [OF assms(2)] keepsD [OF assms(3)] by (cases r) (simp_all add: act_or_else_def)
qed

lemma frame_failed_connection:
  assumes "change_channel_law env"
  shows "keeps (conn_frame n0 c0) (failed_connection env e)" "keeps (conn_frame n0 c0) (close_connection env)"
  unfolding failed_connection_def close_connection_def
  by (auto intro!: keeps_get frame_register [OF assms] split: anyhow_error.splits)

lemma frame_connection_events:
  assumes "change_channel_law env"
  shows "keeps (conn_frame n0 c0) (process_connection_events env events st)"
  unfolding process_connection_events_def
  by (intro keeps_intros frame_failed_connection [OF assms])
    (auto intro!: keeps_intros frame_failed_connection [OF assms] frame_read_stream [OF assms])

end
