(* ===== verification/NodeInvariant.thy ===== *)
theory NodeInvariant
  imports ConnectionFrames Examples
begin

text \<open>
  The invariant of the node: its connections are kept under their own tokens, every token belongs
  to one connection, every peer that is listed as connected has completed its handshake, and a
  promotion is only ever requested for such a peer. It holds after every sequence of iterations
  of the poll loop, consensus messages and administrative operations.
\<close>

section \<open>The invariant\<close>

definition change_ok :: "'ns node \<Rightarrow> conn_change \<Rightarrow> bool" where
  "change_ok n ch = (case ch of
     Promotion t \<Rightarrow> t < next_token n \<and> (\<forall>c. map_of (conn_candidates n) t = Some c \<longrightarrow> conn_remote_id c \<noteq> None)
   | _ \<Rightarrow> True)"

definition node_inv :: "'ns node \<Rightarrow> bool" where
  "node_inv n \<longleftrightarrow>
     hm_wf (conn_candidates n) \<and> hm_wf (connections n) \<and>
     (\<forall>t c. map_of (conn_candidates n) t = Some c \<longrightarrow>
        conn_token c = t \<and> t \<noteq> SELF_TOKEN \<and> t < next_token n \<and> map_of (connections n) t = None) \<and>
     (\<forall>t c. map_of (connections n) t = Some c \<longrightarrow>
        conn_token c = t \<and> t \<noteq> SELF_TOKEN \<and> t < next_token n \<and> conn_remote_id c \<noteq> None) \<and>
     0 < next_token n \<and> buckets_inv (node_buckets n) \<and> (\<forall>ch \<in> set (conn_changes n). change_ok n ch)"

lemma node_invD:
  assumes "node_inv n"
  shows "hm_wf (conn_candidates n)" "hm_wf (connections n)"
    "map_of (conn_candidates n) t = Some c \<Longrightarrow> conn_token c = t \<and> t \<noteq> SELF_TOKEN \<and> t < next_token n \<and> map_of (connections n) t = None"
    "map_of (connections n) t = Some c \<Longrightarrow> conn_token c = t \<and> t \<noteq> SELF_TOKEN \<and> t < next_token n \<and> conn_remote_id c \<noteq> None"
    "0 < next_token n" "buckets_inv (node_buckets n)" "ch \<in> set (conn_changes n) \<Longrightarrow> change_ok n ch"
  using assms unfolding node_inv_def by blast+

text \<open>Peers that are connected can always be listed.\<close>

lemma collect_res_not_panic: "(\<And>r. r \<in> set rs \<Longrightarrow> \<exists>x. r = Ok x) \<Longrightarrow> \<exists>xs. collect_res rs = Ok xs \<and> length xs = length rs"
proof (induction rs)
  case (Cons r rs)
  then obtain x xs where "r = Ok x" "collect_res rs = Ok xs" "length xs = length rs" by fastforce
  then show ?case by simp
qed simp

lemma node_inv_peer_stats:
  assumes "node_inv n"
  shows "\<exists>ps. get_peer_stats pt n = Ok ps \<and>
    length ps = length (filter (\<lambda>c. pt = None \<or> pt = Some (conn_remote_peer_type c)) (hm_values (connections n)))"
proof -
  have "\<exists>x. conn_peer_stats c = Ok x" if "(t, c) \<in> set (connections n)" for t c
    using node_invD(4) [OF assms map_of_is_SomeI [OF node_invD(2) [OF assms] that]]
    by (auto simp: conn_peer_stats_def conn_remote_id_def)
  then show ?thesis unfolding get_peer_stats_def
    using collect_res_not_panic [of "map conn_peer_stats (filter (\<lambda>c. pt = None \<or> pt = Some (conn_remote_peer_type c)) (hm_values (connections n)))"]
    by fastforce
qed

section \<open>Operations that add no connection\<close>

text \<open>Connections may disappear, or change without changing their peer.\<close>

definition conn_sub :: "'ns connections \<Rightarrow> 'ns connections \<Rightarrow> bool" where
  "conn_sub m m' \<longleftrightarrow> (hm_wf m \<longrightarrow> hm_wf m' \<and>
     (\<forall>t c'. map_of m' t = Some c' \<longrightarrow> (\<exists>c. map_of m t = Some c \<and> remote_peer c' = remote_peer c)))"

definition shrinks :: "'ns node \<Rightarrow> 'ns node \<Rightarrow> bool" where
  "shrinks n n' \<longleftrightarrow>
     conn_sub (conn_candidates n) (conn_candidates n') \<and> conn_sub (connections n) (connections n') \<and>
     next_token n' = next_token n \<and> (buckets_inv (node_buckets n) \<longrightarrow> buckets_inv (node_buckets n')) \<and>
     (\<forall>t. Promotion t \<in> set (conn_changes n') \<longrightarrow> Promotion t \<in> set (conn_changes n)) \<and>
     length (given_addresses (config n')) \<le> length (given_addresses (config n))"

lemma conn_sub_refl [simp]: "conn_sub m m"
  by (simp add: conn_sub_def)

lemma conn_sub_trans: "conn_sub m m' \<Longrightarrow> conn_sub m' m'' \<Longrightarrow> conn_sub m m''"
  unfolding conn_sub_def by metis

lemma shrinks_refl [simp]: "shrinks n n"
  by (simp add: shrinks_def)

lemma shrinks_trans: "shrinks n n' \<Longrightarrow> shrinks n' n'' \<Longrightarrow> shrinks n n''"
  unfolding shrinks_def using conn_sub_trans by (metis order_trans)

lemma conn_sub_remove [simp]: "conn_sub m (hm_remove t m)"
  by (auto simp: conn_sub_def hm_simps split: if_splits)

lemma conn_sub_retain [simp]: "conn_sub m (hm_retain P m)"
  by (auto simp: conn_sub_def hm_simps split: option.splits if_splits)

lemma conn_sub_map:
  assumes "\<And>c. remote_peer (f c) = remote_peer c"
  shows "conn_sub m (map (\<lambda>(t, c). (t, f c)) m)"
proof -
  have "map_of (map (\<lambda>(t, c). (t, f c)) m) t = map_option f (map_of m t)" for t
    by (induction m) auto
  moreover have "hm_keys (map (\<lambda>(t, c). (t, f c)) m) = hm_keys m" by (induction m) auto
  ultimately show ?thesis using assms unfolding conn_sub_def by (simp only:) auto
qed

lemma conn_sub_peer: "remote_peer c' = remote_peer c \<Longrightarrow> conn_token c' = conn_token c \<and> conn_remote_id c' = conn_remote_id c"
  by (simp add: conn_token_def conn_remote_id_def)

lemma shrinks_node_inv:
  assumes "shrinks n n'" and "node_inv n"
  shows "node_inv n'"
proof -
  note s = assms(1)[unfolded shrinks_def conn_sub_def] and i = node_invD [OF assms(2)]
  have cand: "\<exists>c0. map_of (conn_candidates n) t = Some c0 \<and> remote_peer c = remote_peer c0"
    if "map_of (conn_candidates n') t = Some c" for t c using s i(1) that by blast
  have conn: "\<exists>c0. map_of (connections n) t = Some c0 \<and> remote_peer c = remote_peer c0"
    if "map_of (connections n') t = Some c" for t c using s i(2) that by blast
  have nt: "next_token n' = next_token n" using s by blast
  have c1: "conn_token c = t \<and> t \<noteq> SELF_TOKEN \<and> t < next_token n' \<and> map_of (connections n') t = None"
    if "map_of (conn_candidates n') t = Some c" for t c
    using cand [OF that] conn i(3) conn_sub_peer nt by (metis option.distinct(1) not_None_eq)
  have c2: "conn_token c = t \<and> t \<noteq> SELF_TOKEN \<and> t < next_token n' \<and> conn_remote_id c \<noteq> None"
    if "map_of (connections n') t = Some c" for t c
    using conn [OF that] i(4) conn_sub_peer nt by metis
  have ch: "change_ok n' ch" if "ch \<in> set (conn_changes n')" for ch
  proof (cases ch)
    case (Promotion t)
    then have "change_ok n (Promotion t)" using s i(7) that by blast
    then show ?thesis using Promotion cand conn_sub_peer nt by (fastforce simp: change_ok_def)
  qed (simp_all add: change_ok_def)
  show ?thesis unfolding node_inv_def using s i(1,2,5,6) c1 c2 ch nt by auto
qed

text \<open>The remaining tokens, and the given addresses that may each take one of them.\<close>

definition node_ok :: "nat \<Rightarrow> nat \<Rightarrow> 'ns node \<Rightarrow> bool" where
  "node_ok b g n \<longleftrightarrow> node_inv n \<and> unat (next_token n) + b < 2 ^ 64 \<and> length (given_addresses (config n)) \<le> g"

lemma shrinks_ok: "shrinks n n' \<Longrightarrow> node_ok b g n \<Longrightarrow> node_ok b g n'"
  using shrinks_node_inv [of n n'] by (auto simp: node_ok_def shrinks_def)

lemma node_ok_mono: "node_ok b g n \<Longrightarrow> b' \<le> b \<Longrightarrow> g \<le> g' \<Longrightarrow> node_ok b' g' n"
  by (auto simp: node_ok_def)

lemma keeps_shrinks:
  assumes "\<And>n. shrinks n (snd (m n))"
  shows "keeps (shrinks n0) m"
  by (rule keepsI) (rule shrinks_trans [OF _ assms])

lemma shrinks_keeps_ok: "(\<And>n0. keeps (shrinks n0) m) \<Longrightarrow> keeps (node_ok b g) m"
  by (rule keepsI) (metis keepsD shrinks_ok shrinks_refl)

lemma shrinks_modify: "(\<And>n. shrinks n (f n)) \<Longrightarrow> keeps (shrinks n0) (act_modify f)"
  by (rule keeps_shrinks) (simp add: act_simps)

lemma shrinks_update: "(\<And>n n'. f n = Ok n' \<Longrightarrow> shrinks n n') \<Longrightarrow> keeps (shrinks n0) (act_update f)"
  by (rule keeps_shrinks) (auto simp: act_simps split: res.split)

named_theorems shrink_intros \<open>operations that add no connection\<close>

lemma shrinks_export [simp]: "shrinks n (on_export f m) = shrinks n m"
  by (simp add: shrinks_def on_export_def)

lemma shrinks_bump [simp]: "shrinks n (bump_last_peer_update env m) = shrinks n m"
  by (simp add: shrinks_def bump_last_peer_update_def)

lemma shrinks_drop [simp]: "shrinks n (drop_connection c m) = shrinks n m"
  by (simp add: drop_connection_def)

lemma shrinks_drops [simp]: "shrinks n (drop_connections cs m) = shrinks n m"
  unfolding drop_connections_def by (induction cs arbitrary: m) simp_all

lemma shrinks_register [shrink_intros]:
  assumes "change_channel_law env" "\<And>t. ch \<noteq> Promotion t"
  shows "shrinks n (register_conn_change env ch n)"
proof -
  have "Promotion t \<in> set (conn_changes (register_conn_change env ch n)) \<Longrightarrow> Promotion t \<in> set (conn_changes n)" for t
    using register_conn_change_set [OF assms(1), of ch n] assms(2) [of t] by auto
  then show ?thesis by (simp add: shrinks_def)
qed

lemma shrinks_remove_connection [shrink_intros]: "shrinks n (snd (remove_connection env t n))"
  by (auto simp: remove_connection_def split: option.split) (simp_all add: shrinks_def)

lemma shrinks_remove_tokens: "shrinks n (snd (snd (remove_tokens toks rc rp n)))"
proof (induction toks rc rp n rule: remove_tokens.induct)
  case (2 tok toks rc rp n)
  have s: "shrinks n (drop_connection c (n\<lparr>conn_candidates := hm_remove tok (conn_candidates n)\<rparr>))"
    "shrinks n (drop_connection c (n\<lparr>connections := hm_remove tok (connections n)\<rparr>))" for c
    by (simp, simp add: shrinks_def)+
  show ?case
  proof (cases "map_of (conn_candidates n) tok")
    case (Some c)
    then show ?thesis using shrinks_trans [OF s(1) "2.IH"(3) [OF Some]] by simp
  next
    case None
    show ?thesis
    proof (cases "map_of (connections n) tok")
      case (Some c)
      then show ?thesis using None shrinks_trans [OF s(2) "2.IH"(2) [OF None Some]] by simp
    qed (use None "2.IH"(1) in simp)
  qed
qed simp

lemma shrinks_remove_connections [shrink_intros]: "shrinks n (snd (remove_connections env toks n))"
  using shrinks_remove_tokens [of n toks False False]
  by (cases "remove_tokens toks False False n") (simp add: remove_connections_def)

lemma shrinks_retain [shrink_intros]:
  "shrinks n (retain_candidates P n)" "shrinks n (retain_connections P n)"
  by (simp_all add: retain_candidates_def retain_connections_def) (simp_all add: shrinks_def)

lemma shrinks_send [shrink_intros]: "shrinks n (snd (send_over_all_connections data f n))"
  by (simp add: send_over_all_connections_def shrinks_def conn_sub_map async_send_def)

lemma shrinks_attempt_bootstrap [shrink_intros]:
  assumes "change_channel_law env"
  shows "shrinks n (attempt_bootstrap env n)"
proof -
  have r: "shrinks n (register_conn_change env (NewConn a Bootstrapper False) n)" for a and n :: "'a node"
    by (rule shrinks_register [OF assms]) simp
  have "shrinks n (fold (\<lambda>a. register_conn_change env (NewConn a Bootstrapper False)) addrs n)" for addrs
    by (induction addrs arbitrary: n) (auto intro: shrinks_trans [OF r])
  then show ?thesis by (simp add: attempt_bootstrap_def split: res.split)
qed

lemma shrinks_housekeeping_parts:
  "keeps (shrinks n0) (remove_stale_candidates env)" "keeps (shrinks n0) (remove_faulty_connections env)"
  "keeps (shrinks n0) (drop_excess_peers env)" "shrinks n (lift_soft_bans env n)"
proof -
  show "keeps (shrinks n0) (remove_stale_candidates env)" "keeps (shrinks n0) (remove_faulty_connections env)"
    unfolding remove_stale_candidates_def remove_faulty_connections_def
    by (rule shrinks_update, auto simp: res_simps Let_def intro: shrink_intros)+
  show "keeps (shrinks n0) (drop_excess_peers env)"
    unfolding drop_excess_peers_def
    by (intro keeps_get keeps_if keeps_bind keeps_return keeps_result shrinks_modify shrink_intros)
  show "shrinks n (lift_soft_bans env n)" by (simp add: lift_soft_bans_def shrinks_def)
qed

lemma ping_all_sub: "ping_all env m = Ok m' \<Longrightarrow> hm_keys m' = hm_keys m \<and>
    (\<forall>t c'. map_of m' t = Some c' \<longrightarrow> (\<exists>c. map_of m t = Some c \<and> remote_peer c' = remote_peer c))"
proof (induction env m arbitrary: m' rule: ping_all.induct)
  case (2 env t c cs)
  have p: "send_ping env c = Ok c' \<Longrightarrow> remote_peer c' = remote_peer c" for c'
    by (auto simp: send_ping_def Let_def async_send_def res_simps)
  from "2.prems" obtain cs' c1 where cs': "ping_all env cs = Ok cs'" "m' = (t, c1) # cs'" "remote_peer c1 = remote_peer c"
    using p by (auto simp: res_simps split: res.splits)
  have "send_ping env c \<noteq> Panic" using "2.prems" by auto
  with "2.IH" cs'(1) have ih: "hm_keys cs' = hm_keys cs"
    "\<And>u c'. map_of cs' u = Some c' \<Longrightarrow> \<exists>c. map_of cs u = Some c \<and> remote_peer c' = remote_peer c"
    by (cases "send_ping env c"; blast)+
  show ?case using ih(1) cs' ih(2) by auto
qed simp

lemma shrinks_latencies [shrink_intros]: "keeps (shrinks n0) (measure_connection_latencies env)"
  unfolding measure_connection_latencies_def
proof (rule shrinks_update)
  fix n n' :: "'a node"
  assume "res_bind (ping_all env (connections n)) (\<lambda>cs. Ok (n\<lparr>connections := cs\<rparr>)) = Ok n'"
  then obtain cs where "ping_all env (connections n) = Ok cs" "n' = n\<lparr>connections := cs\<rparr>" by (auto simp: res_simps)
  moreover have "conn_sub (connections n) cs"
    using ping_all_sub [OF calculation(1)] unfolding conn_sub_def by (metis (no_types, lifting))
  ultimately show "shrinks n n'" by (simp add: shrinks_def)
qed

lemma shrinks_throughput [shrink_intros]: "keeps (shrinks n0) (measure_throughput env ps)"
  unfolding measure_throughput_def Let_def
  by (intro keeps_get keeps_bind keeps_then keeps_result shrinks_modify) (auto intro!: shrinks_modify)

lemma shrinks_check_peers [shrink_intros]:
  "change_channel_law env \<Longrightarrow> shrinks n (check_peers env ps b n)"
  by (simp add: check_peers_def send_get_peers_def shrinks_send shrinks_attempt_bootstrap)

subsection \<open>Consensus messages\<close>

lemma shrinks_send_message [shrink_intros]: "keeps (shrinks n0) (send_message_over_network env t dr i msg)"
proof (rule keeps_shrinks)
  fix n :: "'a node"
  show "shrinks n (snd (send_message_over_network env t dr i msg n))"
    by (auto simp: send_message_over_network_def process_network_packet_def Let_def shrinks_send
        split: prod.split res.split packet_destination.split option.split)
qed

lemma shrinks_send_consensus [shrink_intros]: "keeps (shrinks n0) (send_consensus_msg_to_net env dr t pl)"
  unfolding send_consensus_msg_to_net_def send_direct_message_def send_broadcast_message_def
  by (intro keeps_intros) (auto intro!: keeps_intros shrink_intros split: option.split)

lemma shrinks_on_peers [shrink_intros]: "keeps (shrinks n0) (on_peers f)"
  unfolding on_peers_def by (rule shrinks_modify) (simp add: shrinks_def)

lemma shrinks_try_catch_up [shrink_intros]: "keeps (shrinks n0) (try_catch_up env api)"
  unfolding try_catch_up_def send_direct_message_def
  by (rule keeps_get) (auto intro!: keeps_intros shrink_intros split: prod.split option.split)

lemma shrinks_update_peer_list [shrink_intros]: "keeps (shrinks n0) update_peer_list"
  unfolding update_peer_list_def
  by (intro keeps_get keeps_bind keeps_result shrinks_update) (auto simp: res_simps shrinks_def)

lemma shrinks_check_peer_states [shrink_intros]:
  assumes "change_channel_law env"
  shows "keeps (shrinks n0) (check_peer_states env api)"
  unfolding check_peer_states_def
  by (intro keeps_then keeps_get shrinks_modify)
    (auto intro!: keeps_intros shrink_intros shrinks_modify shrinks_register [OF assms]
      simp: shrinks_def split: option.split)

lemma shrinks_update_peer_states [shrink_intros]:
  assumes "change_channel_law env"
  shows "keeps (shrinks n0) (update_peer_states env m resp)"
proof -
  have r: "keeps (shrinks n0) (act_modify (register_conn_change env (ExpulsionByToken t)))" for t
    by (rule shrinks_modify) (simp add: shrinks_register [OF assms])
  have e: "keeps (shrinks n0) (act_each (\<lambda>p. send_consensus_msg_to_net env [] (Some p) pl) ps)" for pl ps
    by (intro keeps_intros shrink_intros)
  show ?thesis
    unfolding update_peer_states_def
    by (cases resp; cases "message_distribution_mode m";
        simp only: consensus_ffi_response.case distribution_mode.case;
        intro keeps_bind keeps_if keeps_get keeps_result keeps_return shrinks_on_peers r e)
qed

lemma shrinks_consensus_messages:
  assumes "change_channel_law env"
  shows "keeps (shrinks n0) (handle_consensus_inbound_msg env api m)"
    and "keeps (shrinks n0) (handle_consensus_outbound_msg env m)"
proof -
  have "keeps (shrinks n0) (send_msg_to_consensus api src m)" for src
    unfolding send_msg_to_consensus_def
    by (intro keeps_get keeps_bind keeps_if keeps_then keeps_result keeps_return shrinks_modify) (simp add: shrinks_def)
  then show "keeps (shrinks n0) (handle_consensus_inbound_msg env api m)"
    unfolding handle_consensus_inbound_msg_def
    by (auto intro!: keeps_intros shrink_intros assms)
  show "keeps (shrinks n0) (handle_consensus_outbound_msg env m)"
    unfolding handle_consensus_outbound_msg_def
    by (auto intro!: keeps_intros shrink_intros split: option.split)
qed

lemma shrinks_bans:
  assumes "change_channel_law env"
  shows "shrinks n (snd (drop_by_ip_and_ban env ip n))" "shrinks n (snd (drop_by_id env i n))"
    "shrinks n (snd (drop_addr env a n))" "shrinks n (snd (unban_node env p n))" "shrinks n (snd (clear_bans env n))"
proof -
  have r: "shrinks n0 n1 \<Longrightarrow> shrinks n0 (register_conn_change env (RemovalByToken t) n1)"
    "shrinks n0 n1 \<Longrightarrow> shrinks n0 (register_conn_change env (RemoveAllByTokens ts) n1)" for n0 n1 :: "'a node" and t ts
    by (auto intro: shrinks_trans shrinks_register [OF assms])
  have g: "shrinks n (n\<lparr>ban_store := st, config := (config n)\<lparr>given_addresses := filter P (given_addresses (config n))\<rparr>\<rparr>)"
    "shrinks n (n\<lparr>config := (config n)\<lparr>given_addresses := removeAll a (given_addresses (config n))\<rparr>\<rparr>)" for st P a
    by (simp_all add: shrinks_def length_removeAll_less_eq)
  show "shrinks n (snd (drop_by_ip_and_ban env ip n))"
    by (auto simp: drop_by_ip_and_ban_def Let_def intro!: r g split: option.split)
  show "shrinks n (snd (drop_by_id env i n))"
    by (auto simp: drop_by_id_def intro!: r split: option.split)
  show "shrinks n (snd (drop_addr env a n))"
    by (auto simp: drop_addr_def Let_def intro!: r g split: option.split)
  show "shrinks n (snd (unban_node env p n))" "shrinks n (snd (clear_bans env n))"
    by (simp_all add: unban_node_def clear_bans_def shrinks_def split: option.split)
qed

lemma shrinks_clean_buckets:
  assumes "clean_buckets now period (node_buckets n) = Ok b"
  shows "shrinks n (n\<lparr>node_buckets := b\<rparr>)"
proof -
  have "buckets_inv (node_buckets n) \<Longrightarrow> buckets_inv b"
    using assms bucket_call_total [of "node_buckets n" "CleanBuckets now period"]
    by (auto simp: clean_buckets_def split: if_splits)
  then show ?thesis by (simp add: shrinks_def)
qed

section \<open>Operations that add connections\<close>

lemma node_ok_insert_candidate:
  assumes "node_ok (Suc b) g n" and "conn_token c = next_token n"
  shows "node_ok b g (insert_candidate c (n\<lparr>next_token := next_token n + 1\<rparr>))"
proof -
  note i = node_invD [OF node_ok_def [THEN iffD1, OF assms(1), THEN conjunct1]]
  have b: "unat (next_token n) + Suc b < 2 ^ 64" "length (given_addresses (config n)) \<le> g"
    using assms(1) by (auto simp: node_ok_def)
  have nt: "unat (next_token n + 1) = unat (next_token n) + 1"
    using b(1) by (simp add: unat_word_ariths)
  then have lt: "t < next_token n + 1" if "t \<le> next_token n" for t
    using that by (simp add: word_less_nat_alt word_le_nat_alt)
  have none: "map_of (conn_candidates n) (next_token n) = None" "map_of (connections n) (next_token n) = None"
    using i(3,4) by (metis not_None_eq order_less_irrefl)+
  have ins: "insert_candidate c (n\<lparr>next_token := next_token n + 1\<rparr>) =
      n\<lparr>next_token := next_token n + 1, conn_candidates := hm_insert (next_token n) c (conn_candidates n)\<rparr>"
    by (simp add: insert_candidate_def assms(2) none drop_connections_def)
  have "change_ok (n\<lparr>next_token := next_token n + 1, conn_candidates := hm_insert (next_token n) c (conn_candidates n)\<rparr>) ch"
    if "ch \<in> set (conn_changes n)" for ch
    using i(7) [OF that] lt by (cases ch) (auto simp: change_ok_def hm_simps order_less_imp_le split: if_splits)
  moreover have "0 < next_token n + 1" using nt by (simp add: word_less_nat_alt)
  moreover have "next_token n \<noteq> SELF_TOKEN" using i(5) by (simp add: SELF_TOKEN_def)
  ultimately have "node_inv (insert_candidate c (n\<lparr>next_token := next_token n + 1\<rparr>))"
    unfolding ins node_inv_def using i(1,2,3,4,6) none lt assms(2)
    by (auto simp: hm_simps order_less_imp_le split: if_splits)
  then show ?thesis using b nt unfolding node_ok_def ins by simp
qed

lemma node_ok_export [simp]: "node_ok b g (on_export f n) = node_ok b g n"
proof -
  have "shrinks n (on_export f n)" "shrinks (on_export f n) n" by (simp_all, simp add: shrinks_def on_export_def)
  then show ?thesis using shrinks_ok by blast
qed

lemma node_ok_next_token:
  assumes "node_ok (Suc b) g n"
  shows "node_ok b g (n\<lparr>next_token := next_token n + 1\<rparr>)"
proof -
  have b: "unat (next_token n) + Suc b < 2 ^ 64" using assms by (simp add: node_ok_def)
  then have nt: "unat (next_token n + 1) = unat (next_token n) + 1" by (simp add: unat_word_ariths)
  have le: "t < next_token n \<Longrightarrow> t < next_token n + 1" for t using nt by (simp add: word_less_nat_alt)
  have i: "node_inv n" using assms by (simp add: node_ok_def)
  have "change_ok (n\<lparr>next_token := next_token n + 1\<rparr>) ch" if "change_ok n ch" for ch
    using that le by (cases ch) (auto simp: change_ok_def)
  with i have "node_inv (n\<lparr>next_token := next_token n + 1\<rparr>)"
    unfolding node_inv_def using le by auto
  then show ?thesis using assms nt by (simp add: node_ok_def)
qed

lemma connection_new_token:
  "connection_new env n sk tok p b = Ok c \<Longrightarrow> conn_token c = to_token (local_id p)"
  by (auto simp: connection_new_def Let_def conn_token_def split: if_splits)

lemma accept_ok:
  assumes "node_ok (Suc b) g n"
  shows "node_ok b g (snd (accept env sk a n))"
proof -
  define n1 where "n1 = on_export conn_received_inc n"
  have n1: "node_ok (Suc b) g n1" using assms by (simp add: n1_def)
  have "node_ok b g (insert_candidate c (n1\<lparr>next_token := next_token n1 + 1\<rparr>))"
    if "connection_new env (n1\<lparr>next_token := next_token n1 + 1\<rparr>) sk (next_token n1)
          \<lparr>self_id = None, remote_addr = a, local_id = remote_peer_id_from_token (next_token n1),
           external_port = addr_port a, remote_peer_type = Node\<rparr> False = Ok c" for c
    using connection_new_token [OF that]
    by (intro node_ok_insert_candidate [OF n1]) (simp add: to_token_def remote_peer_id_from_token_def)
  with n1 node_ok_next_token [OF n1] node_ok_mono [OF n1] show ?thesis
    unfolding accept_def Let_def n1_def [symmetric] fresh_token_def
    by (auto split: option.split res.split)
qed

lemma accept_loop_ok: "node_ok (b + k) g n \<Longrightarrow> node_ok b g (snd (accept_loop env k ins n))"
proof (induction env k ins n rule: accept_loop.induct)
  case (4 env k sk a ins n)
  have ok: "node_ok (b + k) g (snd (accept env sk a n))" using accept_ok [of "b + k" g n env sk a] "4.prems" by simp
  obtain r n' where rn: "accept env sk a n = (r, n')" by (cases "accept env sk a n")
  have "node_ok b g n'" using node_ok_mono [OF ok, of b g] rn by simp
  with "4.IH" ok rn show ?case
    by (auto split: sum.split accept_failure_reason.split)
next
  case (3 env k ins n)
  then show ?case using node_ok_mono [of "b + Suc k" g n "b + k" g] by simp
qed (auto intro: node_ok_mono)

lemma open_connection_ok:
  assumes "node_ok (Suc b) g n"
  shows "node_ok b g (snd (open_connection env ptype a sk n))"
proof -
  define n1 where "n1 = on_export conn_received_inc n"
  have n1: "node_ok (Suc b) g n1" using assms by (simp add: n1_def)
  have "node_ok b g (insert_candidate (c\<lparr>low_level := ll\<rparr>) (n1\<lparr>next_token := next_token n1 + 1\<rparr>))"
    if "connection_new env (n1\<lparr>next_token := next_token n1 + 1\<rparr>) sk (next_token n1)
          \<lparr>self_id = None, remote_addr = a, local_id = remote_peer_id_from_token (next_token n1),
           external_port = addr_port a, remote_peer_type = ptype\<rparr> True = Ok c" for c ll
    using connection_new_token [OF that]
    by (intro node_ok_insert_candidate [OF n1]) (simp add: conn_token_def to_token_def remote_peer_id_from_token_def)
  with node_ok_next_token [OF n1] show ?thesis
    unfolding open_connection_def n1_def [symmetric] fresh_token_def
    by (auto simp: res_simps split: res.split)
qed

lemma connect_ok:
  assumes "node_ok (Suc b) g n"
  shows "node_ok b g (snd (connect env ptype a i r n))"
proof -
  have "node_ok b g n" using node_ok_mono [OF assms] by simp
  moreover have "shrinks n (soft_ban x e n)" for x e by (simp add: soft_ban_def shrinks_def)
  ultimately have "node_ok b g (soft_ban x e n)" for x e using shrinks_ok by blast
  with \<open>node_ok b g n\<close> show ?thesis
    using open_connection_ok [OF assms]
    by (auto simp: connect_def split: res.split option.split)
qed

text \<open>Neither opening connections nor removing them requests further changes.\<close>

lemma drop_connections_same [simp]:
  "conn_changes (drop_connections cs n) = conn_changes n" "config (drop_connections cs n) = config n"
  unfolding drop_connections_def by (induction cs arbitrary: n) (auto simp: drop_connection_def on_export_def)

lemma drop_connection_same [simp]: "conn_changes (drop_connection c n) = conn_changes n"
  by (simp add: drop_connection_def on_export_def)

lemma connect_same:
  "conn_changes (snd (connect env ptype a i r n)) = conn_changes n"
  "config (snd (connect env ptype a i r n)) = config n"
  by (auto simp: connect_def open_connection_def fresh_token_def insert_candidate_def soft_ban_def on_export_def
      split: res.split option.split)

lemma promote_ok:
  assumes "node_ok b g n" and "change_ok n (Promotion t)"
  shows "node_ok b g (promote env t n)"
proof (cases "map_of (conn_candidates n) t")
  case None
  then show ?thesis using assms(1) by (simp add: promote_def)
next
  case (Some c)
  define n1 where "n1 = n\<lparr>conn_candidates := hm_remove t (conn_candidates n)\<rparr>"
  define n2 where "n2 = n1\<lparr>connections := hm_insert t c (connections n)\<rparr>"
  have i: "node_inv n" using assms(1) by (simp add: node_ok_def)
  note ct = node_invD(3) [OF i Some]
  have id: "conn_remote_id c \<noteq> None" using assms(2) Some by (simp add: change_ok_def)
  have n1: "node_ok b g n1" by (rule shrinks_ok [OF _ assms(1)]) (simp add: n1_def shrinks_def)
  have "change_ok n2 ch" if "ch \<in> set (conn_changes n)" for ch
    using node_invD(7) [OF i that] by (cases ch) (auto simp: change_ok_def n2_def n1_def hm_simps)
  then have "node_inv n2"
    unfolding node_inv_def using node_invD [OF i] ct id
    by (auto simp: n2_def n1_def hm_simps split: if_splits)
  then have n2: "node_ok b g n2" using assms(1) by (simp add: node_ok_def n2_def n1_def)
  have "promote env t n = (if is_connected (external_addr (remote_peer c)) n1 then drop_connection c n1
      else bump_last_peer_update env n2)"
    using Some ct by (simp add: promote_def Let_def n2_def n1_def drop_connections_def)
  moreover have "shrinks n1 (drop_connection c n1)" "shrinks n2 (bump_last_peer_update env n2)" by simp_all
  ultimately show ?thesis using n1 n2 shrinks_ok by (metis (full_types))
qed

lemma promote_same: "conn_changes (promote env t n) = conn_changes n" "config (promote env t n) = config n"
  by (auto simp: promote_def Let_def bump_last_peer_update_def drop_connection_def on_export_def split: option.split)

definition change_cost :: "conn_change \<Rightarrow> nat" where
  "change_cost ch = (case ch of NewConn _ _ _ \<Rightarrow> 1 | NewPeers ps \<Rightarrow> length ps | _ \<Rightarrow> 0)"

lemma connect_to_peers_ok:
  "node_ok (b + length ps) g n \<Longrightarrow> node_ok b g (snd (connect_to_peers env k ps n)) \<and>
     conn_changes (snd (connect_to_peers env k ps n)) = conn_changes n"
proof (induction ps arbitrary: k n)
  case (Cons p ps)
  obtain r n' where c: "connect env Node (p2p_addr p) (Some (p2p_id p)) True n = (r, n')"
    by (cases "connect env Node (p2p_addr p) (Some (p2p_id p)) True n")
  have n': "node_ok (b + length ps) g n'" "conn_changes n' = conn_changes n"
    using connect_ok [of "b + length ps" g n env Node "p2p_addr p" "Some (p2p_id p)" True]
      connect_same(1) [of env Node "p2p_addr p" "Some (p2p_id p)" True n] Cons.prems c by auto
  then have b: "node_ok b g n'" by (auto intro: node_ok_mono)
  have n: "node_ok b g n" using Cons.prems by (auto intro: node_ok_mono)
  show ?case
    using c Cons.IH [OF n'(1)] n' b n by (cases r) (auto simp: act_get_def act_or_else_def act_return_def)
qed (simp add: act_simps)

lemma remove_connection_same [simp]: "conn_changes (snd (remove_connection env t n)) = conn_changes n"
  by (auto simp: remove_connection_def bump_last_peer_update_def split: option.split)

lemma remove_tokens_same: "conn_changes (snd (snd (remove_tokens toks rc rp n))) = conn_changes n"
  by (induction toks rc rp n rule: remove_tokens.induct) (auto split: option.split)

lemma remove_connections_same [simp]: "conn_changes (snd (remove_connections env toks n)) = conn_changes n"
  using remove_tokens_same [of toks False False n]
  by (cases "remove_tokens toks False False n") (simp add: remove_connections_def bump_last_peer_update_def)

lemma node_ok_given: "node_ok b g n \<Longrightarrow> node_ok b (Suc g) (add_given_address a n)"
proof -
  assume n: "node_ok b g n"
  have "change_ok (add_given_address a n) = change_ok n" by (auto simp: fun_eq_iff change_ok_def add_given_address_def split: conn_change.split)
  then have "node_inv (add_given_address a n) = node_inv n" by (simp add: node_inv_def add_given_address_def)
  then show ?thesis using n by (auto simp: node_ok_def add_given_address_def List.insert_def)
qed

lemma new_conn_ok:
  assumes "node_ok (Suc b) g n"
  shows "node_ok b (Suc g) (snd (process_conn_change env (NewConn a ptype given) n)) \<and>
    conn_changes (snd (process_conn_change env (NewConn a ptype given) n)) = conn_changes n"
proof -
  obtain r n' where c: "connect env ptype a None (\<not> given) n = (r, n')" by (cases "connect env ptype a None (\<not> given) n")
  have n': "node_ok b g n'" "conn_changes n' = conn_changes n"
    using connect_ok [OF assms, of env ptype a None "\<not> given"] connect_same(1) [of env ptype a None "\<not> given" n] c by auto
  then show ?thesis
    using c node_ok_given [OF n'(1)] node_ok_mono [OF n'(1), of b "Suc g"]
    by (cases r) (auto simp: process_conn_change_def act_or_else_def act_return_def act_modify_def add_given_address_def)
qed

lemma process_conn_change_ok:
  assumes "random_law env" and "node_ok (b + change_cost ch) g n" and "change_ok n ch"
  shows "node_ok b (Suc g) (snd (process_conn_change env ch n)) \<and>
    conn_changes (snd (process_conn_change env ch n)) = conn_changes n"
proof (cases ch)
  case (NewConn a ptype given)
  then show ?thesis using new_conn_ok [of b g n] assms(2) by (simp add: change_cost_def)
next
  case (NewPeers ps)
  have "length (shuffle_peers env ps) = length ps"
    using assms(1) unfolding random_law_def by (metis size_mset)
  then have "node_ok (b + length (shuffle_peers env ps)) g n" using assms(2) NewPeers by (simp add: change_cost_def)
  note c = connect_to_peers_ok [OF this]
  have "node_inv n" using assms(2) by (simp add: node_ok_def)
  then obtain current where "get_peer_stats (Some Node) n = Ok current" using node_inv_peer_stats by blast
  moreover have "node_ok b (Suc g) (snd (connect_to_peers env (length current) (shuffle_peers env ps) n))"
    using c [of env "length current"] by (auto intro: node_ok_mono)
  ultimately show ?thesis using NewPeers c [of env "length current"]
    by (simp add: process_conn_change_def act_bind_def act_get_def act_result_def)
next
  case (ExpulsionByToken t)
  have ok: "node_ok b (Suc g) (snd (remove_connection env t n))"
    by (rule node_ok_mono [OF shrinks_ok [OF shrinks_remove_connection assms(2)]]) simp_all
  have "shrinks m (soft_ban x e m)" for x e and m :: "'a node" by (simp add: soft_ban_def shrinks_def)
  with ok have "node_ok b (Suc g) (soft_ban x e (snd (remove_connection env t n)))" for x e using shrinks_ok by blast
  with ok ExpulsionByToken remove_connection_same [of env t n] show ?thesis
    by (cases "remove_connection env t n") (auto simp: process_conn_change_def act_modify_def soft_ban_def split: option.split)
next
  case (Promotion t)
  then show ?thesis
    using promote_ok [of b g n t env] assms(2,3) node_ok_mono [of b g "promote env t n" b "Suc g"]
    by (simp add: process_conn_change_def act_modify_def promote_same change_cost_def)
next
  case (RemovalByToken t)
  then show ?thesis
    using node_ok_mono [OF shrinks_ok [OF shrinks_remove_connection assms(2)], of b "Suc g"]
    by (simp add: process_conn_change_def act_modify_def)
next
  case (RemoveAllByTokens ts)
  then show ?thesis
    using node_ok_mono [OF shrinks_ok [OF shrinks_remove_connections assms(2)], of b "Suc g"]
    by (simp add: process_conn_change_def act_modify_def)
qed

lemma node_ok_pop:
  assumes "node_ok b g n" and "conn_changes n = ch # chs"
  shows "node_ok b g (n\<lparr>conn_changes := chs\<rparr>)" "change_ok (n\<lparr>conn_changes := chs\<rparr>) ch"
proof -
  have "node_inv n" using assms(1) by (simp add: node_ok_def)
  from node_invD(7) [OF this, of ch] show "change_ok (n\<lparr>conn_changes := chs\<rparr>) ch"
    using assms(2) by (cases ch) (auto simp: change_ok_def)
  show "node_ok b g (n\<lparr>conn_changes := chs\<rparr>)"
    by (rule shrinks_ok [OF _ assms(1)]) (simp add: shrinks_def assms(2))
qed

text \<open>All the requested changes, each at its own cost.\<close>

definition changes_cost :: "conn_change list \<Rightarrow> nat" where
  "changes_cost chs = sum_list (map change_cost chs)"

lemma process_changes_each_ok:
  assumes "random_law env"
  shows "node_ok (b + changes_cost chs) g n \<Longrightarrow> conn_changes n = chs \<Longrightarrow>
    node_ok b (g + length chs) (snd (act_each (\<lambda>ch. act_then (act_modify (\<lambda>n. n\<lparr>conn_changes := tl (conn_changes n)\<rparr>))
      (process_conn_change env ch)) chs n))"
proof (induction chs arbitrary: g n)
  case Nil
  then show ?case by (simp add: act_simps changes_cost_def)
next
  case (Cons ch chs)
  define n1 where "n1 = n\<lparr>conn_changes := chs\<rparr>"
  have cost: "b + changes_cost (ch # chs) = b + changes_cost chs + change_cost ch" by (simp add: changes_cost_def)
  have n1: "node_ok (b + changes_cost chs + change_cost ch) g n1" "change_ok n1 ch"
    using node_ok_pop [OF Cons.prems] by (simp_all add: n1_def cost)
  obtain r n2 where p: "process_conn_change env ch n1 = (r, n2)" by (cases "process_conn_change env ch n1")
  have n2: "node_ok (b + changes_cost chs) (Suc g) n2" "conn_changes n2 = chs"
    using process_conn_change_ok [OF assms n1] p by (simp_all add: n1_def)
  have "node_ok b (Suc (g + length chs)) n2" by (rule node_ok_mono [OF n2(1)]) simp_all
  then show ?case
    using Cons.IH [OF n2] p Cons.prems(2) by (cases r) (simp_all add: act_simps n1_def)
qed

lemma process_conn_changes_ok:
  assumes "random_law env" and "node_ok (b + changes_cost (conn_changes n)) g n"
  shows "node_ok b (g + length (conn_changes n)) (snd (process_conn_changes env n))"
  using process_changes_each_ok [OF assms refl] by (simp add: process_conn_changes_def act_get_def)

section \<open>Socket events\<close>

lemma process_candidate_ok:
  assumes "change_channel_law env"
  shows "keeps (node_ok b g) (process_candidate (env :: 'a node_env) events st tok)"
proof (rule keepsI)
  fix n :: "'a node"
  assume n: "node_ok b g n"
  then have i: "node_inv n" by (simp add: node_ok_def)
  show "node_ok b g (snd (process_candidate env events st tok n))"
  proof (cases "map_of (conn_candidates n) tok")
    case None
    then show ?thesis using n by (simp add: process_candidate_def)
  next
    case (Some c)
    obtain r c' n' where p: "process_connection_events env events st (c, n) = (r, c', n')"
      by (cases "process_connection_events env events st (c, n)") auto
    note ct = node_invD(3) [OF i Some]
    have f: "conn_frame n c (c', n')"
      using keepsD [OF frame_connection_events [OF assms] conn_frame_refl [OF node_invD(6) [OF i]]] p by (metis snd_conv)
    define n2 where "n2 = n'\<lparr>conn_candidates := hm_insert tok c' (conn_candidates n')\<rparr>"
    have core: "conn_candidates n' = conn_candidates n" "connections n' = connections n" "next_token n' = next_token n"
      "conn_token c' = tok" using f ct by (auto simp: conn_frame_def)
    have "change_ok n2 ch" if ch: "ch \<in> set (conn_changes n')" for ch
    proof (cases ch)
      case (Promotion t)
      then have "Promotion t \<in> set (conn_changes n) \<or> t = tok \<and> conn_remote_id c' \<noteq> None"
        using f ch ct by (auto simp: conn_frame_def)
      moreover have "Promotion tok \<in> set (conn_changes n) \<Longrightarrow> conn_remote_id c' \<noteq> None"
        using node_invD(7) [OF i, of "Promotion tok"] Some f by (auto simp: change_ok_def conn_frame_def)
      ultimately show ?thesis
        using node_invD(7) [OF i, of "Promotion t"] Promotion ct core
        by (auto simp: change_ok_def n2_def hm_simps)
    qed (simp_all add: change_ok_def)
    moreover have "buckets_inv (node_buckets n')" using f by (simp add: conn_frame_def)
    ultimately have "node_inv n2"
      unfolding node_inv_def using node_invD(1-5) [OF i] ct core
      by (auto simp: n2_def hm_simps split: if_splits)
    moreover have "config n' = config n" using f by (simp add: conn_frame_def)
    ultimately show ?thesis using n p Some core by (simp add: process_candidate_def node_ok_def n2_def)
  qed
qed

lemma process_peer_ok:
  assumes "change_channel_law env"
  shows "keeps (node_ok b g) (process_peer (env :: 'a node_env) events st tok)"
proof (rule keepsI)
  fix n :: "'a node"
  assume n: "node_ok b g n"
  then have i: "node_inv n" by (simp add: node_ok_def)
  show "node_ok b g (snd (process_peer env events st tok n))"
  proof (cases "map_of (connections n) tok")
    case None
    then show ?thesis using n by (simp add: process_peer_def)
  next
    case (Some c)
    obtain r c' n' where p: "process_connection_events env events st (c, n) = (r, c', n')"
      by (cases "process_connection_events env events st (c, n)") auto
    note ct = node_invD(4) [OF i Some]
    have f: "conn_frame n c (c', n')"
      using keepsD [OF frame_connection_events [OF assms] conn_frame_refl [OF node_invD(6) [OF i]]] p by (metis snd_conv)
    define n2 where "n2 = n'\<lparr>connections := hm_insert tok c' (connections n')\<rparr>"
    have core: "conn_candidates n' = conn_candidates n" "connections n' = connections n" "next_token n' = next_token n"
      "config n' = config n" "conn_token c' = tok" "conn_remote_id c' \<noteq> None"
      using f ct by (auto simp: conn_frame_def)
    have cand: "map_of (conn_candidates n) tok = None" using node_invD(3) [OF i] Some by (metis not_None_eq option.distinct(1))
    have "change_ok n2 ch" if ch: "ch \<in> set (conn_changes n')" for ch
    proof (cases ch)
      case (Promotion t)
      then have "Promotion t \<in> set (conn_changes n) \<or> t = tok" using f ch ct by (auto simp: conn_frame_def)
      then show ?thesis
        using node_invD(7) [OF i, of "Promotion t"] Promotion ct cand core
        by (auto simp: change_ok_def n2_def)
    qed (simp_all add: change_ok_def)
    moreover have "buckets_inv (node_buckets n')" using f by (simp add: conn_frame_def)
    ultimately have "node_inv n2"
      unfolding node_inv_def using node_invD(1-5) [OF i] ct core cand
      by (auto simp: n2_def hm_simps split: if_splits)
    then show ?thesis using n p Some core by (simp add: process_peer_def node_ok_def n2_def)
  qed
qed

lemma network_events_ok:
  assumes "change_channel_law env"
  shows "keeps (node_ok b g) (process_network_events env events)"
  unfolding process_network_events_def
  by (intro keeps_bind keeps_get keeps_then keeps_result keeps_each process_candidate_ok [OF assms] process_peer_ok [OF assms])

section \<open>The poll loop\<close>

lemma unconnected_given_length: "length (unconnected_given_addresses n) \<le> length (given_addresses (config n))"
proof -
  have "length (fold (\<lambda>c ret. removeAll (f c) (removeAll (h c) ret)) cs as) \<le> length as"
    for f h :: "'a connection \<Rightarrow> socket_addr" and cs as
  proof (induction cs arbitrary: as)
    case (Cons c cs)
    have "length (removeAll (f c) (removeAll (h c) as)) \<le> length as"
      by (meson length_removeAll_less_eq order_trans)
    with Cons.IH [of "removeAll (f c) (removeAll (h c) as)"] show ?case by simp
  qed simp
  then show ?thesis by (simp add: unconnected_given_addresses_def)
qed

lemma connect_each_ok:
  "triple (node_ok (b + length as) g) (act_each (\<lambda>a. act_log_error (connect (env :: 'a node_env) Node a None False)) as) (node_ok b g)"
proof (induction as)
  case Nil
  then show ?case by (simp add: triple_def act_simps)
next
  case (Cons a as)
  have "triple (node_ok (b + length (a # as)) g) (act_log_error (connect env Node a None False)) (node_ok (b + length as) g)"
  proof (rule tripleI)
    fix n :: "'a node"
    assume "node_ok (b + length (a # as)) g n"
    then have "node_ok (b + length as) g (snd (connect env Node a None False n))" using connect_ok by fastforce
    then show "node_ok (b + length as) g (snd (act_log_error (connect env Node a None False) n))"
      by (auto simp: act_log_error_def split: prod.split res.split)
  qed
  then show ?case by (auto intro!: triple_then [OF _ Cons.IH] intro: node_ok_mono)
qed

lemma reconnect_given_ok: "triple (node_ok (b + g) g) (reconnect_given (env :: 'a node_env)) (node_ok b g)"
proof (rule tripleI)
  fix n :: "'a node"
  assume n: "node_ok (b + g) g n"
  have "length (unconnected_given_addresses n) \<le> g"
    using n unconnected_given_length [of n] by (simp add: node_ok_def)
  then have "node_ok (b + length (unconnected_given_addresses n)) g n" using n by (auto intro: node_ok_mono)
  from tripleD [OF connect_each_ok this] show "node_ok b g (snd (reconnect_given env n))"
    by (simp add: reconnect_given_def act_get_def)
qed

lemma housekeeping_ok:
  assumes "change_channel_law env"
  shows "triple (node_ok (b + g) g) (node_housekeeping (env :: 'a node_env)) (node_ok b g)"
proof -
  have m: "node_ok (b + g) g n \<Longrightarrow> node_ok b g n" for n :: "'a node" by (auto intro: node_ok_mono)
  have k: "triple (node_ok b' g) m (node_ok b' g)" if "\<And>n0. keeps (shrinks n0) m" for b' and m :: "('a node, 'x) action"
    by (rule keeps_triple [OF shrinks_keeps_ok [OF that]])
  have last: "keeps (shrinks n0) (act_bind (act_get (\<lambda>n. act_result (bootstrap_due (now_ms env) n))) (\<lambda>due.
      if due then act_then (act_modify (attempt_bootstrap env)) (act_return True) else act_return False))" for n0
    by (intro keeps_bind keeps_get keeps_if keeps_then keeps_result keeps_return shrinks_modify
        shrinks_attempt_bootstrap [OF assms])
  have events: "keeps (shrinks n0) (act_modify (\<lambda>n. n\<lparr>node_bad_events := bad_events_default\<rparr>))" for n0
    by (rule shrinks_modify) (simp add: shrinks_def)
  have "triple (node_ok (b + g) g) (connection_housekeeping env) (node_ok b g)"
    unfolding connection_housekeeping_def
    by (rule triple_then [OF k [OF shrinks_housekeeping_parts(1)]]
        triple_then [OF k [OF shrinks_housekeeping_parts(2)]] triple_then [OF k [OF shrinks_housekeeping_parts(3)]]
        triple_then [OF k [OF shrinks_modify [OF shrinks_housekeeping_parts(4)]]]
        triple_then [OF reconnect_given_ok triple_then [OF k [OF events] k [OF last]]] | erule m | assumption)+
  moreover have "keeps (shrinks n0) (act_then (act_get (\<lambda>n. if peer_type_of n \<noteq> Bootstrapper
        then measure_connection_latencies env else act_return ()))
      (act_bind (act_get (\<lambda>n. act_result (get_peer_stats None n))) (\<lambda>ps.
        act_then (act_modify (check_peers env ps attempted)) (act_log_error (measure_throughput env ps)))))" for n0 attempted
    by (intro keeps_bind keeps_get keeps_if keeps_then keeps_result keeps_return keeps_log_error shrinks_modify
        shrinks_check_peers [OF assms] shrinks_latencies shrinks_throughput)
  ultimately show ?thesis unfolding node_housekeeping_def
    by (intro triple_bind [OF _ k]) auto
qed

abbreviation poll_ok :: "nat \<Rightarrow> nat \<Rightarrow> 'ns poll_state \<Rightarrow> bool" where
  "poll_ok b g s \<equiv> node_ok b g (poll_node s)"

lemma in_poll_triple: "triple P m Q \<Longrightarrow> triple (\<lambda>s. P (poll_node s)) (in_poll m) (\<lambda>s. Q (poll_node s))"
  by (auto simp: triple_def in_poll_def split: prod.split)

lemma in_poll_keeps: "keeps I m \<Longrightarrow> keeps (\<lambda>s. I (poll_node s)) (in_poll m)"
  using in_poll_triple [of I m I] by (simp add: keeps_def triple_def)

lemma accept_same:
  "conn_changes (snd (accept env sk a n)) = conn_changes n" "config (snd (accept env sk a n)) = config n"
  by (auto simp: accept_def Let_def fresh_token_def insert_candidate_def on_export_def split: option.split res.split)

lemma accept_loop_same: "conn_changes (snd (accept_loop env k ins n)) = conn_changes n"
proof (induction env k ins n rule: accept_loop.induct)
  case (4 env k sk a ins n)
  obtain r n' where rn: "accept env sk a n = (r, n')" by (cases "accept env sk a n")
  with accept_same(1) [of env sk a n] have "conn_changes n' = conn_changes n" by simp
  with 4 rn show ?case by (auto split: sum.split accept_failure_reason.split)
qed auto

lemma poll_accept_ok:
  assumes "poll_ok (b + unat (conn_requests_batch_limit (config (poll_node s)))) g s"
  shows "poll_ok b g (poll_accept env events ins s) \<and>
    conn_changes (poll_node (poll_accept env events ins s)) = conn_changes (poll_node s)"
proof -
  let ?k = "unat (conn_requests_batch_limit (config (poll_node s)))"
  obtain l n where al: "accept_loop env ?k ins (poll_node s) = (l, n)" by (cases "accept_loop env ?k ins (poll_node s)")
  have "node_ok b g n" "conn_changes n = conn_changes (poll_node s)"
    using accept_loop_ok [OF assms, of env ins] accept_loop_same [of env ?k ins "poll_node s"] al by simp_all
  moreover have "poll_ok b g s" using assms by (auto intro: node_ok_mono)
  ultimately show ?thesis using al by (simp add: poll_accept_def)
qed

lemma poll_consensus_ok:
  assumes "change_channel_law env"
  shows "keeps (poll_ok b g) (poll_consensus env consensus)"
proof (cases consensus)
  case None
  then show ?thesis by (simp add: poll_consensus_def keeps_return)
next
  case (Some api)
  have "keeps (poll_ok b g) (in_poll update_peer_list)" "keeps (poll_ok b g) (in_poll (check_peer_states env api))"
    by (rule in_poll_keeps [OF shrinks_keeps_ok], intro shrinks_update_peer_list shrinks_check_peer_states [OF assms])+
  then show ?thesis unfolding poll_consensus_def Some option.case
    by (intro keeps_get keeps_then keeps_if keeps_return keeps_modify) simp_all
qed

lemma poll_clean_buckets_ok: "keeps (poll_ok b g) (poll_clean_buckets env)"
proof -
  have "keeps (shrinks n0) (act_update (\<lambda>n. res_bind (clean_buckets (now_ms env) (timeout_bucket_entry_period (config n)) (node_buckets n))
      (\<lambda>b. Ok (n\<lparr>node_buckets := b\<rparr>))))" for n0 :: "'a node"
    by (rule shrinks_update) (auto simp: res_simps intro: shrinks_clean_buckets)
  from in_poll_keeps [OF shrinks_keeps_ok [OF this]] show ?thesis
    unfolding poll_clean_buckets_def by (intro keeps_get keeps_if keeps_then keeps_return keeps_modify) simp_all
qed

lemma poll_housekeeping_ok:
  assumes "change_channel_law env"
  shows "triple (poll_ok (b + g) g) (poll_housekeeping env) (poll_ok b g)"
proof (rule tripleI)
  fix s :: "'a poll_state"
  assume s: "poll_ok (b + g) g s"
  then have "poll_ok b g s" by (auto intro: node_ok_mono)
  moreover have "poll_ok b g (snd (act_then (in_poll (node_housekeeping env))
      (act_modify (\<lambda>s. s\<lparr>log_time := instant env, iterations_since_housekeeping := 0\<rparr>)) s))"
    by (rule tripleD [OF triple_then [OF in_poll_triple [OF housekeeping_ok [OF assms]]] s])
      (simp_all add: triple_def act_modify_def)
  ultimately show "poll_ok b g (snd (poll_housekeeping env s))"
    by (simp add: poll_housekeeping_def act_get_def act_return_def act_modify_def)
qed

text \<open>The tokens that an iteration may use.\<close>

definition token_budget :: "'ns node \<Rightarrow> nat" where
  "token_budget n = unat (conn_requests_batch_limit (config n)) + changes_cost (conn_changes n) +
     length (given_addresses (config n)) + length (conn_changes n)"

lemma poll_iteration_inv:
  assumes "change_channel_law env" "random_law env"
    and "node_inv (poll_node s)" and "unat (next_token (poll_node s)) + token_budget (poll_node s) < 2 ^ 64"
  shows "node_inv (poll_node (snd (poll_iteration env consensus events ins s)))"
proof -
  define chs where "chs = conn_changes (poll_node s)"
  define g where "g = length (given_addresses (config (poll_node s)))"
  let ?G = "g + length chs"
  have "poll_ok (?G + changes_cost chs + unat (conn_requests_batch_limit (config (poll_node s)))) g s"
    using assms(3,4) by (simp add: node_ok_def token_budget_def chs_def g_def add_ac)
  note a = poll_accept_ok [OF this, of env events ins]
  have changes: "triple (\<lambda>s. poll_ok (?G + changes_cost chs) g s \<and> conn_changes (poll_node s) = chs)
      (in_poll (process_conn_changes env)) (poll_ok (0 + ?G) ?G)"
    using process_conn_changes_ok [OF assms(2), of ?G _ g]
    by (intro in_poll_triple [of "\<lambda>n. node_ok (?G + changes_cost chs) g n \<and> conn_changes n = chs"] tripleI) auto
  have weaken: "poll_ok (0 + ?G) ?G t \<Longrightarrow> poll_ok 0 ?G t" for t :: "'a poll_state" by (auto intro: node_ok_mono)
  have rest: "triple (poll_ok (0 + ?G) ?G) (act_then (poll_consensus env consensus)
      (act_then (in_poll (process_network_events env events)) (act_then (poll_housekeeping env) (poll_clean_buckets env))))
      (poll_ok 0 ?G)"
    by (rule triple_then [OF keeps_triple [OF poll_consensus_ok [OF assms(1)]]]
        triple_then [OF keeps_triple [OF in_poll_keeps [OF network_events_ok [OF assms(1)]]]]
        triple_then [OF poll_housekeeping_ok [OF assms(1)] keeps_triple [OF poll_clean_buckets_ok]] | erule weaken | assumption)+
  have "poll_ok 0 ?G (snd (poll_iteration env consensus events ins s))"
    unfolding poll_iteration_def modify_then
    using a by (intro tripleD [OF triple_then [OF changes rest weaken]]) (auto simp: chs_def)
  then show ?thesis by (simp add: node_ok_def)
qed

section \<open>Runs of the node\<close>

text \<open>
  The threads of a node act on it one after the other: the poll loop, the threads of the consensus
  queues, and the administrative operations of the interfaces. Every action has its own
  environment, since the time and the random choices differ.
\<close>

datatype ('ns, 'cb) node_event =
    PollIteration "'ns node_env" "'cb consensus_api option" "poll_event list" "incoming list"
  | InboundMessage "'ns node_env" "'cb consensus_api" consensus_message
  | OutboundMessage "'ns node_env" consensus_message
  | BanAddress "'ns node_env" ip_addr
  | UnbanAddress "'ns node_env" persisted_ban_id
  | DropPeer "'ns node_env" remote_peer_id
  | DropAddress "'ns node_env" socket_addr

definition at_node :: "('ns node \<Rightarrow> 'ns node) \<Rightarrow> 'ns poll_state \<Rightarrow> 'ns poll_state" where
  "at_node f s = s\<lparr>poll_node := f (poll_node s)\<rparr>"

fun node_event_step :: "'ns poll_state \<Rightarrow> ('ns, 'cb) node_event \<Rightarrow> 'ns poll_state" where
  "node_event_step s (PollIteration env consensus events ins) = snd (poll_iteration env consensus events ins s)"
| "node_event_step s (InboundMessage env api m) = at_node (\<lambda>n. snd (handle_consensus_inbound_msg env api m n)) s"
| "node_event_step s (OutboundMessage env m) = at_node (\<lambda>n. snd (handle_consensus_outbound_msg env m n)) s"
| "node_event_step s (BanAddress env ip) = at_node (\<lambda>n. snd (drop_by_ip_and_ban env ip n)) s"
| "node_event_step s (UnbanAddress env p) = at_node (\<lambda>n. snd (unban_node env p n)) s"
| "node_event_step s (DropPeer env i) = at_node (\<lambda>n. snd (drop_by_id env i n)) s"
| "node_event_step s (DropAddress env a) = at_node (\<lambda>n. snd (drop_addr env a n)) s"

text \<open>The libraries behave as documented, and the tokens are not exhausted.\<close>

fun node_event_enabled :: "'ns poll_state \<Rightarrow> ('ns, 'cb) node_event \<Rightarrow> bool" where
  "node_event_enabled s (PollIteration env consensus events ins) \<longleftrightarrow> change_channel_law env \<and> random_law env \<and>
     unat (next_token (poll_node s)) + token_budget (poll_node s) < 2 ^ 64"
| "node_event_enabled s (InboundMessage env api m) \<longleftrightarrow> change_channel_law env"
| "node_event_enabled s (OutboundMessage env m) \<longleftrightarrow> change_channel_law env"
| "node_event_enabled s (BanAddress env ip) \<longleftrightarrow> change_channel_law env"
| "node_event_enabled s (UnbanAddress env p) \<longleftrightarrow> change_channel_law env"
| "node_event_enabled s (DropPeer env i) \<longleftrightarrow> change_channel_law env"
| "node_event_enabled s (DropAddress env a) \<longleftrightarrow> change_channel_law env"

lemma at_node_inv: "(\<And>n. shrinks n (f n)) \<Longrightarrow> node_inv (poll_node s) \<Longrightarrow> node_inv (poll_node (at_node f s))"
  using shrinks_node_inv by (auto simp: at_node_def)

lemma keeps_shrinksD: "(\<And>n0. keeps (shrinks n0) m) \<Longrightarrow> shrinks n (snd (m n))"
  by (metis keepsD shrinks_refl)

lemma node_event_step_inv:
  assumes "node_inv (poll_node s)" "node_event_enabled s e"
  shows "node_inv (poll_node (node_event_step s e))"
proof (cases e)
  case (PollIteration env consensus events ins)
  with assms(2) have l: "change_channel_law env" "random_law env"
    "unat (next_token (poll_node s)) + token_budget (poll_node s) < 2 ^ 64" by simp_all
  from poll_iteration_inv [OF l(1,2) assms(1) l(3)] PollIteration show ?thesis by simp
next
  case (InboundMessage env api m)
  then have "shrinks n (snd (handle_consensus_inbound_msg env api m n))" for n
    using assms(2) by (intro keeps_shrinksD) (simp add: shrinks_consensus_messages)
  from at_node_inv [OF this assms(1)] InboundMessage show ?thesis by simp
next
  case (OutboundMessage env m)
  then have "shrinks n (snd (handle_consensus_outbound_msg env m n))" for n
    using assms(2) by (intro keeps_shrinksD) (simp add: shrinks_consensus_messages)
  from at_node_inv [OF this assms(1)] OutboundMessage show ?thesis by simp
qed (use assms in \<open>simp_all add: at_node_inv shrinks_bans\<close>)

lemma initial_node_inv: "node_inv (initial_node se conf self nc regen bans)"
  by (simp add: node_inv_def initial_node_def buckets_default_inv)

interpretation node_machine: invariant_system
  "poll_start env (initial_node se conf self nc regen bans)" node_event_enabled node_event_step "\<lambda>s. node_inv (poll_node s)"
  for env se conf self nc regen bans
  by unfold_locales (simp_all add: poll_start_def initial_node_inv node_event_step_inv)

lemma node_new_inv:
  assumes "node_new env se sid conf ptype regen = Ok n"
  shows "node_inv n"
proof -
  from assms obtain self nc bans where "n = initial_node se conf self nc regen bans \<or>
      n = snd (clear_bans env (initial_node se conf self nc regen bans))"
    unfolding node_new_def by (auto simp: res_simps Let_def split: if_splits option.splits)
  moreover have "shrinks m (snd (clear_bans env m))" for m :: "'a node"
    by (simp add: clear_bans_def shrinks_def split: option.split)
  ultimately show ?thesis using initial_node_inv shrinks_node_inv by blast
qed

text \<open>
  Property C3: In every state that a node reaches, from its creation and through any interleaving
  of iterations of the poll loop, consensus messages and administrative operations, each token
  names one connection, kept under its own token and never under the one of the listening
  socket; every peer that is listed as connected has completed its handshake, so that listing
  the statistics of the peers, which unwraps their identifiers, never panics and covers all of
  them.
\<close>

theorem node_run_invariant:
  assumes "node_new env se supplied_id conf ptype regen = Ok n"
    and "run_steps node_event_enabled node_event_step (poll_start env n) es = Some s" and "m = poll_node s"
  shows "distinct (hm_keys (conn_candidates m) @ hm_keys (connections m)) \<and>
    (\<forall>(t, c) \<in> set (conn_candidates m) \<union> set (connections m). conn_token c = t \<and> t \<noteq> SELF_TOKEN) \<and>
    (\<exists>ps. get_peer_stats None m = Ok ps \<and> length ps = length (connections m))"
proof -
  have "node_inv (poll_node (poll_start env n))" using node_new_inv [OF assms(1)] by (simp add: poll_start_def)
  from node_machine.run_from_good [OF this assms(2)] have i: "node_inv m" by (simp add: assms(3))
  note d = node_invD [OF i]
  have conn: "map_of (connections m) t = Some c" if "(t, c) \<in> set (connections m)" for t c
    using map_of_is_SomeI [OF d(2) that] .
  have cand: "map_of (conn_candidates m) t = Some c" if "(t, c) \<in> set (conn_candidates m)" for t c
    using map_of_is_SomeI [OF d(1) that] .
  have "t \<notin> set (hm_keys (connections m))" if "(t, c) \<in> set (conn_candidates m)" for t c
    using d(3) [OF cand [OF that]] by (simp add: map_of_eq_None_iff)
  then have "set (hm_keys (conn_candidates m)) \<inter> set (hm_keys (connections m)) = {}" by fastforce
  then have "distinct (hm_keys (conn_candidates m) @ hm_keys (connections m))" using d(1,2) by simp
  moreover have "\<exists>ps. get_peer_stats None m = Ok ps \<and> length ps = length (connections m)"
    using node_inv_peer_stats [OF i, of None] by simp
  ultimately show ?thesis using d(3) [OF cand] d(4) [OF conn] by blast
qed

definition example_start :: start_env where
  "example_start = \<lparr>parse_ip = (\<lambda>_. Some (V4 1)), interfaces = None, listen_on = (\<lambda>_. True), random_id = 1,
     dedup_seeds = (1, 2, 3, 4), stored_bans = Some []\<rparr>"

definition listening_config :: config where
  "listening_config = add_options (Some ''10.0.0.1'') 8888 [100] 100 config_default"

lemma listening_node_new:
  "\<exists>n. node_new example_env example_start None listening_config Node regenesis_default = Ok n \<and>
     next_token n = 1 \<and> token_budget n \<le> 65535"
  by (simp add: node_new_def bind_address_def own_ip_def listening_config_def add_options_def config_default_def
      common_config_default_def connection_config_default_def cli_config_default_def bootstrapper_config_default_def
      example_start_def Let_def node_config_new_def mul_u64_def initial_node_def clear_bans_def example_env_def
      token_budget_def changes_cost_def)

theorem node_run_invariant_witness:
  "\<exists>n s. node_new example_env example_start None listening_config Node regenesis_default = Ok n \<and>
     run_steps node_event_enabled node_event_step (poll_start example_env n)
       [PollIteration example_env (None :: unit consensus_api option) [\<lparr>ev_token = SELF_TOKEN, ev_readable = True, ev_writable = False, ev_closed = False\<rparr>]
          [Incoming (example_socket []) (SocketAddr (V4 7) 1234)],
        BanAddress example_env (V4 7), DropPeer example_env 1] = Some s \<and>
     distinct (hm_keys (conn_candidates (poll_node s)) @ hm_keys (connections (poll_node s)))"
proof -
  obtain n where n: "node_new example_env example_start None listening_config Node regenesis_default = Ok n"
    "next_token n = 1" "token_budget n \<le> 65535" using listening_node_new by blast
  then obtain s where s: "run_steps node_event_enabled node_event_step (poll_start example_env n)
      [PollIteration example_env (None :: unit consensus_api option) [\<lparr>ev_token = SELF_TOKEN, ev_readable = True, ev_writable = False, ev_closed = False\<rparr>]
         [Incoming (example_socket []) (SocketAddr (V4 7) 1234)],
       BanAddress example_env (V4 7), DropPeer example_env 1] = Some s"
    by (simp add: poll_start_def example_change_channel_law example_random_law)
  from node_run_invariant [OF n(1) s refl]
  have "distinct (hm_keys (conn_candidates (poll_node s)) @ hm_keys (connections (poll_node s)))" by (rule conjunct1)
  with n(1) s show ?thesis by (intro exI conjI)
qed

end
