(* ===== verification/Admission.thy ===== *)
theory Admission
  imports NodeInvariant
begin

text \<open>
  Who is admitted to the node and who is kept out: the guards of an incoming connection, the soft
  ban of an expelled peer, the high-level handshake, the relaying of broadcasts, and the peers
  that housekeeping closes.
\<close>

section \<open>Incoming connections\<close>

lemma accept_conflict_None:
  "accept_conflict conf a cs = None \<longleftrightarrow> (\<forall>c \<in> set cs. addr_ip (conn_remote_addr c) = addr_ip a \<longrightarrow>
     \<not> disallow_multiple_peers_on_ip conf \<and> addr_port (conn_remote_addr c) \<noteq> addr_port a \<and>
     external_port (remote_peer c) \<noteq> addr_port a)"
  by (induction cs) auto

lemma guards_export [simp]:
  "is_banned_or_false env p (on_export f n) = is_banned_or_false env p n"
  "is_soft_banned a (on_export f n) = is_soft_banned a n"
  "peer_type_of (on_export f n) = peer_type_of n"
  by (simp_all add: is_banned_or_false_def is_banned_def is_soft_banned_def peer_type_of_def on_export_def)

lemma on_export_same [simp]:
  "conn_candidates (on_export f n) = conn_candidates n" "connections (on_export f n) = connections n"
  "config (on_export f n) = config n" "next_token (on_export f n) = next_token n"
  "soft_bans (on_export f n) = soft_bans n"
  by (simp_all add: on_export_def)

lemma accept_Inr:
  "(\<exists>tok n'. accept env sk a n = (Inr tok, n')) \<longleftrightarrow> accept_check env a n = None \<and> poll_register env (next_token n)"
proof -
  have "accept_check env a (on_export conn_received_inc n) = accept_check env a n"
    by (simp add: accept_check_def)
  then show ?thesis
    by (auto simp: accept_def Let_def fresh_token_def connection_new_def split: option.split res.split)
qed

text \<open>
  Property C9: An incoming connection is admitted exactly when its address is neither banned nor
  soft-banned, a node still has room below its hard limit, no candidate or peer has the same
  address, or only the same host where that is disallowed, and the poll accepts its socket.
\<close>

theorem accept_admits_exactly:
  "(\<exists>tok n'. accept env sk a n = (Inr tok, n')) \<longleftrightarrow>
     \<not> is_banned_or_false env (PersistedIp (addr_ip a)) n \<and> \<not> is_soft_banned a n \<and>
     (peer_type_of n = Node \<longrightarrow>
        length (conn_candidates n) + length (connections n) < unat (hard_connection_limit (config n))) \<and>
     (\<forall>c \<in> set (hm_values (conn_candidates n) @ hm_values (connections n)).
        addr_ip (conn_remote_addr c) = addr_ip a \<longrightarrow> \<not> disallow_multiple_peers_on_ip (config n) \<and>
        addr_port (conn_remote_addr c) \<noteq> addr_port a \<and> external_port (remote_peer c) \<noteq> addr_port a) \<and>
     poll_register env (next_token n)"
  unfolding accept_Inr accept_conflict_None [symmetric]
  by (auto simp: accept_check_def not_le split: option.splits)

theorem accept_admits_exactly_witness:
  "(\<exists>tok n'. accept example_env (example_socket []) (SocketAddr (V4 7) 1234) example_node = (Inr tok, n')) \<and>
   \<not> (\<exists>tok n'. accept example_env (example_socket []) (SocketAddr (V4 7) 1234)
         (example_node\<lparr>conn_candidates := [(1, example_conn)]\<rparr>) = (Inr tok, n'))"
  using accept_admits_exactly [of example_env "example_socket []" "SocketAddr (V4 7) 1234" example_node]
    accept_admits_exactly [of example_env "example_socket []" "SocketAddr (V4 7) 1234"
      "example_node\<lparr>conn_candidates := [(1, example_conn)]\<rparr>"]
  by (simp add: example_node_def example_config_def example_env_def is_banned_or_false_def is_banned_def
      is_soft_banned_def example_conn_def example_peer_def conn_remote_addr_def)

section \<open>Expelled peers\<close>

lemma remove_connection_soft_bans [simp]: "soft_bans (snd (remove_connection env t n)) = soft_bans n"
  by (auto simp: remove_connection_def drop_connection_def bump_last_peer_update_def split: option.split)

lemma soft_banned_rejected:
  assumes "is_soft_banned a n"
  shows "\<exists>e. fst (accept env sk a n) = Inl e" "fst (connect env ptype a i r n) \<noteq> Ok ()"
proof -
  have "accept_check env a (on_export conn_received_inc n) \<noteq> None"
    using assms by (auto simp: accept_check_def split: option.split)
  then show "\<exists>e. fst (accept env sk a n) = Inl e" by (auto simp: accept_def Let_def)
  have "connect_check env ptype a r n \<noteq> Ok ()" using assms by (auto simp: connect_check_def res_simps)
  then show "fst (connect env ptype a i r n) \<noteq> Ok ()"
    by (cases "connect_check env ptype a r n") (auto simp: connect_def)
qed



section \<open>The high-level handshake\<close>

definition concluded :: "'ns node_env \<Rightarrow> handshake \<Rightarrow> 'ns conn_state \<Rightarrow> 'ns conn_state \<Rightarrow> bool" where
  "concluded env h = (\<lambda>(c, n) (c', n').
     conn_remote_id c' = Some (remote_id h) \<and> remote_end_networks c' = remote_end_networks c |\<union>| hs_networks h \<and>
     peers_gauge (export n') = peers_gauge (export n) + 1 \<and>
     conn_changes n' = conn_changes (register_conn_change env (Promotion (conn_token c)) n) \<and>
     buckets_inv (node_buckets n') \<and> regenesis n' = regenesis n \<and> self_peer n' = self_peer n \<and> config n' = config n)"

lemma register_same [simp]:
  "regenesis (register_conn_change env ch n) = regenesis n" "self_peer (register_conn_change env ch n) = self_peer n"
  "export (register_conn_change env ch n) = export n"
  by (simp_all add: register_conn_change_def split: option.split)

lemma register_changes_cong:
  "conn_changes n = conn_changes m \<Longrightarrow> config n = config m \<Longrightarrow>
     conn_changes (register_conn_change env ch n) = conn_changes (register_conn_change env ch m)"
  by (simp add: register_conn_change_def split: option.split)

lemma check_handshake_cong: "regenesis n = regenesis m \<Longrightarrow> check_handshake h n = check_handshake h m"
  by (simp add: check_handshake_def split: option.split)

lemma handshake_concluded:
  assumes "check_handshake h n = Ok wv" and "buckets_inv (node_buckets n)" and "peer_type_of n = Node"
  shows "\<exists>s. handle_handshake_req env h st (c, n) = (Ok (), s) \<and> concluded env h (c, n) s"
proof -
  define c1 where "c1 = c\<lparr>remote_peer := (remote_peer c)\<lparr>self_id := Some (remote_id h), external_port := remote_port h\<rparr>,
    remote_end_networks := remote_end_networks c |\<union>| hs_networks h, wire_version := wv\<rparr>"
  define n1 where "n1 = (if conn_remote_peer_type c = Bootstrapper then update_last_bootstrap env (on_export peers_inc n)
    else on_export peers_inc n)"
  obtain b where b: "insert_into_bucket (now_ms env) (remote_peer c1) (hs_networks h) (node_buckets n) = Ok b" "buckets_inv b"
    using bucket_update_ok(1) [OF assms(2)] by blast
  define n2 where "n2 = (if conn_remote_peer_type c = Bootstrapper then n1 else n1\<lparr>node_buckets := b\<rparr>)"
  define n3 where "n3 = register_conn_change env (Promotion (conn_token c1)) n2"
  have same: "conn_changes n2 = conn_changes n" "config n2 = config n" "node_buckets n1 = node_buckets n" "regenesis n2 = regenesis n"
    "self_peer n2 = self_peer n" "peers_gauge (export n2) = peers_gauge (export n) + 1" "buckets_inv (node_buckets n2)"
    using b(2) assms(2) by (auto simp: n2_def n1_def on_export_def update_last_bootstrap_def peers_inc_def)
  have "promote_to_post_handshake env (remote_id h) (remote_port h) (hs_networks h) wv (c, n) = (Ok (), c1, n3)"
    using b(1)
    by (auto simp: promote_to_post_handshake_def populate_remote_end_networks_def on_conn_def on_node_def on_buckets_def
        in_node_def act_simps conn_remote_peer_type_def c1_def n1_def n2_def n3_def conn_token_def on_export_def
        update_last_bootstrap_def)
  then have "handle_handshake_req env h st (c, n) = (Ok (), c1, n3)"
    using assms(1,3) same(5) by (simp add: handle_handshake_req_def act_simps n3_def peer_type_of_def)
  moreover have "conn_token c1 = conn_token c" by (simp add: c1_def conn_token_def)
  then have "concluded env h (c, n) (c1, n3)"
    using same register_changes_cong [OF same(1,2)] by (simp add: concluded_def n3_def) (simp add: c1_def conn_remote_id_def)
  ultimately show ?thesis by blast
qed

text \<open>
  A handshake that completes while the queue of connection changes is full is lost:
  the peer is counted and believes to be connected, but its promotion is dropped, not delayed, and
  nothing requests it again.
\<close>

theorem full_change_queue_loses_promotion:
  assumes "change_channel_law env" and "check_handshake h n = Ok wv" and "buckets_inv (node_buckets n)"
    and "peer_type_of n = Node" and "unat (hard_connection_limit (config n)) \<le> length (conn_changes n)"
  shows "\<exists>c' n'. handle_handshake_req env h st (c, n) = (Ok (), c', n') \<and> conn_remote_id c' = Some (remote_id h) \<and>
    peers_gauge (export n') = peers_gauge (export n) + 1 \<and> conn_changes n' = conn_changes n"
proof -
  have "change_try_send env cap q x = (if length q < cap then Some (q @ [x]) else None)" for cap q x
    using assms(1) unfolding change_channel_law_def by blast
  then have "conn_changes (register_conn_change env ch n) = conn_changes n" for ch
    using assms(5) by (simp add: register_conn_change_def)
  then show ?thesis using handshake_concluded [OF assms(2-4), of env st c] by (auto simp: concluded_def)
qed

definition example_handshake :: handshake where
  "example_handshake = \<lparr>remote_id = 9, remote_port = 8888, hs_networks = {|100|},
     node_version = \<lparr>major = 5, minor = 2, patch = 0, pre_release = [], build_metadata = []\<rparr>,
     wire_versions = WIRE_PROTOCOL_VERSIONS, genesis_blocks = [], proof_bytes = []\<rparr>"

lemma example_check_handshake: "regenesis n = regenesis_default \<Longrightarrow> check_handshake example_handshake n = Ok 1"
  by (simp add: check_handshake_def example_handshake_def is_compatible_version_def is_compatible_wire_version_def
      WIRE_PROTOCOL_VERSIONS_def WIRE_PROTOCOL_CURRENT_VERSION_def MAX_PEER_NETWORKS_def genesis_compatible_def regenesis_default_def
      fcard_finsert_if fcard_fempty)

definition full_node :: "nat node" where
  "full_node = example_node\<lparr>config := example_config\<lparr>hard_connection_limit := 1\<rparr>, conn_changes := [RemovalByToken 5]\<rparr>"

theorem full_change_queue_loses_promotion_witness:
  "\<exists>c' n'. handle_handshake_req example_env example_handshake [] (example_conn, full_node) = (Ok (), c', n') \<and>
     conn_remote_id c' = Some 9 \<and> conn_changes n' = [RemovalByToken 5]"
proof -
  have "check_handshake example_handshake full_node = Ok 1"
    by (rule example_check_handshake) (simp add: full_node_def example_node_def)
  moreover have "buckets_inv (node_buckets full_node)" "peer_type_of full_node = Node"
    "unat (hard_connection_limit (config full_node)) \<le> length (conn_changes full_node)"
    by (simp_all add: full_node_def example_node_def buckets_default_inv peer_type_of_def example_config_def)
  ultimately show ?thesis
    using full_change_queue_loses_promotion [OF example_change_channel_law, of example_handshake full_node 1 "[]" example_conn]
    by (simp add: full_node_def example_handshake_def) blast
qed

text \<open>
  A peer may repeat its handshake on a connection that has completed it. Every
  repetition raises the number of connected peers and adds networks without the limit that joining
  them has; when the connection is dropped, the count goes down by one only, so that the gauge
  stays too high.
\<close>

theorem repeated_handshake_inflates_peer_count:
  assumes "check_handshake h n = Ok wv" and "check_handshake h' n = Ok wv'" and "buckets_inv (node_buckets n)"
    and "peer_type_of n = Node"
  shows "\<exists>c' n'. act_then (handle_handshake_req env h st) (handle_handshake_req env' h' st') (c, n) = (Ok (), c', n') \<and>
    peers_gauge (export (drop_connection c' n')) = peers_gauge (export n) + 1 \<and>
    remote_end_networks c' = remote_end_networks c |\<union>| hs_networks h |\<union>| hs_networks h'"
proof -
  obtain c1 n1 where h: "handle_handshake_req env h st (c, n) = (Ok (), c1, n1)" "concluded env h (c, n) (c1, n1)"
    using handshake_concluded [OF assms(1,3,4), of env st c] by auto
  have "check_handshake h' n1 = check_handshake h' n" "buckets_inv (node_buckets n1)" "peer_type_of n1 = Node"
    using h(2) assms(4) check_handshake_cong [of n1 n h'] by (simp_all add: concluded_def peer_type_of_def)
  then obtain c2 n2 where h': "handle_handshake_req env' h' st' (c1, n1) = (Ok (), c2, n2)" "concluded env' h' (c1, n1) (c2, n2)"
    using handshake_concluded [of h' n1 wv' env' st' c1] assms(2) by auto
  then have "act_then (handle_handshake_req env h st) (handle_handshake_req env' h' st') (c, n) = (Ok (), c2, n2)"
    using h(1) by (simp add: act_simps)
  moreover have "peers_gauge (export (drop_connection c2 n2)) = peers_gauge (export n) + 1"
    using h(2) h'(2) by (simp add: concluded_def drop_connection_def on_export_def peers_dec_def)
  ultimately show ?thesis using h(2) h'(2) by (auto simp: concluded_def)
qed

theorem repeated_handshake_inflates_peer_count_witness:
  "\<exists>c' n'. act_then (handle_handshake_req example_env example_handshake []) (handle_handshake_req example_env example_handshake [])
       (example_conn, example_node) = (Ok (), c', n') \<and>
     peers_gauge (export (drop_connection c' n')) = 1 \<and> remote_end_networks c' = {|100|}"
proof -
  have "check_handshake example_handshake example_node = Ok 1"
    by (rule example_check_handshake) (simp add: example_node_def)
  moreover have "buckets_inv (node_buckets example_node)" "peer_type_of example_node = Node"
    "peers_gauge (export example_node) = 0" "remote_end_networks example_conn = {||}" "hs_networks example_handshake = {|100|}"
    by (simp_all add: example_node_def buckets_default_inv peer_type_of_def export_stats_new_def example_conn_def example_handshake_def)
  ultimately show ?thesis
    using repeated_handshake_inflates_peer_count [of example_handshake example_node 1 example_handshake 1 example_env "[]"
        example_env "[]" example_conn]
    by simp
qed

section \<open>Relaying broadcasts\<close>

lemma choose_ids_subset: "random_law env \<Longrightarrow> set (choose_ids env k xs) \<subseteq> set xs"
  unfolding random_law_def by (metis set_mset_mset set_mset_mono)

lemma partial_skip_spares_excluded:
  assumes "random_law env" "peers_to_skip env (Broadcast dont_relay) n = Ok skip"
    and "relay_broadcast_percentage (config n) < 1" and "p \<in> set dont_relay"
  shows "p \<notin> set skip"
proof -
  from assms(2,3) obtain k ps where "skip = choose_ids env k (filter (\<lambda>p. p \<notin> set dont_relay) ps)"
    by (auto simp: peers_to_skip_def res_simps Let_def)
  with choose_ids_subset [OF assms(1), of k "filter (\<lambda>p. p \<notin> set dont_relay) ps"] assms(4) show ?thesis by auto
qed

text \<open>
  Property C39: The peers that a broadcast must not be relayed to are skipped only as long as
  broadcasts are relayed to all the others. With a relay percentage below one, which is meant to
  restrict the relaying further, the packet is queued for each of them.
\<close>

theorem partial_relay_reaches_excluded_peers:
  assumes "random_law env" and "destination p = Broadcast dont_relay"
    and "(t, c) \<in> set (connections (n :: 'a node))" and "local_id (remote_peer c) \<in> set dont_relay"
    and "conn_remote_peer_type c = Node" and "packet_network_id p |\<in>| remote_end_networks c"
    and "process_network_packet env p n = (Ok sent, n')"
  shows "(t, if relay_broadcast_percentage (config n) < 1
             then async_send (serialize (wire env) (now_ms env) (netmsg (now_ms env) (NetworkPacket p))) Normal c
             else c) \<in> set (connections n')"
proof -
  let ?data = "serialize (wire env) (now_ms env) (netmsg (now_ms env) (NetworkPacket p))"
  obtain skip where skip: "peers_to_skip env (Broadcast dont_relay) n = Ok skip"
    using assms(2,7) by (auto simp: process_network_packet_def split: res.splits)
  define f :: "'a connection \<Rightarrow> bool" where "f = is_valid_broadcast_target skip (packet_network_id p)"
  have n': "connections n' = map (\<lambda>(t, c). (t, if f c then async_send ?data Normal c else c)) (connections n)"
    using assms(2,7) skip by (auto simp: process_network_packet_def Let_def send_over_all_connections_def f_def)
  have "local_id (remote_peer c) \<in> set skip \<longleftrightarrow> \<not> relay_broadcast_percentage (config n) < 1"
    using skip assms(4) partial_skip_spares_excluded [OF assms(1) skip]
    by (cases "relay_broadcast_percentage (config n) < 1") (auto simp: peers_to_skip_def)
  then have "f c \<longleftrightarrow> relay_broadcast_percentage (config n) < 1"
    using assms(5,6) by (simp add: f_def is_valid_broadcast_target_def)
  then show ?thesis unfolding n' using assms(3) by force
qed

definition connected_conn :: "nat connection" where
  "connected_conn = example_conn\<lparr>remote_peer := example_peer\<lparr>self_id := Some 9\<rparr>, remote_end_networks := {|100|}\<rparr>"

definition example_packet :: network_packet where
  "example_packet = \<lparr>destination = Broadcast [1], packet_network_id = 100, packet_message = [0, 1]\<rparr>"

definition relaying_node :: "nat node" where
  "relaying_node = example_node\<lparr>config := example_config\<lparr>relay_broadcast_percentage := 1 / 2\<rparr>,
     connections := [(1, connected_conn)]\<rparr>"

theorem partial_relay_reaches_excluded_peers_witness:
  "\<exists>sent n'. process_network_packet example_env example_packet relaying_node = (Ok sent, n') \<and>
     (1, async_send (serialize (wire example_env) (now_ms example_env)
        (netmsg (now_ms example_env) (NetworkPacket example_packet))) Normal connected_conn) \<in> set (connections n')"
proof -
  have "\<exists>ids. get_node_peer_tokens relaying_node = Ok ids"
    by (simp add: get_node_peer_tokens_def get_peer_stats_def relaying_node_def conn_peer_stats_def connected_conn_def
        conn_remote_peer_type_def example_peer_def)
  then obtain sent n' where r: "process_network_packet example_env example_packet relaying_node = (Ok sent, n')"
    by (auto simp: process_network_packet_def example_packet_def peers_to_skip_def Let_def relaying_node_def)
  have "(1, connected_conn) \<in> set (connections relaying_node)" "conn_remote_peer_type connected_conn = Node"
    "local_id (remote_peer connected_conn) \<in> set [1]" "packet_network_id example_packet |\<in>| remote_end_networks connected_conn"
    by (simp_all add: relaying_node_def connected_conn_def example_peer_def conn_remote_peer_type_def example_packet_def)
  from partial_relay_reaches_excluded_peers [OF example_random_law _ this(1,3,2,4) r]
  have "(1, async_send (serialize (wire example_env) (now_ms example_env)
        (netmsg (now_ms example_env) (NetworkPacket example_packet))) Normal connected_conn) \<in> set (connections n')"
    by (simp add: example_packet_def relaying_node_def)
  with r show ?thesis by blast
qed

section \<open>Closing excess peers\<close>

lemma remove_tokens_filter:
  assumes "hm_wf (connections n)" and "\<And>t. t \<in> set toks \<Longrightarrow> map_of (conn_candidates n) t = None"
  shows "connections (snd (snd (remove_tokens toks rc rp n))) = filter (\<lambda>(t, c). t \<notin> set toks) (connections n)"
  using assms
proof (induction toks rc rp n rule: remove_tokens.induct)
  case (2 tok toks rc rp n)
  have none: "map_of (conn_candidates n) tok = None" using "2.prems"(2) by simp
  show ?case
  proof (cases "map_of (connections n) tok")
    case None
    then have "tok \<notin> fst ` set (connections n)" by (simp add: map_of_eq_None_iff)
    then show ?thesis using None none "2.IH"(1) [OF none None "2.prems"(1)] "2.prems"(2)
      by (auto intro!: filter_cong simp: image_iff)
  next
    case (Some c)
    have "filter (\<lambda>(t, c). t \<notin> set toks) (hm_remove tok (connections n)) =
        filter (\<lambda>(t, c). t \<notin> set (tok # toks)) (connections n)"
      by (auto simp: AList.delete_eq intro!: filter_cong)
    then show ?thesis
      using Some none "2.IH"(2) [OF none Some] "2.prems"
      by (simp add: drop_connection_def on_export_def hm_wf_remove)
  qed
qed simp

lemma length_without_tokens:
  assumes "hm_wf m" "distinct toks" "set toks \<subseteq> set (hm_keys m)"
  shows "length (filter (\<lambda>(t, c). t \<notin> set toks) m) = length m - length toks"
proof -
  let ?in = "filter (\<lambda>(t, c). t \<in> set toks) m"
  have "set (hm_keys ?in) = set toks" using assms(3) by force
  moreover have "distinct (hm_keys ?in)" using assms(1) by (simp add: distinct_map_filter)
  ultimately have "length ?in = length toks" by (metis assms(2) distinct_card length_map)
  moreover have "length (filter (\<lambda>x. \<not> (\<lambda>(t, c). t \<in> set toks) x) m) + length ?in = length m"
    using sum_length_filter_compl [of "\<lambda>(t, c). t \<in> set toks" m] by simp
  moreover have "(\<lambda>x. \<not> (\<lambda>(t, c). t \<in> set toks) x) = (\<lambda>(t :: 'a, c :: 'b). t \<notin> set toks)" by auto
  ultimately show ?thesis by simp
qed

lemma distinct_submset:
  assumes "mset xs \<subseteq># mset ys" "distinct ys"
  shows "distinct xs"
proof -
  have "count (mset xs) x \<le> 1" for x
    using mset_subset_eq_count [OF assms(1), of x] assms(2) by (metis count_mset_0_iff distinct_count_atmost_1 le_trans
        not_in_iff order.refl zero_le_one)
  then show ?thesis by (simp add: distinct_count_atmost_1 le_antisym Suc_leI)
qed

lemma choose_non_given:
  assumes "random_law env" "hm_wf (connections n)" and toks_def: "toks = choose_ids env d (non_given_tokens n)"
  shows "distinct toks" "set toks \<subseteq> set (hm_keys (connections n))" "length toks = min d (length (non_given_tokens n))"
    and "t \<in> set toks \<Longrightarrow> map_of (connections n) t = Some c \<Longrightarrow> \<not> is_given_connection n c"
proof -
  have m: "mset toks \<subseteq># mset (non_given_tokens n)" and l: "length toks = min d (length (non_given_tokens n))"
    using assms(1) unfolding random_law_def toks_def by blast+
  show "length toks = min d (length (non_given_tokens n))" by (rule l)
  have "distinct (non_given_tokens n)" using assms(2) by (simp add: non_given_tokens_def distinct_map_filter)
  from distinct_submset [OF m this] show "distinct toks" .
  have sub: "set toks \<subseteq> set (non_given_tokens n)" using m by (metis set_mset_mono set_mset_mset)
  then show "set toks \<subseteq> set (hm_keys (connections n))" by (auto simp: non_given_tokens_def)
  show "\<not> is_given_connection n c" if "t \<in> set toks" "map_of (connections n) t = Some c"
  proof -
    have "t \<in> set (non_given_tokens n)" using sub that(1) by blast
    then obtain c' where c': "(t, c') \<in> set (connections n)" "\<not> is_given_connection n c'"
      by (auto simp: non_given_tokens_def)
    with map_of_is_SomeI [OF assms(2) c'(1)] that(2) show ?thesis by simp
  qed
qed

text \<open>
  Property C28: When a node has more peers than it allows, housekeeping closes exactly as many
  connections as there are peers too many, or all that are not given if they are fewer, and never
  one to a given address.
\<close>

theorem excess_peers_closed:
  assumes "random_law env" and "node_inv n" and "peer_type_of n = Node"
    and "k = length (filter (\<lambda>c. conn_remote_peer_type c = Node) (hm_values (connections n)))" and "k < 2 ^ 16"
  shows "\<exists>n'. drop_excess_peers env n = (Ok (), n') \<and> set (connections n') \<subseteq> set (connections n) \<and>
    (\<forall>(t, c) \<in> set (connections n). is_given_connection n c \<longrightarrow> (t, c) \<in> set (connections n')) \<and>
    length (connections n') = length (connections n) -
      min (k - unat (max_allowed_nodes (config n))) (length (non_given_tokens n))"
proof -
  have wf: "hm_wf (connections n)" using node_invD(2) [OF assms(2)] .
  obtain ps where ps: "get_peer_stats (Some Node) n = Ok ps" "length ps = k"
    using node_inv_peer_stats [OF assms(2), of "Some Node"] assms(4) by (auto simp: eq_commute [of Node])
  define w where "w = (word_of_nat k :: u16)"
  have w: "unat w = k" using assms(5) by (simp add: w_def unat_of_nat take_bit_eq_mod)
  have cnt: "node_peer_count n = Ok w" using ps by (simp add: node_peer_count_def w_def)
  show ?thesis
  proof (cases "max_allowed_nodes (config n) < w")
    case False
    then have "k - unat (max_allowed_nodes (config n)) = 0" using w by (simp add: word_less_nat_alt)
    then show ?thesis using False cnt assms(3) by (auto simp: drop_excess_peers_def act_simps)
  next
    case True
    define d where "d = unat (w - max_allowed_nodes (config n))"
    have d: "d = k - unat (max_allowed_nodes (config n))"
      using True w by (simp add: d_def unat_sub order_less_imp_le)
    define toks where "toks = choose_ids env d (non_given_tokens n)"
    note ch = choose_non_given [OF assms(1) wf toks_def]
    have none: "map_of (conn_candidates n) t = None" if "t \<in> set toks" for t
    proof (rule ccontr)
      assume "map_of (conn_candidates n) t \<noteq> None"
      then have "map_of (connections n) t = None" using node_invD(3) [OF assms(2)] by blast
      then show False using ch(2) that by (auto simp: map_of_eq_None_iff)
    qed
    define n' where "n' = snd (remove_connections env toks n)"
    have conns: "connections n' = filter (\<lambda>(t, c). t \<notin> set toks) (connections n)"
      using remove_tokens_filter [OF wf none, of toks False False]
      by (cases "remove_tokens toks False False n") (simp add: n'_def remove_connections_def bump_last_peer_update_def)
    have "drop_excess_peers env n = (Ok (), n')"
      using cnt True assms(3) by (simp add: drop_excess_peers_def act_simps n'_def toks_def d_def)
    moreover have "(t, c) \<in> set (connections n')" if "(t, c) \<in> set (connections n)" "is_given_connection n c" for t c
      using ch(4) [OF _ map_of_is_SomeI [OF wf that(1)]] that by (auto simp: conns)
    ultimately show ?thesis
      using length_without_tokens [OF wf ch(1,2)] ch(3) d by (auto simp: conns)
  qed
qed

definition crowded_node :: "nat node" where
  "crowded_node = example_node\<lparr>config := example_config\<lparr>max_allowed_nodes := 0\<rparr>, next_token := 2,
     connections := [(1, connected_conn)]\<rparr>"

theorem excess_peers_closed_witness:
  "\<exists>n'. drop_excess_peers example_env crowded_node = (Ok (), n') \<and> length (connections n') = 0"
proof -
  have i: "node_inv crowded_node"
    by (simp add: node_inv_def crowded_node_def example_node_def buckets_default_inv connected_conn_def conn_token_def
        example_peer_def to_token_def SELF_TOKEN_def conn_remote_id_def)
  have "peer_type_of crowded_node = Node" "non_given_tokens crowded_node = [1]"
    "1 = length (filter (\<lambda>c. conn_remote_peer_type c = Node) (hm_values (connections crowded_node)))"
    by (simp_all add: crowded_node_def peer_type_of_def example_node_def non_given_tokens_def is_given_connection_def
        example_config_def connected_conn_def conn_remote_peer_type_def example_peer_def)
  with excess_peers_closed [OF example_random_law i this(1,3)]
  show ?thesis by (auto simp: crowded_node_def)
qed

end
