(* ===== verification/CatchUpRuns.thy ===== *)
theory CatchUpRuns
  imports NodeInvariant
begin

text \<open>
  The catch-up list inside the node. Only the consensus plugin changes it, and what the plugin does
  to it are the events of the list as a state machine: the handlers of the node refine them.
\<close>

section \<open>Operations that leave the list alone\<close>

abbreviation peers_are :: "peer_list \<Rightarrow> 'ns node \<Rightarrow> bool" where
  "peers_are pl n \<equiv> node_peers n = pl"

lemma peers_basic [simp]:
  "node_peers (on_export f n) = node_peers n" "node_peers (bump_last_peer_update env n) = node_peers n"
  "node_peers (drop_connection c n) = node_peers n" "node_peers (lift_soft_bans env n) = node_peers n"
  "node_peers (soft_ban b e n) = node_peers n" "node_peers (add_given_address a n) = node_peers n"
  by (simp_all add: on_export_def bump_last_peer_update_def drop_connection_def lift_soft_bans_def soft_ban_def
      add_given_address_def)

lemma peers_drops [simp]: "node_peers (drop_connections cs n) = node_peers n"
  unfolding drop_connections_def by (induction cs arbitrary: n) simp_all

lemma peers_remove_tokens [simp]: "node_peers (snd (snd (remove_tokens toks rc rp n))) = node_peers n"
  by (induction toks rc rp n rule: remove_tokens.induct) (auto split: option.split)

lemma peers_remove [simp]:
  "node_peers (snd (remove_connection env t n)) = node_peers n"
  "node_peers (snd (remove_connections env toks n)) = node_peers n"
  "node_peers (retain_candidates P n) = node_peers n" "node_peers (retain_connections P n) = node_peers n"
  "node_peers (snd (send_over_all_connections data f n)) = node_peers n"
  using peers_remove_tokens [of toks False False n]
  by (cases "remove_tokens toks False False n"; auto simp: remove_connection_def remove_connections_def retain_candidates_def retain_connections_def
      send_over_all_connections_def split: option.split)+

lemma peers_connect [simp]:
  "node_peers (snd (connect env ptype a i r n)) = node_peers n" "node_peers (snd (accept env sk a n)) = node_peers n"
  "node_peers (promote env t n) = node_peers n"
  by (auto simp: connect_def open_connection_def fresh_token_def insert_candidate_def accept_def Let_def promote_def
      split: res.split option.split)

lemma peers_accept_loop [simp]: "node_peers (snd (accept_loop env k ins n)) = node_peers n"
proof (induction env k ins n rule: accept_loop.induct)
  case (4 env k sk a ins n)
  obtain r n' where rn: "accept env sk a n = (r, n')" by (cases "accept env sk a n")
  with peers_connect(2) [of env sk a n] have "node_peers n' = node_peers n" by simp
  with 4 rn show ?case by (auto split: sum.split accept_failure_reason.split)
qed auto

lemma peers_attempt_bootstrap [simp]: "node_peers (attempt_bootstrap env n) = node_peers n"
proof -
  have "node_peers (fold (\<lambda>a. register_conn_change env (NewConn a Bootstrapper False)) as n) = node_peers n" for as
    by (induction as arbitrary: n) simp_all
  then show ?thesis by (simp add: attempt_bootstrap_def split: res.split)
qed

lemma keeps_peers_connect [keeps_intros]: "keeps (peers_are pl) (connect env ptype a i r)"
  by (rule keepsI) simp

lemma keeps_connect_to_peers [keeps_intros]: "keeps (peers_are pl) (connect_to_peers env k ps)"
  by (induction ps arbitrary: k) (auto intro!: keeps_intros)

lemma keeps_conn_change [keeps_intros]: "keeps (peers_are pl) (process_conn_change env ch)"
  unfolding process_conn_change_def
  by (cases ch) (auto intro!: keeps_intros split: prod.split option.split, (metis peers_remove(1) snd_conv)+)

lemma keeps_conn_changes: "keeps (peers_are pl) (process_conn_changes env)"
  unfolding process_conn_changes_def by (intro keeps_intros) simp

text \<open>Socket events: the frame of the processed connection.\<close>

lemma keeps_process_connection:
  assumes "change_channel_law env"
  shows "keeps (\<lambda>n. node_ok b g n \<and> peers_are pl n) (process_candidate (env :: 'a node_env) events st tok)"
    and "keeps (\<lambda>n. node_ok b g n \<and> peers_are pl n) (process_peer env events st tok)"
proof -
  have peers: "node_peers (snd (snd (process_connection_events env events st (c, n)))) = node_peers n"
    if "node_ok b g n" for c and n :: "'a node"
  proof -
    have "buckets_inv (node_buckets n)" using that node_invD(6) by (auto simp: node_ok_def)
    from keepsD [OF frame_connection_events [OF assms, of n c events st] conn_frame_refl [OF this]]
    show ?thesis by (cases "snd (process_connection_events env events st (c, n))") (simp add: conn_frame_def)
  qed
  have "node_peers (snd (process_candidate env events st tok n)) = node_peers n"
    "node_peers (snd (process_peer env events st tok n)) = node_peers n" if "node_ok b g n" for n :: "'a node"
    using peers [OF that] by (auto simp: process_candidate_def process_peer_def split: option.split prod.split) (metis snd_conv)+
  then show "keeps (\<lambda>n. node_ok b g n \<and> peers_are pl n) (process_candidate env events st tok)"
    "keeps (\<lambda>n. node_ok b g n \<and> peers_are pl n) (process_peer env events st tok)"
    using process_candidate_ok [OF assms] process_peer_ok [OF assms] by (auto simp: keeps_def)
qed

lemma keeps_network_events:
  assumes "change_channel_law env"
  shows "keeps (\<lambda>n. node_ok b g n \<and> peers_are pl n) (process_network_events env events)"
  unfolding process_network_events_def
  by (intro keeps_bind keeps_get keeps_then keeps_result keeps_each keeps_process_connection [OF assms])

lemma keeps_housekeeping: "keeps (peers_are pl) (node_housekeeping env)"
proof -
  have "keeps (peers_are pl) (connection_housekeeping env)"
    unfolding connection_housekeeping_def remove_stale_candidates_def remove_faulty_connections_def
      drop_excess_peers_def reconnect_given_def
    by (auto intro!: keeps_intros simp: res_simps Let_def)
  then show ?thesis
    unfolding node_housekeeping_def measure_connection_latencies_def measure_throughput_def Let_def
    by (auto intro!: keeps_intros simp: res_simps check_peers_def send_get_peers_def split: prod.split)
qed

section \<open>The consensus plugin\<close>

abbreviation caught_up :: "'ns node \<Rightarrow> bool" where
  "caught_up n \<equiv> catch_up_inv (node_peers n)"

lemma caught_up_event:
  assumes "caught_up n" "peer_event_enabled (node_peers n) e" "node_peers n' = peer_event_step (node_peers n) e"
  shows "caught_up n'"
  using peer_event_step_inv [OF assms(1,2)] assms(3) by simp

lemma send_message_peers [simp]: "node_peers (snd (send_message_over_network env t dr i msg n)) = node_peers n"
  by (auto simp: send_message_over_network_def process_network_packet_def Let_def
      split: prod.split res.split packet_destination.split option.split)

lemma node_peer_tokens_distinct:
  assumes "node_inv n"
  shows "\<exists>ids. get_node_peer_tokens n = Ok ids \<and> distinct ids"
proof -
  let ?cs = "filter (\<lambda>c. Some Node = Some (conn_remote_peer_type c)) (hm_values (connections n))"
  have id: "local_id (remote_peer c) = t" if "(t, c) \<in> set (connections n)" for t c
    using node_invD(4) [OF assms map_of_is_SomeI [OF node_invD(2) [OF assms] that]] by (simp add: conn_token_def to_token_def)
  have st: "\<exists>x. conn_peer_stats c = Ok x \<and> ps_local_id x = local_id (remote_peer c)" if "(t, c) \<in> set (connections n)" for t c
    using node_invD(4) [OF assms map_of_is_SomeI [OF node_invD(2) [OF assms] that]]
    by (auto simp: conn_peer_stats_def conn_remote_id_def peer_stats_new_def)
  define f where "f c = (case conn_peer_stats c of Ok x \<Rightarrow> x | _ \<Rightarrow> undefined)" for c :: "'a connection"
  have f: "conn_peer_stats c = Ok (f c) \<and> ps_local_id (f c) = local_id (remote_peer c)" if "c \<in> set ?cs" for c
    using that st by (fastforce simp: f_def)
  have g: "get_peer_stats (Some Node) n = Ok (map f ?cs)"
    using collect_res_Ok [of ?cs conn_peer_stats f] f by (simp add: get_peer_stats_def)
  have m: "map (ps_local_id \<circ> f) ?cs = map (local_id \<circ> remote_peer) ?cs" using f by (auto intro!: map_cong)
  have "map (local_id \<circ> remote_peer) (hm_values (connections n)) = hm_keys (connections n)"
    using id by (auto intro!: map_cong)
  then have "distinct (map (local_id \<circ> remote_peer) ?cs)" using node_invD(2) [OF assms] by (metis distinct_map_filter)
  then have "distinct (map (ps_local_id \<circ> f) ?cs)" by (simp only: m)
  then have "distinct (map ps_local_id (map f ?cs))" by (simp only: map_map)
  with g show ?thesis unfolding get_node_peer_tokens_def by (simp only: res_bind.simps) blast
qed

lemma update_peer_list_caught_up:
  assumes "node_inv n" "caught_up n"
  shows "caught_up (snd (update_peer_list n))"
proof -
  obtain ids where ids: "get_node_peer_tokens n = Ok ids" "distinct ids" using node_peer_tokens_distinct [OF assms(1)] by blast
  have "node_peers (snd (update_peer_list n)) = peer_event_step (node_peers n) (PeersChanged ids)"
    by (simp add: update_peer_list_def act_simps ids(1) split: res.split)
  from caught_up_event [OF assms(2) _ this] ids(2) show ?thesis by simp
qed

lemma try_catch_up_caught_up:
  assumes "caught_up n" "catch_up_peer (node_peers n) = None"
  shows "caught_up (snd (try_catch_up env api n))"
proof -
  have "\<exists>sent. node_peers (snd (try_catch_up env api n)) = peer_event_step (node_peers n) (TryCatchUp (now_ms env) sent)"
  proof (cases "next_pending (node_peers n)")
    case (Pair r pl)
    show ?thesis
    proof (cases r)
      case None
      then show ?thesis using Pair by (simp add: try_catch_up_def act_simps on_peers_def try_catch_up_with_def)
    next
      case (Some p)
      define n1 where "n1 = n\<lparr>node_peers := pl\<lparr>catch_up_stamp := now_ms env\<rparr>\<rparr>"
      obtain k n2 where s: "send_direct_message env p (default_network (config n)) (get_catch_up_status api) n1 = (Ok k, n2)"
        by (auto simp: send_direct_message_def send_message_over_network_def process_network_packet_def peers_to_skip_def Let_def)
      have "node_peers n2 = node_peers n1"
        using s by (metis send_direct_message_def send_message_peers snd_conv)
      then have "node_peers (snd (try_catch_up env api n)) = peer_event_step (node_peers n) (TryCatchUp (now_ms env) (\<lambda>_. k))"
        using Pair Some s by (simp add: try_catch_up_def act_simps on_peers_def try_catch_up_with_def n1_def Let_def)
      then show ?thesis by blast
    qed
  qed
  then obtain sent where "node_peers (snd (try_catch_up env api n)) = peer_event_step (node_peers n) (TryCatchUp (now_ms env) sent)"
    by blast
  from caught_up_event [OF assms(1) _ this] assms(2) show ?thesis by simp
qed

lemma check_peer_states_caught_up: "keeps caught_up (check_peer_states env api)"
  unfolding check_peer_states_def
proof (rule keeps_then, rule keeps_modify)
  fix n :: "'a node"
  assume "caught_up n"
  then show "caught_up (if trigger_catchup (regenesis n)
      then n\<lparr>regenesis := (regenesis n)\<lparr>trigger_catchup := False\<rparr>, node_peers := mark_all_pending (node_peers n)\<rparr> else n)"
    using mark_all_pending_inv by auto
next
  show "keeps caught_up (act_get (\<lambda>n :: 'a node. case catch_up_peer (node_peers n) of
      None \<Rightarrow> try_catch_up env api
    | Some p \<Rightarrow>
        if map_of (connections n) (to_token p) \<noteq> None
        then act_bind (act_result (add_u64 (catch_up_stamp (node_peers n)) (word_of_nat MAX_CATCH_UP_TIME))) (\<lambda>limit.
               if limit < now_ms env then act_modify (register_conn_change env (RemovalByToken (to_token p)))
               else act_return ())
        else act_then (on_peers (forget_catch_up_peer p)) (try_catch_up env api)))" (is "keeps _ (act_get ?f)")
  proof (rule keepsI)
    fix n :: "'a node"
    assume n: "caught_up n"
    show "caught_up (snd (act_get ?f n))"
    proof (cases "catch_up_peer (node_peers n)")
      case None
      then show ?thesis using try_catch_up_caught_up [OF n] by (simp add: act_get_def)
    next
      case (Some p)
      define n1 where "n1 = n\<lparr>node_peers := forget_catch_up_peer p (node_peers n)\<rparr>"
      have "caught_up n1" using caught_up_event [OF n, of "CatchUpConnectionLost p" n1] Some by (simp add: n1_def)
      then have "caught_up (snd (try_catch_up env api n1))"
        by (rule try_catch_up_caught_up) (simp add: n1_def forget_catch_up_peer_def)
      then show ?thesis using Some n
        by (simp add: act_get_def on_peers_def modify_then n1_def) (simp add: act_simps split: res.split)
    qed
  qed
qed

lemma on_peers_caught_up: "(\<And>pl. catch_up_inv pl \<Longrightarrow> catch_up_inv (f pl)) \<Longrightarrow> keeps caught_up (on_peers f)"
  unfolding on_peers_def by (rule keeps_modify) simp

lemma status_events_inv:
  "catch_up_inv pl \<Longrightarrow> catch_up_inv (peer_success src pl)" "catch_up_inv pl \<Longrightarrow> catch_up_inv (peer_behind src pl)"
  "catch_up_inv pl \<Longrightarrow> catch_up_inv (peer_continue src pl)"
  using peer_event_step_inv [of pl "StatusSuccess src"] peer_event_step_inv [of pl "StatusBehind src"]
    peer_event_step_inv [of pl "StatusContinue src"] by simp_all

lemma consensus_messages_caught_up:
  "keeps caught_up (handle_consensus_inbound_msg env api m)" "keeps caught_up (handle_consensus_outbound_msg env m)"
proof -
  have net: "keeps caught_up (send_consensus_msg_to_net env dr t pl)" for dr t pl
    unfolding send_consensus_msg_to_net_def send_direct_message_def send_broadcast_message_def
    by (rule keepsI) (auto simp: act_simps split: option.split prod.split res.split, (metis send_message_peers snd_conv)+)
  have reg: "keeps caught_up (act_modify (register_conn_change env ch))" for ch by (rule keeps_modify) simp
  have each: "keeps caught_up (act_each (\<lambda>p. send_consensus_msg_to_net env [] (Some p) pl) ps)" for pl ps
    by (intro keeps_each net)
  have upd: "keeps caught_up (update_peer_states env m resp)" for resp
    unfolding update_peer_states_def
    by (cases resp; cases "message_distribution_mode m";
        simp only: consensus_ffi_response.case distribution_mode.case;
        intro keeps_bind keeps_if keeps_get keeps_result keeps_return on_peers_caught_up status_events_inv reg each)
  have "keeps caught_up (send_msg_to_consensus api src m)" for src
    unfolding send_msg_to_consensus_def
    by (intro keeps_get keeps_bind keeps_if keeps_then keeps_result keeps_return keeps_modify) simp
  then show "keeps caught_up (handle_consensus_inbound_msg env api m)"
    unfolding handle_consensus_inbound_msg_def by (auto intro!: keeps_intros net upd)
  show "keeps caught_up (handle_consensus_outbound_msg env m)"
    unfolding handle_consensus_outbound_msg_def by (auto intro!: keeps_intros net each split: option.split)
qed

section \<open>Runs of the node\<close>

definition node_consistent :: "nat \<Rightarrow> nat \<Rightarrow> 'ns poll_state \<Rightarrow> bool" where
  "node_consistent b g s \<longleftrightarrow> poll_ok b g s \<and> caught_up (poll_node s)"

lemma peers_caught_up:
  assumes "\<And>pl. keeps (peers_are pl) (m :: ('a node, 'b) action)"
  shows "keeps caught_up m"
proof (rule keepsI)
  fix n :: "'a node"
  assume "caught_up n"
  with keepsD [OF assms refl, of n] show "caught_up (snd (m n))" by simp
qed

lemma consistent_triple:
  assumes "triple (poll_ok b g) m (poll_ok b' g')" "keeps (\<lambda>s. caught_up (poll_node s)) m"
  shows "triple (node_consistent b g) m (node_consistent b' g')"
  using assms by (simp add: triple_def keeps_def node_consistent_def)

lemma consistent_changes:
  assumes "random_law env"
  shows "triple (\<lambda>s. node_consistent (b + changes_cost chs) g s \<and> conn_changes (poll_node s) = chs)
    (in_poll (process_conn_changes env)) (node_consistent b (g + length chs))"
proof -
  have "triple (\<lambda>s. poll_ok (b + changes_cost chs) g s \<and> conn_changes (poll_node s) = chs)
      (in_poll (process_conn_changes env)) (poll_ok b (g + length chs))"
    using process_conn_changes_ok [OF assms, of b _ g]
    by (intro in_poll_triple [of "\<lambda>n. node_ok (b + changes_cost chs) g n \<and> conn_changes n = chs"] tripleI) auto
  with in_poll_keeps [OF peers_caught_up [OF keeps_conn_changes, of env]] show ?thesis
    by (simp add: triple_def keeps_def node_consistent_def)
qed

lemma consistent_consensus:
  assumes "change_channel_law (env :: 'a node_env)"
  shows "keeps (node_consistent b g) (poll_consensus env (consensus :: 'b consensus_api option))"
proof -
  let ?J = "\<lambda>n. node_ok b g n \<and> caught_up n"
  have J: "node_consistent b g = (\<lambda>s. ?J (poll_node s))" by (simp add: node_consistent_def fun_eq_iff)
  have "keeps (node_ok b g) update_peer_list" "keeps (node_ok b g) (check_peer_states env api)" for api :: "'b consensus_api"
    by (rule shrinks_keeps_ok, intro shrinks_update_peer_list shrinks_check_peer_states [OF assms])+
  then have "keeps ?J update_peer_list" "keeps ?J (check_peer_states env api)" for api :: "'b consensus_api"
    using update_peer_list_caught_up check_peer_states_caught_up [of env api]
    by (auto simp: keeps_def node_ok_def)
  from this [THEN in_poll_keeps] show ?thesis
    unfolding J poll_consensus_def
    by (cases consensus) (auto intro!: keeps_get keeps_then keeps_if keeps_return keeps_modify)
qed

lemma consistent_rest:
  assumes "change_channel_law (env :: 'a node_env)"
  shows "triple (node_consistent g g) (act_then (poll_consensus env consensus)
      (act_then (in_poll (process_network_events env events)) (act_then (poll_housekeeping env) (poll_clean_buckets env))))
      (node_consistent 0 g)"
proof -
  have weaken: "node_consistent g g s \<Longrightarrow> node_consistent 0 g s" for s :: "'a poll_state"
    by (auto simp: node_consistent_def intro: node_ok_mono)
  have ev: "keeps (node_consistent g g) (in_poll (process_network_events env events))"
  proof -
    have "keeps (\<lambda>n. node_ok g g n \<and> caught_up n) (process_network_events env events)"
    proof (rule keepsI)
      fix n :: "'a node"
      assume n: "node_ok g g n \<and> caught_up n"
      with keepsD [OF keeps_network_events [OF assms, of g g "node_peers n" events], of n]
      show "node_ok g g (snd (process_network_events env events n)) \<and> caught_up (snd (process_network_events env events n))"
        by simp
    qed
    from in_poll_keeps [OF this] show ?thesis by (simp add: keeps_def node_consistent_def)
  qed
  have hk: "triple (node_consistent g g) (poll_housekeeping env) (node_consistent 0 g)"
    using poll_housekeeping_ok [OF assms, of 0 g] in_poll_keeps [OF peers_caught_up [OF keeps_housekeeping, of env]]
    by (intro consistent_triple) (auto simp: poll_housekeeping_def intro!: keeps_intros)
  have cb: "keeps (node_consistent 0 g) (poll_clean_buckets env)"
  proof -
    have "keeps (\<lambda>s :: 'a poll_state. caught_up (poll_node s)) (poll_clean_buckets env)"
      unfolding poll_clean_buckets_def
      by (auto intro!: keeps_get keeps_if keeps_then keeps_return keeps_modify in_poll_keeps [of caught_up] keeps_update
          simp: res_simps)
    then show ?thesis using poll_clean_buckets_ok [of 0 g env] by (simp add: keeps_def node_consistent_def)
  qed
  show ?thesis
    by (rule triple_then [OF keeps_triple [OF consistent_consensus [OF assms]]] triple_then [OF keeps_triple [OF ev]]
        triple_then [OF hk keeps_triple [OF cb]] | erule weaken | assumption)+
qed

lemma poll_iteration_caught_up:
  assumes "change_channel_law env" "random_law env"
    and "node_inv (poll_node s)" and "caught_up (poll_node s)"
    and "unat (next_token (poll_node s)) + token_budget (poll_node s) < 2 ^ 64"
  shows "caught_up (poll_node (snd (poll_iteration env consensus events ins s)))"
proof -
  define chs where "chs = conn_changes (poll_node s)"
  define g where "g = length (given_addresses (config (poll_node s)))"
  let ?G = "g + length chs"
  have "poll_ok (?G + changes_cost chs + unat (conn_requests_batch_limit (config (poll_node s)))) g s"
    using assms(3,5) by (simp add: node_ok_def token_budget_def chs_def g_def add_ac)
  note a = poll_accept_ok [OF this, of env events ins]
  have "caught_up (poll_node (poll_accept env events ins s))"
    using assms(4) peers_accept_loop [of env "unat (conn_requests_batch_limit (config (poll_node s)))" ins "poll_node s"]
    by (cases "accept_loop env (unat (conn_requests_batch_limit (config (poll_node s)))) ins (poll_node s)")
      (simp add: poll_accept_def del: peers_accept_loop)
  with a have s1: "node_consistent (?G + changes_cost chs) g (poll_accept env events ins s) \<and>
      conn_changes (poll_node (poll_accept env events ins s)) = chs" by (simp add: node_consistent_def chs_def)
  have "node_consistent 0 ?G (snd (poll_iteration env consensus events ins s))"
    unfolding poll_iteration_def modify_then
    by (rule tripleD [OF triple_then [OF consistent_changes [OF assms(2)] consistent_rest [OF assms(1)]] s1])
      (auto simp: node_consistent_def intro: node_ok_mono)
  then show ?thesis by (simp add: node_consistent_def)
qed

lemma bans_caught_up:
  "node_peers (snd (drop_by_ip_and_ban env ip n)) = node_peers n" "node_peers (snd (drop_by_id env i n)) = node_peers n"
  "node_peers (snd (drop_addr env a n)) = node_peers n" "node_peers (snd (unban_node env p n)) = node_peers n"
  by (simp_all add: drop_by_ip_and_ban_def drop_by_id_def drop_addr_def unban_node_def Let_def split: option.split)

lemma node_event_caught_up:
  assumes "node_inv (poll_node s)" "caught_up (poll_node s)" "node_event_enabled s e"
  shows "caught_up (poll_node (node_event_step s e))"
proof (cases e)
  case (PollIteration env consensus events ins)
  with assms(3) have l: "change_channel_law env" "random_law env"
    "unat (next_token (poll_node s)) + token_budget (poll_node s) < 2 ^ 64" by simp_all
  from poll_iteration_caught_up [OF l(1,2) assms(1,2) l(3)] PollIteration show ?thesis by simp
next
  case (InboundMessage env api m)
  then show ?thesis using keepsD [OF consensus_messages_caught_up(1) assms(2)] by (simp add: at_node_def)
next
  case (OutboundMessage env m)
  then show ?thesis using keepsD [OF consensus_messages_caught_up(2) assms(2)] by (simp add: at_node_def)
qed (use assms(2) in \<open>simp_all add: at_node_def bans_caught_up\<close>)

interpretation catch_up_machine: invariant_system
  "poll_start env (initial_node se conf self nc regen bans)" node_event_enabled node_event_step
  "\<lambda>s. node_inv (poll_node s) \<and> caught_up (poll_node s)"
  for env se conf self nc regen bans
  by unfold_locales
    (simp_all add: poll_start_def initial_node_inv node_event_step_inv node_event_caught_up initial_node_def catch_up_inv_default,
     simp_all add: initial_node_inv [unfolded initial_node_def])

lemma node_new_caught_up:
  assumes "node_new env se sid conf ptype regen = Ok n"
  shows "caught_up n"
proof -
  from assms obtain self nc bans where "n = initial_node se conf self nc regen bans \<or>
      n = snd (clear_bans env (initial_node se conf self nc regen bans))"
    unfolding node_new_def by (auto simp: res_simps Let_def split: if_splits option.splits)
  then show ?thesis by (auto simp: initial_node_def clear_bans_def catch_up_inv_default split: option.splits)
qed

end
