(* ===== verification/QueueThreads.thy ===== *)
theory QueueThreads
  imports ConsensusPlugin Examples
begin

text \<open>
  The two threads that serve the consensus queues (\<^verbatim>\<open>start_consensus_message_threads\<close> in
  \<^verbatim>\<open>bin/cli.rs\<close>). They run the same loop on the inbound and on the outbound queues; \<open>queue_round\<close>
  is one iteration up to the point where it would wait for a message, \<open>queue_wait\<close> is what
  happens when one arrives in either queue.
\<close>

section \<open>The loop\<close>

datatype queue_dir = InQueues | OutQueues

definition high_queue :: "queue_dir \<Rightarrow> consensus_queues \<Rightarrow> consensus_message queue_msg list" where
  "high_queue d q = (case d of InQueues \<Rightarrow> ch_queue (in_high q) | OutQueues \<Rightarrow> ch_queue (out_high q))"

definition low_queue :: "queue_dir \<Rightarrow> consensus_queues \<Rightarrow> consensus_message queue_msg list" where
  "low_queue d q = (case d of InQueues \<Rightarrow> ch_queue (in_low q) | OutQueues \<Rightarrow> ch_queue (out_low q))"

definition set_high :: "queue_dir \<Rightarrow> consensus_message queue_msg list \<Rightarrow> consensus_queues \<Rightarrow> consensus_queues" where
  "set_high d ms q = (case d of
     InQueues \<Rightarrow> q\<lparr>in_high := (in_high q)\<lparr>ch_queue := ms\<rparr>\<rparr> | OutQueues \<Rightarrow> q\<lparr>out_high := (out_high q)\<lparr>ch_queue := ms\<rparr>\<rparr>)"

definition set_low :: "queue_dir \<Rightarrow> consensus_message queue_msg list \<Rightarrow> consensus_queues \<Rightarrow> consensus_queues" where
  "set_low d ms q = (case d of
     InQueues \<Rightarrow> q\<lparr>in_low := (in_low q)\<lparr>ch_queue := ms\<rparr>\<rparr> | OutQueues \<Rightarrow> q\<lparr>out_low := (out_low q)\<lparr>ch_queue := ms\<rparr>\<rparr>)"

definition recv_high :: "queue_dir \<Rightarrow> 'ns node \<Rightarrow> (consensus_message queue_msg \<times> 'ns node) option" where
  "recv_high d n = (case high_queue d (callback_queue n) of
     [] \<Rightarrow> None | m # ms \<Rightarrow> Some (m, n\<lparr>callback_queue := set_high d ms (callback_queue n)\<rparr>))"

definition recv_low :: "queue_dir \<Rightarrow> 'ns node \<Rightarrow> (consensus_message queue_msg \<times> 'ns node) option" where
  "recv_low d n = (case low_queue d (callback_queue n) of
     [] \<Rightarrow> None | m # ms \<Rightarrow> Some (m, n\<lparr>callback_queue := set_low d ms (callback_queue n)\<rparr>))"

text \<open>\<^verbatim>\<open>handle_queue_stop\<close>: whether the loop goes on.\<close>

definition handle_queue_stop ::
    "(consensus_message \<Rightarrow> ('ns node, 'x) action) \<Rightarrow> consensus_message queue_msg \<Rightarrow> ('ns node, bool) action" where
  "handle_queue_stop f m =
     (case m of Relay msg \<Rightarrow> act_then (act_log_error (f msg)) (act_return True) | Stop \<Rightarrow> act_return False)"

datatype drain_result = DrainStop | DrainExhausted | DrainLimit

primrec drain_high ::
    "nat \<Rightarrow> queue_dir \<Rightarrow> (consensus_message \<Rightarrow> ('ns node, 'x) action) \<Rightarrow> ('ns node, drain_result) action" where
  "drain_high 0 d f = act_return DrainLimit"
| "drain_high (Suc k) d f = (\<lambda>n.
     case recv_high d n of
       None \<Rightarrow> (Ok DrainExhausted, n)
     | Some (m, n') \<Rightarrow> act_bind (handle_queue_stop f m) (\<lambda>go.
         if go then drain_high k d f else act_return DrainStop) n')"

definition queue_depth :: "queue_dir \<Rightarrow> nat" where
  "queue_depth d = (case d of InQueues \<Rightarrow> CONSENSUS_QUEUE_DEPTH_IN_HI | OutQueues \<Rightarrow> CONSENSUS_QUEUE_DEPTH_OUT_HI)"

definition record_queue_sizes :: "queue_dir \<Rightarrow> 'ns node \<Rightarrow> 'ns node" where
  "record_queue_sizes d n =
     (let l = word_of_nat (length (low_queue d (callback_queue n)));
          h = word_of_nat (length (high_queue d (callback_queue n)))
      in case d of
           InQueues \<Rightarrow> on_export (set_inbound_high_priority_consensus_size h \<circ> set_inbound_low_priority_consensus_size l) n
         | OutQueues \<Rightarrow> on_export (set_outbound_high_priority_consensus_size h \<circ> set_outbound_low_priority_consensus_size l) n)"

datatype round_result = RoundStop | RoundWait | RoundContinue

definition queue_round ::
    "queue_dir \<Rightarrow> (consensus_message \<Rightarrow> ('ns node, 'x) action) \<Rightarrow> ('ns node, round_result) action" where
  "queue_round d f =
     act_then (act_modify (record_queue_sizes d))
     (act_bind (drain_high (queue_depth d) d f) (\<lambda>r.
        if r = DrainStop then act_return RoundStop
        else (\<lambda>n. case recv_low d n of
               Some (m, n') \<Rightarrow> act_bind (handle_queue_stop f m) (\<lambda>go.
                 act_return (if go then RoundContinue else RoundStop)) n'
             | None \<Rightarrow> (Ok (if r = DrainExhausted then RoundWait else RoundContinue), n))))"

text \<open>\<^verbatim>\<open>select!\<close>: a message has arrived; \<open>from_high\<close> is the choice when both queues have one.\<close>

definition queue_wait ::
    "bool \<Rightarrow> queue_dir \<Rightarrow> (consensus_message \<Rightarrow> ('ns node, 'x) action) \<Rightarrow> ('ns node, round_result) action" where
  "queue_wait from_high d f = (\<lambda>n.
     case (if from_high \<and> recv_high d n \<noteq> None \<or> recv_low d n = None then recv_high d n else recv_low d n) of
       Some (m, n') \<Rightarrow> act_bind (handle_queue_stop f m) (\<lambda>go.
         act_return (if go then RoundContinue else RoundStop)) n'
     | None \<Rightarrow> (Ok RoundWait, n))"

section \<open>Handlers leave the queues alone\<close>

abbreviation same_queues :: "consensus_queues \<Rightarrow> 'ns node \<Rightarrow> bool" where
  "same_queues q n \<equiv> callback_queue n = q"

lemma register_queues [simp]: "callback_queue (register_conn_change env ch n) = callback_queue n"
  by (simp add: register_conn_change_def split: option.split)

lemma keeps_process_network_packet: "keeps (same_queues q) (process_network_packet env p)"
  by (rule keepsI) (auto simp: process_network_packet_def send_over_all_connections_def Let_def
      split: res.split packet_destination.split)

lemma keeps_send_message [keeps_intros]: "keeps (same_queues q) (send_message_over_network env t dr i msg)"
proof (rule keepsI)
  fix n :: "'a node"
  assume n: "same_queues q n"
  show "same_queues q (snd (send_message_over_network env t dr i msg n))"
    unfolding send_message_over_network_def
    using keepsD [OF keeps_process_network_packet n]
    by (auto split: prod.split res.split) (metis snd_conv)+
qed

lemma keeps_send_consensus_msg [keeps_intros]:
  "keeps (same_queues q) (send_consensus_msg_to_net env dr t pl)"
  unfolding send_consensus_msg_to_net_def send_direct_message_def send_broadcast_message_def
  by (intro keeps_intros) (auto intro!: keeps_intros split: option.split)

lemma keeps_on_peers [keeps_intros]: "keeps (same_queues q) (on_peers f)"
  unfolding on_peers_def by (intro keeps_intros) simp

lemma keeps_register [keeps_intros]: "keeps (same_queues q) (act_modify (register_conn_change env ch))"
  by (intro keeps_intros) simp

lemma keeps_update_peer_states [keeps_intros]: "keeps (same_queues q) (update_peer_states env m resp)"
  unfolding update_peer_states_def
  by (cases resp; cases "message_distribution_mode m"; simp only: consensus_ffi_response.case distribution_mode.case; intro keeps_intros)

lemma keeps_send_msg_to_consensus [keeps_intros]: "keeps (same_queues q) (send_msg_to_consensus api src m)"
  unfolding send_msg_to_consensus_def by (intro keeps_intros) auto

lemma keeps_inbound: "keeps (same_queues q) (handle_consensus_inbound_msg env api m)"
  unfolding handle_consensus_inbound_msg_def by (intro keeps_intros) (auto intro!: keeps_intros)

section \<open>What a round does to the queues\<close>

lemma queue_access [simp]:
  "high_queue d (set_high d ms q) = ms" "low_queue d (set_high d ms q) = low_queue d q"
  "low_queue d (set_low d ms q) = ms" "high_queue d (set_low d ms q) = high_queue d q"
  by (cases d; simp add: high_queue_def low_queue_def set_high_def set_low_def)+

lemma record_queue_sizes_queues [simp]: "callback_queue (record_queue_sizes d n) = callback_queue n"
  by (cases d) (simp_all add: record_queue_sizes_def on_export_def Let_def)

lemma handle_queue_stop_queues:
  assumes "\<And>q m. keeps (same_queues q) (f m)"
  shows "callback_queue (snd (handle_queue_stop f m n)) = callback_queue n"
proof -
  have "keeps (same_queues (callback_queue n)) (handle_queue_stop f m)"
    unfolding handle_queue_stop_def by (cases m) (auto intro!: keeps_intros assms)
  from keepsD [OF this refl] show ?thesis .
qed

lemma drain_high_queues:
  assumes f: "\<And>q m. keeps (same_queues q) (f m)"
  shows "drain_high k d f n = (r, n') \<Longrightarrow> low_queue d (callback_queue n') = low_queue d (callback_queue n) \<and>
    (\<exists>j\<le>k. high_queue d (callback_queue n') = drop j (high_queue d (callback_queue n)))"
proof (induction k arbitrary: n)
  case 0
  then show ?case by (simp add: act_simps)
next
  case (Suc k)
  show ?case
  proof (cases "high_queue d (callback_queue n)")
    case Nil
    then show ?thesis using Suc.prems by (auto simp: recv_high_def)
  next
    case (Cons m ms)
    define n1 where "n1 = n\<lparr>callback_queue := set_high d ms (callback_queue n)\<rparr>"
    obtain r2 n2 where h: "handle_queue_stop f m n1 = (r2, n2)" by (cases "handle_queue_stop f m n1")
    have q2: "callback_queue n2 = set_high d ms (callback_queue n)"
      using handle_queue_stop_queues [of f m n1, OF f] h by (simp add: n1_def)
    have step: "drain_high (Suc k) d f n = act_bind (handle_queue_stop f m) (\<lambda>go.
        if go then drain_high k d f else act_return DrainStop) n1"
      using Cons by (simp add: recv_high_def n1_def)
    show ?thesis
    proof (cases "r2 = Ok True")
      case True
      with Suc.prems step h have "drain_high k d f n2 = (r, n')" by (simp add: act_simps)
      from Suc.IH [OF this] obtain j where "j \<le> k" "low_queue d (callback_queue n') = low_queue d (callback_queue n)"
        "high_queue d (callback_queue n') = drop j ms" by (auto simp: q2)
      then show ?thesis using Cons by (auto intro!: exI [of _ "Suc j"])
    next
      case False
      with Suc.prems step h have "n' = n2" by (cases r2) (auto simp: act_simps)
      then show ?thesis using q2 Cons by (auto intro!: exI [of _ "Suc 0"])
    qed
  qed
qed

text \<open>
  Property C33: High priority messages cannot starve the low priority ones: however long the high
  priority queue is, every round of the inbound thread that returns without a stop message takes
  at most as many messages from it as its capacity, and then serves exactly one message of a
  non-empty low priority queue.
\<close>

theorem low_priority_not_starved:
  assumes "queue_round InQueues (handle_consensus_inbound_msg env api) n = (Ok r, n')" and "r \<noteq> RoundStop"
    and "low_queue InQueues (callback_queue n) = x # xs"
  shows "r = RoundContinue \<and> low_queue InQueues (callback_queue n') = xs \<and>
    (\<exists>j\<le>CONSENSUS_QUEUE_DEPTH_IN_HI.
       high_queue InQueues (callback_queue n') = drop j (high_queue InQueues (callback_queue n)))"
proof -
  let ?f = "handle_consensus_inbound_msg env api"
  define n0 where "n0 = record_queue_sizes InQueues n"
  obtain r1 n1 where d: "drain_high (queue_depth InQueues) InQueues ?f n0 = (r1, n1)"
    by (cases "drain_high (queue_depth InQueues) InQueues ?f n0")
  note q1 = drain_high_queues [OF keeps_inbound d, unfolded n0_def record_queue_sizes_queues]
  have low: "low_queue InQueues (callback_queue n1) = x # xs" using q1 assms(3) by simp
  define n2 where "n2 = n1\<lparr>callback_queue := set_low InQueues xs (callback_queue n1)\<rparr>"
  obtain r3 n3 where h: "handle_queue_stop ?f x n2 = (r3, n3)" by (cases "handle_queue_stop ?f x n2")
  have q3: "callback_queue n3 = set_low InQueues xs (callback_queue n1)"
    using handle_queue_stop_queues [of ?f x n2, OF keeps_inbound] h by (simp add: n2_def)
  obtain dr where dr: "r1 = Ok dr" "dr \<noteq> DrainStop"
    using assms(1,2) d by (cases r1) (auto simp: queue_round_def act_simps n0_def split: if_splits)
  have "queue_round InQueues ?f n = act_bind (handle_queue_stop ?f x) (\<lambda>go.
      act_return (if go then RoundContinue else RoundStop)) n2"
    using d dr low by (simp add: queue_round_def act_simps n0_def recv_low_def n2_def)
  with assms(1,2) h have "r = RoundContinue" "n' = n3"
    by (cases r3; auto simp: act_simps split: if_splits)+
  with q1 q3 show ?thesis by (simp add: queue_depth_def)
qed

definition example_api :: "unit consensus_api" where
  "example_api = \<lparr>u32_deserial = (\<lambda>bs. Some (word_of_nat (from_be_bytes bs))),
     receive_block = (\<lambda>i b. (Success, None)), send_finalization = (\<lambda>i b. Success),
     send_finalization_record = (\<lambda>i b. Success), receive_catch_up_status = (\<lambda>i b p l. Success),
     send_transaction = (\<lambda>b. Success), get_catch_up_status = [4, 0, 0, 0, 0], bernoulli = (\<lambda>p. Some False)\<rparr>"

lemma drain_high_exhausted:
  assumes "high_queue d (callback_queue n) = []" "0 < k"
  shows "drain_high k d f n = (Ok DrainExhausted, n)"
  using assms by (cases k) (simp_all add: recv_high_def)

lemma queue_depth_pos: "0 < queue_depth d"
  by (cases d) (simp_all add: queue_depth_def CONSENSUS_QUEUE_DEPTH_IN_HI_def CONSENSUS_QUEUE_DEPTH_OUT_HI_def)

lemma queue_round_low:
  assumes "high_queue d (callback_queue n) = []" "low_queue d (callback_queue n) = x # xs"
  shows "queue_round d f n = act_bind (handle_queue_stop f x) (\<lambda>go.
    act_return (if go then RoundContinue else RoundStop))
    ((record_queue_sizes d n)\<lparr>callback_queue := set_low d xs (callback_queue n)\<rparr>)"
  using assms drain_high_exhausted [OF _ queue_depth_pos [of d], of d "record_queue_sizes d n" f]
  by (simp add: queue_round_def act_simps recv_low_def)

lemmas inbound_defs = handle_consensus_inbound_msg_def draw_drop_def source_peer_def
  send_msg_to_consensus_def call_consensus_def update_peer_states_def message_distribution_mode_def

definition example_transaction :: consensus_message where
  "example_transaction = \<lparr>direction = Inbound 3 DirectMode, variant = Transaction, cm_payload = [1, 9],
     dont_relay_to = [], omit_status = None\<rparr>"

definition waiting_node :: "nat node" where
  "waiting_node = example_node\<lparr>callback_queue := set_low InQueues [Relay example_transaction] consensus_queues_default\<rparr>"

theorem low_priority_not_starved_witness:
  "\<exists>n'. queue_round InQueues (handle_consensus_inbound_msg example_env example_api) waiting_node = (Ok RoundContinue, n') \<and>
     low_queue InQueues (callback_queue n') = []"
proof -
  have q: "high_queue InQueues (callback_queue waiting_node) = []"
    "low_queue InQueues (callback_queue waiting_node) = [Relay example_transaction]"
    by (simp_all add: waiting_node_def consensus_queues_default_def channel_bounded_def)
      (simp add: high_queue_def consensus_queues_default_def channel_bounded_def)
  obtain n' where n': "queue_round InQueues (handle_consensus_inbound_msg example_env example_api) waiting_node =
      (Ok RoundContinue, n')"
    using queue_round_low [OF q, of "handle_consensus_inbound_msg example_env example_api"]
    by (simp add: handle_queue_stop_def inbound_defs act_simps example_transaction_def example_api_def
        waiting_node_def example_node_def example_config_def record_queue_sizes_def on_export_def Let_def is_acceptable_def)
  with low_priority_not_starved [OF n' _ q(2)] show ?thesis by simp
qed

section \<open>Short packets\<close>

lemma with_genesis_index_short: "length pl < 4 \<Longrightarrow> with_genesis_index api pl f = Panic"
  by (simp add: with_genesis_index_def)

text \<open>
  Property C37: A consensus packet that is shorter than its header stops the thread that serves the
  inbound queues: a peer sends a packet of at most four bytes that is not a transaction, the
  network layer accepts and queues it, and the thread panics when it slices the genesis index
  from it.
\<close>

theorem short_packet_stops_consensus_thread:
  assumes "channel_law (channels env)" and "packet_type_try_from tag = Ok ptype" and "ptype \<noteq> Transaction"
    and "length pl < 4" and "high_queue InQueues (callback_queue n) = []"
    and "0 < ch_capacity (in_high (callback_queue n))" and "drop_rebroadcast_probability (config n) = None"
  shows "\<exists>n'. handle_pkt_out env dont_relay p (tag # pl) is_broadcast n = (Ok (), n') \<and>
    fst (queue_round InQueues (handle_consensus_inbound_msg env' api) n') = Panic"
proof -
  define m where "m = \<lparr>direction = Inbound p (if is_broadcast then BroadcastMode else DirectMode), variant = ptype,
    cm_payload = tag # pl, dont_relay_to = dont_relay, omit_status = None\<rparr>"
  have send: "ch_try_send (channels env) cap q x = (if length q < cap then Some (q @ [x]) else None)" for cap q x
    using assms(1) unfolding channel_law_def by blast
  define n' where "n' = on_export inbound_high_priority_consensus_inc
    (n\<lparr>callback_queue := set_high InQueues [Relay m] (callback_queue n)\<rparr>)"
  have pkt: "handle_pkt_out env dont_relay p (tag # pl) is_broadcast n = (Ok (), n')"
    using assms(2,3,5,6) send
    by (simp add: handle_pkt_out_def Let_def on_queues_def send_in_high_priority_message_def send_msg_def
        high_queue_def set_high_def n'_def m_def)
  have q: "high_queue InQueues (callback_queue n') = [Relay m]" "drop_rebroadcast_probability (config n') = None"
    using assms(7) by (simp_all add: n'_def on_export_def)
  have "fst (handle_consensus_inbound_msg env' api m n1) = Panic" if "config n1 = config n'" for n1
    using assms(3,4) that q(2)
    by (cases ptype) (simp_all add: inbound_defs act_simps m_def with_genesis_index_short)
  then have "fst (handle_queue_stop (handle_consensus_inbound_msg env' api) (Relay m) n1) = Panic" if "config n1 = config n'" for n1
    using that by (simp add: handle_queue_stop_def panic_then panic_log_error)
  moreover obtain k where k: "queue_depth InQueues = Suc k" using queue_depth_pos gr0_implies_Suc by blast
  ultimately have "fst (drain_high (queue_depth InQueues) InQueues (handle_consensus_inbound_msg env' api)
      (record_queue_sizes InQueues n')) = Panic"
    using q(1) by (simp add: recv_high_def panic_bind record_queue_sizes_def on_export_def Let_def)
  then have "fst (queue_round InQueues (handle_consensus_inbound_msg env' api) n') = Panic"
    by (simp add: queue_round_def modify_then panic_bind)
  with pkt show ?thesis by blast
qed

theorem short_packet_stops_consensus_thread_witness:
  "\<exists>n'. handle_pkt_out example_env [3] 3 [0, 9] True example_node = (Ok (), n') \<and>
     fst (queue_round InQueues (handle_consensus_inbound_msg example_env example_api) n') = Panic"
proof -
  have "channel_law (channels example_env)" by (simp add: example_env_def bounded_channel_ops_law)
  moreover have "packet_type_try_from 0 = Ok Block" by (simp add: packet_type_try_from_def PACKET_TYPE_FROM_INT_def)
  moreover have "high_queue InQueues (callback_queue example_node) = []"
    "0 < ch_capacity (in_high (callback_queue example_node))" "drop_rebroadcast_probability (config example_node) = None"
    by (simp_all add: example_node_def high_queue_def consensus_queues_default_def channel_bounded_def
        CONSENSUS_QUEUE_DEPTH_IN_HI_def example_config_def)
  ultimately show ?thesis
    using short_packet_stops_consensus_thread [of example_env 0 Block "[9]" example_node] by simp
qed

end
