(* ===== verification/HandshakePhase.thy ===== *)
theory HandshakePhase
  imports Reassembly
begin

text \<open>
  The limits on announced message lengths, the buffer that reading and writing share, and the
  behaviour of the reader while the noise handshake is running: split messages are read twice,
  what follows a handshake message in the buffer is dropped, and the check of the pre-shared
  key is never reached.
\<close>

section \<open>Announced lengths\<close>

text \<open>
  A length is only accepted when it is positive and at most the protocol limit, and
  below the handshake limit while the handshake is running.
\<close>

theorem accepted_length_bounds:
  assumes "attempt_to_read_length ops s = Ok s'" and "pending_bytes (incoming_msg s) = 0"
    and "pending_bytes (incoming_msg s') \<noteq> 0"
  shows "pending_bytes (incoming_msg s') \<le> PROTOCOL_MAX_MESSAGE_SIZE \<and>
    (\<not> is_post_handshake ops s \<longrightarrow> pending_bytes (incoming_msg s') < HANDSHAKE_SIZE_LIMIT) \<and>
    message (incoming_msg s') = [] \<and> size_bytes (incoming_msg s') = []"
  using assms
  by (auto simp: attempt_to_read_length_def Let_def res_simps split: if_splits)

definition header_example :: "nat low_level" where
  "header_example = (example_connection [])\<lparr>socket_buffer :=
     \<lparr>buf = [0, 0, 1, 4, 7] @ replicate 4096 0, offset = 0, remaining = 5\<rparr>\<rparr>"

theorem accepted_length_bounds_witness:
  "\<exists>s'. attempt_to_read_length counting_noise header_example = Ok s' \<and>
     pending_bytes (incoming_msg s') = 260 \<and> pending_bytes (incoming_msg s') \<le> PROTOCOL_MAX_MESSAGE_SIZE"
proof -
  obtain s' where s': "attempt_to_read_length counting_noise header_example = Ok s'"
    "pending_bytes (incoming_msg s') = 260"
    by (simp add: header_example_def example_connection_def low_level_new_def attempt_to_read_length_def
        Let_def PAYLOAD_SIZE_def incoming_message_default_def sb_slice_def sb_shift_def from_be_bytes_def
        is_post_handshake_def counting_noise_def PROTOCOL_MAX_MESSAGE_SIZE_def)
  have "pending_bytes (incoming_msg header_example) = 0"
    by (simp add: header_example_def example_connection_def low_level_new_def incoming_message_default_def)
  with s' show ?thesis using accepted_length_bounds [OF s'(1)] by simp
qed

section \<open>The shared buffer\<close>

text \<open>
  Once the reader has used up its buffer (as it has whenever the reading loop ends),
  flushing through the same buffer does not disturb it: it still awaits the same messages.
\<close>

theorem flush_keeps_reader:
  assumes "reader_ok ops s" and "awaits ops s ms str" and "remaining (socket_buffer s) = 0"
    and "flush_socket ops s = Ok s'"
  shows "reader_ok ops s' \<and> awaits ops s' ms str \<and> rx (socket s') = rx (socket s)"
proof -
  have fr: "flush_frame s s'" by (rule flush_socket_frame [OF assms(4)])
  then have un: "unread s' = []" "unread s = []" using assms(3) by (simp_all add: flush_frame_def unread_def)
  have "reader_ok ops s'" using fr assms(1) by (simp add: flush_frame_def reader_ok_def)
  moreover have "awaits ops s' ms str = awaits ops s ms str"
    by (rule awaits_cong) (use fr un in \<open>simp_all add: flush_frame_def\<close>)
  ultimately show ?thesis using assms(2) fr by (simp add: flush_frame_def)
qed

definition flush_example :: "nat low_level" where
  "flush_example = (example_connection [])\<lparr>output_queue := [1, 2, 3], is_writable := True,
     socket := (example_socket [])\<lparr>wx := [WriteTakes 2]\<rparr>\<rparr>"

theorem flush_keeps_reader_witness:
  "\<exists>s'. flush_socket counting_noise flush_example = Ok s' \<and> reader_ok counting_noise s' \<and>
     awaits counting_noise s' [] []"
proof -
  have b: "buffers_ok flush_example" "WriteFails \<notin> set (wx (socket flush_example))"
    by (simp_all add: flush_example_def buffers_ok_def example_connection_def low_level_new_def
        read_size_def socket_buffer_new_def example_socket_def)
  obtain s' where s': "flush_socket counting_noise flush_example = Ok s'"
    using flush_loop_Ok [OF b, of counting_noise] by (auto simp: flush_socket_def flush_example_def)
  have "reader_ok counting_noise flush_example" "awaits counting_noise flush_example [] []"
    "remaining (socket_buffer flush_example) = 0"
    by (simp_all add: flush_example_def reader_ok_def awaits_def unread_def example_connection_def low_level_new_def
        read_size_def socket_buffer_new_def transport_ready_def counting_noise_def incoming_message_default_def)
  from flush_keeps_reader [OF this s'] s' show ?thesis by blast
qed

text \<open>
  Property C29: Flushing succeeds while the socket reports no error, and neither loses, duplicates
  nor reorders a byte: what was written so far followed by what is still queued stays the same.
\<close>

theorem flush_preserves_stream:
  assumes "buffers_ok s" and "WriteFails \<notin> set (wx (socket s))"
  shows "\<exists>s'. flush_socket ops s = Ok s' \<and>
    tx (socket s') @ output_queue s' = tx (socket s) @ output_queue s \<and> incoming_msg s' = incoming_msg s"
proof -
  obtain s' where s': "flush_socket ops s = Ok s'"
    using flush_loop_Ok [OF assms, of ops] by (cases "is_writable s") (auto simp: flush_socket_def)
  from flush_socket_frame [OF s'] show ?thesis
    using s' by (auto simp: flush_frame_def out_stream_def)
qed

theorem flush_preserves_stream_witness:
  "\<exists>s'. flush_socket counting_noise flush_example = Ok s' \<and>
     tx (socket s') @ output_queue s' = [1, 2, 3] \<and> incoming_msg s' = incoming_msg flush_example"
proof -
  have b: "buffers_ok flush_example" "WriteFails \<notin> set (wx (socket flush_example))"
    "tx (socket flush_example) @ output_queue flush_example = [1, 2, 3]"
    by (simp_all add: flush_example_def buffers_ok_def example_connection_def low_level_new_def
        read_size_def socket_buffer_new_def example_socket_def)
  from flush_preserves_stream [OF b(1,2), of counting_noise] b(3) show ?thesis by simp
qed

section \<open>Handshake messages\<close>

lemma handshake_partial_step:
  assumes "\<not> is_post_handshake ops s" and "\<not> is_exhausted (socket_buffer s)"
    and "offset (socket_buffer s) + remaining (socket_buffer s) \<le> read_size s"
    and "0 < remaining (socket_buffer s)" and "remaining (socket_buffer s) < pending_bytes (incoming_msg s)"
  shows "read_from_socket ops payload_out s = Ok (Incomplete, s\<lparr>incoming_msg := (incoming_msg s)\<lparr>
    message := message (incoming_msg s) @ unread s,
    pending_bytes := pending_bytes (incoming_msg s) - remaining (socket_buffer s)\<rparr>\<rparr>)"
proof -
  have "sb_slice (socket_buffer s) (remaining (socket_buffer s)) = Ok (unread s)"
    using assms(3) by (simp add: sb_slice_def unread_def read_size_def)
  moreover have "\<not> is_post_handshake ops (s\<lparr>incoming_msg := im\<rparr>)" for im
    using assms(1) by (simp add: is_post_handshake_ready)
  ultimately show ?thesis
    using assms by (simp add: read_from_socket_def process_buffered_def process_incoming_msg_def Let_def min_def)
qed

text \<open>
  A handshake message that arrives in parts is not reassembled: while the handshake is
  running the reader does not move past the bytes it has copied, so each further call copies
  the same bytes again and never asks the socket for the missing ones.
\<close>

theorem handshake_fragment_is_reread:
  assumes "\<not> is_post_handshake ops s" and "\<not> is_exhausted (socket_buffer s)"
    and "offset (socket_buffer s) + remaining (socket_buffer s) \<le> read_size s"
    and "0 < remaining (socket_buffer s)" and "n * remaining (socket_buffer s) < pending_bytes (incoming_msg s)"
  shows "\<exists>s'. (\<forall>fuel. read_stream_loop (n + fuel) ops payload_out process c s =
        read_stream_loop fuel ops payload_out process c s') \<and>
      rx (socket s') = rx (socket s) \<and> unread s' = unread s \<and>
      message (incoming_msg s') = message (incoming_msg s) @ concat (replicate n (unread s))"
  using assms
proof (induction n arbitrary: s)
  case 0
  then show ?case by auto
next
  case (Suc n)
  define s1 where "s1 = s\<lparr>incoming_msg := (incoming_msg s)\<lparr>message := message (incoming_msg s) @ unread s,
    pending_bytes := pending_bytes (incoming_msg s) - remaining (socket_buffer s)\<rparr>\<rparr>"
  have "remaining (socket_buffer s) < pending_bytes (incoming_msg s)" using Suc.prems(5) by simp
  from handshake_partial_step [OF Suc.prems(1-4) this, of payload_out]
  have r: "read_from_socket ops payload_out s = Ok (Incomplete, s1)" by (simp add: s1_def)
  have "\<not> is_post_handshake ops s1" "\<not> is_exhausted (socket_buffer s1)"
    "offset (socket_buffer s1) + remaining (socket_buffer s1) \<le> read_size s1"
    "0 < remaining (socket_buffer s1)" "n * remaining (socket_buffer s1) < pending_bytes (incoming_msg s1)"
    using Suc.prems by (simp_all add: s1_def is_post_handshake_ready read_size_def)
  from Suc.IH [OF this] obtain s' where "\<forall>fuel. read_stream_loop (n + fuel) ops payload_out process c s1 =
        read_stream_loop fuel ops payload_out process c s'" "rx (socket s') = rx (socket s1)" "unread s' = unread s1"
      "message (incoming_msg s') = message (incoming_msg s1) @ concat (replicate n (unread s1))"
    by blast
  then show ?case using r by (auto simp: s1_def)
qed

definition handshake_example :: "nat low_level" where
  "handshake_example = (low_level_new None (\<lambda>_. 1) (example_socket [ReadData [8]]) True 8192 4096)\<lparr>
     socket_buffer := \<lparr>buf = [5, 6] @ replicate 4096 0, offset = 0, remaining = 2\<rparr>,
     incoming_msg := \<lparr>size_bytes = [], pending_bytes = 5, message = []\<rparr>\<rparr>"

theorem handshake_fragment_is_reread_witness:
  "\<exists>s'. read_stream_loop (2 + 0) counting_noise (Ok []) (\<lambda>m c. (Ok (), c)) () handshake_example =
       read_stream_loop 0 counting_noise (Ok []) (\<lambda>m c. (Ok (), c)) () s' \<and>
     rx (socket s') = [ReadData [8]] \<and> message (incoming_msg s') = [5, 6, 5, 6]"
proof -
  let ?s = handshake_example
  have "\<not> is_post_handshake counting_noise ?s" "\<not> is_exhausted (socket_buffer ?s)"
    "offset (socket_buffer ?s) + remaining (socket_buffer ?s) \<le> read_size ?s"
    "0 < remaining (socket_buffer ?s)" "2 * remaining (socket_buffer ?s) < pending_bytes (incoming_msg ?s)"
    by (simp_all add: handshake_example_def low_level_new_def is_post_handshake_def counting_noise_def
        is_exhausted_def read_size_def)
  from handshake_fragment_is_reread [OF this, of "Ok []" "\<lambda>m c. (Ok (), c)" "()"]
  show ?thesis
    by (auto simp: handshake_example_def low_level_new_def unread_def example_socket_def numeral_2_eq_2)
qed

lemma send_xx_msg_effect:
  assumes "noise_in_place ops" and "send_xx_msg ops a pl b s = Ok s'"
  shows "get_message_count ops (noise_session s') = Suc (get_message_count ops (noise_session s)) \<and>
    is_initiator ops (noise_session s') = is_initiator ops (noise_session s) \<and> rx (socket s') = rx (socket s)"
proof -
  from assms(2) obtain c ns where c: "send_message ops (noise_session s) (replicate a 0 @ pl @ replicate b 0) = Some (c, ns)"
    and f: "flush_socket ops (s\<lparr>noise_session := ns, output_queue := output_queue s
      @ be_bytes PAYLOAD_SIZE (a + length pl + b) @ c\<rparr>) = Ok s'"
    by (auto simp: send_xx_msg_def split: option.splits)
  from flush_socket_frame [OF f] noise_in_place_send [OF assms(1) c] show ?thesis
    by (simp add: flush_frame_def)
qed

lemma recv_xx_msg_effect:
  assumes "noise_in_place ops" and "recv_xx_msg ops len s = Ok s'"
  shows "get_message_count ops (noise_session s') = Suc (get_message_count ops (noise_session s)) \<and>
    is_initiator ops (noise_session s') = is_initiator ops (noise_session s) \<and> rx (socket s') = rx (socket s)"
  using assms(2) noise_in_place_recv [OF assms(1)]
  by (auto simp: recv_xx_msg_def res_simps split: option.splits)

lemma process_msg_effect:
  assumes "noise_in_place ops"
  shows "process_msg_a ops po len s = Ok (pl, s') \<Longrightarrow>
      get_message_count ops (noise_session s') = get_message_count ops (noise_session s) + 2 \<and>
      is_initiator ops (noise_session s') = is_initiator ops (noise_session s) \<and> rx (socket s') = rx (socket s)"
    and "process_msg_b ops po len s = Ok (pl, s') \<Longrightarrow>
      get_message_count ops (noise_session s') = get_message_count ops (noise_session s) + 2 \<and>
      is_initiator ops (noise_session s') = is_initiator ops (noise_session s) \<and> rx (socket s') = rx (socket s)"
    and "process_msg_c ops len s = Ok (pl, s') \<Longrightarrow>
      get_message_count ops (noise_session s') = get_message_count ops (noise_session s) + 1 \<and>
      is_initiator ops (noise_session s') = is_initiator ops (noise_session s) \<and> rx (socket s') = rx (socket s)"
  using send_xx_msg_effect [OF assms] recv_xx_msg_effect [OF assms]
  by (auto simp: process_msg_a_def process_msg_b_def process_msg_c_def set_nodelay_false_def res_simps
      split: if_splits)

text \<open>
  The check of the pre-shared key is dead code: the responder's message counter is
  already two when the check asks for one, so the first handshake message is accepted with any
  payload in the place of the key.
\<close>

theorem psk_is_never_rejected:
  assumes "noise_in_place ops" and "\<not> is_initiator ops (noise_session s)"
    and "get_message_count ops (noise_session s) = 0"
    and "process_msg_a ops payload_out len s = Ok (pl, s')"
  shows "process_handshake_msg ops payload_out len s =
    Ok (Incomplete, s'\<lparr>socket_buffer := sb_reset (socket_buffer s')\<rparr>)"
  using assms process_msg_effect(1) [OF assms(1,4)] by (simp add: process_handshake_msg_def Let_def)

definition responder_noise :: "nat noise_ops" where
  "responder_noise = counting_noise\<lparr>is_initiator := (\<lambda>_. False)\<rparr>"

definition psk_example :: "nat low_level" where
  "psk_example = (low_level_new None (\<lambda>_. 0) (example_socket []) False 8192 4096)\<lparr>
     socket_buffer := \<lparr>buf = replicate 32 1 @ [9] @ replicate 8192 0, offset = 0, remaining = 49\<rparr>\<rparr>"

theorem psk_is_never_rejected_witness:
  "\<exists>s'. process_msg_a responder_noise (Ok [3]) 49 psk_example = Ok ([9], s') \<and> [9] \<noteq> PSK \<and>
     process_handshake_msg responder_noise (Ok [3]) 49 psk_example =
       Ok (Incomplete, s'\<lparr>socket_buffer := sb_reset (socket_buffer s')\<rparr>)"
proof -
  have ip: "noise_in_place responder_noise"
    by (auto simp: noise_in_place_def responder_noise_def counting_noise_def)
  have r: "\<not> is_initiator responder_noise (noise_session psk_example)"
    "get_message_count responder_noise (noise_session psk_example) = 0"
    by (simp_all add: responder_noise_def counting_noise_def psk_example_def low_level_new_def)
  obtain s' where a: "process_msg_a responder_noise (Ok [3]) 49 psk_example = Ok ([9], s')"
    by (simp add: process_msg_a_def recv_xx_msg_def send_xx_msg_def handshake_payload_def flush_socket_def
        responder_noise_def counting_noise_def psk_example_def low_level_new_def sb_slice_def sb_write_def)
  have "[9] \<noteq> PSK" by (simp add: PSK_def)
  with psk_is_never_rejected [OF ip r a] a show ?thesis by blast
qed

lemma process_handshake_msg_effect:
  assumes "noise_in_place ops" and "process_handshake_msg ops po n s = Ok (r, s')"
  shows "remaining (socket_buffer s') = 0 \<and> rx (socket s') = rx (socket s)"
  using assms(2) process_msg_effect [OF assms(1)]
  by (auto simp: process_handshake_msg_def Let_def res_simps sb_reset_def split: if_splits)

text \<open>
  Bytes that follow a handshake message in the same read are lost: completing a
  handshake message empties the buffer, whatever it still held after that message, and the
  socket does not deliver them again.
\<close>

theorem bytes_after_handshake_message_dropped:
  assumes "noise_in_place ops" and "\<not> is_post_handshake ops s" and "\<not> is_exhausted (socket_buffer s)"
    and "0 < pending_bytes (incoming_msg s)"
    and "pending_bytes (incoming_msg s) < remaining (socket_buffer s)"
    and "read_from_socket ops payload_out s = Ok (r, s')"
  shows "remaining (socket_buffer s') = 0 \<and> rx (socket s') = rx (socket s)"
proof -
  have "\<not> is_post_handshake ops (s\<lparr>incoming_msg := im\<rparr>)" for im
    using assms(2) by (simp add: is_post_handshake_ready)
  with assms(3-6) obtain s1 n where "process_handshake_msg ops payload_out n s1 = Ok (r, s')" "socket s1 = socket s"
    by (auto simp: read_from_socket_def process_buffered_def process_incoming_msg_def Let_def res_simps split: if_splits)
  with process_handshake_msg_effect [OF assms(1)] show ?thesis by metis
qed

definition coalesced_example :: "nat low_level" where
  "coalesced_example = (low_level_new None (\<lambda>_. 2) (example_socket []) False 8192 4096)\<lparr>
     socket_buffer := \<lparr>buf = replicate 65 1 @ [9, 9, 9] @ replicate 8192 0, offset = 0, remaining = 68\<rparr>,
     incoming_msg := \<lparr>size_bytes = [], pending_bytes = 65, message = []\<rparr>\<rparr>"

theorem bytes_after_handshake_message_dropped_witness:
  "\<exists>r s'. read_from_socket responder_noise (Ok []) coalesced_example = Ok (r, s') \<and>
     unread coalesced_example = replicate 65 1 @ [9, 9, 9] \<and> remaining (socket_buffer s') = 0"
proof -
  let ?s = coalesced_example
  have ip: "noise_in_place responder_noise"
    by (auto simp: noise_in_place_def responder_noise_def counting_noise_def)
  have pre: "\<not> is_post_handshake responder_noise ?s" "\<not> is_exhausted (socket_buffer ?s)"
    "0 < pending_bytes (incoming_msg ?s)" "pending_bytes (incoming_msg ?s) < remaining (socket_buffer ?s)"
    by (simp_all add: coalesced_example_def low_level_new_def is_post_handshake_def responder_noise_def
        counting_noise_def is_exhausted_def)
  obtain r s' where rs: "read_from_socket responder_noise (Ok []) ?s = Ok (r, s')"
    using pre by (auto simp: read_from_socket_def process_buffered_def process_incoming_msg_def Let_def
        coalesced_example_def low_level_new_def is_post_handshake_def responder_noise_def counting_noise_def
        process_handshake_msg_def process_msg_c_def recv_xx_msg_def handshake_payload_def set_nodelay_false_def
        sb_slice_def sb_write_def example_socket_def is_exhausted_def)
  have "unread ?s = replicate 65 1 @ [9, 9, 9]"
    by (simp add: unread_def coalesced_example_def)
  with bytes_after_handshake_message_dropped [OF ip pre rs] rs show ?thesis by blast
qed

end
