(* ===== verification/ConsensusFfi.thy ===== *)
theory ConsensusFfi
  imports ConsensusPlugin
begin

text \<open>
  The foreign interface to the consensus library (\<^verbatim>\<open>consensus_ffi/ffi.rs\<close> and the macros of
  \<^verbatim>\<open>consensus_ffi/mod.rs\<close>): the methods of \<^verbatim>\<open>ConsensusContainer\<close> that call the library, and
  the callbacks through which the library sends messages, reports a new genesis block, logs and
  notifies.

  The library is a record of its answers. A pointer with a length is the byte string it points
  to, a null pointer is \<open>None\<close>, an out-parameter is a further result. The parts of the library
  that fix its return codes are in the same repository
  (\<^verbatim>\<open>concordium-consensus/src/Concordium/External.hs\<close>); they are the last section.
\<close>

section \<open>Texts that cross the boundary\<close>

text \<open>\<^verbatim>\<open>str::from_utf8\<close>: well-formed byte sequences.\<close>

definition utf8_cont :: "nat \<Rightarrow> bool" where
  "utf8_cont b \<longleftrightarrow> 128 \<le> b \<and> b \<le> 191"

fun utf8_valid_bytes :: "nat list \<Rightarrow> bool" where
  "utf8_valid_bytes [] = True"
| "utf8_valid_bytes (a # r) =
     (if a < 128 then utf8_valid_bytes r
      else if 194 \<le> a \<and> a \<le> 223
      then (case r of b # r' \<Rightarrow> utf8_cont b \<and> utf8_valid_bytes r' | _ \<Rightarrow> False)
      else if 224 \<le> a \<and> a \<le> 239
      then (case r of
              b # c # r' \<Rightarrow>
                utf8_cont b \<and> (a = 224 \<longrightarrow> 160 \<le> b) \<and> (a = 237 \<longrightarrow> b \<le> 159) \<and>
                utf8_cont c \<and> utf8_valid_bytes r'
            | _ \<Rightarrow> False)
      else if 240 \<le> a \<and> a \<le> 244
      then (case r of
              b # c # d # r' \<Rightarrow>
                utf8_cont b \<and> (a = 240 \<longrightarrow> 144 \<le> b) \<and> (a = 244 \<longrightarrow> b \<le> 143) \<and>
                utf8_cont c \<and> utf8_cont d \<and> utf8_valid_bytes r'
            | _ \<Rightarrow> False)
      else False)"

definition utf8_valid :: "string \<Rightarrow> bool" where
  "utf8_valid s = utf8_valid_bytes (map of_char s)"

text \<open>\<^verbatim>\<open>CString::new\<close> refuses a text with a zero byte.\<close>

definition cstring_new :: "string \<Rightarrow> string res" where
  "cstring_new s = (if CHR 0x00 \<in> set s then Err (Bail ''nul byte found in provided data'') else Ok s)"

section \<open>The library\<close>

text \<open>The calls that answer with a text, with their arguments.\<close>

datatype (plugins only: code) c_query =
    GetConsensusStatus
  | GetBlockInfo string
  | GetBlocksAtHeight u64 u32 u8
  | GetAncestors string u64
  | GetBranches
  | GetAccountList string
  | GetInstances string
  | GetAccountInfo string string
  | GetInstanceInfo string string
  | InvokeContract string string
  | GetRewardStatus string
  | GetBirkParameters string
  | GetModuleList string
  | GetBakerList string
  | GetPoolStatus string bool u64
  | GetAccountNonFinalizedTransactions string
  | GetBlockSummary string
  | GetTransactionStatus string
  | GetTransactionStatusInBlock string string
  | GetNextAccountNonce string
  | GetAllIdentityProviders string
  | GetAllAnonymityRevokers string
  | GetCryptographicParameters string

text \<open>
  \<open>bakerStatusBestBlock\<close> takes the initial contents of its two out-parameters;
  \<open>getModuleSource\<close> answers with the memory behind the pointer it returns.
\<close>

record 'cb consensus_lib =
  runner_is_null :: bool
  receiveBlock :: "u32 \<Rightarrow> bytes \<Rightarrow> int \<times> 'cb option"
  executeBlock :: "'cb \<Rightarrow> int"
  receiveFinalizationMessage :: "u32 \<Rightarrow> bytes \<Rightarrow> int"
  receiveFinalizationRecord :: "u32 \<Rightarrow> bytes \<Rightarrow> int"
  receiveTransaction :: "bytes \<Rightarrow> int \<times> bytes"
  receiveCatchUpStatus :: "u64 \<Rightarrow> u32 \<Rightarrow> bytes \<Rightarrow> int \<Rightarrow> int"
  getCatchUpStatus :: "u32 \<times> bytes"
  bakerStatusBestBlock :: "u64 \<Rightarrow> u8 \<Rightarrow> u8 \<times> u64 \<times> u8"
  checkIfWeAreFinalizer :: u8
  checkIfRunning :: u8
  importBlocks :: "string \<Rightarrow> int"
  getLastFinalizedBlockHeight :: u64
  getLastFinalizedBlockSlotTimeV2 :: u64
  ask_string :: "c_query \<Rightarrow> string"
  getModuleSource :: "string \<Rightarrow> string \<Rightarrow> bytes"

section \<open>The wrappers of the calls\<close>

definition wrap_c_call :: "int \<Rightarrow> consensus_ffi_response res" where
  "wrap_c_call code = (case ffi_response_try_from code of Some r \<Rightarrow> Ok r | None \<Rightarrow> Panic)"

definition wrap_send_data_to_c ::
    "(u32 \<Rightarrow> bytes \<Rightarrow> int) \<Rightarrow> u32 \<Rightarrow> bytes \<Rightarrow> consensus_ffi_response res" where
  "wrap_send_data_to_c c_call genesis_index data = wrap_c_call (c_call genesis_index data)"

definition wrap_c_bool_call :: "u8 \<Rightarrow> bool res" where
  "wrap_c_bool_call code = (if code = 0 then Ok False else if code = 1 then Ok True else Panic)"

definition wrap_c_call_string :: "'cb consensus_lib \<Rightarrow> c_query \<Rightarrow> string res" where
  "wrap_c_call_string lib q = (let s = ask_string lib q in if utf8_valid s then Ok s else Panic)"

definition wrap_c_call_bytes :: "bytes \<Rightarrow> bytes" where
  "wrap_c_call_bytes mem = take (from_be_bytes (take 4 mem)) (drop 4 mem)"

section \<open>Messages handed to the library\<close>

definition ffi_receive_block ::
    "'cb consensus_lib \<Rightarrow> u32 \<Rightarrow> bytes \<Rightarrow> (consensus_ffi_response \<times> 'cb option) res" where
  "ffi_receive_block lib genesis_index block =
     (case receiveBlock lib genesis_index block of
        (result, callback) \<Rightarrow> res_bind (wrap_c_call result) (\<lambda>r. Ok (r, callback)))"

definition execute_block :: "'cb consensus_lib \<Rightarrow> 'cb \<Rightarrow> consensus_ffi_response res" where
  "execute_block lib cb = wrap_c_call (executeBlock lib cb)"

definition ffi_send_finalization :: "'cb consensus_lib \<Rightarrow> u32 \<Rightarrow> bytes \<Rightarrow> consensus_ffi_response res" where
  "ffi_send_finalization lib = wrap_send_data_to_c (receiveFinalizationMessage lib)"

definition ffi_send_finalization_record :: "'cb consensus_lib \<Rightarrow> u32 \<Rightarrow> bytes \<Rightarrow> consensus_ffi_response res" where
  "ffi_send_finalization_record lib = wrap_send_data_to_c (receiveFinalizationRecord lib)"

definition ffi_send_transaction ::
    "'cb consensus_lib \<Rightarrow> bytes \<Rightarrow> (bytes option \<times> consensus_ffi_response) res" where
  "ffi_send_transaction lib data =
     (case receiveTransaction lib data of
        (result, out_hash) \<Rightarrow> res_bind (wrap_c_call result) (\<lambda>r.
          Ok (if r = Success then Some out_hash else None, r)))"

definition ffi_get_catch_up_status :: "'cb consensus_lib \<Rightarrow> bytes" where
  "ffi_get_catch_up_status lib =
     (case getCatchUpStatus lib of
        (genesis_index, msg) \<Rightarrow> packet_type_tag CatchUpStatus # be_bytes 4 (unat genesis_index) @ msg)"

definition ffi_receive_catch_up_status ::
    "'cb consensus_lib \<Rightarrow> u32 \<Rightarrow> bytes \<Rightarrow> remote_peer_id \<Rightarrow> int \<Rightarrow> consensus_ffi_response res" where
  "ffi_receive_catch_up_status lib genesis_index request peer_id object_limit =
     wrap_c_call (receiveCatchUpStatus lib peer_id genesis_index request object_limit)"

definition in_baking_committee :: "'cb consensus_lib \<Rightarrow> (baking_committee_response \<times> bool \<times> u64) res" where
  "in_baking_committee lib =
     (case bakerStatusBestBlock lib 0 0 of
        (result, baker_id, has_baker_id) \<Rightarrow>
          (case baking_committee_try_from result of
             Ok st \<Rightarrow> Ok (st, has_baker_id \<noteq> 0, baker_id)
           | _ \<Rightarrow> Panic))"

definition in_finalization_committee :: "'cb consensus_lib \<Rightarrow> bool res" where
  "in_finalization_committee lib = wrap_c_bool_call (checkIfWeAreFinalizer lib)"

definition is_consensus_running :: "'cb consensus_lib \<Rightarrow> bool res" where
  "is_consensus_running lib = wrap_c_bool_call (checkIfRunning lib)"

definition get_last_finalized_block_height :: "'cb consensus_lib \<Rightarrow> u64" where
  "get_last_finalized_block_height lib = getLastFinalizedBlockHeight lib"

definition get_last_finalized_block_slot_time_v2 :: "'cb consensus_lib \<Rightarrow> u64" where
  "get_last_finalized_block_slot_time_v2 lib = getLastFinalizedBlockSlotTimeV2 lib"

text \<open>A path is a text when it can be decoded.\<close>

definition import_blocks :: "'cb consensus_lib \<Rightarrow> string option \<Rightarrow> unit res" where
  "import_blocks lib path =
     (case path of
        None \<Rightarrow> Err (Bail ''Cannot decode path.'')
      | Some p \<Rightarrow>
          (case ffi_response_try_from (importBlocks lib p) of
             None \<Rightarrow> Err (Bail ''Unsupported FFI return code'')
           | Some r \<Rightarrow> if r = Success then Ok () else Err (Bail ''Error during block import'')))"

section \<open>Queries that answer with a text\<close>

definition get_consensus_status :: "'cb consensus_lib \<Rightarrow> string res" where
  "get_consensus_status lib = wrap_c_call_string lib GetConsensusStatus"

definition get_blocks_at_height :: "'cb consensus_lib \<Rightarrow> u64 \<Rightarrow> u32 \<Rightarrow> bool \<Rightarrow> string res" where
  "get_blocks_at_height lib block_height genesis_index restrict =
     wrap_c_call_string lib (GetBlocksAtHeight block_height genesis_index (if restrict then 1 else 0))"

definition get_ancestors :: "'cb consensus_lib \<Rightarrow> string \<Rightarrow> u64 \<Rightarrow> string res" where
  "get_ancestors lib block_hash amount = res_bind (cstring_new block_hash) (\<lambda>h.
     wrap_c_call_string lib (GetAncestors h amount))"

definition get_branches :: "'cb consensus_lib \<Rightarrow> string res" where
  "get_branches lib = wrap_c_call_string lib GetBranches"

definition get_pool_status :: "'cb consensus_lib \<Rightarrow> string \<Rightarrow> bool \<Rightarrow> u64 \<Rightarrow> string res" where
  "get_pool_status lib block_hash passive_delegation baker_id = res_bind (cstring_new block_hash) (\<lambda>h.
     wrap_c_call_string lib (GetPoolStatus h passive_delegation baker_id))"

definition get_module_source :: "'cb consensus_lib \<Rightarrow> string \<Rightarrow> string \<Rightarrow> bytes res" where
  "get_module_source lib block_hash module_ref = res_bind (cstring_new block_hash) (\<lambda>h.
     res_bind (cstring_new module_ref) (\<lambda>m. Ok (wrap_c_call_bytes (getModuleSource lib h m))))"

definition get_block_info :: "'cb consensus_lib \<Rightarrow> string \<Rightarrow> string res" where
  "get_block_info lib a = res_bind (cstring_new a) (\<lambda>a. wrap_c_call_string lib (GetBlockInfo a))"

definition get_account_list :: "'cb consensus_lib \<Rightarrow> string \<Rightarrow> string res" where
  "get_account_list lib a = res_bind (cstring_new a) (\<lambda>a. wrap_c_call_string lib (GetAccountList a))"

definition get_instances :: "'cb consensus_lib \<Rightarrow> string \<Rightarrow> string res" where
  "get_instances lib a = res_bind (cstring_new a) (\<lambda>a. wrap_c_call_string lib (GetInstances a))"

definition get_reward_status :: "'cb consensus_lib \<Rightarrow> string \<Rightarrow> string res" where
  "get_reward_status lib a = res_bind (cstring_new a) (\<lambda>a. wrap_c_call_string lib (GetRewardStatus a))"

definition get_birk_parameters :: "'cb consensus_lib \<Rightarrow> string \<Rightarrow> string res" where
  "get_birk_parameters lib a = res_bind (cstring_new a) (\<lambda>a. wrap_c_call_string lib (GetBirkParameters a))"

definition get_module_list :: "'cb consensus_lib \<Rightarrow> string \<Rightarrow> string res" where
  "get_module_list lib a = res_bind (cstring_new a) (\<lambda>a. wrap_c_call_string lib (GetModuleList a))"

definition get_baker_list :: "'cb consensus_lib \<Rightarrow> string \<Rightarrow> string res" where
  "get_baker_list lib a = res_bind (cstring_new a) (\<lambda>a. wrap_c_call_string lib (GetBakerList a))"

definition get_account_non_finalized_transactions :: "'cb consensus_lib \<Rightarrow> string \<Rightarrow> string res" where
  "get_account_non_finalized_transactions lib a = res_bind (cstring_new a) (\<lambda>a. wrap_c_call_string lib (GetAccountNonFinalizedTransactions a))"

definition get_block_summary :: "'cb consensus_lib \<Rightarrow> string \<Rightarrow> string res" where
  "get_block_summary lib a = res_bind (cstring_new a) (\<lambda>a. wrap_c_call_string lib (GetBlockSummary a))"

definition get_transaction_status :: "'cb consensus_lib \<Rightarrow> string \<Rightarrow> string res" where
  "get_transaction_status lib a = res_bind (cstring_new a) (\<lambda>a. wrap_c_call_string lib (GetTransactionStatus a))"

definition get_next_account_nonce :: "'cb consensus_lib \<Rightarrow> string \<Rightarrow> string res" where
  "get_next_account_nonce lib a = res_bind (cstring_new a) (\<lambda>a. wrap_c_call_string lib (GetNextAccountNonce a))"

definition get_identity_providers :: "'cb consensus_lib \<Rightarrow> string \<Rightarrow> string res" where
  "get_identity_providers lib a = res_bind (cstring_new a) (\<lambda>a. wrap_c_call_string lib (GetAllIdentityProviders a))"

definition get_anonymity_revokers :: "'cb consensus_lib \<Rightarrow> string \<Rightarrow> string res" where
  "get_anonymity_revokers lib a = res_bind (cstring_new a) (\<lambda>a. wrap_c_call_string lib (GetAllAnonymityRevokers a))"

definition get_cryptographic_parameters :: "'cb consensus_lib \<Rightarrow> string \<Rightarrow> string res" where
  "get_cryptographic_parameters lib a = res_bind (cstring_new a) (\<lambda>a. wrap_c_call_string lib (GetCryptographicParameters a))"

definition get_account_info :: "'cb consensus_lib \<Rightarrow> string \<Rightarrow> string \<Rightarrow> string res" where
  "get_account_info lib a b = res_bind (cstring_new a) (\<lambda>a. res_bind (cstring_new b) (\<lambda>b.
     wrap_c_call_string lib (GetAccountInfo a b)))"

definition get_instance_info :: "'cb consensus_lib \<Rightarrow> string \<Rightarrow> string \<Rightarrow> string res" where
  "get_instance_info lib a b = res_bind (cstring_new a) (\<lambda>a. res_bind (cstring_new b) (\<lambda>b.
     wrap_c_call_string lib (GetInstanceInfo a b)))"

definition invoke_contract :: "'cb consensus_lib \<Rightarrow> string \<Rightarrow> string \<Rightarrow> string res" where
  "invoke_contract lib a b = res_bind (cstring_new a) (\<lambda>a. res_bind (cstring_new b) (\<lambda>b.
     wrap_c_call_string lib (InvokeContract a b)))"

definition get_transaction_status_in_block :: "'cb consensus_lib \<Rightarrow> string \<Rightarrow> string \<Rightarrow> string res" where
  "get_transaction_status_in_block lib a b = res_bind (cstring_new a) (\<lambda>a. res_bind (cstring_new b) (\<lambda>b.
     wrap_c_call_string lib (GetTransactionStatusInBlock a b)))"

section \<open>Starting the library\<close>

record runtime_parameters =
  max_block_size :: u64
  block_construction_timeout :: u64
  insertions_before_purging :: u64
  transaction_keep_alive :: u64
  transactions_purging_delay :: u64
  accounts_cache_size :: u32
  modules_cache_size :: u32

datatype start_call =
    StartConsensus runtime_parameters bytes bytes u8 string
  | StartConsensusPassive runtime_parameters bytes u8 string

fun nat_to_decimal :: "nat \<Rightarrow> string" where
  "nat_to_decimal n = (if n < 10 then [char_of (48 + n)] else nat_to_decimal (n div 10) @ [char_of (48 + n mod 10)])"

declare nat_to_decimal.simps [simp del]

definition int_to_decimal :: "int \<Rightarrow> string" where
  "int_to_decimal i = (if i < 0 then CHR ''-'' # nat_to_decimal (nat (- i)) else nat_to_decimal (nat i))"

definition start_error :: "int \<Rightarrow> string" where
  "start_error code =
     (if code = 1 then ''Cannot decode given genesis data.''
      else if code = 2 then ''Cannot decode baker keys.''
      else if code = 3 then ''Error reading database files.''
      else if code = 4 then ''Given block state path is a directory, not a file.''
      else if code = 5 then ''Cannot read block state database due to incorrect permissions.''
      else if code = 6 then ''Cannot read tree state database due to incorrect permissions.''
      else if code = 7 then ''Cannot open supplied tree state database.''
      else if code = 8 then ''Genesis block is not in the supplied tree state database.''
      else if code = 9 then ''Database genesis block does not align with the supplied genesis data.''
      else if code = 10 then ''Database invariant violation. See logs for details.''
      else if code = 11 then ''Block state database has incorrect version information.''
      else ''Unknown error code: '' @ int_to_decimal code @ ''.'')"

text \<open>The library is started in one of two ways; the data directory must be a text.\<close>

definition get_consensus_ptr ::
    "(start_call \<Rightarrow> int \<times> 'r) \<Rightarrow> runtime_parameters \<Rightarrow> bytes \<Rightarrow> bytes option \<Rightarrow> u8 \<Rightarrow> string option \<Rightarrow> 'r res" where
  "get_consensus_ptr start params genesis_data private_data log_level appdata_dir =
     (case appdata_dir of
        None \<Rightarrow> Panic
      | Some dir \<Rightarrow>
          (case start (case private_data of
               Some private_bytes \<Rightarrow> StartConsensus params genesis_data private_bytes log_level dir
             | None \<Rightarrow> StartConsensusPassive params genesis_data log_level dir) of
             (ret_code, runner) \<Rightarrow> if ret_code = 0 then Ok runner else Err (Bail (start_error ret_code))))"

definition consensus_container_start ::
    "(start_call \<Rightarrow> int \<times> 'r) \<Rightarrow> runtime_parameters \<Rightarrow> bytes \<Rightarrow> bytes option \<Rightarrow> u8 \<Rightarrow> string option \<Rightarrow>
     ('r \<times> consensus_container) res" where
  "consensus_container_start start params genesis_data private_data log_level appdata_dir =
     res_bind (get_consensus_ptr start params genesis_data private_data log_level appdata_dir) (\<lambda>runner.
       Ok (runner, consensus_container_new private_data))"

section \<open>Callbacks of the library\<close>

datatype callback_type = CallbackBlock | CallbackFinalizationMessage | CallbackFinalizationRecord | CallbackCatchUpStatus

definition callback_type_try_from :: "u8 \<Rightarrow> callback_type res" where
  "callback_type_try_from b =
     (if b = 0 then Ok CallbackBlock
      else if b = 1 then Ok CallbackFinalizationMessage
      else if b = 2 then Ok CallbackFinalizationRecord
      else if b = 3 then Ok CallbackCatchUpStatus
      else Err (Bail ''Received invalid callback type''))"

definition callback_packet_type :: "callback_type \<Rightarrow> packet_type" where
  "callback_packet_type t =
     (case t of CallbackBlock \<Rightarrow> Block
              | CallbackFinalizationMessage \<Rightarrow> FinalizationMessage
              | CallbackFinalizationRecord \<Rightarrow> FinalizationRecord
              | CallbackCatchUpStatus \<Rightarrow> CatchUpStatus)"

text \<open>
  \<^verbatim>\<open>sending_callback!\<close>: the type is cut to a byte, an unknown one is only logged. \<open>ser\<close> is the
  serialisation of integers of \<^verbatim>\<open>concordium_base\<close>. The send blocks (\<open>None\<close>) while the queue is full.
\<close>

definition sending_callback ::
    "cm_channel_ops \<Rightarrow> (u32 \<Rightarrow> bytes) \<Rightarrow> remote_peer_id option \<Rightarrow> int \<Rightarrow> u32 \<Rightarrow> bytes \<Rightarrow> peer_status option \<Rightarrow>
     consensus_queues \<Rightarrow> consensus_queues option" where
  "sending_callback ops ser target msg_type genesis_index msg omit q =
     (case callback_type_try_from (word_of_int msg_type) of
        Ok t \<Rightarrow>
          send_out_blocking_msg ops
            \<lparr>direction = Outbound target, variant = callback_packet_type t,
             cm_payload = packet_type_tag (callback_packet_type t) # ser genesis_index @ msg,
             dont_relay_to = [], omit_status = omit\<rparr> q
      | _ \<Rightarrow> Some q)"

definition broadcast_callback ::
    "cm_channel_ops \<Rightarrow> (u32 \<Rightarrow> bytes) \<Rightarrow> int \<Rightarrow> u32 \<Rightarrow> bytes \<Rightarrow> consensus_queues \<Rightarrow> consensus_queues option" where
  "broadcast_callback ops ser msg_type genesis_index msg =
     sending_callback ops ser None msg_type genesis_index msg None"

definition direct_callback ::
    "cm_channel_ops \<Rightarrow> (u32 \<Rightarrow> bytes) \<Rightarrow> u64 \<Rightarrow> int \<Rightarrow> u32 \<Rightarrow> bytes \<Rightarrow> consensus_queues \<Rightarrow> consensus_queues option" where
  "direct_callback ops ser peer_id msg_type genesis_index msg =
     sending_callback ops ser (Some peer_id) msg_type genesis_index msg None"

definition catchup_status_callback ::
    "cm_channel_ops \<Rightarrow> (u32 \<Rightarrow> bytes) \<Rightarrow> u32 \<Rightarrow> bytes \<Rightarrow> consensus_queues \<Rightarrow> consensus_queues option" where
  "catchup_status_callback ops ser genesis_index msg =
     sending_callback ops ser None 3 genesis_index msg (Some Pending)"

text \<open>This one sends no genesis index.\<close>

definition on_finalization_message_catchup_out ::
    "cm_channel_ops \<Rightarrow> u64 \<Rightarrow> bytes \<Rightarrow> consensus_queues \<Rightarrow> consensus_queues option" where
  "on_finalization_message_catchup_out ops peer_id pl =
     send_out_blocking_msg ops
       \<lparr>direction = Outbound (Some peer_id), variant = FinalizationMessage,
        cm_payload = packet_type_tag FinalizationMessage # pl, dont_relay_to = [], omit_status = None\<rparr>"

text \<open>No block hash means that the protocol update was not recognised.\<close>

definition regenesis_callback :: "block_hash option \<Rightarrow> regenesis \<Rightarrow> regenesis" where
  "regenesis_callback block_hash r =
     (case block_hash of
        None \<Rightarrow> r\<lparr>stop_network_flag := True\<rparr>
      | Some h \<Rightarrow> r\<lparr>regenesis_blocks := regenesis_blocks r @ [h], trigger_catchup := True\<rparr>)"

text \<open>The notification channels are unbounded; \<open>None\<close> is one whose receiver is gone.\<close>

record notification_context =
  nc_blocks :: "bytes list option"
  nc_finalized_blocks :: "bytes list option"

definition notify_callback :: "u8 \<Rightarrow> bytes \<Rightarrow> notification_context \<Rightarrow> notification_context" where
  "notify_callback ty data ctx =
     (if ty = 0 then ctx\<lparr>nc_blocks := map_option (\<lambda>q. q @ [data]) (nc_blocks ctx)\<rparr>
      else if ty = 1 then ctx\<lparr>nc_finalized_blocks := map_option (\<lambda>q. q @ [data]) (nc_finalized_blocks ctx)\<rparr>
      else ctx)"

definition copy_to_vec_callback :: "bytes \<Rightarrow> bytes \<Rightarrow> bytes" where
  "copy_to_vec_callback out data = out @ data"

datatype log_level = LogError | LogWarn | LogInfo | LogDebug | LogTrace

definition log_identifier :: "int \<Rightarrow> string" where
  "log_identifier i =
     (if i = 0 then ''Runner'' else if i = 1 then ''Afgjort'' else if i = 2 then ''Birk''
      else if i = 3 then ''Crypto'' else if i = 4 then ''Kontrol'' else if i = 5 then ''Skov''
      else if i = 6 then ''Baker'' else if i = 7 then ''External'' else if i = 8 then ''GlobalState''
      else if i = 9 then ''BlockState'' else if i = 10 then ''TreeState'' else if i = 11 then ''LMDB''
      else if i = 12 then ''Scheduler'' else ''Unknown'')"

definition on_log_emited :: "int \<Rightarrow> int \<Rightarrow> string \<Rightarrow> (log_level \<times> string) res" where
  "on_log_emited identifier level msg =
     (if \<not> utf8_valid msg then Panic
      else Ok (if level = 1 then LogError else if level = 2 then LogWarn else if level = 3 then LogInfo
               else if level = 4 then LogDebug else LogTrace,
               log_identifier identifier @ '': '' @ msg))"

end
