(* ===== verification/Grpc2Types.thy ===== *)
theory Grpc2Types
  imports ConsensusFfi
begin

text \<open>
  The messages of the second version of the gRPC interface and their conversions
  (\<^verbatim>\<open>grpc2.rs\<close>, module \<^verbatim>\<open>types\<close>): to the arguments of the foreign interface, and of block items
  to the format the consensus layer reads.

  The message types are generated; in that format every field that is not a number, a text or a
  byte string may be missing, which is \<open>None\<close>. Types and serialisations of \<^verbatim>\<open>concordium_base\<close> are
  the parameters of \<open>base_ops\<close>. Of an error status we keep the code; its text is for humans.
\<close>

section \<open>Replies\<close>

text \<open>\<open>Crash\<close> is a panic of the handler, \<open>Blocked\<close> a handler that waits.\<close>

datatype 'a reply = Answer 'a | Failure tonic_code | Crash | Blocked

primrec reply_bind :: "'a reply \<Rightarrow> ('a \<Rightarrow> 'b reply) \<Rightarrow> 'b reply" where
  "reply_bind (Answer x) f = f x"
| "reply_bind (Failure c) f = Failure c"
| "reply_bind Crash f = Crash"
| "reply_bind Blocked f = Blocked"

primrec reply_map :: "('a \<Rightarrow> 'b) \<Rightarrow> 'a reply \<Rightarrow> 'b reply" where
  "reply_map f (Answer x) = Answer (f x)"
| "reply_map f (Failure c) = Failure c"
| "reply_map f Crash = Crash"
| "reply_map f Blocked = Blocked"

text \<open>\<^verbatim>\<open>require\<close>: a missing field is an invalid argument.\<close>

definition require :: "'a option \<Rightarrow> 'a reply" where
  "require v = (case v of Some x \<Rightarrow> Answer x | None \<Rightarrow> Failure StatusInvalidArgument)"

definition invalid_unless :: "bool \<Rightarrow> unit reply" where
  "invalid_unless b = (if b then Answer () else Failure StatusInvalidArgument)"

section \<open>Arguments of the foreign interface\<close>

datatype ffi_ptr = NullPtr | BytesPtr bytes | U64Ptr u64

datatype block_hash_choice = Best | LastFinal | Given bytes

type_synonym block_hash_input = "block_hash_choice option"

datatype account_identifier_choice = AccAddress bytes | AccCredId bytes | AccIndex u64

type_synonym account_identifier_input = "account_identifier_choice option"

definition account_address_to_ffi :: "bytes \<Rightarrow> ffi_ptr option" where
  "account_address_to_ffi address = (if length address = 32 then Some (BytesPtr address) else None)"

definition account_identifier_to_ffi :: "account_identifier_input \<Rightarrow> (u8 \<times> ffi_ptr) option" where
  "account_identifier_to_ffi ai =
     (case ai of
        None \<Rightarrow> None
      | Some (AccAddress addr) \<Rightarrow> if length addr = 32 then Some (0, BytesPtr addr) else None
      | Some (AccCredId cred_id) \<Rightarrow> if length cred_id = 48 then Some (1, BytesPtr cred_id) else None
      | Some (AccIndex i) \<Rightarrow> Some (2, U64Ptr i))"

definition block_hash_input_to_ffi :: "block_hash_input \<Rightarrow> (u8 \<times> ffi_ptr) option" where
  "block_hash_input_to_ffi bhi =
     (case bhi of
        None \<Rightarrow> None
      | Some Best \<Rightarrow> Some (0, NullPtr)
      | Some LastFinal \<Rightarrow> Some (1, NullPtr)
      | Some (Given bh) \<Rightarrow> if length bh = 32 then Some (2, BytesPtr bh) else None)"

definition module_reference_to_ffi :: "bytes \<Rightarrow> ffi_ptr option" where
  "module_reference_to_ffi module_ref = (if length module_ref = 32 then Some (BytesPtr module_ref) else None)"

definition transaction_hash_to_ffi :: "bytes \<Rightarrow> ffi_ptr option" where
  "transaction_hash_to_ffi h = (if length h = 32 then Some (BytesPtr h) else None)"

definition is_ascii :: "string \<Rightarrow> bool" where
  "is_ascii s = list_all (\<lambda>c. (of_char c :: nat) < 128) s"

definition receive_name_to_ffi :: "string \<Rightarrow> (string \<times> u32) option" where
  "receive_name_to_ffi name =
     (if is_ascii name \<and> length name \<le> 100 then Some (name, word_of_nat (length name)) else None)"

definition baker_id_to_ffi :: "u64 \<Rightarrow> u64" where
  "baker_id_to_ffi baker_id = baker_id"

text \<open>Heights are wrapped in messages, so that they too may be missing.\<close>

datatype blocks_at_height_choice =
    Absolute "u64 option"
  | Relative "u64 option" "u32 option" bool

definition blocks_at_height_request_to_ffi :: "blocks_at_height_choice option \<Rightarrow> (u64 \<times> u32 \<times> u8) option" where
  "blocks_at_height_request_to_ffi height =
     (case height of
        None \<Rightarrow> None
      | Some (Absolute h) \<Rightarrow> map_option (\<lambda>height. (height, 0, 0)) h
      | Some (Relative h g restrict) \<Rightarrow>
          Option.bind h (\<lambda>height. map_option (\<lambda>genesis_index.
            (height, genesis_index, if restrict then 1 else 0)) g))"

section \<open>Block items\<close>

record contract_address =
  contract_index :: u64
  contract_subindex :: u64

datatype wasm_version = WasmV0 | WasmV1

datatype base_payload =
    DeployModule wasm_version bytes
  | InitContract u64 bytes string bytes
  | UpdateContract u64 contract_address string bytes
  | Transfer bytes u64
  | TransferWithMemo bytes u64 bytes
  | RegisterData bytes

record transaction_header =
  header_sender :: bytes
  header_nonce :: u64
  header_energy :: u64
  header_payload_size :: nat
  header_expiry :: u64

record update_header =
  update_seq_number :: u64
  update_effective_time :: u64
  update_timeout :: u64
  update_payload_size :: u32

type_synonym account_signatures = "(u8 \<times> (u8 \<times> bytes) list) list"
type_synonym update_signatures = "(u16 \<times> bytes) list"

text \<open>
  What \<^verbatim>\<open>concordium_base\<close> provides: checks of names, parameters, memos and data, and
  serialisations.
\<close>

record base_ops =
  encoded_payload_try_from :: "bytes \<Rightarrow> bytes option"
  contract_name_ok :: "string \<Rightarrow> bool"
  receive_name_ok :: "string \<Rightarrow> bool"
  parameter_ok :: "bytes \<Rightarrow> bool"
  memo_ok :: "bytes \<Rightarrow> bool"
  registered_data_ok :: "bytes \<Rightarrow> bool"
  encode_payload :: "base_payload \<Rightarrow> bytes"
  account_transaction_bytes :: "account_signatures \<Rightarrow> transaction_header \<Rightarrow> bytes \<Rightarrow> bytes"
  credential_prefix_bytes :: "u8 \<Rightarrow> u64 \<Rightarrow> bytes"
  update_header_bytes :: "u8 \<Rightarrow> update_header \<Rightarrow> bytes"
  update_signature_bytes :: "update_signatures \<Rightarrow> bytes"
  transaction_sign_hash :: "transaction_header \<Rightarrow> bytes \<Rightarrow> bytes"

definition module_ref_try_from :: "bytes \<Rightarrow> bytes reply" where
  "module_ref_try_from v = (if length v = 32 then Answer v else Failure StatusInvalidArgument)"

definition account_address_try_from :: "bytes \<Rightarrow> bytes reply" where
  "account_address_try_from v = (if length v = 32 then Answer v else Failure StatusInvalidArgument)"

definition checked_by :: "('a \<Rightarrow> bool) \<Rightarrow> 'a \<Rightarrow> 'a reply" where
  "checked_by ok v = (if ok v then Answer v else Failure StatusInvalidArgument)"

datatype payload_choice =
    RawPayload bytes
  | DeployModuleMsg "(wasm_version \<times> bytes) option"
  | InitContractMsg "u64 option" "bytes option" "string option" "bytes option"
  | UpdateContractMsg "u64 option" "contract_address option" "string option" "bytes option"
  | TransferMsg "bytes option" "u64 option"
  | TransferWithMemoMsg "bytes option" "u64 option" "bytes option"
  | RegisterDataMsg bytes

definition required :: "'a option \<Rightarrow> ('a \<Rightarrow> 'b reply) \<Rightarrow> 'b reply" where
  "required v f = reply_bind (require v) f"

definition encoded_payload :: "base_ops \<Rightarrow> payload_choice option \<Rightarrow> bytes reply" where
  "encoded_payload ops value = required value (\<lambda>p. case p of
       RawPayload rp \<Rightarrow> require (encoded_payload_try_from ops rp)
     | DeployModuleMsg m \<Rightarrow> required m (\<lambda>(v, source). Answer (encode_payload ops (DeployModule v source)))
     | InitContractMsg amount mod_ref init_name param \<Rightarrow>
         required amount (\<lambda>a.
         reply_bind (required mod_ref module_ref_try_from) (\<lambda>m.
         reply_bind (required init_name (checked_by (contract_name_ok ops))) (\<lambda>n.
         reply_bind (required param (checked_by (parameter_ok ops))) (\<lambda>pa.
           Answer (encode_payload ops (InitContract a m n pa))))))
     | UpdateContractMsg amount address receive_name param \<Rightarrow>
         required amount (\<lambda>a.
         required address (\<lambda>ad.
         reply_bind (required receive_name (checked_by (receive_name_ok ops))) (\<lambda>n.
         reply_bind (required param (checked_by (parameter_ok ops))) (\<lambda>pa.
           Answer (encode_payload ops (UpdateContract a ad n pa))))))
     | TransferMsg receiver amount \<Rightarrow>
         reply_bind (required receiver account_address_try_from) (\<lambda>r.
         required amount (\<lambda>a. Answer (encode_payload ops (Transfer r a))))
     | TransferWithMemoMsg receiver amount memo \<Rightarrow>
         reply_bind (required receiver account_address_try_from) (\<lambda>r.
         required amount (\<lambda>a.
         reply_bind (required memo (checked_by (memo_ok ops))) (\<lambda>m.
           Answer (encode_payload ops (TransferWithMemo r a m)))))
     | RegisterDataMsg d \<Rightarrow>
         reply_bind (checked_by (registered_data_ok ops) d) (\<lambda>d. Answer (encode_payload ops (RegisterData d))))"

record header_msg =
  msg_sender :: "bytes option"
  msg_sequence_number :: "u64 option"
  msg_energy_amount :: "u64 option"
  msg_expiry :: "u64 option"

type_synonym payload_msg = "payload_choice option"

definition pre_account_transaction ::
    "base_ops \<Rightarrow> header_msg option \<Rightarrow> payload_msg option \<Rightarrow> (transaction_header \<times> bytes) reply" where
  "pre_account_transaction ops header pl =
     required header (\<lambda>h.
     required pl (\<lambda>p.
     reply_bind (required (msg_sender h) account_address_try_from) (\<lambda>sender.
     required (msg_sequence_number h) (\<lambda>nonce.
     required (msg_energy_amount h) (\<lambda>energy.
     required (msg_expiry h) (\<lambda>expiry.
     reply_bind (encoded_payload ops p) (\<lambda>encoded.
       Answer (\<lparr>header_sender = sender, header_nonce = nonce, header_energy = energy,
                header_payload_size = length encoded, header_expiry = expiry\<rparr>, encoded))))))))"

definition signature_try_from :: "bytes \<Rightarrow> bytes reply" where
  "signature_try_from v = (if length v \<le> 65535 then Answer v else Failure StatusInvalidArgument)"

fun collect_replies :: "'a reply list \<Rightarrow> 'a list reply" where
  "collect_replies [] = Answer []"
| "collect_replies (r # rs) = reply_bind r (\<lambda>x. reply_bind (collect_replies rs) (\<lambda>xs. Answer (x # xs)))"

definition u8_index :: "u32 \<Rightarrow> u8 reply" where
  "u8_index i = (if unat i < 256 then Answer (ucast i) else Failure StatusInvalidArgument)"

definition transaction_signature :: "(u32 \<times> (u32 \<times> bytes) list) list \<Rightarrow> account_signatures reply" where
  "transaction_signature sigs = collect_replies (map (\<lambda>(ci, m).
     reply_bind (u8_index ci) (\<lambda>ci'.
     reply_bind (collect_replies (map (\<lambda>(ki, sig).
         reply_bind (u8_index ki) (\<lambda>ki'. reply_bind (signature_try_from sig) (\<lambda>s. Answer (ki', s)))) m)) (\<lambda>cred_sigs.
       Answer (ci', cred_sigs)))) sigs)"

definition update_signature :: "(u32 \<times> bytes) list \<Rightarrow> update_signatures reply" where
  "update_signature sigs = collect_replies (map (\<lambda>(k, sig).
     reply_bind (if unat k < 65536 then Answer (ucast k) else Failure StatusInvalidArgument) (\<lambda>k'.
     reply_bind (signature_try_from sig) (\<lambda>s. Answer (k', s)))) sigs)"

record update_header_msg =
  msg_update_sequence_number :: "u64 option"
  msg_effective_time :: "u64 option"
  msg_timeout :: "u64 option"

datatype block_item =
    AccountTransactionItem "header_msg option" "payload_msg option" "(u32 \<times> (u32 \<times> bytes) list) list option"
  | CredentialDeploymentItem "u64 option" "bytes option"
  | UpdateInstructionItem "update_header_msg option" "bytes option option" "(u32 \<times> bytes) list option"

definition get_v0_format :: "base_ops \<Rightarrow> block_item option \<Rightarrow> bytes reply" where
  "get_v0_format ops item = required item (\<lambda>it. case it of
       AccountTransactionItem header pl signature \<Rightarrow>
         reply_bind (pre_account_transaction ops header pl) (\<lambda>(h, encoded).
         reply_bind (required signature transaction_signature) (\<lambda>sigs.
           Answer (account_transaction_bytes ops sigs h encoded)))
     | CredentialDeploymentItem message_expiry pl \<Rightarrow>
         required message_expiry (\<lambda>expiry. required pl (\<lambda>rp.
           Answer (credential_prefix_bytes ops 1 expiry @ rp)))
     | UpdateInstructionItem header pl signatures \<Rightarrow>
         required header (\<lambda>h. required pl (\<lambda>p. required p (\<lambda>raw.
         reply_bind (invalid_unless (length raw \<le> PROTOCOL_MAX_TRANSACTION_SIZE)) (\<lambda>_.
         required (msg_update_sequence_number h) (\<lambda>seq.
         required (msg_effective_time h) (\<lambda>time.
         required (msg_timeout h) (\<lambda>timeout.
         reply_bind (required signatures update_signature) (\<lambda>sigs.
           Answer (update_header_bytes ops 2
               \<lparr>update_seq_number = seq, update_effective_time = time, update_timeout = timeout,
                update_payload_size = word_of_nat (length raw)\<rparr> @ raw @ update_signature_bytes ops sigs))))))))))"

end
