(* ===== verification/Streaming.thy ===== *)
theory Streaming
  imports Prelude
begin

text \<open>
  Answers that are streamed: the library writes them, one after another, into a bounded channel
  through \<^verbatim>\<open>enqueue_bytearray_callback\<close> (\<^verbatim>\<open>consensus_ffi/ffi.rs\<close>) from a thread of its own
  (\<^verbatim>\<open>enqueueProtoMessages\<close> of \<^verbatim>\<open>External/GRPC2.hs\<close>), waiting with exponential backoff while the
  channel is full, while the client reads from the other end or hangs up.

  The sending half of the channel is a box that the callback frees; \<open>sender_live\<close> says that it is
  not freed. A call with a freed box would be undefined behaviour: it is \<open>None\<close>.
\<close>

section \<open>The channel and the callback\<close>

datatype 'q send_outcome = Sent 'q | SendFull | SendClosed

type_synonym mpsc_ops = "nat \<Rightarrow> bool \<Rightarrow> bytes list \<Rightarrow> bytes \<Rightarrow> bytes list send_outcome"

text \<open>
  \<^verbatim>\<open>try_send\<close> of the crate \<^verbatim>\<open>futures\<close>, on a channel of a given capacity whose receiver is alive or
  not: it fails when the receiver is gone and when the channel is full, and only then.
\<close>

definition mpsc_law :: "mpsc_ops \<Rightarrow> bool" where
  "mpsc_law try_send \<longleftrightarrow> (\<forall>cap alive q x.
     try_send cap alive q x = (if \<not> alive then SendClosed else if length q < cap then Sent (q @ [x]) else SendFull))"

record stream_chan =
  chan_capacity :: nat
  chan_queue :: "bytes list"
  receiver_alive :: bool
  sender_live :: bool

definition enqueue_bytearray_callback ::
    "mpsc_ops \<Rightarrow> bytes option \<Rightarrow> int \<Rightarrow> stream_chan \<Rightarrow> (int \<times> stream_chan) option" where
  "enqueue_bytearray_callback try_send msg msg_length c =
     (if \<not> sender_live c then None
      else if msg_length \<noteq> 0 \<and> msg = None then Some (- 2, c\<lparr>sender_live := False\<rparr>)
      else let data = (if msg_length \<noteq> 0 then the msg else [])
           in case try_send (chan_capacity c) (receiver_alive c) (chan_queue c) data of
                Sent q \<Rightarrow> Some (0, c\<lparr>chan_queue := q\<rparr>)
              | SendFull \<Rightarrow> Some (- 1, c)
              | SendClosed \<Rightarrow> Some (- 2, c\<lparr>sender_live := False\<rparr>))"

section \<open>The producing thread\<close>

text \<open>
  One turn of the loop \<^verbatim>\<open>go\<close>: the messages still to send, the exponent of the next delay, and
  whether the thread has ended. After the last message the channel is closed by a null pointer
  with the greatest length.
\<close>

record stream_state =
  chan :: stream_chan
  remaining :: "bytes list"
  backoff :: nat
  finished :: bool
  received :: "bytes list"

definition backoff_delay :: "nat \<Rightarrow> nat" where
  "backoff_delay n = 2 ^ n * 10000"

definition enqueue_turn :: "mpsc_ops \<Rightarrow> stream_state \<Rightarrow> stream_state option" where
  "enqueue_turn try_send s =
     (case remaining s of
        [] \<Rightarrow>
          map_option (\<lambda>(_, c). s\<lparr>chan := c, finished := True\<rparr>)
            (enqueue_bytearray_callback try_send None (2 ^ 63 - 1) (chan s))
      | m # ms \<Rightarrow>
          map_option (\<lambda>(res, c).
              if res = 0 then s\<lparr>chan := c, remaining := ms, backoff := 0\<rparr>
              else if res = - 1 then s\<lparr>chan := c, backoff := min (backoff s + 1) 10\<rparr>
              else s\<lparr>chan := c, finished := True\<rparr>)
            (enqueue_bytearray_callback try_send (Some m) (int (length m)) (chan s)))"

text \<open>The client reads a message, or hangs up.\<close>

datatype stream_event = Produce | Receive | HangUp

fun stream_enabled :: "stream_state \<Rightarrow> stream_event \<Rightarrow> bool" where
  "stream_enabled s Produce \<longleftrightarrow> True"
| "stream_enabled s Receive \<longleftrightarrow> receiver_alive (chan s)"
| "stream_enabled s HangUp \<longleftrightarrow> receiver_alive (chan s)"

text \<open>A step is \<open>None\<close> when the callback is called with a freed sender.\<close>

fun stream_step :: "mpsc_ops \<Rightarrow> stream_state \<Rightarrow> stream_event \<Rightarrow> stream_state option" where
  "stream_step try_send s Produce = (if finished s then Some s else enqueue_turn try_send s)"
| "stream_step try_send s Receive =
     (case chan_queue (chan s) of
        [] \<Rightarrow> Some s
      | x # q \<Rightarrow> Some (s\<lparr>chan := (chan s)\<lparr>chan_queue := q\<rparr>, received := received s @ [x]\<rparr>))"
| "stream_step try_send s HangUp = Some (s\<lparr>chan := (chan s)\<lparr>receiver_alive := False\<rparr>\<rparr>)"

definition stream_start :: "nat \<Rightarrow> bytes list \<Rightarrow> stream_state" where
  "stream_start cap msgs =
     \<lparr>chan = \<lparr>chan_capacity = cap, chan_queue = [], receiver_alive = True, sender_live = True\<rparr>,
      remaining = msgs, backoff = 0, finished = False, received = []\<rparr>"

text \<open>Runs: the state is \<open>None\<close> once the behaviour is undefined.\<close>

definition opt_enabled :: "stream_state option \<Rightarrow> stream_event \<Rightarrow> bool" where
  "opt_enabled s e = (case s of None \<Rightarrow> True | Some t \<Rightarrow> stream_enabled t e)"

definition opt_step :: "mpsc_ops \<Rightarrow> stream_state option \<Rightarrow> stream_event \<Rightarrow> stream_state option" where
  "opt_step try_send s e = Option.bind s (\<lambda>t. stream_step try_send t e)"

lemma opt_step_Some [simp]: "opt_step try_send (Some s) e = stream_step try_send s e"
  by (simp add: opt_step_def)

lemma opt_enabled_Some [simp]: "opt_enabled (Some s) e \<longleftrightarrow> stream_enabled s e"
  by (simp add: opt_enabled_def)

lemma run_steps_append:
  "run_steps en st s (xs @ ys) = Option.bind (run_steps en st s xs) (\<lambda>t. run_steps en st t ys)"
  by (induction xs arbitrary: s) auto

abbreviation stream_run :: "mpsc_ops \<Rightarrow> stream_state \<Rightarrow> stream_event list \<Rightarrow> stream_state option option" where
  "stream_run try_send s es \<equiv> run_steps opt_enabled (opt_step try_send) (Some s) es"

section \<open>Safety\<close>

definition stream_inv :: "nat \<Rightarrow> bytes list \<Rightarrow> stream_state \<Rightarrow> bool" where
  "stream_inv cap msgs s \<longleftrightarrow>
     received s @ chan_queue (chan s) @ remaining s = msgs \<and>
     chan_capacity (chan s) = cap \<and> length (chan_queue (chan s)) \<le> cap \<and>
     (sender_live (chan s) \<longleftrightarrow> \<not> finished s) \<and>
     (finished s \<and> receiver_alive (chan s) \<longrightarrow> remaining s = []) \<and>
     backoff s \<le> 10"

lemma stream_inv_start: "stream_inv cap msgs (stream_start cap msgs)"
  by (simp add: stream_inv_def stream_start_def)

text \<open>The three outcomes of a turn while the client is there.\<close>

lemma enqueue_turn_last:
  assumes "sender_live (chan s)" "remaining s = []"
  shows "enqueue_turn try_send s = Some (s\<lparr>chan := (chan s)\<lparr>sender_live := False\<rparr>, finished := True\<rparr>)"
  using assms by (simp add: enqueue_turn_def enqueue_bytearray_callback_def)

lemma enqueue_turn_next:
  assumes "mpsc_law try_send" "sender_live (chan s)" "receiver_alive (chan s)" "remaining s = m # ms"
  shows "enqueue_turn try_send s = Some
    (if length (chan_queue (chan s)) < chan_capacity (chan s)
     then s\<lparr>chan := (chan s)\<lparr>chan_queue := chan_queue (chan s) @ [m]\<rparr>, remaining := ms, backoff := 0\<rparr>
     else s\<lparr>chan := chan s, backoff := min (backoff s + 1) 10\<rparr>)"
proof -
  have "try_send c a q x = (if \<not> a then SendClosed else if length q < c then Sent (q @ [x]) else SendFull)" for c a q x
    using assms(1) unfolding mpsc_law_def by blast
  then show ?thesis
    using assms(2-4) by (cases m) (simp_all add: enqueue_turn_def enqueue_bytearray_callback_def)
qed

lemma enqueue_turn_inv:
  assumes "mpsc_law try_send" "stream_inv cap msgs s" "\<not> finished s"
  shows "\<exists>t. enqueue_turn try_send s = Some t \<and> stream_inv cap msgs t"
proof (cases "remaining s")
  case Nil
  then show ?thesis
    using assms by (auto simp: enqueue_turn_def enqueue_bytearray_callback_def stream_inv_def)
next
  case (Cons m ms)
  have ts: "try_send c a q x = (if \<not> a then SendClosed else if length q < c then Sent (q @ [x]) else SendFull)" for c a q x
    using assms(1) unfolding mpsc_law_def by blast
  show ?thesis
    using Cons assms(2,3)
    by (cases "receiver_alive (chan s)"; cases "length (chan_queue (chan s)) < cap")
      (auto simp: enqueue_turn_def enqueue_bytearray_callback_def stream_inv_def ts Let_def)
qed

lemma stream_step_inv:
  assumes "mpsc_law try_send" "stream_inv cap msgs s" "stream_enabled s e"
  shows "\<exists>t. stream_step try_send s e = Some t \<and> stream_inv cap msgs t"
proof (cases e)
  case Produce
  then show ?thesis using enqueue_turn_inv [OF assms(1,2)] assms(2) by auto
next
  case Receive
  then show ?thesis
    using assms(2) by (cases "chan_queue (chan s)") (auto simp: stream_inv_def)
next
  case HangUp
  then show ?thesis using assms(2) by (auto simp: stream_inv_def)
qed

interpretation stream_machine: invariant_system "Some (stream_start cap msgs)" opt_enabled "opt_step try_send"
  "\<lambda>s. mpsc_law try_send \<longrightarrow> (\<exists>t. s = Some t \<and> stream_inv cap msgs t)"
  by unfold_locales (auto simp: stream_inv_start opt_enabled_def opt_step_def dest: stream_step_inv)

text \<open>
  Property C17: Streaming an answer is safe under every interleaving of the thread that writes
  it and the client that reads it. What the client has read, what waits in the channel and what
  is still to be written are together the answer, in order and without repetition; the channel
  never holds more than its capacity; the sender is freed exactly when the writing thread ends,
  never used afterwards; the thread ends early only when the client has hung up; and no delay is
  longer than 10.24 seconds.
\<close>

theorem streaming_is_safe:
  assumes "mpsc_law try_send" and "stream_run try_send (stream_start cap msgs) events = Some outcome"
  shows "\<exists>s. outcome = Some s \<and> received s @ chan_queue (chan s) @ remaining s = msgs \<and>
    length (chan_queue (chan s)) \<le> cap \<and> (sender_live (chan s) \<longleftrightarrow> \<not> finished s) \<and>
    \<not> (finished s \<and> receiver_alive (chan s) \<and> remaining s \<noteq> []) \<and> backoff_delay (backoff s) \<le> 10240000"
proof -
  obtain s where s: "outcome = Some s" "stream_inv cap msgs s"
    using stream_machine.run_good [OF assms(2)] assms(1) by blast
  then have "(2::nat) ^ backoff s \<le> 2 ^ 10" unfolding stream_inv_def by (intro power_increasing) auto
  with s show ?thesis by (auto simp: stream_inv_def backoff_delay_def)
qed

text \<open>A channel with the documented behaviour, for the examples.\<close>

definition example_mpsc :: mpsc_ops where
  "example_mpsc cap alive q x = (if \<not> alive then SendClosed else if length q < cap then Sent (q @ [x]) else SendFull)"

lemma example_mpsc_law: "mpsc_law example_mpsc"
  by (simp add: mpsc_law_def example_mpsc_def)

theorem streaming_is_safe_witness:
  "\<exists>s. stream_run example_mpsc (stream_start 1 [[1], [2], [3]]) [Produce, Produce, Receive, Produce, HangUp, Produce] = Some (Some s) \<and>
     received s @ chan_queue (chan s) @ remaining s = [[1], [2], [3]] \<and> finished s \<and> \<not> sender_live (chan s)"
proof -
  obtain s where run: "stream_run example_mpsc (stream_start 1 [[1], [2], [3]]) [Produce, Produce, Receive, Produce, HangUp, Produce] =
      Some (Some s)" and fin: "finished s"
    by (simp add: stream_start_def enqueue_turn_def enqueue_bytearray_callback_def example_mpsc_def)
  from streaming_is_safe [OF example_mpsc_law run] run fin show ?thesis by auto
qed

section \<open>Progress\<close>

definition stream_work :: "stream_state \<Rightarrow> nat" where
  "stream_work s = 2 * length (remaining s) + length (chan_queue (chan s)) + (if finished s then 0 else 1)"

definition same_stream :: "stream_state \<Rightarrow> stream_state \<Rightarrow> bool" where
  "same_stream s t \<longleftrightarrow> chan t = chan s \<and> remaining t = remaining s \<and> finished t = finished s \<and> received t = received s"

text \<open>An event does some work, or finds its side blocked.\<close>

definition moves :: "stream_event set \<Rightarrow> stream_state \<Rightarrow> stream_state \<Rightarrow> bool" where
  "moves es s t \<longleftrightarrow> stream_work t < stream_work s \<or> same_stream s t \<and>
     (Produce \<in> es \<longrightarrow> finished s \<or> chan_capacity (chan s) \<le> length (chan_queue (chan s))) \<and>
     (Receive \<in> es \<longrightarrow> chan_queue (chan s) = [])"

lemma stream_step_moves:
  assumes "mpsc_law try_send" "stream_inv cap msgs s" "receiver_alive (chan s)" "e \<noteq> HangUp"
  shows "\<exists>t. stream_step try_send s e = Some t \<and> stream_inv cap msgs t \<and> receiver_alive (chan t) \<and> moves {e} s t"
proof -
  have "stream_enabled s e" using assms(3) by (cases e) auto
  then obtain t where t: "stream_step try_send s e = Some t" "stream_inv cap msgs t"
    using stream_step_inv [OF assms(1,2)] by blast
  have "receiver_alive (chan t) \<and> moves {e} s t"
  proof (cases e)
    case Produce
    consider "finished s" | "\<not> finished s" "remaining s = []" | m ms where "\<not> finished s" "remaining s = m # ms"
      by (cases "remaining s") auto
    then show ?thesis
    proof cases
      case 1
      with Produce t(1) assms(3) show ?thesis by (simp add: moves_def same_stream_def)
    next
      case 2
      with Produce t(1) assms(2,3) enqueue_turn_last [of s try_send] show ?thesis
        by (auto simp: moves_def stream_work_def stream_inv_def)
    next
      case 3
      then have "sender_live (chan s)" using assms(2) by (simp add: stream_inv_def)
      with Produce 3 t(1) assms(3) enqueue_turn_next [OF assms(1) _ assms(3) 3(2)] show ?thesis
        by (auto simp: moves_def stream_work_def same_stream_def split: if_splits)
    qed
  next
    case Receive
    then show ?thesis
      using t assms(3)
      by (cases "chan_queue (chan s)") (auto simp: moves_def stream_work_def same_stream_def)
  qed (use assms(4) in simp)
  with t show ?thesis by blast
qed

lemma moves_trans:
  assumes "moves A s t" "moves B t u"
  shows "moves (A \<union> B) s u"
  using assms by (auto simp: moves_def same_stream_def stream_work_def)

lemma stream_block_moves:
  assumes "mpsc_law try_send"
  shows "stream_inv cap msgs s \<Longrightarrow> receiver_alive (chan s) \<Longrightarrow> HangUp \<notin> set es \<Longrightarrow>
    \<exists>t. stream_run try_send s es = Some (Some t) \<and> stream_inv cap msgs t \<and> receiver_alive (chan t) \<and> moves (set es) s t"
proof (induction es arbitrary: s)
  case Nil
  then show ?case by (simp add: moves_def same_stream_def)
next
  case (Cons e es)
  obtain t where t: "stream_step try_send s e = Some t" "stream_inv cap msgs t" "receiver_alive (chan t)" "moves {e} s t"
    using stream_step_moves [OF assms Cons.prems(1,2), of e] Cons.prems(3) by auto
  obtain u where u: "stream_run try_send t es = Some (Some u)" "stream_inv cap msgs u" "receiver_alive (chan u)"
      "moves (set es) t u"
    using Cons.IH [OF t(2,3)] Cons.prems(3) by auto
  have "stream_enabled s e" using Cons.prems(2) by (cases e) auto
  with t(1) u moves_trans [OF t(4) u(4)] show ?case by auto
qed

lemma moves_progress:
  assumes "moves es s t" "Produce \<in> es" "Receive \<in> es" "stream_inv cap msgs s" "receiver_alive (chan s)" "0 < cap"
  shows "stream_work t \<le> stream_work s - 1"
  using assms by (auto simp: moves_def stream_work_def same_stream_def stream_inv_def)

lemma stream_blocks_work:
  assumes "mpsc_law try_send" "0 < cap"
  shows "stream_inv cap msgs s \<Longrightarrow> receiver_alive (chan s) \<Longrightarrow>
    list_all (\<lambda>b. Produce \<in> set b \<and> Receive \<in> set b \<and> HangUp \<notin> set b) blocks \<Longrightarrow>
    \<exists>t. stream_run try_send s (concat blocks) = Some (Some t) \<and> stream_inv cap msgs t \<and> receiver_alive (chan t) \<and>
      stream_work t \<le> stream_work s - length blocks"
proof (induction blocks arbitrary: s)
  case Nil
  then show ?case by simp
next
  case (Cons b blocks)
  obtain t where t: "stream_run try_send s b = Some (Some t)" "stream_inv cap msgs t" "receiver_alive (chan t)"
      "moves (set b) s t"
    using stream_block_moves [OF assms(1) Cons.prems(1,2), of b] Cons.prems(3) by auto
  have w: "stream_work t \<le> stream_work s - 1"
    using moves_progress [OF t(4) _ _ Cons.prems(1,2) assms(2)] Cons.prems(3) by auto
  obtain u where u: "stream_run try_send t (concat blocks) = Some (Some u)" "stream_inv cap msgs u" "receiver_alive (chan u)"
      "stream_work u \<le> stream_work t - length blocks"
    using Cons.IH [OF t(2,3)] Cons.prems(3) by auto
  have "stream_run try_send s (concat (b # blocks)) = Some (Some u)"
    using run_steps_append [of opt_enabled "opt_step try_send" "Some s" b "concat blocks"] t(1) u(1) by simp
  with u w show ?case by auto
qed

text \<open>
  Property C18: Every streamed answer arrives. When the thread that writes it and the client that
  reads it both get a turn in every round, in whatever order, the client has read the whole answer
  after at most twice as many rounds as it has messages and one more, and the sender is freed.
\<close>

theorem streaming_delivers:
  assumes "mpsc_law try_send" and "0 < cap"
    and "list_all (\<lambda>b. Produce \<in> set b \<and> Receive \<in> set b \<and> HangUp \<notin> set b) blocks"
    and "2 * length msgs + 1 \<le> length blocks"
  shows "\<exists>s. stream_run try_send (stream_start cap msgs) (concat blocks) = Some (Some s) \<and>
    received s = msgs \<and> finished s \<and> \<not> sender_live (chan s)"
proof -
  obtain s where s: "stream_run try_send (stream_start cap msgs) (concat blocks) = Some (Some s)" "stream_inv cap msgs s"
      "stream_work s \<le> stream_work (stream_start cap msgs) - length blocks"
    using stream_blocks_work [OF assms(1,2) stream_inv_start [of cap msgs] _ assms(3)]
    by (auto simp: stream_start_def)
  then have "stream_work s = 0" using assms(4) by (simp add: stream_work_def stream_start_def)
  with s show ?thesis by (auto simp: stream_work_def stream_inv_def split: if_splits)
qed

theorem streaming_delivers_witness:
  "\<exists>s. stream_run example_mpsc (stream_start 1 [[1], [2]]) (concat (replicate 5 [Produce, Produce, Receive])) = Some (Some s) \<and>
     received s = [[1], [2]] \<and> finished s \<and> \<not> sender_live (chan s)"
  by (rule streaming_delivers [OF example_mpsc_law]) (simp_all add: list_all_iff)

end
