(* ===== verification/Queries.thy ===== *)
theory Queries
  imports Grpc2Types Streaming
begin

text \<open>
  The queries of the second gRPC interface as methods of \<^verbatim>\<open>ConsensusContainer\<close>
  (\<^verbatim>\<open>consensus_ffi/ffi.rs\<close>): the arguments are checked and converted, the library is called, its
  code is checked and its answer returned. An answer is a byte string, or it is streamed through
  a sender that is handed to the library as a raw pointer.
\<close>

section \<open>The calls and the answers of the library\<close>

type_synonym block_ref = "u8 \<times> ffi_ptr"

datatype (plugins only: code) v2_call =
    GetAccountInfoV2 block_ref u8 ffi_ptr
  | GetNextAccountSequenceNumberV2 ffi_ptr
  | GetConsensusInfoV2
  | GetCryptographicParametersV2 block_ref
  | GetAccountListV2 block_ref
  | GetModuleListV2 block_ref
  | GetModuleSourceV2 block_ref ffi_ptr
  | GetInstanceListV2 block_ref
  | GetInstanceInfoV2 block_ref u64 u64
  | GetInstanceStateV2 block_ref u64 u64
  | GetAncestorsV2 block_ref u64
  | GetBlockItemStatusV2 ffi_ptr
  | InvokeInstanceV2 block_ref u64 u64 u8 ffi_ptr u64 u64 u64 "string \<times> u32" "bytes \<times> u32" u64
  | GetBlockInfoV2 block_ref
  | GetBakerListV2 block_ref
  | GetPoolInfoV2 block_ref u64
  | GetPassiveDelegationInfoV2 block_ref
  | GetBlocksAtHeightV2 u64 u32 u8
  | GetTokenomicsInfoV2 block_ref
  | GetPoolDelegatorsV2 block_ref u64
  | GetPoolDelegatorsRewardPeriodV2 block_ref u64
  | GetPassiveDelegatorsV2 block_ref
  | GetPassiveDelegatorsRewardPeriodV2 block_ref
  | GetBranchesV2
  | GetElectionInfoV2 block_ref
  | GetIdentityProvidersV2 block_ref
  | GetAnonymityRevokersV2 block_ref
  | GetAccountNonFinalizedTransactionsV2 ffi_ptr
  | GetBlockItemsV2 block_ref
  | GetBlockTransactionEventsV2 block_ref
  | GetBlockSpecialEventsV2 block_ref
  | GetBlockPendingUpdatesV2 block_ref
  | GetNextUpdateSequenceNumbersV2 block_ref
  | GetBlockChainParametersV2 block_ref
  | GetBlockFinalizationSummaryV2 block_ref

text \<open>
  The answer to a call: its code, what it has written to the out-parameters (the hash of the
  block, the pieces appended to the output vector, the cryptographic parameters with their
  serialised parts, the state of a V1 contract), and the messages it streams when it succeeds.
\<close>

record v1_state =
  v1_entries :: "(bytes \<times> bytes) list"
  v1_lookup :: "bytes \<Rightarrow> bytes option"

record v2_answer =
  answer_code :: int
  answer_hash :: bytes
  answer_data :: "bytes list"
  answer_crypto :: "(string \<times> bytes \<times> bytes) option"
  answer_v1_state :: "v1_state option"
  answer_stream :: "bytes list"

type_synonym v2_lib = "v2_call \<Rightarrow> v2_answer"

section \<open>Checking the answer\<close>

definition check_query :: "int \<Rightarrow> unit reply" where
  "check_query code =
     (case query_response_try_from code of
        None \<Rightarrow> Failure StatusInternal
      | Some r \<Rightarrow> (case ensure_ok r of Inl c \<Rightarrow> Failure c | Inr _ \<Rightarrow> Answer ()))"

text \<open>Some queries do not look at the response, as they should always succeed.\<close>

definition decode_query :: "int \<Rightarrow> unit reply" where
  "decode_query code = (case query_response_try_from code of None \<Rightarrow> Failure StatusInternal | Some _ \<Rightarrow> Answer ())"

definition answer_bytes :: "v2_answer \<Rightarrow> bytes" where
  "answer_bytes a = foldl copy_to_vec_callback [] (answer_data a)"

definition block_query :: "v2_lib \<Rightarrow> v2_call \<Rightarrow> (bytes \<times> bytes) reply" where
  "block_query lib call = (let a = lib call in
     reply_bind (check_query (answer_code a)) (\<lambda>_. Answer (answer_hash a, answer_bytes a)))"

text \<open>
  What becomes of the sender of a stream: dropped by the node, in the hands of the thread that
  writes the answer, or never freed.
\<close>

datatype sender_fate = SenderDropped | SenderStreaming "bytes list" | SenderLeaked

definition stream_query :: "v2_lib \<Rightarrow> v2_call \<Rightarrow> bytes reply \<times> sender_fate" where
  "stream_query lib call = (let a = lib call in
     case check_query (answer_code a) of
       Answer _ \<Rightarrow> (Answer (answer_hash a), SenderStreaming (answer_stream a))
     | Failure c \<Rightarrow> (Failure c, SenderLeaked)
     | Crash \<Rightarrow> (Crash, SenderLeaked)
     | Blocked \<Rightarrow> (Blocked, SenderLeaked))"

text \<open>The sender is dropped with the frame when the arguments are refused.\<close>

definition with_sender :: "'a reply \<Rightarrow> ('a \<Rightarrow> 'b reply \<times> sender_fate) \<Rightarrow> 'b reply \<times> sender_fate" where
  "with_sender r f =
     (case r of Answer x \<Rightarrow> f x | Failure c \<Rightarrow> (Failure c, SenderDropped)
              | Crash \<Rightarrow> (Crash, SenderDropped) | Blocked \<Rightarrow> (Blocked, SenderDropped))"

definition require_block :: "block_hash_input \<Rightarrow> block_ref reply" where
  "require_block bhi = require (block_hash_input_to_ffi bhi)"

section \<open>Queries answered with a byte string\<close>

definition get_account_info_v2 ::
    "v2_lib \<Rightarrow> block_hash_input \<Rightarrow> account_identifier_input \<Rightarrow> (bytes \<times> bytes) reply" where
  "get_account_info_v2 lib block_hash account_identifier =
     reply_bind (require_block block_hash) (\<lambda>b.
     reply_bind (require (account_identifier_to_ffi account_identifier)) (\<lambda>(acc_type, acc_id).
       block_query lib (GetAccountInfoV2 b acc_type acc_id)))"

definition get_next_account_sequence_number_v2 :: "v2_lib \<Rightarrow> bytes \<Rightarrow> bytes reply" where
  "get_next_account_sequence_number_v2 lib account_address =
     reply_bind (require (account_address_to_ffi account_address)) (\<lambda>ptr.
       let a = lib (GetNextAccountSequenceNumberV2 ptr)
       in reply_bind (decode_query (answer_code a)) (\<lambda>_. Answer (answer_bytes a)))"

definition get_consensus_info_v2 :: "v2_lib \<Rightarrow> bytes reply" where
  "get_consensus_info_v2 lib = (let a = lib GetConsensusInfoV2 in
     reply_bind (decode_query (answer_code a)) (\<lambda>_. Answer (answer_bytes a)))"

definition get_cryptographic_parameters_v2 ::
    "v2_lib \<Rightarrow> block_hash_input \<Rightarrow> (bytes \<times> string \<times> bytes \<times> bytes) reply" where
  "get_cryptographic_parameters_v2 lib block_hash =
     reply_bind (require_block block_hash) (\<lambda>b. let a = lib (GetCryptographicParametersV2 b) in
     reply_bind (check_query (answer_code a)) (\<lambda>_.
       case answer_crypto a of
         None \<Rightarrow> Failure StatusInternal
       | Some (genesis_string, generators, commitment_key) \<Rightarrow>
           Answer (answer_hash a, genesis_string, generators, commitment_key)))"

definition get_module_source_v2 :: "v2_lib \<Rightarrow> block_hash_input \<Rightarrow> bytes \<Rightarrow> (bytes \<times> bytes) reply" where
  "get_module_source_v2 lib block_hash module_ref =
     reply_bind (require_block block_hash) (\<lambda>b.
     reply_bind (require (module_reference_to_ffi module_ref)) (\<lambda>m. block_query lib (GetModuleSourceV2 b m)))"

definition get_instance_info_v2 :: "v2_lib \<Rightarrow> block_hash_input \<Rightarrow> contract_address \<Rightarrow> (bytes \<times> bytes) reply" where
  "get_instance_info_v2 lib block_hash address =
     reply_bind (require_block block_hash) (\<lambda>b.
       block_query lib (GetInstanceInfoV2 b (contract_index address) (contract_subindex address)))"

datatype contract_state_response = ContractStateV0 bytes | ContractStateV1 v1_state

definition get_instance_state_v2 ::
    "v2_lib \<Rightarrow> block_hash_input \<Rightarrow> contract_address \<Rightarrow> (bytes \<times> contract_state_response) reply" where
  "get_instance_state_v2 lib block_hash address =
     reply_bind (require_block block_hash) (\<lambda>b.
       let a = lib (GetInstanceStateV2 b (contract_index address) (contract_subindex address))
       in reply_bind (check_query (answer_code a)) (\<lambda>_.
            Answer (answer_hash a,
              case answer_v1_state a of None \<Rightarrow> ContractStateV0 (answer_bytes a) | Some st \<Rightarrow> ContractStateV1 st)))"

definition get_block_item_status_v2 :: "v2_lib \<Rightarrow> bytes \<Rightarrow> bytes reply" where
  "get_block_item_status_v2 lib transaction_hash =
     reply_bind (require (transaction_hash_to_ffi transaction_hash)) (\<lambda>ptr.
       let a = lib (GetBlockItemStatusV2 ptr)
       in reply_bind (check_query (answer_code a)) (\<lambda>_. Answer (answer_bytes a)))"

datatype address_choice = AddressAccount bytes | AddressContract contract_address

record invoke_request =
  invoke_block :: "block_hash_input option"
  invoke_invoker :: "address_choice option option"
  invoke_amount :: "u64 option"
  invoke_entrypoint :: "string option"
  invoke_parameter :: "bytes option"
  invoke_energy :: "u64 option"
  invoke_instance_address :: "contract_address option"

text \<open>The invoker: none, an account or a contract.\<close>

definition invoker_to_ffi :: "address_choice option option \<Rightarrow> (u8 \<times> ffi_ptr \<times> u64 \<times> u64) reply" where
  "invoker_to_ffi invoker =
     (case invoker of
        None \<Rightarrow> Answer (0, NullPtr, 0, 0)
      | Some address \<Rightarrow> reply_bind (require address) (\<lambda>a. case a of
            AddressAccount account \<Rightarrow>
              reply_bind (require (account_address_to_ffi account)) (\<lambda>ptr. Answer (1, ptr, 0, 0))
          | AddressContract contract \<Rightarrow>
              Answer (2, NullPtr, contract_index contract, contract_subindex contract)))"

definition invoke_instance_v2 :: "v2_lib \<Rightarrow> invoke_request \<Rightarrow> (bytes \<times> bytes) reply" where
  "invoke_instance_v2 lib request =
     reply_bind (require (invoke_block request)) (\<lambda>bhi.
     reply_bind (require_block bhi) (\<lambda>b.
     reply_bind (invoker_to_ffi (invoke_invoker request)) (\<lambda>(ty, ptr, index, subindex).
     reply_bind (require (invoke_amount request)) (\<lambda>amount.
     reply_bind (require (invoke_entrypoint request)) (\<lambda>entrypoint.
     reply_bind (require (receive_name_to_ffi entrypoint)) (\<lambda>receive_name.
     reply_bind (require (invoke_parameter request)) (\<lambda>param.
     reply_bind (invalid_unless (length param < 2 ^ 32)) (\<lambda>_.
     reply_bind (require (invoke_energy request)) (\<lambda>energy.
     reply_bind (require (invoke_instance_address request)) (\<lambda>contract.
       block_query lib (InvokeInstanceV2 b (contract_index contract) (contract_subindex contract)
         ty ptr index subindex amount receive_name (param, word_of_nat (length param)) energy)))))))))))"

record pool_request =
  pool_block :: "block_hash_input option"
  pool_baker :: "u64 option"

definition get_pool_info_v2 :: "v2_lib \<Rightarrow> pool_request \<Rightarrow> (bytes \<times> bytes) reply" where
  "get_pool_info_v2 lib request =
     reply_bind (require (pool_block request)) (\<lambda>bhi.
     reply_bind (require_block bhi) (\<lambda>b.
     reply_bind (require (pool_baker request)) (\<lambda>baker. block_query lib (GetPoolInfoV2 b (baker_id_to_ffi baker)))))"

definition get_blocks_at_height_v2 :: "v2_lib \<Rightarrow> blocks_at_height_choice option \<Rightarrow> bytes reply" where
  "get_blocks_at_height_v2 lib height =
     reply_bind (require (blocks_at_height_request_to_ffi height)) (\<lambda>(block_height, genesis_index, restrict).
       let a = lib (GetBlocksAtHeightV2 block_height genesis_index restrict)
       in reply_bind (decode_query (answer_code a)) (\<lambda>_. Answer (answer_bytes a)))"

definition get_branches_v2 :: "v2_lib \<Rightarrow> bytes reply" where
  "get_branches_v2 lib = (let a = lib GetBranchesV2 in
     reply_bind (decode_query (answer_code a)) (\<lambda>_. Answer (answer_bytes a)))"

definition get_block_info_v2 :: "v2_lib \<Rightarrow> block_hash_input \<Rightarrow> (bytes \<times> bytes) reply" where
  "get_block_info_v2 lib block_hash =
     reply_bind (require_block block_hash) (\<lambda>b. block_query lib (GetBlockInfoV2 b))"

definition get_passive_delegation_info_v2 :: "v2_lib \<Rightarrow> block_hash_input \<Rightarrow> (bytes \<times> bytes) reply" where
  "get_passive_delegation_info_v2 lib block_hash =
     reply_bind (require_block block_hash) (\<lambda>b. block_query lib (GetPassiveDelegationInfoV2 b))"

definition get_tokenomics_info_v2 :: "v2_lib \<Rightarrow> block_hash_input \<Rightarrow> (bytes \<times> bytes) reply" where
  "get_tokenomics_info_v2 lib block_hash =
     reply_bind (require_block block_hash) (\<lambda>b. block_query lib (GetTokenomicsInfoV2 b))"

definition get_election_info_v2 :: "v2_lib \<Rightarrow> block_hash_input \<Rightarrow> (bytes \<times> bytes) reply" where
  "get_election_info_v2 lib block_hash =
     reply_bind (require_block block_hash) (\<lambda>b. block_query lib (GetElectionInfoV2 b))"

definition get_next_update_sequence_numbers_v2 :: "v2_lib \<Rightarrow> block_hash_input \<Rightarrow> (bytes \<times> bytes) reply" where
  "get_next_update_sequence_numbers_v2 lib block_hash =
     reply_bind (require_block block_hash) (\<lambda>b. block_query lib (GetNextUpdateSequenceNumbersV2 b))"

definition get_block_chain_parameters_v2 :: "v2_lib \<Rightarrow> block_hash_input \<Rightarrow> (bytes \<times> bytes) reply" where
  "get_block_chain_parameters_v2 lib block_hash =
     reply_bind (require_block block_hash) (\<lambda>b. block_query lib (GetBlockChainParametersV2 b))"

definition get_block_finalization_summary_v2 :: "v2_lib \<Rightarrow> block_hash_input \<Rightarrow> (bytes \<times> bytes) reply" where
  "get_block_finalization_summary_v2 lib block_hash =
     reply_bind (require_block block_hash) (\<lambda>b. block_query lib (GetBlockFinalizationSummaryV2 b))"

section \<open>Queries whose answer is streamed\<close>

text \<open>Only this one takes the sender back when the library reports a failure.\<close>

definition get_account_list_v2 :: "v2_lib \<Rightarrow> block_hash_input \<Rightarrow> bytes reply \<times> sender_fate" where
  "get_account_list_v2 lib block_hash = with_sender (require_block block_hash) (\<lambda>b.
     let a = lib (GetAccountListV2 b) in
     case query_response_try_from (answer_code a) of
       None \<Rightarrow> (Failure StatusInternal, SenderLeaked)
     | Some r \<Rightarrow> (case ensure_ok r of
           Inl c \<Rightarrow> (Failure c, SenderDropped)
         | Inr _ \<Rightarrow> (Answer (answer_hash a), SenderStreaming (answer_stream a))))"

definition get_module_list_v2 :: "v2_lib \<Rightarrow> block_hash_input \<Rightarrow> bytes reply \<times> sender_fate" where
  "get_module_list_v2 lib block_hash = with_sender (require_block block_hash) (\<lambda>b. stream_query lib (GetModuleListV2 b))"

definition get_instance_list_v2 :: "v2_lib \<Rightarrow> block_hash_input \<Rightarrow> bytes reply \<times> sender_fate" where
  "get_instance_list_v2 lib block_hash = with_sender (require_block block_hash) (\<lambda>b. stream_query lib (GetInstanceListV2 b))"

definition get_baker_list_v2 :: "v2_lib \<Rightarrow> block_hash_input \<Rightarrow> bytes reply \<times> sender_fate" where
  "get_baker_list_v2 lib block_hash = with_sender (require_block block_hash) (\<lambda>b. stream_query lib (GetBakerListV2 b))"

definition get_passive_delegators_v2 :: "v2_lib \<Rightarrow> block_hash_input \<Rightarrow> bytes reply \<times> sender_fate" where
  "get_passive_delegators_v2 lib block_hash = with_sender (require_block block_hash) (\<lambda>b. stream_query lib (GetPassiveDelegatorsV2 b))"

definition get_passive_delegators_reward_period_v2 :: "v2_lib \<Rightarrow> block_hash_input \<Rightarrow> bytes reply \<times> sender_fate" where
  "get_passive_delegators_reward_period_v2 lib block_hash = with_sender (require_block block_hash) (\<lambda>b. stream_query lib (GetPassiveDelegatorsRewardPeriodV2 b))"

definition get_identity_providers_v2 :: "v2_lib \<Rightarrow> block_hash_input \<Rightarrow> bytes reply \<times> sender_fate" where
  "get_identity_providers_v2 lib block_hash = with_sender (require_block block_hash) (\<lambda>b. stream_query lib (GetIdentityProvidersV2 b))"

definition get_anonymity_revokers_v2 :: "v2_lib \<Rightarrow> block_hash_input \<Rightarrow> bytes reply \<times> sender_fate" where
  "get_anonymity_revokers_v2 lib block_hash = with_sender (require_block block_hash) (\<lambda>b. stream_query lib (GetAnonymityRevokersV2 b))"

definition get_block_items_v2 :: "v2_lib \<Rightarrow> block_hash_input \<Rightarrow> bytes reply \<times> sender_fate" where
  "get_block_items_v2 lib block_hash = with_sender (require_block block_hash) (\<lambda>b. stream_query lib (GetBlockItemsV2 b))"

definition get_block_transaction_events_v2 :: "v2_lib \<Rightarrow> block_hash_input \<Rightarrow> bytes reply \<times> sender_fate" where
  "get_block_transaction_events_v2 lib block_hash = with_sender (require_block block_hash) (\<lambda>b. stream_query lib (GetBlockTransactionEventsV2 b))"

definition get_block_special_events_v2 :: "v2_lib \<Rightarrow> block_hash_input \<Rightarrow> bytes reply \<times> sender_fate" where
  "get_block_special_events_v2 lib block_hash = with_sender (require_block block_hash) (\<lambda>b. stream_query lib (GetBlockSpecialEventsV2 b))"

definition get_block_pending_updates_v2 :: "v2_lib \<Rightarrow> block_hash_input \<Rightarrow> bytes reply \<times> sender_fate" where
  "get_block_pending_updates_v2 lib block_hash = with_sender (require_block block_hash) (\<lambda>b. stream_query lib (GetBlockPendingUpdatesV2 b))"

definition get_ancestors_v2 :: "v2_lib \<Rightarrow> block_hash_input \<Rightarrow> u64 \<Rightarrow> bytes reply \<times> sender_fate" where
  "get_ancestors_v2 lib block_hash amount =
     with_sender (require_block block_hash) (\<lambda>b. stream_query lib (GetAncestorsV2 b amount))"

definition pool_ref :: "pool_request \<Rightarrow> (block_ref \<times> u64) reply" where
  "pool_ref request =
     reply_bind (require (pool_block request)) (\<lambda>bhi.
     reply_bind (require_block bhi) (\<lambda>b.
     reply_bind (require (pool_baker request)) (\<lambda>baker. Answer (b, baker_id_to_ffi baker))))"

definition get_pool_delegators_v2 :: "v2_lib \<Rightarrow> pool_request \<Rightarrow> bytes reply \<times> sender_fate" where
  "get_pool_delegators_v2 lib request =
     with_sender (pool_ref request) (\<lambda>(b, baker). stream_query lib (GetPoolDelegatorsV2 b baker))"

definition get_pool_delegators_reward_period_v2 :: "v2_lib \<Rightarrow> pool_request \<Rightarrow> bytes reply \<times> sender_fate" where
  "get_pool_delegators_reward_period_v2 lib request =
     with_sender (pool_ref request) (\<lambda>(b, baker). stream_query lib (GetPoolDelegatorsRewardPeriodV2 b baker))"

text \<open>This one returns no hash.\<close>

definition get_account_non_finalized_transactions_v2 :: "v2_lib \<Rightarrow> bytes \<Rightarrow> unit reply \<times> sender_fate" where
  "get_account_non_finalized_transactions_v2 lib account_address =
     (case with_sender (require (account_address_to_ffi account_address)) (\<lambda>ptr.
         stream_query lib (GetAccountNonFinalizedTransactionsV2 ptr)) of
        (r, fate) \<Rightarrow> (reply_map (\<lambda>_. ()) r, fate))"

end
