(* ===== verification/RpcCommon.thy ===== *)
theory RpcCommon
  imports Queries Maintenance
begin

text \<open>
  What the two versions of the gRPC interface share: the parts of the environment they read,
  replies made from results of the node, and the submission of a transaction, which both
  services spell out in the same way.
\<close>

text \<open>
  Parsing and printing of IP addresses, the text of the version and the uptime in milliseconds
  are inputs; the consensus library is seen through its answers.
\<close>

record 'cb rpc_env =
  rpc_lib :: "'cb consensus_lib"
  rpc_queries :: v2_lib
  rpc_base :: base_ops
  ip_from_str :: "string \<Rightarrow> ip_addr option"
  ip_to_string :: "ip_addr \<Rightarrow> string"
  version_text :: string
  uptime_ms :: int

definition reply_of_res :: "tonic_code \<Rightarrow> 'a res \<Rightarrow> 'a reply" where
  "reply_of_res c r = (case r of Ok x \<Rightarrow> Answer x | Err _ \<Rightarrow> Failure c | Panic \<Rightarrow> Crash)"

definition transaction_message :: "bytes \<Rightarrow> consensus_message" where
  "transaction_message t =
     \<lparr>direction = Outbound None, variant = Transaction, cm_payload = packet_type_tag Transaction # t,
      dont_relay_to = [], omit_status = None\<rparr>"

text \<open>
  A transaction the consensus layer accepts is queued to be broadcast; the reply tells when it
  could not be queued, or why it was not accepted.
\<close>

definition submit_transaction ::
    "'ns node_env \<Rightarrow> 'cb consensus_lib \<Rightarrow> bytes \<Rightarrow> 'ns node \<Rightarrow> bytes option reply \<times> 'ns node" where
  "submit_transaction env lib t n =
     (case ffi_send_transaction lib t of
        Ok (h, r) \<Rightarrow>
          if r = Success
          then (case send_out_message (channels env) (transaction_message t) (callback_queue n) of
                  (Ok _, q) \<Rightarrow> (Answer h, n\<lparr>callback_queue := q\<rparr>)
                | (Err _, q) \<Rightarrow> (Failure StatusInternal, n\<lparr>callback_queue := q\<rparr>)
                | (Panic, q) \<Rightarrow> (Crash, n\<lparr>callback_queue := q\<rparr>))
          else (Failure (if r = DuplicateEntry then StatusAlreadyExists else StatusInvalidArgument), n)
      | _ \<Rightarrow> (Crash, n))"

text \<open>Shutting the node down waits until every queue has room for the stop message.\<close>

definition close_node :: "'ns node_env \<Rightarrow> 'ns node \<Rightarrow> bool reply \<times> 'ns node" where
  "close_node env n =
     (case node_close env n of
        Some n' \<Rightarrow> (Answer True, n')
      | None \<Rightarrow> (Blocked, stop_network n))"

definition new_given_connection :: "'ns node_env \<Rightarrow> ip_addr \<Rightarrow> int \<Rightarrow> 'ns node \<Rightarrow> 'ns node" where
  "new_given_connection env ip port n =
     register_conn_change env (NewConn (SocketAddr ip (word_of_int port)) Node True) n"

end
