(* ===== verification/Rpc.thy ===== *)
theory Rpc
  imports RpcCommon
begin

text \<open>
  The first gRPC interface (\<^verbatim>\<open>rpc.rs\<close>): every call of \<^verbatim>\<open>RpcServerImpl\<close>. A handler takes the
  authentication token of the request and the state of the server, and returns its reply and the
  state it leaves. Integers of requests are unbounded here; the code reads 32 bits of them.
\<close>

section \<open>The server\<close>

record 'ns rpc_server =
  rpc_node :: "'ns node"
  disable_node_endpoints :: bool
  rpc_listen_addr :: socket_addr
  access_token :: string
  rpc_consensus :: "consensus_container option"

record rpc_cli_config =
  no_rpc_server :: bool
  no_rpc_server_node_endpoints :: bool
  rpc_server_port :: u16
  rpc_server_addr :: string
  rpc_server_token :: string

definition rpc_server_new ::
    "(string \<Rightarrow> ip_addr option) \<Rightarrow> 'ns node \<Rightarrow> consensus_container option \<Rightarrow> rpc_cli_config \<Rightarrow> 'ns rpc_server res" where
  "rpc_server_new ip_from n consensus conf =
     (case ip_from (rpc_server_addr conf) of
        None \<Rightarrow> Err (Bail ''invalid IP address syntax'')
      | Some ip \<Rightarrow> Ok \<lparr>rpc_node = n, disable_node_endpoints = no_rpc_server_node_endpoints conf,
          rpc_listen_addr = SocketAddr ip (rpc_server_port conf), access_token = rpc_server_token conf,
          rpc_consensus = consensus\<rparr>)"

record peer_element =
  el_node_id :: "string option"
  el_ip :: "string option"
  el_port :: "u32 option"
  el_catchup_status :: peer_status

record peer_traffic =
  tr_node_id :: string
  tr_packets_sent :: u64
  tr_packets_received :: u64
  tr_latency :: u64

record node_info_response =
  ni_node_id :: string
  ni_localtime :: u64
  ni_peer_type :: string
  ni_baker_running :: bool
  ni_running :: bool
  ni_consensus_type :: string
  ni_baker_committee :: baking_committee_response
  ni_finalizer_committee :: bool
  ni_baker_id :: "u64 option"

datatype rpc_body =
    RpcBool bool
  | RpcString string
  | RpcNumber u64
  | RpcJson string
  | RpcBytes bytes
  | RpcPeerStats "peer_traffic list" u64 u64
  | RpcPeerList string "peer_element list"
  | RpcNodeInfo node_info_response

type_synonym 'ns rpc_handler = "'ns rpc_server \<Rightarrow> rpc_body reply \<times> 'ns rpc_server"

text \<open>\<^verbatim>\<open>authenticate!\<close>: the token must be there, be a text, and be the configured one.\<close>

definition authenticate :: "string option \<Rightarrow> string \<Rightarrow> unit reply" where
  "authenticate auth token =
     (case auth of
        None \<Rightarrow> Failure StatusUnauthenticated
      | Some tok \<Rightarrow> if utf8_valid tok \<and> tok = token then Answer () else Failure StatusUnauthenticated)"

definition authenticated :: "string option \<Rightarrow> 'ns rpc_handler \<Rightarrow> 'ns rpc_handler" where
  "authenticated auth k s =
     (case authenticate auth (access_token s) of
        Answer _ \<Rightarrow> k s
      | Failure c \<Rightarrow> (Failure c, s)
      | Crash \<Rightarrow> (Crash, s)
      | Blocked \<Rightarrow> (Blocked, s))"

text \<open>The calls about the node itself can be disabled; those that change its peers also need a running network.\<close>

definition node_endpoint :: "string option \<Rightarrow> 'ns rpc_handler \<Rightarrow> 'ns rpc_handler" where
  "node_endpoint auth k s =
     (if disable_node_endpoints s then (Failure StatusUnimplemented, s) else authenticated auth k s)"

definition on_running_network :: "'ns rpc_handler \<Rightarrow> 'ns rpc_handler" where
  "on_running_network k s =
     (if is_network_stopped (rpc_node s) then (Failure StatusFailedPrecondition, s) else k s)"

definition rpc_reply :: "rpc_body reply \<Rightarrow> 'ns rpc_handler" where
  "rpc_reply r s = (r, s)"

definition on_rpc_node :: "('ns node \<Rightarrow> rpc_body reply \<times> 'ns node) \<Rightarrow> 'ns rpc_handler" where
  "on_rpc_node f s = (case f (rpc_node s) of (r, n) \<Rightarrow> (r, s\<lparr>rpc_node := n\<rparr>))"

section \<open>Peers\<close>

definition parse_ip :: "'cb rpc_env \<Rightarrow> string option \<Rightarrow> ip_addr reply" where
  "parse_ip renv ip =
     (case ip of
        None \<Rightarrow> Failure StatusInvalidArgument
      | Some t \<Rightarrow> require (ip_from_str renv t))"

text \<open>The port is cut to 16 bits.\<close>

definition peer_connect ::
    "'ns node_env \<Rightarrow> 'cb rpc_env \<Rightarrow> string option \<Rightarrow> string option \<Rightarrow> int option \<Rightarrow> 'ns rpc_handler" where
  "peer_connect env renv auth ip port = node_endpoint auth (on_running_network (on_rpc_node (\<lambda>n.
     case parse_ip renv ip of
       Answer addr \<Rightarrow>
         (case port of
            None \<Rightarrow> (Failure StatusInvalidArgument, n)
          | Some p \<Rightarrow> (Answer (RpcBool True), new_given_connection env addr p n))
     | r \<Rightarrow> (reply_map (\<lambda>_. RpcBool False) r, n))))"

definition peer_disconnect ::
    "'ns node_env \<Rightarrow> 'cb rpc_env \<Rightarrow> string option \<Rightarrow> string option \<Rightarrow> int option \<Rightarrow> 'ns rpc_handler" where
  "peer_disconnect env renv auth ip port = node_endpoint auth (on_running_network (on_rpc_node (\<lambda>n.
     case parse_ip renv ip of
       Answer addr \<Rightarrow>
         (case port of
            None \<Rightarrow> (Failure StatusInvalidArgument, n)
          | Some p \<Rightarrow>
              if 0 \<le> p \<and> p < 65536
              then (case drop_addr env (SocketAddr addr (word_of_int p)) n of (b, n') \<Rightarrow> (Answer (RpcBool b), n'))
              else (Failure StatusInvalidArgument, n))
     | r \<Rightarrow> (reply_map (\<lambda>_. RpcBool False) r, n))))"

definition peer_version :: "'cb rpc_env \<Rightarrow> string option \<Rightarrow> 'ns rpc_handler" where
  "peer_version renv auth = node_endpoint auth (rpc_reply (Answer (RpcString (version_text renv))))"

definition peer_uptime :: "'cb rpc_env \<Rightarrow> string option \<Rightarrow> 'ns rpc_handler" where
  "peer_uptime renv auth = node_endpoint auth (rpc_reply (Answer (RpcNumber (word_of_int (uptime_ms renv)))))"

definition peer_total_received :: "string option \<Rightarrow> 'ns rpc_handler" where
  "peer_total_received auth = node_endpoint auth (on_rpc_node (\<lambda>n. (Answer (RpcNumber (total_received n)), n)))"

definition peer_total_sent :: "string option \<Rightarrow> 'ns rpc_handler" where
  "peer_total_sent auth = node_endpoint auth (on_rpc_node (\<lambda>n. (Answer (RpcNumber (total_sent n)), n)))"

section \<open>Transactions\<close>

definition rpc_send_transaction ::
    "'ns node_env \<Rightarrow> 'cb rpc_env \<Rightarrow> string option \<Rightarrow> bytes \<Rightarrow> 'ns rpc_handler" where
  "rpc_send_transaction env renv auth transaction = authenticated auth (on_running_network (\<lambda>s.
     case rpc_consensus s of
       None \<Rightarrow> (Failure StatusInternal, s)
     | Some _ \<Rightarrow>
         if length transaction > PROTOCOL_MAX_TRANSACTION_SIZE then (Failure StatusInvalidArgument, s)
         else on_rpc_node (\<lambda>n. case submit_transaction env (rpc_lib renv) transaction n of
                (r, n') \<Rightarrow> (reply_map (\<lambda>_. RpcBool True) r, n')) s))"

section \<open>Networks\<close>

text \<open>An identifier below 100000 is accepted and cut to 16 bits.\<close>

definition network_change ::
    "(network_id \<Rightarrow> 'ns node \<Rightarrow> 'ns node) \<Rightarrow> int option \<Rightarrow> 'ns node \<Rightarrow> rpc_body reply \<times> 'ns node" where
  "network_change send network_id n =
     (case network_id of
        None \<Rightarrow> (Failure StatusInvalidArgument, n)
      | Some i \<Rightarrow>
          if i > 0 \<and> i < 100000 then (Answer (RpcBool True), send (word_of_int i) n)
          else (Failure StatusInvalidArgument, n))"

definition join_network :: "'ns node_env \<Rightarrow> string option \<Rightarrow> int option \<Rightarrow> 'ns rpc_handler" where
  "join_network env auth network_id = node_endpoint auth (on_running_network
     (on_rpc_node (network_change (send_join_network env) network_id)))"

definition leave_network :: "'ns node_env \<Rightarrow> string option \<Rightarrow> int option \<Rightarrow> 'ns rpc_handler" where
  "leave_network env auth network_id = node_endpoint auth (on_running_network
     (on_rpc_node (network_change (send_leave_network env) network_id)))"

section \<open>Statistics\<close>

definition listed_peers :: "bool \<Rightarrow> 'ns node \<Rightarrow> peer_stats list res" where
  "listed_peers include_bootstrappers n =
     res_bind (get_peer_stats None n) (\<lambda>ps.
       Ok (filter (\<lambda>p. ps_peer_type p = Node \<or> include_bootstrappers) ps))"

definition rpc_peer_stats :: "string option \<Rightarrow> bool \<Rightarrow> 'ns rpc_handler" where
  "rpc_peer_stats auth include_bootstrappers = node_endpoint auth (on_rpc_node (\<lambda>n.
     (reply_map (\<lambda>ps. RpcPeerStats
         (map (\<lambda>p. \<lparr>tr_node_id = node_id_to_string (ps_self_id p), tr_packets_sent = ps_msgs_sent p,
                     tr_packets_received = ps_msgs_received p, tr_latency = ps_latency p\<rparr>) ps)
         (avg_bps_in (export n)) (avg_bps_out (export n)))
        (reply_of_res StatusInternal (listed_peers include_bootstrappers n)), n)))"

definition rpc_peer_list :: "'cb rpc_env \<Rightarrow> string option \<Rightarrow> bool \<Rightarrow> 'ns rpc_handler" where
  "rpc_peer_list renv auth include_bootstrappers = node_endpoint auth (on_rpc_node (\<lambda>n.
     (reply_map (\<lambda>ps. RpcPeerList (peer_type_to_string (peer_type_of n))
         (map (\<lambda>p. \<lparr>el_node_id = Some (node_id_to_string (ps_self_id p)),
                     el_ip = Some (ip_to_string renv (addr_ip (ps_addr p))),
                     el_port = Some (ucast (addr_port (ps_addr p))),
                     el_catchup_status = (case map_of (peer_states (node_peers n)) (ps_local_id p) of
                        Some st \<Rightarrow> st | None \<Rightarrow> Pending)\<rparr>) ps))
        (reply_of_res StatusInternal (listed_peers include_bootstrappers n)), n)))"

definition consensus_type_to_string :: "consensus_type \<Rightarrow> string" where
  "consensus_type_to_string t = (case t of Active \<Rightarrow> ''Active'' | Passive \<Rightarrow> ''Passive'')"

definition consensus_node_info ::
    "'cb consensus_lib \<Rightarrow> consensus_container \<Rightarrow> node_info_response \<Rightarrow> node_info_response res" where
  "consensus_node_info lib cc info =
     res_bind (in_baking_committee lib) (\<lambda>(committee, has_baker_id, pre_baker_id).
     res_bind (is_consensus_running lib) (\<lambda>running.
     res_bind (in_finalization_committee lib) (\<lambda>finalizer.
       Ok (info\<lparr>ni_baker_running := running \<and> is_baking cc, ni_running := running,
                ni_consensus_type := consensus_type_to_string (consensus_type cc),
                ni_baker_committee := committee, ni_finalizer_committee := finalizer,
                ni_baker_id := (if has_baker_id then Some pre_baker_id else None)\<rparr>))))"

definition rpc_node_info :: "'ns node_env \<Rightarrow> 'cb rpc_env \<Rightarrow> string option \<Rightarrow> 'ns rpc_handler" where
  "rpc_node_info env renv auth = node_endpoint auth (\<lambda>s.
     let inactive = \<lparr>ni_node_id = node_id_to_string (p2p_id (self_peer (rpc_node s))),
           ni_localtime = now_ms env div 1000, ni_peer_type = peer_type_to_string (peer_type_of (rpc_node s)),
           ni_baker_running = False, ni_running = False, ni_consensus_type = ''Inactive'',
           ni_baker_committee = BakingNotInCommittee, ni_finalizer_committee = False, ni_baker_id = None\<rparr>
     in (case rpc_consensus s of
           None \<Rightarrow> Answer (RpcNodeInfo inactive)
         | Some cc \<Rightarrow> reply_map RpcNodeInfo (reply_of_res StatusInternal (consensus_node_info (rpc_lib renv) cc inactive)), s))"

section \<open>Bans\<close>

definition ban_node ::
    "'ns node_env \<Rightarrow> 'cb rpc_env \<Rightarrow> string option \<Rightarrow> string option \<Rightarrow> string option \<Rightarrow> 'ns rpc_handler" where
  "ban_node env renv auth node_id ip = node_endpoint auth (on_rpc_node (\<lambda>n.
     case (node_id, ip) of
       (Some i, None) \<Rightarrow>
         (case remote_peer_id_from_str i of
            Ok p \<Rightarrow> (case drop_by_id env p n of (b, n') \<Rightarrow> (Answer (RpcBool b), n'))
          | _ \<Rightarrow> (Failure StatusInvalidArgument, n))
     | (None, Some a) \<Rightarrow>
         (case ip_from_str renv a of
            Some addr \<Rightarrow> (case drop_by_ip_and_ban env addr n of
                (r, n') \<Rightarrow> (reply_map RpcBool (reply_of_res StatusAborted r), n'))
          | None \<Rightarrow> (Failure StatusInvalidArgument, n))
     | _ \<Rightarrow> (Failure StatusInvalidArgument, n)))"

definition rpc_unban_node ::
    "'ns node_env \<Rightarrow> 'cb rpc_env \<Rightarrow> string option \<Rightarrow> string option \<Rightarrow> 'ns rpc_handler" where
  "rpc_unban_node env renv auth ip = node_endpoint auth (on_rpc_node (\<lambda>n.
     case Option.bind ip (ip_from_str renv) of
       Some addr \<Rightarrow> (case unban_node env (PersistedIp addr) n of
           (r, n') \<Rightarrow> (reply_map (\<lambda>_. RpcBool True) (reply_of_res StatusAborted r), n'))
     | None \<Rightarrow> (Failure StatusInvalidArgument, n)))"

text \<open>The list is empty when it cannot be read.\<close>

definition rpc_get_banned_peers :: "'ns node_env \<Rightarrow> 'cb rpc_env \<Rightarrow> string option \<Rightarrow> 'ns rpc_handler" where
  "rpc_get_banned_peers env renv auth = node_endpoint auth (on_rpc_node (\<lambda>n.
     (case get_banlist env n of
        Ok banlist \<Rightarrow> Answer (RpcPeerList ''Node'' (map (\<lambda>b. case b of PersistedIp addr \<Rightarrow>
            \<lparr>el_node_id = Some ''*'', el_ip = Some (ip_to_string renv addr), el_port = None,
             el_catchup_status = Pending\<rparr>) banlist))
      | Err _ \<Rightarrow> Answer (RpcPeerList ''Node'' [])
      | Panic \<Rightarrow> Crash, n)))"

definition rpc_shutdown :: "'ns node_env \<Rightarrow> string option \<Rightarrow> 'ns rpc_handler" where
  "rpc_shutdown env auth = node_endpoint auth (on_rpc_node (\<lambda>n.
     case close_node env n of (r, n') \<Rightarrow> (reply_map RpcBool r, n')))"

text \<open>Without the feature \<^verbatim>\<open>network_dump\<close>, which is off by default.\<close>

definition dump_start :: "string option \<Rightarrow> 'ns rpc_handler" where
  "dump_start auth = node_endpoint auth (rpc_reply (Failure StatusUnavailable))"

definition dump_stop :: "string option \<Rightarrow> 'ns rpc_handler" where
  "dump_stop auth = node_endpoint auth (rpc_reply (Failure StatusUnavailable))"

section \<open>Queries to the consensus layer\<close>

text \<open>\<^verbatim>\<open>call_consensus!\<close>\<close>

definition call_consensus_with ::
    "'cb rpc_env \<Rightarrow> (consensus_container \<Rightarrow> rpc_body res \<times> consensus_container) \<Rightarrow> 'ns rpc_handler" where
  "call_consensus_with renv f s =
     (case rpc_consensus s of
        None \<Rightarrow> (Failure StatusFailedPrecondition, s)
      | Some cc \<Rightarrow>
          if runner_is_null (rpc_lib renv) then (Failure StatusInternal, s)
          else case f cc of (r, cc') \<Rightarrow> (reply_of_res StatusInvalidArgument r, s\<lparr>rpc_consensus := Some cc'\<rparr>))"

definition rpc_start_baker :: "'cb rpc_env \<Rightarrow> string option \<Rightarrow> 'ns rpc_handler" where
  "rpc_start_baker renv auth = node_endpoint auth (call_consensus_with renv (\<lambda>cc.
     case start_baker cc of (b, cc') \<Rightarrow> (Ok (RpcBool b), cc')))"

definition rpc_stop_baker :: "'cb rpc_env \<Rightarrow> string option \<Rightarrow> 'ns rpc_handler" where
  "rpc_stop_baker renv auth = node_endpoint auth (call_consensus_with renv (\<lambda>cc.
     case stop_baker cc of (b, cc') \<Rightarrow> (Ok (RpcBool b), cc')))"

definition json_query :: "'cb rpc_env \<Rightarrow> string option \<Rightarrow> ('cb consensus_lib \<Rightarrow> string res) \<Rightarrow> 'ns rpc_handler" where
  "json_query renv auth f = authenticated auth (call_consensus_with renv (\<lambda>cc.
     (res_bind (f (rpc_lib renv)) (\<lambda>j. Ok (RpcJson j)), cc)))"

definition rpc_get_consensus_status :: "'cb rpc_env \<Rightarrow> string option \<Rightarrow> 'ns rpc_handler" where
  "rpc_get_consensus_status renv auth = json_query renv auth (\<lambda>lib. get_consensus_status lib)"

definition rpc_get_branches :: "'cb rpc_env \<Rightarrow> string option \<Rightarrow> 'ns rpc_handler" where
  "rpc_get_branches renv auth = json_query renv auth (\<lambda>lib. get_branches lib)"

definition rpc_get_block_info :: "'cb rpc_env \<Rightarrow> string option \<Rightarrow> string \<Rightarrow> 'ns rpc_handler" where
  "rpc_get_block_info renv auth a = json_query renv auth (\<lambda>lib. get_block_info lib a)"

definition rpc_get_ancestors :: "'cb rpc_env \<Rightarrow> string option \<Rightarrow> string \<Rightarrow> u64 \<Rightarrow> 'ns rpc_handler" where
  "rpc_get_ancestors renv auth a b = json_query renv auth (\<lambda>lib. get_ancestors lib a b)"

definition rpc_get_blocks_at_height :: "'cb rpc_env \<Rightarrow> string option \<Rightarrow> u64 \<Rightarrow> u32 \<Rightarrow> bool \<Rightarrow> 'ns rpc_handler" where
  "rpc_get_blocks_at_height renv auth a b c = json_query renv auth (\<lambda>lib. get_blocks_at_height lib a b c)"

definition rpc_get_account_list :: "'cb rpc_env \<Rightarrow> string option \<Rightarrow> string \<Rightarrow> 'ns rpc_handler" where
  "rpc_get_account_list renv auth a = json_query renv auth (\<lambda>lib. get_account_list lib a)"

definition rpc_get_instances :: "'cb rpc_env \<Rightarrow> string option \<Rightarrow> string \<Rightarrow> 'ns rpc_handler" where
  "rpc_get_instances renv auth a = json_query renv auth (\<lambda>lib. get_instances lib a)"

definition rpc_get_account_info :: "'cb rpc_env \<Rightarrow> string option \<Rightarrow> string \<Rightarrow> string \<Rightarrow> 'ns rpc_handler" where
  "rpc_get_account_info renv auth a b = json_query renv auth (\<lambda>lib. get_account_info lib a b)"

definition rpc_get_instance_info :: "'cb rpc_env \<Rightarrow> string option \<Rightarrow> string \<Rightarrow> string \<Rightarrow> 'ns rpc_handler" where
  "rpc_get_instance_info renv auth a b = json_query renv auth (\<lambda>lib. get_instance_info lib a b)"

definition rpc_invoke_contract :: "'cb rpc_env \<Rightarrow> string option \<Rightarrow> string \<Rightarrow> string \<Rightarrow> 'ns rpc_handler" where
  "rpc_invoke_contract renv auth a b = json_query renv auth (\<lambda>lib. invoke_contract lib a b)"

definition rpc_get_reward_status :: "'cb rpc_env \<Rightarrow> string option \<Rightarrow> string \<Rightarrow> 'ns rpc_handler" where
  "rpc_get_reward_status renv auth a = json_query renv auth (\<lambda>lib. get_reward_status lib a)"

definition rpc_get_birk_parameters :: "'cb rpc_env \<Rightarrow> string option \<Rightarrow> string \<Rightarrow> 'ns rpc_handler" where
  "rpc_get_birk_parameters renv auth a = json_query renv auth (\<lambda>lib. get_birk_parameters lib a)"

definition rpc_get_module_list :: "'cb rpc_env \<Rightarrow> string option \<Rightarrow> string \<Rightarrow> 'ns rpc_handler" where
  "rpc_get_module_list renv auth a = json_query renv auth (\<lambda>lib. get_module_list lib a)"

definition rpc_get_identity_providers :: "'cb rpc_env \<Rightarrow> string option \<Rightarrow> string \<Rightarrow> 'ns rpc_handler" where
  "rpc_get_identity_providers renv auth a = json_query renv auth (\<lambda>lib. get_identity_providers lib a)"

definition rpc_get_anonymity_revokers :: "'cb rpc_env \<Rightarrow> string option \<Rightarrow> string \<Rightarrow> 'ns rpc_handler" where
  "rpc_get_anonymity_revokers renv auth a = json_query renv auth (\<lambda>lib. get_anonymity_revokers lib a)"

definition rpc_get_baker_list :: "'cb rpc_env \<Rightarrow> string option \<Rightarrow> string \<Rightarrow> 'ns rpc_handler" where
  "rpc_get_baker_list renv auth a = json_query renv auth (\<lambda>lib. get_baker_list lib a)"

definition rpc_get_pool_status :: "'cb rpc_env \<Rightarrow> string option \<Rightarrow> string \<Rightarrow> bool \<Rightarrow> u64 \<Rightarrow> 'ns rpc_handler" where
  "rpc_get_pool_status renv auth a b c = json_query renv auth (\<lambda>lib. get_pool_status lib a b c)"

definition rpc_get_transaction_status :: "'cb rpc_env \<Rightarrow> string option \<Rightarrow> string \<Rightarrow> 'ns rpc_handler" where
  "rpc_get_transaction_status renv auth a = json_query renv auth (\<lambda>lib. get_transaction_status lib a)"

definition rpc_get_transaction_status_in_block :: "'cb rpc_env \<Rightarrow> string option \<Rightarrow> string \<Rightarrow> string \<Rightarrow> 'ns rpc_handler" where
  "rpc_get_transaction_status_in_block renv auth a b = json_query renv auth (\<lambda>lib. get_transaction_status_in_block lib a b)"

definition rpc_get_account_non_finalized_transactions :: "'cb rpc_env \<Rightarrow> string option \<Rightarrow> string \<Rightarrow> 'ns rpc_handler" where
  "rpc_get_account_non_finalized_transactions renv auth a = json_query renv auth (\<lambda>lib. get_account_non_finalized_transactions lib a)"

definition rpc_get_next_account_nonce :: "'cb rpc_env \<Rightarrow> string option \<Rightarrow> string \<Rightarrow> 'ns rpc_handler" where
  "rpc_get_next_account_nonce renv auth a = json_query renv auth (\<lambda>lib. get_next_account_nonce lib a)"

definition rpc_get_block_summary :: "'cb rpc_env \<Rightarrow> string option \<Rightarrow> string \<Rightarrow> 'ns rpc_handler" where
  "rpc_get_block_summary renv auth a = json_query renv auth (\<lambda>lib. get_block_summary lib a)"

definition rpc_get_cryptographic_parameters :: "'cb rpc_env \<Rightarrow> string option \<Rightarrow> string \<Rightarrow> 'ns rpc_handler" where
  "rpc_get_cryptographic_parameters renv auth a = json_query renv auth (\<lambda>lib. get_cryptographic_parameters lib a)"

definition rpc_get_module_source :: "'cb rpc_env \<Rightarrow> string option \<Rightarrow> string \<Rightarrow> string \<Rightarrow> 'ns rpc_handler" where
  "rpc_get_module_source renv auth a b = authenticated auth (call_consensus_with renv (\<lambda>cc.
     (res_bind (get_module_source (rpc_lib renv) a b) (\<lambda>m. Ok (RpcBytes m)), cc)))"

section \<open>All calls\<close>

datatype (plugins only: code) rpc_request =
    RpcPeerConnect "string option" "int option"
  | RpcPeerDisconnect "string option" "int option"
  | RpcPeerVersion
  | RpcPeerUptime
  | RpcPeerTotalReceived
  | RpcPeerTotalSent
  | RpcSendTransaction bytes
  | RpcJoinNetwork "int option"
  | RpcLeaveNetwork "int option"
  | RpcGetPeerStats bool
  | RpcGetPeerList bool
  | RpcGetNodeInfo
  | RpcBanNode "string option" "string option"
  | RpcUnbanNode "string option"
  | RpcGetBannedPeers
  | RpcShutdown
  | RpcDumpStart
  | RpcDumpStop
  | RpcStartBaker
  | RpcStopBaker
  | RpcGetConsensusStatus
  | RpcGetBranches
  | RpcGetBlockInfo string
  | RpcGetAncestors string u64
  | RpcGetBlocksAtHeight u64 u32 bool
  | RpcGetAccountList string
  | RpcGetInstances string
  | RpcGetAccountInfo string string
  | RpcGetInstanceInfo string string
  | RpcInvokeContract string string
  | RpcGetRewardStatus string
  | RpcGetBirkParameters string
  | RpcGetModuleList string
  | RpcGetIdentityProviders string
  | RpcGetAnonymityRevokers string
  | RpcGetBakerList string
  | RpcGetPoolStatus string bool u64
  | RpcGetTransactionStatus string
  | RpcGetTransactionStatusInBlock string string
  | RpcGetAccountNonFinalizedTransactions string
  | RpcGetNextAccountNonce string
  | RpcGetBlockSummary string
  | RpcGetCryptographicParameters string
  | RpcGetModuleSource string string

definition rpc_handle ::
    "'ns node_env \<Rightarrow> 'cb rpc_env \<Rightarrow> string option \<Rightarrow> rpc_request \<Rightarrow> 'ns rpc_handler" where
  "rpc_handle env renv auth req =
     (case req of
        RpcPeerConnect a b \<Rightarrow> peer_connect env renv auth a b
      | RpcPeerDisconnect a b \<Rightarrow> peer_disconnect env renv auth a b
      | RpcPeerVersion \<Rightarrow> peer_version renv auth
      | RpcPeerUptime \<Rightarrow> peer_uptime renv auth
      | RpcPeerTotalReceived \<Rightarrow> peer_total_received auth
      | RpcPeerTotalSent \<Rightarrow> peer_total_sent auth
      | RpcSendTransaction a \<Rightarrow> rpc_send_transaction env renv auth a
      | RpcJoinNetwork a \<Rightarrow> join_network env auth a
      | RpcLeaveNetwork a \<Rightarrow> leave_network env auth a
      | RpcGetPeerStats a \<Rightarrow> rpc_peer_stats auth a
      | RpcGetPeerList a \<Rightarrow> rpc_peer_list renv auth a
      | RpcGetNodeInfo \<Rightarrow> rpc_node_info env renv auth
      | RpcBanNode a b \<Rightarrow> ban_node env renv auth a b
      | RpcUnbanNode a \<Rightarrow> rpc_unban_node env renv auth a
      | RpcGetBannedPeers \<Rightarrow> rpc_get_banned_peers env renv auth
      | RpcShutdown \<Rightarrow> rpc_shutdown env auth
      | RpcDumpStart \<Rightarrow> dump_start auth
      | RpcDumpStop \<Rightarrow> dump_stop auth
      | RpcStartBaker \<Rightarrow> rpc_start_baker renv auth
      | RpcStopBaker \<Rightarrow> rpc_stop_baker renv auth
      | RpcGetConsensusStatus \<Rightarrow> rpc_get_consensus_status renv auth
      | RpcGetBranches \<Rightarrow> rpc_get_branches renv auth
      | RpcGetBlockInfo a \<Rightarrow> rpc_get_block_info renv auth a
      | RpcGetAncestors a b \<Rightarrow> rpc_get_ancestors renv auth a b
      | RpcGetBlocksAtHeight a b c \<Rightarrow> rpc_get_blocks_at_height renv auth a b c
      | RpcGetAccountList a \<Rightarrow> rpc_get_account_list renv auth a
      | RpcGetInstances a \<Rightarrow> rpc_get_instances renv auth a
      | RpcGetAccountInfo a b \<Rightarrow> rpc_get_account_info renv auth a b
      | RpcGetInstanceInfo a b \<Rightarrow> rpc_get_instance_info renv auth a b
      | RpcInvokeContract a b \<Rightarrow> rpc_invoke_contract renv auth a b
      | RpcGetRewardStatus a \<Rightarrow> rpc_get_reward_status renv auth a
      | RpcGetBirkParameters a \<Rightarrow> rpc_get_birk_parameters renv auth a
      | RpcGetModuleList a \<Rightarrow> rpc_get_module_list renv auth a
      | RpcGetIdentityProviders a \<Rightarrow> rpc_get_identity_providers renv auth a
      | RpcGetAnonymityRevokers a \<Rightarrow> rpc_get_anonymity_revokers renv auth a
      | RpcGetBakerList a \<Rightarrow> rpc_get_baker_list renv auth a
      | RpcGetPoolStatus a b c \<Rightarrow> rpc_get_pool_status renv auth a b c
      | RpcGetTransactionStatus a \<Rightarrow> rpc_get_transaction_status renv auth a
      | RpcGetTransactionStatusInBlock a b \<Rightarrow> rpc_get_transaction_status_in_block renv auth a b
      | RpcGetAccountNonFinalizedTransactions a \<Rightarrow> rpc_get_account_non_finalized_transactions renv auth a
      | RpcGetNextAccountNonce a \<Rightarrow> rpc_get_next_account_nonce renv auth a
      | RpcGetBlockSummary a \<Rightarrow> rpc_get_block_summary renv auth a
      | RpcGetCryptographicParameters a \<Rightarrow> rpc_get_cryptographic_parameters renv auth a
      | RpcGetModuleSource a b \<Rightarrow> rpc_get_module_source renv auth a b)"

end
