(* ===== verification/Grpc2.thy ===== *)
theory Grpc2
  imports RpcCommon
begin

text \<open>
  The second gRPC interface (\<^verbatim>\<open>grpc2.rs\<close>, module \<^verbatim>\<open>server\<close>): the configuration of the endpoints, the
  relay of blocks to the clients that listen for them, and every call of the service. The state
  of the server also counts the senders of streams that are never freed.
\<close>

section \<open>Endpoints\<close>

text \<open>The configuration says which endpoints are enabled; those that a file does not list are not.\<close>

datatype (plugins only: code) endpoint =
    EpGetFinalizedBlocks | EpGetBlocks | EpGetAccountList | EpGetAccountInfo | EpGetModuleList
  | EpGetModuleSource | EpGetInstanceList | EpGetInstanceInfo | EpGetInstanceState
  | EpInstanceStateLookup | EpGetNextAccountSequenceNumber | EpGetConsensusInfo | EpGetAncestors
  | EpGetBlockItemStatus | EpInvokeInstance | EpGetCryptographicParameters | EpGetBlockInfo
  | EpGetBakerList | EpGetPoolInfo | EpGetPassiveDelegationInfo | EpGetBlocksAtHeight
  | EpGetTokenomicsInfo | EpGetPoolDelegators | EpGetPoolDelegatorsRewardPeriod
  | EpGetPassiveDelegators | EpGetPassiveDelegatorsRewardPeriod | EpGetBranches | EpGetElectionInfo
  | EpGetIdentityProviders | EpGetAnonymityRevokers | EpGetAccountNonFinalizedTransactions
  | EpGetBlockTransactionEvents | EpGetBlockSpecialEvents | EpGetBlockPendingUpdates
  | EpGetNextUpdateSequenceNumbers | EpGetBlockChainParameters | EpGetBlockFinalizationSummary
  | EpShutdown | EpPeerConnect | EpPeerDisconnect | EpGetBannedPeers | EpBanPeer | EpUnbanPeer
  | EpDumpStart | EpDumpStop | EpGetPeersInfo | EpGetNodeInfo | EpSendBlockItem
  | EpGetAccountTransactionSignHash | EpGetBlockItems

type_synonym service_config = "endpoint \<Rightarrow> bool"

definition new_all_enabled :: service_config where
  "new_all_enabled = (\<lambda>_. True)"

definition config_from_file :: "((endpoint \<times> bool) list) option \<Rightarrow> service_config res" where
  "config_from_file contents =
     (case contents of
        None \<Rightarrow> Err (Bail ''Unable to parse the endpoints configuration file.'')
      | Some entries \<Rightarrow> Ok (\<lambda>e. case map_of entries e of Some b \<Rightarrow> b | None \<Rightarrow> False))"

section \<open>The server\<close>

text \<open>
  A client that listens for blocks is the channel to it: what waits in it, and whether the client
  is still there. The list of clients is behind a lock that a panic would poison.
\<close>

record client =
  client_queue :: "bytes list"
  client_open :: bool

record clients =
  client_list :: "client list"
  clients_poisoned :: bool

record 'ns grpc2_server =
  service_config :: service_config
  g2_node :: "'ns node"
  g2_consensus :: consensus_container
  blocks_channels :: clients
  finalized_blocks_channels :: clients
  leaked_senders :: nat

text \<open>Clients that are full miss the block, clients that are gone are forgotten.\<close>

definition CLIENT_BUFFER :: nat where
  "CLIENT_BUFFER = 100"

fun relay_to_clients :: "mpsc_ops \<Rightarrow> bytes \<Rightarrow> client list \<Rightarrow> client list" where
  "relay_to_clients try_send v [] = []"
| "relay_to_clients try_send v (c # cs) =
     (case try_send CLIENT_BUFFER (client_open c) (client_queue c) v of
        Sent q \<Rightarrow> c\<lparr>client_queue := q\<rparr> # relay_to_clients try_send v cs
      | SendFull \<Rightarrow> c # relay_to_clients try_send v cs
      | SendClosed \<Rightarrow> relay_to_clients try_send v cs)"

definition relay_block :: "mpsc_ops \<Rightarrow> bytes \<Rightarrow> clients \<Rightarrow> clients" where
  "relay_block try_send v cs =
     (if clients_poisoned cs then cs else cs\<lparr>client_list := relay_to_clients try_send v (client_list cs)\<rparr>)"

text \<open>Starting the server: TLS needs both the certificate and the key.\<close>

record grpc2_config =
  listen_addr :: "ip_addr option"
  listen_port :: "u16 option"
  x509_cert :: "string option"
  cert_private_key :: "string option"
  endpoint_config :: "string option"
  enable_grpc_web :: bool
  health_max_finalized_delay :: u64

record tls_files =
  read_file :: "string \<Rightarrow> bytes option"
  parse_endpoints :: "bytes \<Rightarrow> (endpoint \<times> bool) list option"
  tls_config_ok :: "bytes \<Rightarrow> bytes \<Rightarrow> bool"

definition server_identity :: "tls_files \<Rightarrow> grpc2_config \<Rightarrow> (bytes \<times> bytes) option res" where
  "server_identity fs conf =
     (case (x509_cert conf, cert_private_key conf) of
        (None, None) \<Rightarrow> Ok None
      | (None, Some _) \<Rightarrow> Err (Bail ''Private key supplied, but not the certificate.'')
      | (Some _, None) \<Rightarrow> Err (Bail ''Certificate supplied, but not the private key.'')
      | (Some cert_path, Some key_path) \<Rightarrow>
          (case read_file fs cert_path of
             None \<Rightarrow> Err (Bail ''Unable to read certificate.'')
           | Some cert \<Rightarrow>
               (case read_file fs key_path of
                  None \<Rightarrow> Err (Bail ''Unable to read key.'')
                | Some key \<Rightarrow> Ok (Some (cert, key)))))"

definition server_endpoints :: "tls_files \<Rightarrow> grpc2_config \<Rightarrow> service_config res" where
  "server_endpoints fs conf =
     (case endpoint_config conf of
        None \<Rightarrow> Ok new_all_enabled
      | Some source \<Rightarrow>
          (case read_file fs source of
             None \<Rightarrow> Err (Bail ''Unable to read the endpoints configuration file.'')
           | Some contents \<Rightarrow> config_from_file (parse_endpoints fs contents)))"

text \<open>
  What is served, on which address, with which identity, whether web clients need HTTP/1, and the
  delay that the health check tolerates.
\<close>

record 'ns grpc2_listener =
  g2_server :: "'ns grpc2_server"
  g2_address :: socket_addr
  g2_identity :: "(bytes \<times> bytes) option"
  g2_accept_http1 :: bool
  g2_web :: bool
  health_max_finalization_delay :: u64

definition grpc2_new ::
    "tls_files \<Rightarrow> 'ns node \<Rightarrow> consensus_container \<Rightarrow> grpc2_config \<Rightarrow> 'ns grpc2_listener option res" where
  "grpc2_new fs n cc conf =
     (case listen_addr conf of
        None \<Rightarrow> Ok None
      | Some addr \<Rightarrow>
          (case listen_port conf of
             None \<Rightarrow> Err (Bail ''Missing GRPC port'')
           | Some port \<Rightarrow>
               res_bind (server_endpoints fs conf) (\<lambda>endpoints.
               res_bind (server_identity fs conf) (\<lambda>identity.
                 if (case identity of Some (cert, key) \<Rightarrow> \<not> tls_config_ok fs cert key | None \<Rightarrow> False)
                 then Err (Bail ''Unable to configure TLS.'')
                 else Ok (Some
                   \<lparr>g2_server = \<lparr>service_config = endpoints, g2_node = n, g2_consensus = cc,
                      blocks_channels = \<lparr>client_list = [], clients_poisoned = False\<rparr>,
                      finalized_blocks_channels = \<lparr>client_list = [], clients_poisoned = False\<rparr>, leaked_senders = 0\<rparr>,
                    g2_address = SocketAddr addr port, g2_identity = identity,
                    g2_accept_http1 = (identity = None \<and> enable_grpc_web conf), g2_web = enable_grpc_web conf,
                    health_max_finalization_delay = health_max_finalized_delay conf\<rparr>)))))"

section \<open>Responses\<close>

datatype consensus_status_info =
    NotRunning
  | PassiveNode
  | ActiveFinalizer u64
  | ActiveBaker u64
  | PassiveCommittee u64 baking_committee_response

datatype node_details = BootstrapperDetails | NodeDetails consensus_status_info

record network_info =
  nwi_node_id :: string
  nwi_total_sent :: u64
  nwi_total_received :: u64
  nwi_avg_bps_in :: u64
  nwi_avg_bps_out :: u64

record g2_node_info =
  gi_version :: string
  gi_local_time :: u64
  gi_uptime :: u64
  gi_network :: network_info
  gi_details :: node_details

datatype peer_consensus_info = PeerBootstrapper | PeerCatchup peer_status

record g2_peer =
  gp_id :: string
  gp_ip :: string
  gp_port :: u32
  gp_consensus :: peer_consensus_info
  gp_sent :: u64
  gp_received :: u64
  gp_latency :: u64

datatype grpc2_body =
    BodyEmpty
  | BodyBytes bytes
  | BodyStream stream_state
  | BodyPairs "(bytes \<times> bytes) list"
  | BodyCrypto string bytes bytes
  | BodySubscription
  | BodyBanned "string list"
  | BodyPeers "g2_peer list"
  | BodyNodeInfo g2_node_info

record response =
  meta_blockhash :: "string option"
  resp_body :: grpc2_body

type_synonym 'ns g2_handler = "'ns grpc2_server \<Rightarrow> response reply \<times> 'ns grpc2_server"

definition hex_encode :: "bytes \<Rightarrow> string" where
  "hex_encode bs = concat (map (\<lambda>b. hex_digits 2 (unat b)) bs)"

definition add_hash :: "bytes \<Rightarrow> grpc2_body \<Rightarrow> response" where
  "add_hash hash b = \<lparr>meta_blockhash = Some (hex_encode hash), resp_body = b\<rparr>"

definition plain :: "grpc2_body \<Rightarrow> response" where
  "plain b = \<lparr>meta_blockhash = None, resp_body = b\<rparr>"

definition enabled :: "endpoint \<Rightarrow> 'ns g2_handler \<Rightarrow> 'ns g2_handler" where
  "enabled e k s = (if \<not> service_config s e then (Failure StatusUnimplemented, s) else k s)"

definition g2_reply :: "response reply \<Rightarrow> 'ns g2_handler" where
  "g2_reply r s = (r, s)"

definition hashed_bytes :: "(bytes \<times> bytes) reply \<Rightarrow> response reply" where
  "hashed_bytes r = reply_map (\<lambda>(hash, data). add_hash hash (BodyBytes data)) r"

definition plain_bytes :: "bytes reply \<Rightarrow> response reply" where
  "plain_bytes r = reply_map (\<lambda>data. plain (BodyBytes data)) r"

definition on_g2_node :: "('ns node \<Rightarrow> response reply \<times> 'ns node) \<Rightarrow> 'ns g2_handler" where
  "on_g2_node f s = (case f (g2_node s) of (r, n) \<Rightarrow> (r, s\<lparr>g2_node := n\<rparr>))"

text \<open>
  The capacity of a channel of the crate \<^verbatim>\<open>futures\<close> is its buffer and one more for the sender. A
  failed query may leave its sender behind.
\<close>

definition fate_stream :: "nat \<Rightarrow> sender_fate \<Rightarrow> stream_state" where
  "fate_stream buffer fate = stream_start (buffer + 1) (case fate of SenderStreaming msgs \<Rightarrow> msgs | _ \<Rightarrow> [])"

definition record_fate :: "sender_fate \<Rightarrow> 'ns grpc2_server \<Rightarrow> 'ns grpc2_server" where
  "record_fate fate s = (case fate of SenderLeaked \<Rightarrow> s\<lparr>leaked_senders := leaked_senders s + 1\<rparr> | _ \<Rightarrow> s)"

definition streamed :: "nat \<Rightarrow> bytes reply \<times> sender_fate \<Rightarrow> 'ns g2_handler" where
  "streamed buffer q s = (case q of (r, fate) \<Rightarrow>
     (reply_map (\<lambda>hash. add_hash hash (BodyStream (fate_stream buffer fate))) r, record_fate fate s))"

section \<open>Listening for blocks\<close>

definition add_client :: "clients \<Rightarrow> response reply \<times> clients" where
  "add_client cs =
     (if clients_poisoned cs then (Failure StatusInternal, cs)
      else (Answer (plain BodySubscription), cs\<lparr>client_list := client_list cs @ [\<lparr>client_queue = [], client_open = True\<rparr>]\<rparr>))"

definition g2_get_blocks :: "'ns g2_handler" where
  "g2_get_blocks = enabled EpGetBlocks (\<lambda>s.
     case add_client (blocks_channels s) of (r, cs) \<Rightarrow> (r, s\<lparr>blocks_channels := cs\<rparr>))"

definition g2_get_finalized_blocks :: "'ns g2_handler" where
  "g2_get_finalized_blocks = enabled EpGetFinalizedBlocks (\<lambda>s.
     case add_client (finalized_blocks_channels s) of (r, cs) \<Rightarrow> (r, s\<lparr>finalized_blocks_channels := cs\<rparr>))"

section \<open>Queries to the consensus layer\<close>

definition g2_get_account_info ::
    "'cb rpc_env \<Rightarrow> block_hash_input option \<Rightarrow> account_identifier_input option \<Rightarrow> 'ns g2_handler" where
  "g2_get_account_info renv block_hash account_identifier = enabled EpGetAccountInfo (g2_reply
     (required block_hash (\<lambda>b. required account_identifier (\<lambda>a.
        hashed_bytes (get_account_info_v2 (rpc_queries renv) b a)))))"

definition g2_get_module_source :: "'cb rpc_env \<Rightarrow> block_hash_input option \<Rightarrow> bytes option \<Rightarrow> 'ns g2_handler" where
  "g2_get_module_source renv block_hash module_ref = enabled EpGetModuleSource (g2_reply
     (required block_hash (\<lambda>b. required module_ref (\<lambda>m.
        hashed_bytes (get_module_source_v2 (rpc_queries renv) b m)))))"

definition g2_get_instance_info ::
    "'cb rpc_env \<Rightarrow> block_hash_input option \<Rightarrow> contract_address option \<Rightarrow> 'ns g2_handler" where
  "g2_get_instance_info renv block_hash address = enabled EpGetInstanceInfo (g2_reply
     (required block_hash (\<lambda>b. required address (\<lambda>a.
        hashed_bytes (get_instance_info_v2 (rpc_queries renv) b a)))))"

text \<open>The state is sent pair by pair; that of a V0 contract is one pair with an empty key.\<close>

definition g2_get_instance_state ::
    "'cb rpc_env \<Rightarrow> block_hash_input option \<Rightarrow> contract_address option \<Rightarrow> 'ns g2_handler" where
  "g2_get_instance_state renv block_hash address = enabled EpGetInstanceState (g2_reply
     (required block_hash (\<lambda>b. required address (\<lambda>a.
        reply_map (\<lambda>(hash, st). add_hash hash (BodyPairs
            (case st of ContractStateV0 state \<Rightarrow> [([], state)] | ContractStateV1 state \<Rightarrow> v1_entries state)))
          (get_instance_state_v2 (rpc_queries renv) b a)))))"

definition g2_instance_state_lookup ::
    "'cb rpc_env \<Rightarrow> block_hash_input option \<Rightarrow> contract_address option \<Rightarrow> bytes \<Rightarrow> 'ns g2_handler" where
  "g2_instance_state_lookup renv block_hash address key = enabled EpInstanceStateLookup (g2_reply
     (required block_hash (\<lambda>b. required address (\<lambda>a.
        reply_bind (get_instance_state_v2 (rpc_queries renv) b a) (\<lambda>(hash, st). case st of
            ContractStateV0 state \<Rightarrow> Answer (add_hash hash (BodyBytes state))
          | ContractStateV1 state \<Rightarrow> (case v1_lookup state key of
                Some v \<Rightarrow> Answer (add_hash hash (BodyBytes v))
              | None \<Rightarrow> Failure StatusNotFound))))))"

definition g2_get_next_account_sequence_number :: "'cb rpc_env \<Rightarrow> bytes \<Rightarrow> 'ns g2_handler" where
  "g2_get_next_account_sequence_number renv address = enabled EpGetNextAccountSequenceNumber (g2_reply
     (plain_bytes (get_next_account_sequence_number_v2 (rpc_queries renv) address)))"

definition g2_get_consensus_info :: "'cb rpc_env \<Rightarrow> 'ns g2_handler" where
  "g2_get_consensus_info renv = enabled EpGetConsensusInfo (g2_reply
     (plain_bytes (get_consensus_info_v2 (rpc_queries renv))))"

definition g2_get_ancestors :: "'cb rpc_env \<Rightarrow> block_hash_input option \<Rightarrow> u64 \<Rightarrow> 'ns g2_handler" where
  "g2_get_ancestors renv block_hash amount = enabled EpGetAncestors (streamed 100
     (with_sender (require block_hash) (\<lambda>b. get_ancestors_v2 (rpc_queries renv) b amount)))"

definition g2_get_block_item_status :: "'cb rpc_env \<Rightarrow> bytes \<Rightarrow> 'ns g2_handler" where
  "g2_get_block_item_status renv h = enabled EpGetBlockItemStatus (g2_reply
     (plain_bytes (get_block_item_status_v2 (rpc_queries renv) h)))"

definition MAX_ALLOWED_INVOKE_ENERGY :: u64 where
  "MAX_ALLOWED_INVOKE_ENERGY = 100000000000"

definition g2_invoke_instance :: "'cb rpc_env \<Rightarrow> invoke_request \<Rightarrow> 'ns g2_handler" where
  "g2_invoke_instance renv request = enabled EpInvokeInstance (g2_reply
     (case invoke_energy request of
        Some e \<Rightarrow> if e \<le> MAX_ALLOWED_INVOKE_ENERGY then hashed_bytes (invoke_instance_v2 (rpc_queries renv) request)
                  else Failure StatusInternal
      | None \<Rightarrow> Failure StatusInternal))"

definition g2_get_cryptographic_parameters :: "'cb rpc_env \<Rightarrow> block_hash_input \<Rightarrow> 'ns g2_handler" where
  "g2_get_cryptographic_parameters renv b = enabled EpGetCryptographicParameters (g2_reply
     (reply_map (\<lambda>(hash, genesis_string, generators, key). add_hash hash (BodyCrypto genesis_string generators key))
        (get_cryptographic_parameters_v2 (rpc_queries renv) b)))"

definition g2_get_pool_info :: "'cb rpc_env \<Rightarrow> pool_request \<Rightarrow> 'ns g2_handler" where
  "g2_get_pool_info renv request = enabled EpGetPoolInfo (g2_reply
     (hashed_bytes (get_pool_info_v2 (rpc_queries renv) request)))"

definition g2_get_blocks_at_height :: "'cb rpc_env \<Rightarrow> blocks_at_height_choice option \<Rightarrow> 'ns g2_handler" where
  "g2_get_blocks_at_height renv height = enabled EpGetBlocksAtHeight (g2_reply
     (plain_bytes (get_blocks_at_height_v2 (rpc_queries renv) height)))"

definition g2_get_branches :: "'cb rpc_env \<Rightarrow> 'ns g2_handler" where
  "g2_get_branches renv = enabled EpGetBranches (g2_reply (plain_bytes (get_branches_v2 (rpc_queries renv))))"

definition g2_get_block_info :: "'cb rpc_env \<Rightarrow> block_hash_input \<Rightarrow> 'ns g2_handler" where
  "g2_get_block_info renv b = enabled EpGetBlockInfo (g2_reply
     (hashed_bytes (get_block_info_v2 (rpc_queries renv) b)))"

definition g2_get_passive_delegation_info :: "'cb rpc_env \<Rightarrow> block_hash_input \<Rightarrow> 'ns g2_handler" where
  "g2_get_passive_delegation_info renv b = enabled EpGetPassiveDelegationInfo (g2_reply
     (hashed_bytes (get_passive_delegation_info_v2 (rpc_queries renv) b)))"

definition g2_get_tokenomics_info :: "'cb rpc_env \<Rightarrow> block_hash_input \<Rightarrow> 'ns g2_handler" where
  "g2_get_tokenomics_info renv b = enabled EpGetTokenomicsInfo (g2_reply
     (hashed_bytes (get_tokenomics_info_v2 (rpc_queries renv) b)))"

definition g2_get_election_info :: "'cb rpc_env \<Rightarrow> block_hash_input \<Rightarrow> 'ns g2_handler" where
  "g2_get_election_info renv b = enabled EpGetElectionInfo (g2_reply
     (hashed_bytes (get_election_info_v2 (rpc_queries renv) b)))"

definition g2_get_next_update_sequence_numbers :: "'cb rpc_env \<Rightarrow> block_hash_input \<Rightarrow> 'ns g2_handler" where
  "g2_get_next_update_sequence_numbers renv b = enabled EpGetNextUpdateSequenceNumbers (g2_reply
     (hashed_bytes (get_next_update_sequence_numbers_v2 (rpc_queries renv) b)))"

definition g2_get_block_chain_parameters :: "'cb rpc_env \<Rightarrow> block_hash_input \<Rightarrow> 'ns g2_handler" where
  "g2_get_block_chain_parameters renv b = enabled EpGetBlockChainParameters (g2_reply
     (hashed_bytes (get_block_chain_parameters_v2 (rpc_queries renv) b)))"

definition g2_get_block_finalization_summary :: "'cb rpc_env \<Rightarrow> block_hash_input \<Rightarrow> 'ns g2_handler" where
  "g2_get_block_finalization_summary renv b = enabled EpGetBlockFinalizationSummary (g2_reply
     (hashed_bytes (get_block_finalization_summary_v2 (rpc_queries renv) b)))"

definition g2_get_account_list :: "'cb rpc_env \<Rightarrow> block_hash_input \<Rightarrow> 'ns g2_handler" where
  "g2_get_account_list renv b = enabled EpGetAccountList (streamed 100
     (get_account_list_v2 (rpc_queries renv) b))"

definition g2_get_module_list :: "'cb rpc_env \<Rightarrow> block_hash_input \<Rightarrow> 'ns g2_handler" where
  "g2_get_module_list renv b = enabled EpGetModuleList (streamed 100
     (get_module_list_v2 (rpc_queries renv) b))"

definition g2_get_instance_list :: "'cb rpc_env \<Rightarrow> block_hash_input \<Rightarrow> 'ns g2_handler" where
  "g2_get_instance_list renv b = enabled EpGetInstanceList (streamed 100
     (get_instance_list_v2 (rpc_queries renv) b))"

definition g2_get_baker_list :: "'cb rpc_env \<Rightarrow> block_hash_input \<Rightarrow> 'ns g2_handler" where
  "g2_get_baker_list renv b = enabled EpGetBakerList (streamed 100
     (get_baker_list_v2 (rpc_queries renv) b))"

definition g2_get_pool_delegators :: "'cb rpc_env \<Rightarrow> pool_request \<Rightarrow> 'ns g2_handler" where
  "g2_get_pool_delegators renv b = enabled EpGetPoolDelegators (streamed 100
     (get_pool_delegators_v2 (rpc_queries renv) b))"

definition g2_get_pool_delegators_reward_period :: "'cb rpc_env \<Rightarrow> pool_request \<Rightarrow> 'ns g2_handler" where
  "g2_get_pool_delegators_reward_period renv b = enabled EpGetPoolDelegatorsRewardPeriod (streamed 100
     (get_pool_delegators_reward_period_v2 (rpc_queries renv) b))"

definition g2_get_passive_delegators :: "'cb rpc_env \<Rightarrow> block_hash_input \<Rightarrow> 'ns g2_handler" where
  "g2_get_passive_delegators renv b = enabled EpGetPassiveDelegators (streamed 100
     (get_passive_delegators_v2 (rpc_queries renv) b))"

definition g2_get_passive_delegators_reward_period :: "'cb rpc_env \<Rightarrow> block_hash_input \<Rightarrow> 'ns g2_handler" where
  "g2_get_passive_delegators_reward_period renv b = enabled EpGetPassiveDelegatorsRewardPeriod (streamed 100
     (get_passive_delegators_reward_period_v2 (rpc_queries renv) b))"

definition g2_get_identity_providers :: "'cb rpc_env \<Rightarrow> block_hash_input \<Rightarrow> 'ns g2_handler" where
  "g2_get_identity_providers renv b = enabled EpGetIdentityProviders (streamed 10
     (get_identity_providers_v2 (rpc_queries renv) b))"

definition g2_get_anonymity_revokers :: "'cb rpc_env \<Rightarrow> block_hash_input \<Rightarrow> 'ns g2_handler" where
  "g2_get_anonymity_revokers renv b = enabled EpGetAnonymityRevokers (streamed 10
     (get_anonymity_revokers_v2 (rpc_queries renv) b))"

definition g2_get_block_transaction_events :: "'cb rpc_env \<Rightarrow> block_hash_input \<Rightarrow> 'ns g2_handler" where
  "g2_get_block_transaction_events renv b = enabled EpGetBlockTransactionEvents (streamed 10
     (get_block_transaction_events_v2 (rpc_queries renv) b))"

definition g2_get_block_special_events :: "'cb rpc_env \<Rightarrow> block_hash_input \<Rightarrow> 'ns g2_handler" where
  "g2_get_block_special_events renv b = enabled EpGetBlockSpecialEvents (streamed 10
     (get_block_special_events_v2 (rpc_queries renv) b))"

definition g2_get_block_pending_updates :: "'cb rpc_env \<Rightarrow> block_hash_input \<Rightarrow> 'ns g2_handler" where
  "g2_get_block_pending_updates renv b = enabled EpGetBlockPendingUpdates (streamed 10
     (get_block_pending_updates_v2 (rpc_queries renv) b))"

definition g2_get_block_items :: "'cb rpc_env \<Rightarrow> block_hash_input \<Rightarrow> 'ns g2_handler" where
  "g2_get_block_items renv b = enabled EpGetBlockItems (streamed 100
     (get_block_items_v2 (rpc_queries renv) b))"

definition g2_get_account_non_finalized_transactions :: "'cb rpc_env \<Rightarrow> bytes \<Rightarrow> 'ns g2_handler" where
  "g2_get_account_non_finalized_transactions renv address = enabled EpGetAccountNonFinalizedTransactions (\<lambda>s.
     case get_account_non_finalized_transactions_v2 (rpc_queries renv) address of (r, fate) \<Rightarrow>
       (reply_map (\<lambda>_. plain (BodyStream (fate_stream 10 fate))) r, record_fate fate s))"

section \<open>The node\<close>

definition g2_shutdown :: "'ns node_env \<Rightarrow> 'ns g2_handler" where
  "g2_shutdown env = enabled EpShutdown (on_g2_node (\<lambda>n.
     case close_node env n of (r, n') \<Rightarrow> (reply_map (\<lambda>_. plain BodyEmpty) r, n')))"

record ip_socket_address =
  sock_ip :: "string option"
  sock_port :: "u32 option"

text \<open>The port is cut to 16 bits.\<close>

definition with_socket_address ::
    "'cb rpc_env \<Rightarrow> ip_socket_address \<Rightarrow> (ip_addr \<Rightarrow> u32 \<Rightarrow> 'ns node \<Rightarrow> response reply \<times> 'ns node) \<Rightarrow>
     'ns node \<Rightarrow> response reply \<times> 'ns node" where
  "with_socket_address renv request k n =
     (if is_network_stopped n then (Failure StatusFailedPrecondition, n)
      else case sock_ip request of
             None \<Rightarrow> (Failure StatusInvalidArgument, n)
           | Some t \<Rightarrow>
               (case ip_from_str renv t of
                  None \<Rightarrow> (Failure StatusInvalidArgument, n)
                | Some ip \<Rightarrow>
                    (case sock_port request of
                       None \<Rightarrow> (Failure StatusInvalidArgument, n)
                     | Some port \<Rightarrow> k ip port n)))"

definition g2_peer_connect :: "'ns node_env \<Rightarrow> 'cb rpc_env \<Rightarrow> ip_socket_address \<Rightarrow> 'ns g2_handler" where
  "g2_peer_connect env renv request = enabled EpPeerConnect (on_g2_node (with_socket_address renv request
     (\<lambda>ip port n. (Answer (plain BodyEmpty), new_given_connection env ip (uint port) n))))"

definition g2_peer_disconnect :: "'ns node_env \<Rightarrow> 'cb rpc_env \<Rightarrow> ip_socket_address \<Rightarrow> 'ns g2_handler" where
  "g2_peer_disconnect env renv request = enabled EpPeerDisconnect (on_g2_node (with_socket_address renv request
     (\<lambda>ip port n. case drop_addr env (SocketAddr ip (ucast port)) n of
        (b, n') \<Rightarrow> (if b then Answer (plain BodyEmpty) else Failure StatusNotFound, n'))))"

definition g2_get_banned_peers :: "'ns node_env \<Rightarrow> 'cb rpc_env \<Rightarrow> 'ns g2_handler" where
  "g2_get_banned_peers env renv = enabled EpGetBannedPeers (on_g2_node (\<lambda>n.
     (reply_map (\<lambda>banned. plain (BodyBanned (map (\<lambda>b. case b of PersistedIp addr \<Rightarrow> ip_to_string renv addr) banned)))
        (reply_of_res StatusInternal (get_banlist env n)), n)))"

definition g2_ban_peer :: "'ns node_env \<Rightarrow> 'cb rpc_env \<Rightarrow> string option \<Rightarrow> 'ns g2_handler" where
  "g2_ban_peer env renv ip = enabled EpBanPeer (on_g2_node (\<lambda>n.
     case Option.bind ip (ip_from_str renv) of
       None \<Rightarrow> (Failure StatusInvalidArgument, n)
     | Some addr \<Rightarrow> (case drop_by_ip_and_ban env addr n of
         (r, n') \<Rightarrow> (reply_map (\<lambda>_. plain BodyEmpty) (reply_of_res StatusInternal r), n'))))"

definition g2_unban_peer :: "'ns node_env \<Rightarrow> 'cb rpc_env \<Rightarrow> string option \<Rightarrow> 'ns g2_handler" where
  "g2_unban_peer env renv ip = enabled EpUnbanPeer (on_g2_node (\<lambda>n.
     case Option.bind ip (ip_from_str renv) of
       None \<Rightarrow> (Failure StatusInvalidArgument, n)
     | Some addr \<Rightarrow> (case unban_node env (PersistedIp addr) n of
         (r, n') \<Rightarrow> (reply_map (\<lambda>_. plain BodyEmpty) (reply_of_res StatusInternal r), n'))))"

text \<open>Without the feature \<^verbatim>\<open>network_dump\<close>.\<close>

definition g2_dump_start :: "'ns g2_handler" where
  "g2_dump_start = enabled EpDumpStart (g2_reply (Failure StatusFailedPrecondition))"

definition g2_dump_stop :: "'ns g2_handler" where
  "g2_dump_stop = enabled EpDumpStop (g2_reply (Failure StatusFailedPrecondition))"

definition g2_peer_info :: "'cb rpc_env \<Rightarrow> (remote_peer_id, peer_status) hash_map \<Rightarrow> peer_stats \<Rightarrow> g2_peer" where
  "g2_peer_info renv statuses p =
     \<lparr>gp_id = node_id_to_string (ps_self_id p), gp_ip = ip_to_string renv (addr_ip (external_address p)),
      gp_port = ucast (ps_external_port p),
      gp_consensus = (case ps_peer_type p of
          Bootstrapper \<Rightarrow> PeerBootstrapper
        | Node \<Rightarrow> PeerCatchup (case map_of statuses (ps_local_id p) of
            Some CatchingUp \<Rightarrow> CatchingUp | Some UpToDate \<Rightarrow> UpToDate | _ \<Rightarrow> Pending)),
      gp_sent = ps_msgs_sent p, gp_received = ps_msgs_received p, gp_latency = ps_latency p\<rparr>"

definition g2_get_peers_info :: "'cb rpc_env \<Rightarrow> 'ns g2_handler" where
  "g2_get_peers_info renv = enabled EpGetPeersInfo (on_g2_node (\<lambda>n.
     (reply_map (\<lambda>ps. plain (BodyPeers (map (g2_peer_info renv (peer_states (node_peers n))) ps)))
        (reply_of_res StatusInternal (get_peer_stats None n)), n)))"

definition baker_consensus_status :: "'cb consensus_lib \<Rightarrow> consensus_status_info res" where
  "baker_consensus_status lib = res_bind (in_baking_committee lib) (\<lambda>(committee, _, bid).
     if committee = BakingActive
     then res_bind (in_finalization_committee lib) (\<lambda>f. Ok (if f then ActiveFinalizer bid else ActiveBaker bid))
     else Ok (PassiveCommittee bid committee))"

definition g2_consensus_status :: "'cb consensus_lib \<Rightarrow> consensus_container \<Rightarrow> consensus_status_info res" where
  "g2_consensus_status lib cc = res_bind (is_consensus_running lib) (\<lambda>running.
     if \<not> running then Ok NotRunning
     else if consensus_type cc = Active then baker_consensus_status lib
     else Ok PassiveNode)"

definition g2_get_node_info :: "'ns node_env \<Rightarrow> 'cb rpc_env \<Rightarrow> 'ns g2_handler" where
  "g2_get_node_info env renv = enabled EpGetNodeInfo (\<lambda>s. let n = g2_node s in
     (reply_map (\<lambda>details. plain (BodyNodeInfo
         \<lparr>gi_version = version_text renv, gi_local_time = now_ms env, gi_uptime = word_of_int (uptime_ms renv),
          gi_network = \<lparr>nwi_node_id = node_id_to_string (p2p_id (self_peer n)), nwi_total_sent = total_sent n,
            nwi_total_received = total_received n, nwi_avg_bps_in = avg_bps_in (export n),
            nwi_avg_bps_out = avg_bps_out (export n)\<rparr>,
          gi_details = details\<rparr>))
        (case peer_type_of n of
           Bootstrapper \<Rightarrow> Answer BootstrapperDetails
         | Node \<Rightarrow> reply_map NodeDetails (reply_of_res StatusInternal (g2_consensus_status (rpc_lib renv) (g2_consensus s)))), s))"

section \<open>Block items\<close>

definition g2_send_block_item :: "'ns node_env \<Rightarrow> 'cb rpc_env \<Rightarrow> block_item option \<Rightarrow> 'ns g2_handler" where
  "g2_send_block_item env renv item = enabled EpSendBlockItem (on_g2_node (\<lambda>n.
     if is_network_stopped n then (Failure StatusFailedPrecondition, n)
     else case get_v0_format (rpc_base renv) item of
            Answer transaction \<Rightarrow>
              if length transaction > PROTOCOL_MAX_TRANSACTION_SIZE then (Failure StatusInvalidArgument, n)
              else (case submit_transaction env (rpc_lib renv) transaction n of
                      (r, n') \<Rightarrow> (reply_bind r (\<lambda>h. case h of
                          Some hash \<Rightarrow> Answer (plain (BodyBytes hash)) | None \<Rightarrow> Failure StatusInternal), n'))
          | r \<Rightarrow> (reply_map (\<lambda>_. plain BodyEmpty) r, n)))"

definition g2_get_account_transaction_sign_hash ::
    "'cb rpc_env \<Rightarrow> header_msg option \<Rightarrow> payload_msg option \<Rightarrow> 'ns g2_handler" where
  "g2_get_account_transaction_sign_hash renv header pl = enabled EpGetAccountTransactionSignHash (g2_reply
     (reply_map (\<lambda>(h, p). plain (BodyBytes (transaction_sign_hash (rpc_base renv) h p)))
        (pre_account_transaction (rpc_base renv) header pl)))"

section \<open>All calls\<close>

datatype (plugins only: code) g2_request =
    ReqGetBlocks
  | ReqGetFinalizedBlocks
  | ReqGetAccountInfo "block_hash_input option" "account_identifier_input option"
  | ReqGetModuleSource "block_hash_input option" "bytes option"
  | ReqGetInstanceInfo "block_hash_input option" "contract_address option"
  | ReqGetInstanceState "block_hash_input option" "contract_address option"
  | ReqInstanceStateLookup "block_hash_input option" "contract_address option" bytes
  | ReqGetNextAccountSequenceNumber bytes
  | ReqGetConsensusInfo
  | ReqGetAncestors "block_hash_input option" u64
  | ReqGetBlockItemStatus bytes
  | ReqInvokeInstance invoke_request
  | ReqGetCryptographicParameters block_hash_input
  | ReqGetPoolInfo pool_request
  | ReqGetBlocksAtHeight "blocks_at_height_choice option"
  | ReqGetBranches
  | ReqGetBlockInfo block_hash_input
  | ReqGetPassiveDelegationInfo block_hash_input
  | ReqGetTokenomicsInfo block_hash_input
  | ReqGetElectionInfo block_hash_input
  | ReqGetNextUpdateSequenceNumbers block_hash_input
  | ReqGetBlockChainParameters block_hash_input
  | ReqGetBlockFinalizationSummary block_hash_input
  | ReqGetAccountList block_hash_input
  | ReqGetModuleList block_hash_input
  | ReqGetInstanceList block_hash_input
  | ReqGetBakerList block_hash_input
  | ReqGetPoolDelegators pool_request
  | ReqGetPoolDelegatorsRewardPeriod pool_request
  | ReqGetPassiveDelegators block_hash_input
  | ReqGetPassiveDelegatorsRewardPeriod block_hash_input
  | ReqGetIdentityProviders block_hash_input
  | ReqGetAnonymityRevokers block_hash_input
  | ReqGetBlockTransactionEvents block_hash_input
  | ReqGetBlockSpecialEvents block_hash_input
  | ReqGetBlockPendingUpdates block_hash_input
  | ReqGetBlockItems block_hash_input
  | ReqGetAccountNonFinalizedTransactions bytes
  | ReqShutdown
  | ReqPeerConnect ip_socket_address
  | ReqPeerDisconnect ip_socket_address
  | ReqGetBannedPeers
  | ReqBanPeer "string option"
  | ReqUnbanPeer "string option"
  | ReqDumpStart
  | ReqDumpStop
  | ReqGetPeersInfo
  | ReqGetNodeInfo
  | ReqSendBlockItem "block_item option"
  | ReqGetAccountTransactionSignHash "header_msg option" "payload_msg option"

definition request_endpoint :: "g2_request \<Rightarrow> endpoint" where
  "request_endpoint req =
     (case req of
        ReqGetBlocks \<Rightarrow> EpGetBlocks
      | ReqGetFinalizedBlocks \<Rightarrow> EpGetFinalizedBlocks
      | ReqGetAccountInfo _ _ \<Rightarrow> EpGetAccountInfo
      | ReqGetModuleSource _ _ \<Rightarrow> EpGetModuleSource
      | ReqGetInstanceInfo _ _ \<Rightarrow> EpGetInstanceInfo
      | ReqGetInstanceState _ _ \<Rightarrow> EpGetInstanceState
      | ReqInstanceStateLookup _ _ _ \<Rightarrow> EpInstanceStateLookup
      | ReqGetNextAccountSequenceNumber _ \<Rightarrow> EpGetNextAccountSequenceNumber
      | ReqGetConsensusInfo \<Rightarrow> EpGetConsensusInfo
      | ReqGetAncestors _ _ \<Rightarrow> EpGetAncestors
      | ReqGetBlockItemStatus _ \<Rightarrow> EpGetBlockItemStatus
      | ReqInvokeInstance _ \<Rightarrow> EpInvokeInstance
      | ReqGetCryptographicParameters _ \<Rightarrow> EpGetCryptographicParameters
      | ReqGetPoolInfo _ \<Rightarrow> EpGetPoolInfo
      | ReqGetBlocksAtHeight _ \<Rightarrow> EpGetBlocksAtHeight
      | ReqGetBranches \<Rightarrow> EpGetBranches
      | ReqGetBlockInfo _ \<Rightarrow> EpGetBlockInfo
      | ReqGetPassiveDelegationInfo _ \<Rightarrow> EpGetPassiveDelegationInfo
      | ReqGetTokenomicsInfo _ \<Rightarrow> EpGetTokenomicsInfo
      | ReqGetElectionInfo _ \<Rightarrow> EpGetElectionInfo
      | ReqGetNextUpdateSequenceNumbers _ \<Rightarrow> EpGetNextUpdateSequenceNumbers
      | ReqGetBlockChainParameters _ \<Rightarrow> EpGetBlockChainParameters
      | ReqGetBlockFinalizationSummary _ \<Rightarrow> EpGetBlockFinalizationSummary
      | ReqGetAccountList _ \<Rightarrow> EpGetAccountList
      | ReqGetModuleList _ \<Rightarrow> EpGetModuleList
      | ReqGetInstanceList _ \<Rightarrow> EpGetInstanceList
      | ReqGetBakerList _ \<Rightarrow> EpGetBakerList
      | ReqGetPoolDelegators _ \<Rightarrow> EpGetPoolDelegators
      | ReqGetPoolDelegatorsRewardPeriod _ \<Rightarrow> EpGetPoolDelegatorsRewardPeriod
      | ReqGetPassiveDelegators _ \<Rightarrow> EpGetPassiveDelegators
      | ReqGetPassiveDelegatorsRewardPeriod _ \<Rightarrow> EpGetPassiveDelegatorsRewardPeriod
      | ReqGetIdentityProviders _ \<Rightarrow> EpGetIdentityProviders
      | ReqGetAnonymityRevokers _ \<Rightarrow> EpGetAnonymityRevokers
      | ReqGetBlockTransactionEvents _ \<Rightarrow> EpGetBlockTransactionEvents
      | ReqGetBlockSpecialEvents _ \<Rightarrow> EpGetBlockSpecialEvents
      | ReqGetBlockPendingUpdates _ \<Rightarrow> EpGetBlockPendingUpdates
      | ReqGetBlockItems _ \<Rightarrow> EpGetBlockItems
      | ReqGetAccountNonFinalizedTransactions _ \<Rightarrow> EpGetAccountNonFinalizedTransactions
      | ReqShutdown \<Rightarrow> EpShutdown
      | ReqPeerConnect _ \<Rightarrow> EpPeerConnect
      | ReqPeerDisconnect _ \<Rightarrow> EpPeerDisconnect
      | ReqGetBannedPeers \<Rightarrow> EpGetBannedPeers
      | ReqBanPeer _ \<Rightarrow> EpBanPeer
      | ReqUnbanPeer _ \<Rightarrow> EpUnbanPeer
      | ReqDumpStart \<Rightarrow> EpDumpStart
      | ReqDumpStop \<Rightarrow> EpDumpStop
      | ReqGetPeersInfo \<Rightarrow> EpGetPeersInfo
      | ReqGetNodeInfo \<Rightarrow> EpGetNodeInfo
      | ReqSendBlockItem _ \<Rightarrow> EpSendBlockItem
      | ReqGetAccountTransactionSignHash _ _ \<Rightarrow> EpGetAccountTransactionSignHash)"

definition g2_handle :: "'ns node_env \<Rightarrow> 'cb rpc_env \<Rightarrow> g2_request \<Rightarrow> 'ns g2_handler" where
  "g2_handle env renv req =
     (case req of
        ReqGetBlocks \<Rightarrow> g2_get_blocks
      | ReqGetFinalizedBlocks \<Rightarrow> g2_get_finalized_blocks
      | ReqGetAccountInfo a b \<Rightarrow> g2_get_account_info renv a b
      | ReqGetModuleSource a b \<Rightarrow> g2_get_module_source renv a b
      | ReqGetInstanceInfo a b \<Rightarrow> g2_get_instance_info renv a b
      | ReqGetInstanceState a b \<Rightarrow> g2_get_instance_state renv a b
      | ReqInstanceStateLookup a b c \<Rightarrow> g2_instance_state_lookup renv a b c
      | ReqGetNextAccountSequenceNumber a \<Rightarrow> g2_get_next_account_sequence_number renv a
      | ReqGetConsensusInfo \<Rightarrow> g2_get_consensus_info renv
      | ReqGetAncestors a b \<Rightarrow> g2_get_ancestors renv a b
      | ReqGetBlockItemStatus a \<Rightarrow> g2_get_block_item_status renv a
      | ReqInvokeInstance a \<Rightarrow> g2_invoke_instance renv a
      | ReqGetCryptographicParameters a \<Rightarrow> g2_get_cryptographic_parameters renv a
      | ReqGetPoolInfo a \<Rightarrow> g2_get_pool_info renv a
      | ReqGetBlocksAtHeight a \<Rightarrow> g2_get_blocks_at_height renv a
      | ReqGetBranches \<Rightarrow> g2_get_branches renv
      | ReqGetBlockInfo a \<Rightarrow> g2_get_block_info renv a
      | ReqGetPassiveDelegationInfo a \<Rightarrow> g2_get_passive_delegation_info renv a
      | ReqGetTokenomicsInfo a \<Rightarrow> g2_get_tokenomics_info renv a
      | ReqGetElectionInfo a \<Rightarrow> g2_get_election_info renv a
      | ReqGetNextUpdateSequenceNumbers a \<Rightarrow> g2_get_next_update_sequence_numbers renv a
      | ReqGetBlockChainParameters a \<Rightarrow> g2_get_block_chain_parameters renv a
      | ReqGetBlockFinalizationSummary a \<Rightarrow> g2_get_block_finalization_summary renv a
      | ReqGetAccountList a \<Rightarrow> g2_get_account_list renv a
      | ReqGetModuleList a \<Rightarrow> g2_get_module_list renv a
      | ReqGetInstanceList a \<Rightarrow> g2_get_instance_list renv a
      | ReqGetBakerList a \<Rightarrow> g2_get_baker_list renv a
      | ReqGetPoolDelegators a \<Rightarrow> g2_get_pool_delegators renv a
      | ReqGetPoolDelegatorsRewardPeriod a \<Rightarrow> g2_get_pool_delegators_reward_period renv a
      | ReqGetPassiveDelegators a \<Rightarrow> g2_get_passive_delegators renv a
      | ReqGetPassiveDelegatorsRewardPeriod a \<Rightarrow> g2_get_passive_delegators_reward_period renv a
      | ReqGetIdentityProviders a \<Rightarrow> g2_get_identity_providers renv a
      | ReqGetAnonymityRevokers a \<Rightarrow> g2_get_anonymity_revokers renv a
      | ReqGetBlockTransactionEvents a \<Rightarrow> g2_get_block_transaction_events renv a
      | ReqGetBlockSpecialEvents a \<Rightarrow> g2_get_block_special_events renv a
      | ReqGetBlockPendingUpdates a \<Rightarrow> g2_get_block_pending_updates renv a
      | ReqGetBlockItems a \<Rightarrow> g2_get_block_items renv a
      | ReqGetAccountNonFinalizedTransactions a \<Rightarrow> g2_get_account_non_finalized_transactions renv a
      | ReqShutdown \<Rightarrow> g2_shutdown env
      | ReqPeerConnect a \<Rightarrow> g2_peer_connect env renv a
      | ReqPeerDisconnect a \<Rightarrow> g2_peer_disconnect env renv a
      | ReqGetBannedPeers \<Rightarrow> g2_get_banned_peers env renv
      | ReqBanPeer a \<Rightarrow> g2_ban_peer env renv a
      | ReqUnbanPeer a \<Rightarrow> g2_unban_peer env renv a
      | ReqDumpStart \<Rightarrow> g2_dump_start
      | ReqDumpStop \<Rightarrow> g2_dump_stop
      | ReqGetPeersInfo \<Rightarrow> g2_get_peers_info renv
      | ReqGetNodeInfo \<Rightarrow> g2_get_node_info env renv
      | ReqSendBlockItem a \<Rightarrow> g2_send_block_item env renv a
      | ReqGetAccountTransactionSignHash a b \<Rightarrow> g2_get_account_transaction_sign_hash renv a b)"

end
