(* ===== verification/LibraryCodes.thy ===== *)
theory LibraryCodes
  imports ConsensusFfi QueueThreads
begin

text \<open>
  The two sides of the foreign interface agree. The return codes the consensus library uses
  (\<^verbatim>\<open>concordium-consensus/src/Concordium/External.hs\<close> and \<^verbatim>\<open>External/GRPC2.hs\<close>) are those the
  node understands, and a message the library of one node sends reaches the library of another
  as it was sent.
\<close>

section \<open>The codes of the library\<close>

datatype (plugins only: code) update_result =
  ResultSuccess | ResultSerializationFail | ResultInvalid | ResultPendingBlock
  | ResultPendingFinalization | ResultAsync | ResultDuplicate | ResultStale
  | ResultIncorrectFinalizationSession | ResultUnverifiable | ResultContinueCatchUp | ResultEarlyBlock
  | ResultMissingImportFile | ResultConsensusShutDown | ResultExpiryTooLate | ResultVerificationFailed
  | ResultNonexistingSenderAccount | ResultDuplicateNonce | ResultNonceTooLarge | ResultTooLowEnergy
  | ResultInvalidGenesisIndex | ResultDuplicateAccountRegistrationID
  | ResultCredentialDeploymentInvalidSignatures | ResultCredentialDeploymentInvalidIP
  | ResultCredentialDeploymentInvalidAR | ResultCredentialDeploymentExpired
  | ResultChainUpdateInvalidEffectiveTime | ResultChainUpdateSequenceNumberTooOld
  | ResultChainUpdateInvalidSignatures | ResultEnergyExceeded | ResultInsufficientFunds

definition to_receive_result :: "update_result \<Rightarrow> int" where
  "to_receive_result r =
     (case r of
        ResultSuccess \<Rightarrow> 0
      | ResultSerializationFail \<Rightarrow> 1
      | ResultInvalid \<Rightarrow> 2
      | ResultPendingBlock \<Rightarrow> 3
      | ResultPendingFinalization \<Rightarrow> 4
      | ResultAsync \<Rightarrow> 5
      | ResultDuplicate \<Rightarrow> 6
      | ResultStale \<Rightarrow> 7
      | ResultIncorrectFinalizationSession \<Rightarrow> 8
      | ResultUnverifiable \<Rightarrow> 9
      | ResultContinueCatchUp \<Rightarrow> 10
      | ResultEarlyBlock \<Rightarrow> 11
      | ResultMissingImportFile \<Rightarrow> 12
      | ResultConsensusShutDown \<Rightarrow> 13
      | ResultExpiryTooLate \<Rightarrow> 14
      | ResultVerificationFailed \<Rightarrow> 15
      | ResultNonexistingSenderAccount \<Rightarrow> 16
      | ResultDuplicateNonce \<Rightarrow> 17
      | ResultNonceTooLarge \<Rightarrow> 18
      | ResultTooLowEnergy \<Rightarrow> 19
      | ResultInvalidGenesisIndex \<Rightarrow> 20
      | ResultDuplicateAccountRegistrationID \<Rightarrow> 21
      | ResultCredentialDeploymentInvalidSignatures \<Rightarrow> 22
      | ResultCredentialDeploymentInvalidIP \<Rightarrow> 23
      | ResultCredentialDeploymentInvalidAR \<Rightarrow> 24
      | ResultCredentialDeploymentExpired \<Rightarrow> 25
      | ResultChainUpdateInvalidEffectiveTime \<Rightarrow> 26
      | ResultChainUpdateSequenceNumberTooOld \<Rightarrow> 27
      | ResultChainUpdateInvalidSignatures \<Rightarrow> 28
      | ResultEnergyExceeded \<Rightarrow> 29
      | ResultInsufficientFunds \<Rightarrow> 30)"

datatype query_result = QRInvalidArgument | QRInternalError | QRSuccess | QRNotFound

definition query_result_code :: "query_result \<Rightarrow> int" where
  "query_result_code q =
     (case q of QRInvalidArgument \<Rightarrow> - 2 | QRInternalError \<Rightarrow> - 1 | QRSuccess \<Rightarrow> 0 | QRNotFound \<Rightarrow> 1)"

datatype init_exception =
    BlockStatePathDir | BlockStatePermissionError | TreeStatePermissionError | DatabaseOpeningError
  | GenesisBlockNotInDataBaseError | GenesisBlockIncorrect | DatabaseInvariantViolation
  | IncorrectDatabaseVersion

datatype start_result =
    StartSuccess | StartGenesisFailure | StartBakerIdentityFailure | StartIOException
  | StartInitException init_exception

definition to_start_result :: "start_result \<Rightarrow> int" where
  "to_start_result r =
     (case r of
        StartSuccess \<Rightarrow> 0
      | StartGenesisFailure \<Rightarrow> 1
      | StartBakerIdentityFailure \<Rightarrow> 2
      | StartIOException \<Rightarrow> 3
      | StartInitException ie \<Rightarrow>
          (case ie of
             BlockStatePathDir \<Rightarrow> 4
           | BlockStatePermissionError \<Rightarrow> 5
           | TreeStatePermissionError \<Rightarrow> 6
           | DatabaseOpeningError \<Rightarrow> 7
           | GenesisBlockNotInDataBaseError \<Rightarrow> 8
           | GenesisBlockIncorrect \<Rightarrow> 9
           | DatabaseInvariantViolation \<Rightarrow> 10
           | IncorrectDatabaseVersion \<Rightarrow> 11))"

datatype baker_status = ActiveInComittee | AddedButNotActiveInCommittee | NotInCommittee | AddedButWrongKeys

definition get_baker_status_code :: "baker_status \<Rightarrow> u8" where
  "get_baker_status_code b =
     (case b of ActiveInComittee \<Rightarrow> 0 | NotInCommittee \<Rightarrow> 1 | AddedButNotActiveInCommittee \<Rightarrow> 2
              | AddedButWrongKeys \<Rightarrow> 3)"

datatype library_message = MessageBlock | MessageFinalization | MessageFinalizationRecord | MessageCatchUpStatus

definition message_type_code :: "library_message \<Rightarrow> int" where
  "message_type_code m =
     (case m of MessageBlock \<Rightarrow> 0 | MessageFinalization \<Rightarrow> 1 | MessageFinalizationRecord \<Rightarrow> 2
              | MessageCatchUpStatus \<Rightarrow> 3)"

section \<open>How the node reads them\<close>

definition update_response :: "update_result \<Rightarrow> consensus_ffi_response" where
  "update_response r =
     (case r of
        ResultSuccess \<Rightarrow> Success
      | ResultSerializationFail \<Rightarrow> DeserializationError
      | ResultInvalid \<Rightarrow> InvalidResult
      | ResultPendingBlock \<Rightarrow> PendingBlock
      | ResultPendingFinalization \<Rightarrow> PendingFinalization
      | ResultAsync \<Rightarrow> Asynchronous
      | ResultDuplicate \<Rightarrow> DuplicateEntry
      | ResultStale \<Rightarrow> Stale
      | ResultIncorrectFinalizationSession \<Rightarrow> IncorrectFinalizationSession
      | ResultUnverifiable \<Rightarrow> Unverifiable
      | ResultContinueCatchUp \<Rightarrow> ContinueCatchUp
      | ResultEarlyBlock \<Rightarrow> BlockTooEarly
      | ResultMissingImportFile \<Rightarrow> MissingImportFile
      | ResultConsensusShutDown \<Rightarrow> ConsensusShutDown
      | ResultExpiryTooLate \<Rightarrow> ExpiryTooLate
      | ResultVerificationFailed \<Rightarrow> VerificationFailed
      | ResultNonexistingSenderAccount \<Rightarrow> NonexistingSenderAccount
      | ResultDuplicateNonce \<Rightarrow> DuplicateNonce
      | ResultNonceTooLarge \<Rightarrow> NonceTooLarge
      | ResultTooLowEnergy \<Rightarrow> TooLowEnergy
      | ResultInvalidGenesisIndex \<Rightarrow> InvalidGenesisIndex
      | ResultDuplicateAccountRegistrationID \<Rightarrow> DuplicateAccountRegistrationID
      | ResultCredentialDeploymentInvalidSignatures \<Rightarrow> CredentialDeploymentInvalidSignatures
      | ResultCredentialDeploymentInvalidIP \<Rightarrow> CredentialDeploymentInvalidIP
      | ResultCredentialDeploymentInvalidAR \<Rightarrow> CredentialDeploymentInvalidAR
      | ResultCredentialDeploymentExpired \<Rightarrow> CredentialDeploymentExpired
      | ResultChainUpdateInvalidEffectiveTime \<Rightarrow> ChainUpdateInvalidEffectiveTime
      | ResultChainUpdateSequenceNumberTooOld \<Rightarrow> ChainUpdateSequenceNumberTooOld
      | ResultChainUpdateInvalidSignatures \<Rightarrow> ChainUpdateInvalidSignatures
      | ResultEnergyExceeded \<Rightarrow> MaxBlockEnergyExceeded
      | ResultInsufficientFunds \<Rightarrow> InsufficientFunds)"

definition baker_response :: "baker_status \<Rightarrow> baking_committee_response" where
  "baker_response b =
     (case b of ActiveInComittee \<Rightarrow> BakingActive | NotInCommittee \<Rightarrow> BakingNotInCommittee
              | AddedButNotActiveInCommittee \<Rightarrow> BakingAddedNotActive | AddedButWrongKeys \<Rightarrow> BakingWrongKeys)"

definition query_response :: "query_result \<Rightarrow> consensus_query_response" where
  "query_response q =
     (case q of QRInvalidArgument \<Rightarrow> QueryInvalidArgument | QRInternalError \<Rightarrow> QueryInternalError
              | QRSuccess \<Rightarrow> QueryOk | QRNotFound \<Rightarrow> QueryNotFound)"

definition message_packet_type :: "library_message \<Rightarrow> packet_type" where
  "message_packet_type m =
     (case m of MessageBlock \<Rightarrow> Block | MessageFinalization \<Rightarrow> FinalizationMessage
              | MessageFinalizationRecord \<Rightarrow> FinalizationRecord | MessageCatchUpStatus \<Rightarrow> CatchUpStatus)"

lemma wrap_receive_result [simp]: "wrap_c_call (to_receive_result r) = Ok (update_response r)"
  by (cases r) (simp_all add: wrap_c_call_def to_receive_result_def update_response_def ffi_response_try_from_def)

lemma baking_committee_code [simp]: "baking_committee_try_from (get_baker_status_code b) = Ok (baker_response b)"
  by (cases b) (simp_all add: baking_committee_try_from_def get_baker_status_code_def baker_response_def)

lemma query_code [simp]: "query_response_try_from (query_result_code q) = Some (query_response q)"
  by (cases q) (simp_all add: query_response_try_from_def query_result_code_def query_response_def)

lemma message_code:
  "callback_type_try_from (word_of_int (message_type_code m)) = Ok t \<longleftrightarrow>
   callback_packet_type t = message_packet_type m"
  by (cases m; cases t)
    (simp_all add: callback_type_try_from_def message_type_code_def callback_packet_type_def message_packet_type_def)

lemma inj_update_response: "inj update_response"
proof (rule injI)
  fix a b
  assume "update_response a = update_response b"
  then show "a = b" by (cases a; cases b) (simp_all add: update_response_def)
qed

lemma range_update_response: "range update_response = UNIV - {BakerNotFound}"
proof (intro equalityI subsetI)
  fix x
  assume "x \<in> range update_response"
  then obtain r where "x = update_response r" by blast
  then show "x \<in> UNIV - {BakerNotFound}" by (cases r) (simp_all add: update_response_def)
next
  fix x
  assume "x \<in> UNIV - {BakerNotFound}"
  then have "\<exists>r. update_response r = x"
    by (cases x) (auto simp: update_response_def split: update_result.split)
  then show "x \<in> range update_response" by blast
qed

lemma baker_response_simps:
  "baker_response ActiveInComittee = BakingActive" "baker_response NotInCommittee = BakingNotInCommittee"
  "baker_response AddedButNotActiveInCommittee = BakingAddedNotActive" "baker_response AddedButWrongKeys = BakingWrongKeys"
  by (simp_all add: baker_response_def)

lemma bij_baker_response: "bij baker_response"
proof (rule bijI')
  show "(baker_response a = baker_response b) = (a = b)" for a b
    by (cases a; cases b) (simp_all add: baker_response_def)
  show "\<exists>a. r = baker_response a" for r
    by (cases r; metis baker_response_simps)
qed

lemma query_response_simps:
  "query_response QRInvalidArgument = QueryInvalidArgument" "query_response QRInternalError = QueryInternalError"
  "query_response QRSuccess = QueryOk" "query_response QRNotFound = QueryNotFound"
  by (simp_all add: query_response_def)

lemma bij_query_response: "bij query_response"
proof (rule bijI')
  show "(query_response a = query_response b) = (a = b)" for a b
    by (cases a; cases b) (simp_all add: query_response_def)
  show "\<exists>a. r = query_response a" for r
    by (cases r; metis query_response_simps)
qed

lemma start_error_unknown: "take 18 (start_error (to_start_result e)) = ''Unknown error code'' \<longleftrightarrow> e = StartSuccess"
proof (cases e)
  case (StartInitException ie)
  then show ?thesis by (cases ie) (simp_all add: start_error_def to_start_result_def)
qed (simp_all add: start_error_def to_start_result_def)

lemma inj_start_error: "inj (\<lambda>e. start_error (to_start_result e))"
proof (rule injI)
  fix a b
  assume e: "start_error (to_start_result a) = start_error (to_start_result b)"
  have "to_start_result a \<in> {0, 1, 2, 3, 4, 5, 6, 7, 8, 9, 10, 11}" "to_start_result b \<in> {0, 1, 2, 3, 4, 5, 6, 7, 8, 9, 10, 11}"
    by (simp_all add: to_start_result_def split: start_result.split init_exception.split)
  with e have "to_start_result a = to_start_result b" by (elim insertE emptyE) (simp_all add: start_error_def)
  then show "a = b" by (auto simp: to_start_result_def split: start_result.splits init_exception.splits)
qed

text \<open>
  Property C16: The node and the consensus library agree on their codes. Every result of the
  library is read as the response of the same meaning, different results as different responses,
  and the only response the library never gives is \<^verbatim>\<open>BakerNotFound\<close>; the same holds of the baker
  status, of the results of queries and of the types of messages; and every failure to start the
  library is reported with its own message.
\<close>

theorem library_codes_understood:
  "wrap_c_call (to_receive_result r) = Ok (update_response r) \<and>
   inj update_response \<and> range update_response = UNIV - {BakerNotFound} \<and>
   baking_committee_try_from (get_baker_status_code b) = Ok (baker_response b) \<and> bij baker_response \<and>
   query_response_try_from (query_result_code q) = Some (query_response q) \<and> bij query_response \<and>
   (callback_type_try_from (word_of_int (message_type_code m)) = Ok t \<longleftrightarrow>
      callback_packet_type t = message_packet_type m) \<and>
   (take 18 (start_error (to_start_result e)) = ''Unknown error code'' \<longleftrightarrow> e = StartSuccess) \<and>
   inj (\<lambda>e. start_error (to_start_result e))"
  by (intro conjI wrap_receive_result inj_update_response range_update_response baking_committee_code
      bij_baker_response query_code bij_query_response message_code start_error_unknown inj_start_error)

section \<open>The library as the plugin sees it\<close>

text \<open>
  The consensus plugin calls the library through the methods of the container. \<open>serves\<close> says that
  these methods answer, without a panic, what the plugin's interface says.
\<close>

definition serves :: "'cb consensus_lib \<Rightarrow> 'cb consensus_api \<Rightarrow> bool" where
  "serves lib api \<longleftrightarrow>
     (\<forall>i bs. ffi_receive_block lib i bs = Ok (receive_block api i bs)) \<and>
     (\<forall>i bs. ffi_send_finalization lib i bs = Ok (send_finalization api i bs)) \<and>
     (\<forall>i bs. ffi_send_finalization_record lib i bs = Ok (send_finalization_record api i bs)) \<and>
     (\<forall>i bs p k. ffi_receive_catch_up_status lib i bs p k = Ok (receive_catch_up_status api i bs p k)) \<and>
     (\<forall>bs. \<exists>h. ffi_send_transaction lib bs = Ok (h, send_transaction api bs)) \<and>
     ffi_get_catch_up_status lib = get_catch_up_status api"

text \<open>The library answers with the codes of its result type.\<close>

definition library_law :: "'cb consensus_lib \<Rightarrow> bool" where
  "library_law lib \<longleftrightarrow>
     (\<forall>i bs. fst (receiveBlock lib i bs) \<in> range to_receive_result) \<and>
     (\<forall>i bs. receiveFinalizationMessage lib i bs \<in> range to_receive_result) \<and>
     (\<forall>i bs. receiveFinalizationRecord lib i bs \<in> range to_receive_result) \<and>
     (\<forall>p i bs k. receiveCatchUpStatus lib p i bs k \<in> range to_receive_result) \<and>
     (\<forall>bs. fst (receiveTransaction lib bs) \<in> range to_receive_result) \<and>
     (\<forall>i h. fst (bakerStatusBestBlock lib i h) \<in> range get_baker_status_code) \<and>
     checkIfWeAreFinalizer lib \<in> {0, 1} \<and> checkIfRunning lib \<in> {0, 1}"

definition lib_api :: "(bytes \<Rightarrow> u32 option) \<Rightarrow> (rat \<Rightarrow> bool option) \<Rightarrow> 'cb consensus_lib \<Rightarrow> 'cb consensus_api" where
  "lib_api des coin lib =
     \<lparr>u32_deserial = des,
      receive_block = (\<lambda>i bs. case receiveBlock lib i bs of (code, cb) \<Rightarrow> (the (ffi_response_try_from code), cb)),
      send_finalization = (\<lambda>i bs. the (ffi_response_try_from (receiveFinalizationMessage lib i bs))),
      send_finalization_record = (\<lambda>i bs. the (ffi_response_try_from (receiveFinalizationRecord lib i bs))),
      receive_catch_up_status = (\<lambda>i bs p k. the (ffi_response_try_from (receiveCatchUpStatus lib p i bs k))),
      send_transaction = (\<lambda>bs. the (ffi_response_try_from (fst (receiveTransaction lib bs)))),
      get_catch_up_status = ffi_get_catch_up_status lib, bernoulli = coin\<rparr>"

lemma wrap_in_range:
  assumes "code \<in> range to_receive_result"
  shows "wrap_c_call code = Ok (the (ffi_response_try_from code))"
proof -
  obtain r where "code = to_receive_result r" using assms by blast
  then have "wrap_c_call code = Ok (update_response r)" by simp
  then show ?thesis by (cases "ffi_response_try_from code") (simp_all add: wrap_c_call_def)
qed

lemma library_lawD:
  assumes "library_law lib"
  shows "wrap_c_call (fst (receiveBlock lib i bs)) = Ok (the (ffi_response_try_from (fst (receiveBlock lib i bs))))"
    and "wrap_c_call (receiveFinalizationMessage lib i bs) =
      Ok (the (ffi_response_try_from (receiveFinalizationMessage lib i bs)))"
    and "wrap_c_call (receiveFinalizationRecord lib i bs) =
      Ok (the (ffi_response_try_from (receiveFinalizationRecord lib i bs)))"
    and "wrap_c_call (receiveCatchUpStatus lib p i bs k) =
      Ok (the (ffi_response_try_from (receiveCatchUpStatus lib p i bs k)))"
    and "wrap_c_call (fst (receiveTransaction lib bs)) =
      Ok (the (ffi_response_try_from (fst (receiveTransaction lib bs))))"
  using assms unfolding library_law_def by (blast intro: wrap_in_range)+

lemma lib_api_serves:
  assumes "library_law lib"
  shows "serves lib (lib_api des coin lib)"
  using library_lawD [OF assms]
  by (simp add: serves_def lib_api_def ffi_receive_block_def ffi_send_finalization_def wrap_send_data_to_c_def
      ffi_send_finalization_record_def ffi_receive_catch_up_status_def ffi_send_transaction_def split_beta)

lemma library_committee_total:
  assumes "library_law lib"
  shows "(\<exists>x. in_baking_committee lib = Ok x) \<and> (\<exists>x. in_finalization_committee lib = Ok x) \<and>
    (\<exists>x. is_consensus_running lib = Ok x)"
proof (intro conjI)
  have "fst (bakerStatusBestBlock lib 0 0) \<in> range get_baker_status_code"
    using assms unfolding library_law_def by blast
  then obtain b where "fst (bakerStatusBestBlock lib 0 0) = get_baker_status_code b" by blast
  then show "\<exists>x. in_baking_committee lib = Ok x" by (simp add: in_baking_committee_def split_beta)
qed (use assms in \<open>auto simp: library_law_def in_finalization_committee_def is_consensus_running_def wrap_c_bool_call_def\<close>)

section \<open>From library to library\<close>

text \<open>What the library of the receiving node is asked to do with a message of a given type.\<close>

definition library_call ::
    "'cb consensus_lib \<Rightarrow> remote_peer_id \<Rightarrow> int \<Rightarrow> library_message \<Rightarrow> u32 \<Rightarrow> bytes \<Rightarrow>
     (consensus_ffi_response \<times> 'cb option) res" where
  "library_call lib source limit mt genesis_index msg =
     (case mt of
        MessageBlock \<Rightarrow> ffi_receive_block lib genesis_index msg
      | MessageFinalization \<Rightarrow> res_bind (ffi_send_finalization lib genesis_index msg) (\<lambda>r. Ok (r, None))
      | MessageFinalizationRecord \<Rightarrow> res_bind (ffi_send_finalization_record lib genesis_index msg) (\<lambda>r. Ok (r, None))
      | MessageCatchUpStatus \<Rightarrow>
          res_bind (ffi_receive_catch_up_status lib genesis_index msg source limit) (\<lambda>r. Ok (r, None)))"

lemma library_call_total:
  assumes "library_law lib"
  shows "\<exists>x. library_call lib source limit mt i bs = Ok x"
  using library_lawD [OF assms]
  by (cases mt) (simp_all add: library_call_def ffi_receive_block_def ffi_send_finalization_def
      ffi_send_finalization_record_def ffi_receive_catch_up_status_def wrap_send_data_to_c_def split_beta)

definition callback_message :: "(u32 \<Rightarrow> bytes) \<Rightarrow> remote_peer_id option \<Rightarrow> peer_status option \<Rightarrow> library_message \<Rightarrow> u32 \<Rightarrow> bytes \<Rightarrow> consensus_message" where
  "callback_message ser target omit mt i msg =
     \<lparr>direction = Outbound target, variant = message_packet_type mt,
      cm_payload = packet_type_tag (message_packet_type mt) # ser i @ msg, dont_relay_to = [], omit_status = omit\<rparr>"

lemma sending_callback_message:
  assumes "channel_law ops" and "sending_callback ops ser target (message_type_code mt) i msg omit q = Some q'"
  shows "ch_queue (out_high q') = ch_queue (out_high q) @ [Relay (callback_message ser target omit mt i msg)]"
proof -
  have "\<exists>t. callback_packet_type t = message_packet_type mt"
    by (cases mt) (metis callback_packet_type_def callback_type.simps message_packet_type_def library_message.simps)+
  then obtain t where t: "callback_packet_type t = message_packet_type mt" by blast
  then have "callback_type_try_from (word_of_int (message_type_code mt)) = Ok t" by (simp add: message_code)
  moreover have "ch_send ops cap qs x = Some qs' \<Longrightarrow> qs' = qs @ [x]" for cap qs x qs'
    using assms(1) unfolding channel_law_def by (metis option.distinct(1) option.inject)
  ultimately show ?thesis
    using assms(2) t
    by (auto simp: sending_callback_def send_out_blocking_msg_def send_blocking_msg_def callback_message_def)
qed

lemma packet_tag_read: "packet_type_try_from (packet_type_tag p) = Ok p"
  by (cases p) (simp_all add: packet_type_try_from_def packet_type_tag_def PACKET_TYPE_FROM_INT_def)

lemma lib_call_consensus:
  assumes "library_law lib" and "length (ser i) = 4" and "des (ser i) = Some i"
    and "variant m = message_packet_type mt" and "cm_payload m = tag # ser i @ msg"
  shows "call_consensus (lib_api des coin lib) limit source m = library_call lib source limit mt i msg"
  using assms library_lawD [OF assms(1)]
  by (cases mt) (simp_all add: call_consensus_def message_packet_type_def with_genesis_index_def lib_api_def
      library_call_def ffi_receive_block_def ffi_send_finalization_def wrap_send_data_to_c_def
      ffi_send_finalization_record_def ffi_receive_catch_up_status_def split_beta)

lemma handle_pkt_out_high:
  assumes "channel_law (channels env)" and "p \<noteq> Transaction"
    and "length (ch_queue (in_high (callback_queue n))) < ch_capacity (in_high (callback_queue n))"
  shows "\<exists>n'. handle_pkt_out env dr source (packet_type_tag p # pl) b n = (Ok (), n') \<and>
    ch_queue (in_high (callback_queue n')) = ch_queue (in_high (callback_queue n)) @
      [Relay \<lparr>direction = Inbound source (if b then BroadcastMode else DirectMode), variant = p,
        cm_payload = packet_type_tag p # pl, dont_relay_to = dr, omit_status = None\<rparr>]"
proof -
  have "ch_try_send (channels env) cap q x = (if length q < cap then Some (q @ [x]) else None)" for cap q x
    using assms(1) unfolding channel_law_def by blast
  with assms(2,3) show ?thesis
    by (simp add: handle_pkt_out_def packet_tag_read Let_def on_queues_def send_in_high_priority_message_def
        send_msg_def on_export_def)
qed

text \<open>
  Property C15: A message that the consensus library of one node hands to the network reaches
  the library of another node as it was sent: the callback queues one message, the peer that
  receives its payload queues it for its own library, and handing it over calls the function for
  messages of that type with the same genesis index and the same bytes, without a panic.
\<close>

theorem library_message_reaches_peer:
  assumes "channel_law ops" and "channel_law (channels env)" and "library_law lib"
    and "length (ser i) = 4" and "des (ser i) = Some i"
    and "sending_callback ops ser target (message_type_code mt) i msg omit q = Some q'"
    and "length (ch_queue (in_high (callback_queue n))) < ch_capacity (in_high (callback_queue n))"
  shows "\<exists>m m' n' x. ch_queue (out_high q') = ch_queue (out_high q) @ [Relay m] \<and>
     target_peer m = Ok target \<and> omit_status m = omit \<and>
     handle_pkt_out env dont_relay source (cm_payload m) is_broadcast n = (Ok (), n') \<and>
     ch_queue (in_high (callback_queue n')) = ch_queue (in_high (callback_queue n)) @ [Relay m'] \<and>
     source_peer m' = Ok source \<and>
     call_consensus (lib_api des coin lib) limit source m' = library_call lib source limit mt i msg \<and>
     library_call lib source limit mt i msg = Ok x"
proof -
  let ?m = "callback_message ser target omit mt i msg"
  have "message_packet_type mt \<noteq> Transaction" by (cases mt) (simp_all add: message_packet_type_def)
  from handle_pkt_out_high [OF assms(2) this assms(7), of dont_relay source "ser i @ msg" is_broadcast]
  obtain n' m' where h: "handle_pkt_out env dont_relay source (cm_payload ?m) is_broadcast n = (Ok (), n')"
      "ch_queue (in_high (callback_queue n')) = ch_queue (in_high (callback_queue n)) @ [Relay m']"
    and m': "direction m' = Inbound source (if is_broadcast then BroadcastMode else DirectMode)"
      "variant m' = message_packet_type mt"
      "cm_payload m' = packet_type_tag (message_packet_type mt) # ser i @ msg"
    by (auto simp: callback_message_def)
  have "call_consensus (lib_api des coin lib) limit source m' = library_call lib source limit mt i msg"
    using assms(3-5) m'(2,3) by (intro lib_call_consensus [where ser = ser]) auto
  with sending_callback_message [OF assms(1,6)] h m'(1) library_call_total [OF assms(3), of source limit mt i msg]
  show ?thesis
    by (intro exI [of _ ?m] exI [of _ m'] exI [of _ n']) (auto simp: callback_message_def target_peer_def source_peer_def)
qed

definition example_lib :: "unit consensus_lib" where
  "example_lib =
     \<lparr>runner_is_null = False, receiveBlock = (\<lambda>i bs. (0, Some ())), executeBlock = (\<lambda>_. 0),
      receiveFinalizationMessage = (\<lambda>i bs. 0), receiveFinalizationRecord = (\<lambda>i bs. 6),
      receiveTransaction = (\<lambda>bs. if bs = [] then (1, []) else (0, replicate 32 9)),
      receiveCatchUpStatus = (\<lambda>p i bs k. 3), getCatchUpStatus = (0, [5]),
      bakerStatusBestBlock = (\<lambda>i h. (0, 12, 1)), checkIfWeAreFinalizer = 1, checkIfRunning = 1,
      importBlocks = (\<lambda>_. 0), getLastFinalizedBlockHeight = 77, getLastFinalizedBlockSlotTimeV2 = 4000000,
      ask_string = (\<lambda>_. ''null''), getModuleSource = (\<lambda>b m. [0, 0, 0, 1, 8])\<rparr>"

lemma example_library_law: "library_law example_lib"
proof -
  have "0 \<in> range to_receive_result" "1 \<in> range to_receive_result" "6 \<in> range to_receive_result"
    "3 \<in> range to_receive_result" "0 \<in> range get_baker_status_code"
    by (rule range_eqI [of _ _ ResultSuccess], simp add: to_receive_result_def)
      (rule range_eqI [of _ _ ResultSerializationFail], simp add: to_receive_result_def,
       rule range_eqI [of _ _ ResultDuplicate], simp add: to_receive_result_def,
       rule range_eqI [of _ _ ResultPendingBlock], simp add: to_receive_result_def,
       rule range_eqI [of _ _ ActiveInComittee], simp add: get_baker_status_code_def)
  then show ?thesis by (simp add: library_law_def example_lib_def)
qed

theorem library_message_reaches_peer_witness:
  "\<exists>q' m m' n' x. sending_callback bounded_channel_ops (\<lambda>i. be_bytes 4 (unat i)) None (message_type_code MessageBlock) 7 [1, 2]
       None consensus_queues_default = Some q' \<and>
     ch_queue (out_high q') = [Relay m] \<and>
     handle_pkt_out example_env [3] 3 (cm_payload m) True example_node = (Ok (), n') \<and>
     ch_queue (in_high (callback_queue n')) = [Relay m'] \<and> source_peer m' = Ok 3 \<and>
     call_consensus (lib_api (\<lambda>bs. Some (word_of_nat (from_be_bytes bs))) (\<lambda>p. Some False) example_lib) 0 3 m' =
       ffi_receive_block example_lib 7 [1, 2] \<and> ffi_receive_block example_lib 7 [1, 2] = Ok x"
proof -
  define ser where "ser = (\<lambda>i :: u32. be_bytes 4 (unat i))"
  define des where "des = (\<lambda>bs. Some (word_of_nat (from_be_bytes bs) :: u32))"
  have codec: "length (ser 7) = 4" "des (ser 7) = Some 7"
    by (simp_all add: ser_def des_def from_be_bytes_be_bytes)
  have empty: "ch_queue (out_high consensus_queues_default) = []" "ch_queue (in_high (callback_queue example_node)) = []"
    "0 < ch_capacity (in_high (callback_queue example_node))" "0 < ch_capacity (out_high consensus_queues_default)"
    by (simp_all add: consensus_queues_default_def channel_bounded_def example_node_def CONSENSUS_QUEUE_DEPTH_IN_HI_def
        CONSENSUS_QUEUE_DEPTH_OUT_HI_def)
  have "ch_send bounded_channel_ops (ch_capacity (out_high consensus_queues_default)) [] x = Some [x]"
    for x :: "consensus_message queue_msg"
    using empty(4) by (simp add: bounded_channel_ops_def)
  then obtain q' where q': "sending_callback bounded_channel_ops ser None (message_type_code MessageBlock) 7 [1, 2]
       None consensus_queues_default = Some q'"
    using empty(1)
    by (simp add: sending_callback_def message_type_code_def callback_type_try_from_def send_out_blocking_msg_def
        send_blocking_msg_def)
  have "channel_law (channels example_env)" by (simp add: example_env_def bounded_channel_ops_law)
  from library_message_reaches_peer [where ser = ser and des = des and i = 7 and n = example_node and dont_relay = "[3]"
      and source = 3 and is_broadcast = True and limit = 0 and coin = "\<lambda>p. Some False",
      OF bounded_channel_ops_law this example_library_law codec q'] empty(2,3)
  show ?thesis
    using q' empty(1,2) by (fastforce simp: library_call_def ser_def des_def)
qed

end
