(* ===== verification/ServiceGuards.thy ===== *)
theory ServiceGuards
  imports Rpc Grpc2 NodeInvariant LibraryCodes
begin

text \<open>
  The guards of the two gRPC services: who may call what, what a refused call leaves behind,
  and which arguments reach the consensus library.
\<close>

lemmas rpc_handler_defs = peer_connect_def peer_disconnect_def peer_version_def peer_uptime_def peer_total_received_def
  peer_total_sent_def rpc_send_transaction_def join_network_def leave_network_def rpc_peer_stats_def rpc_peer_list_def
  rpc_node_info_def ban_node_def rpc_unban_node_def rpc_get_banned_peers_def rpc_shutdown_def dump_start_def dump_stop_def
  rpc_start_baker_def rpc_stop_baker_def rpc_get_module_source_def

lemmas rpc_query_defs = rpc_get_consensus_status_def rpc_get_branches_def rpc_get_block_info_def rpc_get_ancestors_def
  rpc_get_blocks_at_height_def rpc_get_account_list_def rpc_get_instances_def rpc_get_account_info_def
  rpc_get_instance_info_def rpc_invoke_contract_def rpc_get_reward_status_def rpc_get_birk_parameters_def
  rpc_get_module_list_def rpc_get_identity_providers_def rpc_get_anonymity_revokers_def rpc_get_baker_list_def
  rpc_get_pool_status_def rpc_get_transaction_status_def rpc_get_transaction_status_in_block_def
  rpc_get_account_non_finalized_transactions_def rpc_get_next_account_nonce_def rpc_get_block_summary_def
  rpc_get_cryptographic_parameters_def

definition example_answer :: v2_answer where
  "example_answer =
     \<lparr>answer_code = 0, answer_hash = replicate 32 7, answer_data = [[1], [2, 3]], answer_crypto = None,
      answer_v1_state = None, answer_stream = [[4], [5]]\<rparr>"

definition example_base :: base_ops where
  "example_base =
     \<lparr>encoded_payload_try_from = Some, contract_name_ok = (\<lambda>_. True), receive_name_ok = (\<lambda>_. True),
      parameter_ok = (\<lambda>bs. length bs \<le> 65535), memo_ok = (\<lambda>bs. length bs \<le> 256),
      registered_data_ok = (\<lambda>bs. length bs \<le> 256), encode_payload = (\<lambda>_. [0]),
      account_transaction_bytes = (\<lambda>_ _ p. 0 # p), credential_prefix_bytes = (\<lambda>t _. [t]),
      update_header_bytes = (\<lambda>t _. [t]), update_signature_bytes = (\<lambda>_. []), transaction_sign_hash = (\<lambda>_ _. replicate 32 8)\<rparr>"

definition example_renv :: "unit rpc_env" where
  "example_renv =
     \<lparr>rpc_lib = example_lib, rpc_queries = (\<lambda>_. example_answer), rpc_base = example_base,
      ip_from_str = (\<lambda>t. if t = ''1.2.3.4'' then Some (V4 16909060) else None), ip_to_string = (\<lambda>_. ''1.2.3.4''),
      version_text = ''5.2.0'', uptime_ms = 60000\<rparr>"

section \<open>The first interface\<close>

text \<open>Every call is authenticated, and the calls about the node can be disabled.\<close>

fun rpc_node_call :: "rpc_request \<Rightarrow> bool" where
  "rpc_node_call (RpcPeerConnect _ _) = True"
| "rpc_node_call (RpcPeerDisconnect _ _) = True"
| "rpc_node_call RpcPeerVersion = True"
| "rpc_node_call RpcPeerUptime = True"
| "rpc_node_call RpcPeerTotalReceived = True"
| "rpc_node_call RpcPeerTotalSent = True"
| "rpc_node_call (RpcJoinNetwork _) = True"
| "rpc_node_call (RpcLeaveNetwork _) = True"
| "rpc_node_call (RpcGetPeerStats _) = True"
| "rpc_node_call (RpcGetPeerList _) = True"
| "rpc_node_call RpcGetNodeInfo = True"
| "rpc_node_call (RpcBanNode _ _) = True"
| "rpc_node_call (RpcUnbanNode _) = True"
| "rpc_node_call RpcGetBannedPeers = True"
| "rpc_node_call RpcShutdown = True"
| "rpc_node_call RpcDumpStart = True"
| "rpc_node_call RpcDumpStop = True"
| "rpc_node_call RpcStartBaker = True"
| "rpc_node_call RpcStopBaker = True"
| "rpc_node_call _ = False"

lemma authenticated_refused:
  "auth \<noteq> Some (access_token s) \<Longrightarrow> authenticated auth k s = (Failure StatusUnauthenticated, s)"
  by (auto simp: authenticated_def authenticate_def split: option.split)

lemma rpc_handle_node_call:
  assumes "rpc_node_call req"
  shows "\<exists>k. rpc_handle env renv auth req = node_endpoint auth k"
  using assms by (cases req) (auto simp: rpc_handle_def rpc_handler_defs)

lemma rpc_handle_query:
  assumes "\<not> rpc_node_call req"
  shows "\<exists>k. rpc_handle env renv auth req = authenticated auth k"
  using assms by (cases req) (auto simp: rpc_handle_def rpc_handler_defs rpc_query_defs json_query_def)

text \<open>
  Property C11: No call of the first gRPC interface does anything for a client that does not
  present the access token, and when the calls about the node are disabled none of them does
  anything for anybody: the reply is an error with the status that says so and the state of the
  server, the node and the consensus layer is unchanged.
\<close>

theorem rpc_guards:
  assumes "auth \<noteq> Some (access_token s) \<or> disable_node_endpoints s \<and> rpc_node_call req"
  shows "rpc_handle env renv auth req s =
    (Failure (if disable_node_endpoints s \<and> rpc_node_call req then StatusUnimplemented else StatusUnauthenticated), s)"
proof (cases "rpc_node_call req")
  case True
  then obtain k where "rpc_handle env renv auth req = node_endpoint auth k"
    using rpc_handle_node_call by blast
  with assms True show ?thesis by (auto simp: node_endpoint_def authenticated_refused)
next
  case False
  then obtain k where "rpc_handle env renv auth req = authenticated auth k"
    using rpc_handle_query by blast
  with assms False show ?thesis by (auto simp: authenticated_refused)
qed

theorem rpc_guards_witness:
  "rpc_handle example_env example_renv (Some ''guess'') (RpcBanNode None (Some ''1.2.3.4''))
       \<lparr>rpc_node = example_node, disable_node_endpoints = False, rpc_listen_addr = SocketAddr (V4 1) 10000, access_token = ''rpcadmin'', rpc_consensus = None\<rparr> =
     (Failure StatusUnauthenticated,
       \<lparr>rpc_node = example_node, disable_node_endpoints = False, rpc_listen_addr = SocketAddr (V4 1) 10000, access_token = ''rpcadmin'', rpc_consensus = None\<rparr>)"
  by (subst rpc_guards) simp_all

section \<open>The second interface\<close>

lemmas g2_node_defs = g2_shutdown_def g2_peer_connect_def g2_peer_disconnect_def g2_get_banned_peers_def g2_ban_peer_def
  g2_unban_peer_def g2_dump_start_def g2_dump_stop_def g2_get_peers_info_def g2_get_node_info_def g2_send_block_item_def
  g2_get_blocks_def g2_get_finalized_blocks_def g2_get_account_transaction_sign_hash_def

lemmas g2_bytes_defs = g2_get_account_info_def g2_get_module_source_def g2_get_instance_info_def g2_get_instance_state_def
  g2_instance_state_lookup_def g2_get_next_account_sequence_number_def g2_get_consensus_info_def g2_get_block_item_status_def
  g2_invoke_instance_def g2_get_cryptographic_parameters_def g2_get_pool_info_def g2_get_blocks_at_height_def g2_get_branches_def
  g2_get_block_info_def g2_get_passive_delegation_info_def g2_get_tokenomics_info_def g2_get_election_info_def
  g2_get_next_update_sequence_numbers_def g2_get_block_chain_parameters_def g2_get_block_finalization_summary_def

lemmas g2_stream_defs = g2_get_ancestors_def g2_get_account_list_def g2_get_module_list_def g2_get_instance_list_def
  g2_get_baker_list_def g2_get_pool_delegators_def g2_get_pool_delegators_reward_period_def g2_get_passive_delegators_def
  g2_get_passive_delegators_reward_period_def g2_get_identity_providers_def g2_get_anonymity_revokers_def
  g2_get_block_transaction_events_def g2_get_block_special_events_def g2_get_block_pending_updates_def g2_get_block_items_def
  g2_get_account_non_finalized_transactions_def

lemma g2_handle_enabled: "\<exists>k. g2_handle env renv req = enabled (request_endpoint req) k"
  by (cases req) (auto simp: g2_handle_def request_endpoint_def g2_node_defs g2_bytes_defs g2_stream_defs)

text \<open>
  A disabled endpoint of the second gRPC interface is unreachable: every request
  for it is answered as unimplemented, and the state of the server, the node and the consensus
  layer is unchanged.
\<close>

theorem disabled_endpoint_unreachable:
  assumes "\<not> service_config s (request_endpoint req)"
  shows "g2_handle env renv req s = (Failure StatusUnimplemented, s)"
proof -
  obtain k where "g2_handle env renv req = enabled (request_endpoint req) k" using g2_handle_enabled by blast
  with assms show ?thesis by (simp add: enabled_def)
qed

definition example_server :: "nat grpc2_server" where
  "example_server =
     \<lparr>service_config = (\<lambda>e. e \<noteq> EpShutdown), g2_node = example_node, g2_consensus = consensus_container_new None,
      blocks_channels = \<lparr>client_list = [], clients_poisoned = False\<rparr>,
      finalized_blocks_channels = \<lparr>client_list = [], clients_poisoned = False\<rparr>, leaked_senders = 0\<rparr>"

theorem disabled_endpoint_unreachable_witness:
  "g2_handle example_env example_renv ReqShutdown example_server = (Failure StatusUnimplemented, example_server)"
  by (rule disabled_endpoint_unreachable) (simp add: example_server_def request_endpoint_def)

section \<open>What reaches the library\<close>

text \<open>
  The library reads as many bytes behind a pointer as the tag beside it says; a call is well
  formed when they are there.
\<close>

definition points_to :: "nat \<Rightarrow> ffi_ptr \<Rightarrow> bool" where
  "points_to k p = (case p of BytesPtr bs \<Rightarrow> length bs = k | _ \<Rightarrow> False)"

definition block_ref_wf :: "block_ref \<Rightarrow> bool" where
  "block_ref_wf b = (case b of (t, p) \<Rightarrow> t \<in> {0, 1} \<and> p = NullPtr \<or> t = 2 \<and> points_to 32 p)"

definition account_ref_wf :: "u8 \<Rightarrow> ffi_ptr \<Rightarrow> bool" where
  "account_ref_wf t p = (t = 0 \<and> points_to 32 p \<or> t = 1 \<and> points_to 48 p \<or> t = 2 \<and> (case p of U64Ptr _ \<Rightarrow> True | _ \<Rightarrow> False))"

definition invoker_wf :: "u8 \<Rightarrow> ffi_ptr \<Rightarrow> bool" where
  "invoker_wf t p = (t \<in> {0, 2} \<and> p = NullPtr \<or> t = 1 \<and> points_to 32 p)"

fun v2_call_wf :: "v2_call \<Rightarrow> bool" where
  "v2_call_wf (GetAccountInfoV2 b t p) = (block_ref_wf b \<and> account_ref_wf t p)"
| "v2_call_wf (GetNextAccountSequenceNumberV2 p) = points_to 32 p"
| "v2_call_wf GetConsensusInfoV2 = True"
| "v2_call_wf (GetCryptographicParametersV2 b) = block_ref_wf b"
| "v2_call_wf (GetAccountListV2 b) = block_ref_wf b"
| "v2_call_wf (GetModuleListV2 b) = block_ref_wf b"
| "v2_call_wf (GetModuleSourceV2 b p) = (block_ref_wf b \<and> points_to 32 p)"
| "v2_call_wf (GetInstanceListV2 b) = block_ref_wf b"
| "v2_call_wf (GetInstanceInfoV2 b _ _) = block_ref_wf b"
| "v2_call_wf (GetInstanceStateV2 b _ _) = block_ref_wf b"
| "v2_call_wf (GetAncestorsV2 b _) = block_ref_wf b"
| "v2_call_wf (GetBlockItemStatusV2 p) = points_to 32 p"
| "v2_call_wf (InvokeInstanceV2 b _ _ t p _ _ _ (name, name_len) (param, param_len) energy) =
     (block_ref_wf b \<and> invoker_wf t p \<and> is_ascii name \<and> length name \<le> 100 \<and> unat name_len = length name \<and>
      unat param_len = length param \<and> energy \<le> MAX_ALLOWED_INVOKE_ENERGY)"
| "v2_call_wf (GetBlockInfoV2 b) = block_ref_wf b"
| "v2_call_wf (GetBakerListV2 b) = block_ref_wf b"
| "v2_call_wf (GetPoolInfoV2 b _) = block_ref_wf b"
| "v2_call_wf (GetPassiveDelegationInfoV2 b) = block_ref_wf b"
| "v2_call_wf (GetBlocksAtHeightV2 _ _ restrict) = (restrict \<in> {0, 1})"
| "v2_call_wf (GetTokenomicsInfoV2 b) = block_ref_wf b"
| "v2_call_wf (GetPoolDelegatorsV2 b _) = block_ref_wf b"
| "v2_call_wf (GetPoolDelegatorsRewardPeriodV2 b _) = block_ref_wf b"
| "v2_call_wf (GetPassiveDelegatorsV2 b) = block_ref_wf b"
| "v2_call_wf (GetPassiveDelegatorsRewardPeriodV2 b) = block_ref_wf b"
| "v2_call_wf GetBranchesV2 = True"
| "v2_call_wf (GetElectionInfoV2 b) = block_ref_wf b"
| "v2_call_wf (GetIdentityProvidersV2 b) = block_ref_wf b"
| "v2_call_wf (GetAnonymityRevokersV2 b) = block_ref_wf b"
| "v2_call_wf (GetAccountNonFinalizedTransactionsV2 p) = points_to 32 p"
| "v2_call_wf (GetBlockItemsV2 b) = block_ref_wf b"
| "v2_call_wf (GetBlockTransactionEventsV2 b) = block_ref_wf b"
| "v2_call_wf (GetBlockSpecialEventsV2 b) = block_ref_wf b"
| "v2_call_wf (GetBlockPendingUpdatesV2 b) = block_ref_wf b"
| "v2_call_wf (GetNextUpdateSequenceNumbersV2 b) = block_ref_wf b"
| "v2_call_wf (GetBlockChainParametersV2 b) = block_ref_wf b"
| "v2_call_wf (GetBlockFinalizationSummaryV2 b) = block_ref_wf b"

lemma require_Answer [simp]: "require v = Answer x \<longleftrightarrow> v = Some x"
  by (simp add: require_def split: option.split)

lemma reply_bind_same: "(\<And>x. m = Answer x \<Longrightarrow> f x = g x) \<Longrightarrow> reply_bind m f = reply_bind m g"
  by (cases m) auto

lemma required_same: "(\<And>x. f x = g x) \<Longrightarrow> required v f = required v g"
  unfolding required_def by (rule reply_bind_same)

lemma with_sender_same: "(\<And>x. m = Answer x \<Longrightarrow> f x = g x) \<Longrightarrow> with_sender m f = with_sender m g"
  by (cases m) (auto simp: with_sender_def)

lemma require_block_wf [simp]: "require_block b = Answer r \<Longrightarrow> block_ref_wf r"
  by (auto simp: require_block_def block_hash_input_to_ffi_def block_ref_wf_def points_to_def
      split: option.splits block_hash_choice.splits if_splits)

lemma account_identifier_wf [simp]: "account_identifier_to_ffi a = Some (t, p) \<Longrightarrow> account_ref_wf t p"
  by (auto simp: account_identifier_to_ffi_def account_ref_wf_def points_to_def
      split: option.splits account_identifier_choice.splits if_splits)

lemma pointers_wf [simp]:
  "account_address_to_ffi a = Some p \<Longrightarrow> points_to 32 p"
  "module_reference_to_ffi a = Some p \<Longrightarrow> points_to 32 p"
  "transaction_hash_to_ffi a = Some p \<Longrightarrow> points_to 32 p"
  by (auto simp: account_address_to_ffi_def module_reference_to_ffi_def transaction_hash_to_ffi_def points_to_def
      split: if_splits)

lemma invoker_to_ffi_wf [simp]: "invoker_to_ffi a = Answer (t, p, i, j) \<Longrightarrow> invoker_wf t p"
  by (auto simp: invoker_to_ffi_def invoker_wf_def account_address_to_ffi_def points_to_def require_def
      split: option.splits address_choice.splits if_splits)

text \<open>Two libraries that answer every well-formed call in the same way cannot be told apart.\<close>

definition same_answers :: "v2_lib \<Rightarrow> v2_lib \<Rightarrow> bool" where
  "same_answers lib lib' \<longleftrightarrow> (\<forall>c. v2_call_wf c \<longrightarrow> lib c = lib' c)"

lemma same_answersD: "same_answers lib lib' \<Longrightarrow> v2_call_wf c \<Longrightarrow> lib c = lib' c"
  by (simp add: same_answers_def)

lemma same_block_query: "same_answers lib lib' \<Longrightarrow> v2_call_wf c \<Longrightarrow> block_query lib c = block_query lib' c"
  by (simp add: block_query_def same_answersD)

lemma same_stream_query: "same_answers lib lib' \<Longrightarrow> v2_call_wf c \<Longrightarrow> stream_query lib c = stream_query lib' c"
  by (simp add: stream_query_def same_answersD)

lemma pool_ref_wf [simp]: "pool_ref r = Answer (b, i) \<Longrightarrow> block_ref_wf b"
proof -
  assume "pool_ref r = Answer (b, i)"
  then obtain bhi where "require_block bhi = Answer b"
    by (cases "pool_block r"; cases "pool_baker r"; cases "require_block (the (pool_block r))")
      (auto simp: pool_ref_def require_def)
  then show ?thesis by simp
qed

lemma same_bytes_queries:
  assumes "same_answers lib lib'"
  shows "get_account_info_v2 lib b a = get_account_info_v2 lib' b a"
    and "get_module_source_v2 lib b m = get_module_source_v2 lib' b m"
    and "get_instance_info_v2 lib b c = get_instance_info_v2 lib' b c"
    and "get_pool_info_v2 lib r = get_pool_info_v2 lib' r"
    and "get_block_info_v2 lib b = get_block_info_v2 lib' b"
    and "get_passive_delegation_info_v2 lib b = get_passive_delegation_info_v2 lib' b"
    and "get_tokenomics_info_v2 lib b = get_tokenomics_info_v2 lib' b"
    and "get_election_info_v2 lib b = get_election_info_v2 lib' b"
    and "get_next_update_sequence_numbers_v2 lib b = get_next_update_sequence_numbers_v2 lib' b"
    and "get_block_chain_parameters_v2 lib b = get_block_chain_parameters_v2 lib' b"
    and "get_block_finalization_summary_v2 lib b = get_block_finalization_summary_v2 lib' b"
  unfolding get_account_info_v2_def get_module_source_v2_def get_instance_info_v2_def get_pool_info_v2_def
    get_block_info_v2_def get_passive_delegation_info_v2_def get_tokenomics_info_v2_def get_election_info_v2_def
    get_next_update_sequence_numbers_v2_def get_block_chain_parameters_v2_def get_block_finalization_summary_v2_def
  by (auto intro!: reply_bind_same same_block_query [OF assms])

lemma same_other_queries:
  assumes "same_answers lib lib'"
  shows "get_next_account_sequence_number_v2 lib h = get_next_account_sequence_number_v2 lib' h"
    and "get_consensus_info_v2 lib = get_consensus_info_v2 lib'"
    and "get_cryptographic_parameters_v2 lib b = get_cryptographic_parameters_v2 lib' b"
    and "get_instance_state_v2 lib b c = get_instance_state_v2 lib' b c"
    and "get_block_item_status_v2 lib h = get_block_item_status_v2 lib' h"
    and "get_branches_v2 lib = get_branches_v2 lib'"
    and "get_blocks_at_height_v2 lib g = get_blocks_at_height_v2 lib' g"
proof -
  show "get_next_account_sequence_number_v2 lib h = get_next_account_sequence_number_v2 lib' h"
    unfolding get_next_account_sequence_number_v2_def by (rule reply_bind_same) (simp add: same_answersD [OF assms])
  show "get_consensus_info_v2 lib = get_consensus_info_v2 lib'" "get_branches_v2 lib = get_branches_v2 lib'"
    by (simp_all add: get_consensus_info_v2_def get_branches_v2_def same_answersD [OF assms])
  show "get_cryptographic_parameters_v2 lib b = get_cryptographic_parameters_v2 lib' b"
    unfolding get_cryptographic_parameters_v2_def by (rule reply_bind_same) (simp add: same_answersD [OF assms])
  show "get_instance_state_v2 lib b c = get_instance_state_v2 lib' b c"
    unfolding get_instance_state_v2_def by (rule reply_bind_same) (simp add: same_answersD [OF assms])
  show "get_block_item_status_v2 lib h = get_block_item_status_v2 lib' h"
    unfolding get_block_item_status_v2_def by (rule reply_bind_same) (simp add: same_answersD [OF assms])
  have "v2_call_wf (GetBlocksAtHeightV2 i j k)" if "blocks_at_height_request_to_ffi g = Some (i, j, k)" for i j k
    using that by (auto simp: blocks_at_height_request_to_ffi_def bind_eq_Some_conv
        split: option.splits blocks_at_height_choice.splits if_splits)
  then show "get_blocks_at_height_v2 lib g = get_blocks_at_height_v2 lib' g"
    unfolding get_blocks_at_height_v2_def
    by (intro reply_bind_same) (simp add: same_answersD [OF assms] split: prod.split)
qed

lemma same_stream_queries:
  assumes "same_answers lib lib'"
  shows "get_account_list_v2 lib b = get_account_list_v2 lib' b"
    and "get_module_list_v2 lib b = get_module_list_v2 lib' b"
    and "get_instance_list_v2 lib b = get_instance_list_v2 lib' b"
    and "get_baker_list_v2 lib b = get_baker_list_v2 lib' b"
    and "get_passive_delegators_v2 lib b = get_passive_delegators_v2 lib' b"
    and "get_passive_delegators_reward_period_v2 lib b = get_passive_delegators_reward_period_v2 lib' b"
    and "get_identity_providers_v2 lib b = get_identity_providers_v2 lib' b"
    and "get_anonymity_revokers_v2 lib b = get_anonymity_revokers_v2 lib' b"
    and "get_block_items_v2 lib b = get_block_items_v2 lib' b"
    and "get_block_transaction_events_v2 lib b = get_block_transaction_events_v2 lib' b"
    and "get_block_special_events_v2 lib b = get_block_special_events_v2 lib' b"
    and "get_block_pending_updates_v2 lib b = get_block_pending_updates_v2 lib' b"
    and "get_ancestors_v2 lib b k = get_ancestors_v2 lib' b k"
    and "get_pool_delegators_v2 lib r = get_pool_delegators_v2 lib' r"
    and "get_pool_delegators_reward_period_v2 lib r = get_pool_delegators_reward_period_v2 lib' r"
    and "get_account_non_finalized_transactions_v2 lib h = get_account_non_finalized_transactions_v2 lib' h"
proof -
  show "get_account_list_v2 lib b = get_account_list_v2 lib' b"
    unfolding get_account_list_v2_def by (rule with_sender_same) (simp add: same_answersD [OF assms])
  have "with_sender (require (account_address_to_ffi h)) (\<lambda>ptr. stream_query lib (GetAccountNonFinalizedTransactionsV2 ptr)) =
    with_sender (require (account_address_to_ffi h)) (\<lambda>ptr. stream_query lib' (GetAccountNonFinalizedTransactionsV2 ptr))"
    by (rule with_sender_same) (simp add: same_stream_query [OF assms])
  then show "get_account_non_finalized_transactions_v2 lib h = get_account_non_finalized_transactions_v2 lib' h"
    by (simp add: get_account_non_finalized_transactions_v2_def)
qed (auto intro!: with_sender_same same_stream_query [OF assms] simp: get_module_list_v2_def get_instance_list_v2_def
    get_baker_list_v2_def get_passive_delegators_v2_def get_passive_delegators_reward_period_v2_def
    get_identity_providers_v2_def get_anonymity_revokers_v2_def get_block_items_v2_def get_block_transaction_events_v2_def
    get_block_special_events_v2_def get_block_pending_updates_v2_def get_ancestors_v2_def get_pool_delegators_v2_def
    get_pool_delegators_reward_period_v2_def)

lemma same_invoke:
  assumes "same_answers lib lib'" and "invoke_energy r = Some e" and "e \<le> MAX_ALLOWED_INVOKE_ENERGY"
  shows "invoke_instance_v2 lib r = invoke_instance_v2 lib' r"
proof -
  have name: "unat (word_of_nat (length nm) :: u32) = length nm" if "length nm \<le> 100" for nm :: string
    using that by (simp add: unat_of_nat take_bit_eq_mod)
  have par: "unat (word_of_nat (length pm) :: u32) = length pm" if "length pm < 4294967296" for pm :: bytes
    using that by (simp add: unat_of_nat take_bit_eq_mod)
  show ?thesis
    unfolding invoke_instance_v2_def
    by (auto intro!: reply_bind_same same_block_query [OF assms(1)] simp: assms(2,3) receive_name_to_ffi_def name par
        invalid_unless_def split: if_splits)
qed

text \<open>
  Property C12: The consensus library is never called with less than it reads: whatever a client
  of the second gRPC interface sends, every pointer handed to the library refers to as many bytes
  as its tag announces, names are short ASCII texts of the length passed along, and the energy of
  an invocation is limited. Only well-formed calls are made: two libraries that answer these in
  the same way give the same replies and leave the same state.
\<close>

theorem only_well_formed_calls:
  assumes "\<forall>c. v2_call_wf c \<longrightarrow> rpc_queries renv c = lib c"
  shows "g2_handle env renv req s = g2_handle env (renv\<lparr>rpc_queries := lib\<rparr>) req s"
proof -
  have a: "same_answers (rpc_queries renv) lib" using assms by (simp add: same_answers_def)
  have f: "rpc_lib (renv\<lparr>rpc_queries := lib\<rparr>) = rpc_lib renv" "rpc_base (renv\<lparr>rpc_queries := lib\<rparr>) = rpc_base renv"
    "ip_from_str (renv\<lparr>rpc_queries := lib\<rparr>) = ip_from_str renv" "ip_to_string (renv\<lparr>rpc_queries := lib\<rparr>) = ip_to_string renv"
    "version_text (renv\<lparr>rpc_queries := lib\<rparr>) = version_text renv" "uptime_ms (renv\<lparr>rpc_queries := lib\<rparr>) = uptime_ms renv"
    by simp_all
  have g: "with_socket_address (renv\<lparr>rpc_queries := lib\<rparr>) = with_socket_address renv"
    "g2_peer_info (renv\<lparr>rpc_queries := lib\<rparr>) = g2_peer_info renv"
    unfolding with_socket_address_def g2_peer_info_def f by (rule refl)+
  show ?thesis
  proof (cases req)
    case (ReqInvokeInstance r)
    then show ?thesis
      using same_invoke [OF a]
      by (auto simp: g2_handle_def g2_invoke_instance_def enabled_def g2_reply_def split: option.splits)
  qed (unfold g2_handle_def g2_node_defs f g, simp_all add: g2_bytes_defs g2_stream_defs same_bytes_queries [OF a]
      same_other_queries [OF a] same_stream_queries [OF a])
qed

theorem only_well_formed_calls_witness:
  "\<exists>lib. lib (GetBlockInfoV2 (2, BytesPtr [1])) \<noteq> rpc_queries example_renv (GetBlockInfoV2 (2, BytesPtr [1])) \<and>
     g2_handle example_env example_renv (ReqGetBlockInfo (Some (Given [1]))) example_server =
       g2_handle example_env (example_renv\<lparr>rpc_queries := lib\<rparr>) (ReqGetBlockInfo (Some (Given [1]))) example_server"
proof -
  let ?lib = "(rpc_queries example_renv)(GetBlockInfoV2 (2, BytesPtr [1]) := example_answer\<lparr>answer_code := 1\<rparr>)"
  have "\<forall>c. v2_call_wf c \<longrightarrow> rpc_queries example_renv c = ?lib c" by (simp add: block_ref_wf_def points_to_def)
  then have "g2_handle example_env example_renv (ReqGetBlockInfo (Some (Given [1]))) example_server =
      g2_handle example_env (example_renv\<lparr>rpc_queries := ?lib\<rparr>) (ReqGetBlockInfo (Some (Given [1]))) example_server"
    by (rule only_well_formed_calls)
  moreover have "?lib (GetBlockInfoV2 (2, BytesPtr [1])) \<noteq> rpc_queries example_renv (GetBlockInfoV2 (2, BytesPtr [1]))"
    by (simp add: example_renv_def example_answer_def)
  ultimately show ?thesis by (intro exI conjI)
qed

end
