(* ===== verification/ServiceSafety.thy ===== *)
theory ServiceSafety
  imports ServiceGuards
begin

text \<open>
  The gRPC services beside the running node: no call panics, and the invariant of the node holds
  through every interleaving of its own work with the calls of the two services.
\<close>

text \<open>The texts of the library are JSON documents, encoded as UTF-8.\<close>

definition texts_law :: "'cb consensus_lib \<Rightarrow> bool" where
  "texts_law lib \<longleftrightarrow> (\<forall>q. utf8_valid (ask_string lib q))"

section \<open>Operations of the node that the services use\<close>

definition safe_op :: "('ns node \<Rightarrow> 'r reply \<times> 'ns node) \<Rightarrow> bool" where
  "safe_op f \<longleftrightarrow> (\<forall>n. node_inv n \<longrightarrow> fst (f n) \<noteq> Crash \<and> node_inv (snd (f n)))"

named_theorems safe_intros \<open>operations and handlers that do not panic and keep the invariant of the node\<close>

lemma safe_opI: "(\<And>n. node_inv n \<Longrightarrow> fst (f n) \<noteq> Crash) \<Longrightarrow> (\<And>n. shrinks n (snd (f n))) \<Longrightarrow> safe_op f"
  by (auto simp: safe_op_def intro: shrinks_node_inv)

lemma reply_map_Crash [simp]: "reply_map f r = Crash \<longleftrightarrow> r = Crash"
  by (cases r) auto

lemma reply_of_res_Crash [simp]: "reply_of_res c r = Crash \<longleftrightarrow> r = Panic"
  by (cases r) (auto simp: reply_of_res_def)

lemma require_Crash [simp]: "require v \<noteq> Crash"
  by (simp add: require_def split: option.split)

lemma required_Crash [simp]: "required v f = Crash \<longleftrightarrow> (\<exists>x. v = Some x \<and> f x = Crash)"
  by (cases v) (auto simp: required_def require_def)

lemma reply_bind_Crash [simp]: "reply_bind m f = Crash \<longleftrightarrow> m = Crash \<or> (\<exists>x. m = Answer x \<and> f x = Crash)"
  by (cases m) auto

lemma shrinks_queue [simp]: "shrinks n (n\<lparr>callback_queue := q\<rparr>)" "shrinks n (stop_network n)"
  by (simp_all add: shrinks_def stop_network_def)

lemma submit_transaction_safe:
  assumes "library_law lib"
  shows "fst (submit_transaction env lib t n) \<noteq> Crash" "shrinks n (snd (submit_transaction env lib t n))"
proof -
  obtain h r where r: "ffi_send_transaction lib t = Ok (h, r)"
    using library_lawD(5) [OF assms, of t] by (auto simp: ffi_send_transaction_def split_beta)
  have s: "fst (send_out_message ops m q) \<noteq> Panic" for ops m q
    by (auto simp: send_out_message_def send_msg_def split: option.split prod.split)
  obtain x q where x: "send_out_message (channels env) (transaction_message t) (callback_queue n) = (x, q)"
    by (cases "send_out_message (channels env) (transaction_message t) (callback_queue n)")
  with s [of "channels env" "transaction_message t" "callback_queue n"] have "x \<noteq> Panic" by simp
  with r x show "fst (submit_transaction env lib t n) \<noteq> Crash" "shrinks n (snd (submit_transaction env lib t n))"
    by (cases x; auto simp: submit_transaction_def)+
qed

lemma close_node_safe: "fst (close_node env n) \<noteq> Crash" "shrinks n (snd (close_node env n))"
proof -
  show "fst (close_node env n) \<noteq> Crash" by (simp add: close_node_def split: option.split)
  have "shrinks n (m\<lparr>callback_queue := q\<rparr>)" if "shrinks n m" for m q using shrinks_trans [OF that shrinks_queue(1)] .
  then show "shrinks n (snd (close_node env n))"
    by (auto simp: close_node_def node_close_def Let_def split: option.split)
qed

lemma given_connection_shrinks:
  "change_channel_law env \<Longrightarrow> shrinks n (new_given_connection env ip port n)"
  by (simp add: new_given_connection_def shrinks_register)

lemma get_banlist_total: "get_banlist env n \<noteq> Panic"
proof -
  have "ban_id_deserial env bs \<noteq> Panic" for bs
    by (auto simp: ban_id_deserial_def split: list.split option.split)
  then have "collect_res (map (ban_id_deserial env) ks) \<noteq> Panic" for ks
    by (induction ks) (auto simp: res_simps)
  then show ?thesis by (simp add: get_banlist_def split: option.split)
qed

lemma ban_results: "fst (drop_by_ip_and_ban env ip n) \<noteq> Panic" "fst (unban_node env p n) \<noteq> Panic"
  by (simp_all add: drop_by_ip_and_ban_def unban_node_def Let_def split: option.split)

lemma networks_shrink: "shrinks n (send_join_network env i n)" "shrinks n (send_leave_network env i n)"
  by (simp_all add: send_join_network_def send_leave_network_def broadcast_network_request_def shrinks_send Let_def)

section \<open>The first interface\<close>

definition safe_rpc :: "'ns rpc_handler \<Rightarrow> bool" where
  "safe_rpc k \<longleftrightarrow> (\<forall>s. node_inv (rpc_node s) \<longrightarrow> fst (k s) \<noteq> Crash \<and> node_inv (rpc_node (snd (k s))))"

lemma safe_authenticated [safe_intros]: "safe_rpc k \<Longrightarrow> safe_rpc (authenticated auth k)"
  by (auto simp: safe_rpc_def authenticated_def authenticate_def split: option.split)

lemma safe_node_endpoint [safe_intros]: "safe_rpc k \<Longrightarrow> safe_rpc (node_endpoint auth k)"
  using safe_authenticated [of k auth] by (auto simp: safe_rpc_def node_endpoint_def)

lemma safe_on_running_network [safe_intros]: "safe_rpc k \<Longrightarrow> safe_rpc (on_running_network k)"
  by (simp add: safe_rpc_def on_running_network_def)

lemma safe_rpc_reply [safe_intros]: "r \<noteq> Crash \<Longrightarrow> safe_rpc (rpc_reply r)"
  by (simp add: safe_rpc_def rpc_reply_def)

lemma safe_on_rpc_node [safe_intros]: "safe_op f \<Longrightarrow> safe_rpc (on_rpc_node f)"
  by (auto simp: safe_rpc_def safe_op_def on_rpc_node_def split_beta)

lemma safe_call_consensus_with [safe_intros]:
  "(\<And>cc. fst (f cc) \<noteq> Panic) \<Longrightarrow> safe_rpc (call_consensus_with renv f)"
  by (auto simp: safe_rpc_def call_consensus_with_def split: option.split prod.split) (metis fst_conv)

lemma wrap_string_total: "texts_law lib \<Longrightarrow> wrap_c_call_string lib q \<noteq> Panic"
  by (simp add: wrap_c_call_string_def texts_law_def Let_def)

lemma cstring_new_total: "cstring_new t \<noteq> Panic"
  by (simp add: cstring_new_def)

lemmas string_query_defs = get_consensus_status_def get_branches_def get_block_info_def get_ancestors_def
  get_blocks_at_height_def get_account_list_def get_instances_def get_account_info_def get_instance_info_def
  invoke_contract_def get_reward_status_def get_birk_parameters_def get_module_list_def get_identity_providers_def
  get_anonymity_revokers_def get_baker_list_def get_pool_status_def get_transaction_status_def
  get_transaction_status_in_block_def get_account_non_finalized_transactions_def get_next_account_nonce_def
  get_block_summary_def get_cryptographic_parameters_def get_module_source_def

lemma safe_json_query [safe_intros]: "f (rpc_lib renv) \<noteq> Panic \<Longrightarrow> safe_rpc (json_query renv auth f)"
  unfolding json_query_def by (intro safe_authenticated safe_call_consensus_with) (auto simp: res_simps)

lemma safe_rpc_queries:
  assumes "texts_law (rpc_lib renv)"
  shows "safe_rpc (rpc_handle env renv auth req) \<or> rpc_node_call req \<or> (\<exists>t. req = RpcSendTransaction t)"
  using assms
  by (cases req) (auto simp: rpc_handle_def rpc_query_defs rpc_get_module_source_def string_query_defs res_simps
      wrap_string_total cstring_new_total intro!: safe_json_query safe_authenticated safe_call_consensus_with)

lemma safe_peer_ops:
  assumes "change_channel_law env"
  shows "safe_rpc (peer_connect env renv auth ip port)" "safe_rpc (peer_disconnect env renv auth ip port)"
    "safe_rpc (ban_node env renv auth i ip)" "safe_rpc (rpc_unban_node env renv auth ip)"
proof -
  have p: "parse_ip renv a \<noteq> Crash" for a by (simp add: parse_ip_def split: option.split)
  show "safe_rpc (peer_connect env renv auth ip port)"
    unfolding peer_connect_def using p [of ip]
    by (intro safe_intros safe_opI) (auto simp: given_connection_shrinks [OF assms] split: reply.split option.split)
  show "safe_rpc (peer_disconnect env renv auth ip port)"
    unfolding peer_disconnect_def using p [of ip] shrinks_bans(3) [OF assms]
    by (intro safe_intros safe_opI) (auto simp: split_beta split: reply.split option.split)
  show "safe_rpc (ban_node env renv auth i ip)"
    unfolding ban_node_def using shrinks_bans(1,2) [OF assms]
    by (intro safe_intros safe_opI) (auto simp: split_beta ban_results split: option.split res.split)
  show "safe_rpc (rpc_unban_node env renv auth ip)"
    unfolding rpc_unban_node_def using shrinks_bans(4) [OF assms]
    by (intro safe_intros safe_opI) (auto simp: split_beta ban_results split: option.split)
qed

lemma listed_peers_total: "node_inv n \<Longrightarrow> listed_peers b n \<noteq> Panic"
  using node_inv_peer_stats [of n None] by (auto simp: listed_peers_def)

lemma safe_peer_lists:
  "safe_rpc (rpc_peer_stats auth b)" "safe_rpc (rpc_peer_list renv auth b)"
  "safe_rpc (rpc_get_banned_peers env renv auth)"
proof -
  show "safe_rpc (rpc_peer_stats auth b)" "safe_rpc (rpc_peer_list renv auth b)"
    unfolding rpc_peer_stats_def rpc_peer_list_def by (intro safe_intros safe_opI; simp add: listed_peers_total)+
  show "safe_rpc (rpc_get_banned_peers env renv auth)"
    unfolding rpc_get_banned_peers_def
    by (intro safe_intros safe_opI) (auto simp: get_banlist_total split: res.split)
qed

lemma safe_networks:
  "safe_rpc (join_network env auth i)" "safe_rpc (leave_network env auth i)"
  unfolding join_network_def leave_network_def
  by (intro safe_intros safe_opI; auto simp: network_change_def networks_shrink split: option.split)+

lemma safe_node_info:
  assumes "library_law (rpc_lib renv)"
  shows "safe_rpc (rpc_node_info env renv auth)"
proof -
  have "consensus_node_info (rpc_lib renv) cc info \<noteq> Panic" for cc info
    using library_committee_total [OF assms] by (auto simp: consensus_node_info_def)
  then show ?thesis
    unfolding rpc_node_info_def by (intro safe_intros) (auto simp: safe_rpc_def Let_def split: option.split)
qed

lemma safe_send_transaction:
  assumes "library_law (rpc_lib renv)"
  shows "safe_rpc (rpc_send_transaction env renv auth t)"
proof -
  have "safe_rpc (on_rpc_node (\<lambda>n. case submit_transaction env (rpc_lib renv) t n of
      (r, n') \<Rightarrow> (reply_map (\<lambda>_. RpcBool True) r, n')))"
    using submit_transaction_safe [OF assms] by (intro safe_intros safe_opI) (auto simp: split_beta)
  then show ?thesis
    unfolding rpc_send_transaction_def
    by (intro safe_intros) (auto simp: safe_rpc_def split: option.split)
qed

lemma safe_rpc_handle:
  assumes "change_channel_law env" "library_law (rpc_lib renv)" "texts_law (rpc_lib renv)"
  shows "safe_rpc (rpc_handle env renv auth req)"
proof (cases req)
  case RpcShutdown
  have "safe_rpc (rpc_shutdown env auth)"
    unfolding rpc_shutdown_def using close_node_safe by (intro safe_intros safe_opI) (auto simp: split_beta)
  with RpcShutdown show ?thesis by (simp add: rpc_handle_def)
qed (use assms safe_rpc_queries [OF assms(3), of env auth req] in
    \<open>auto simp: rpc_handle_def safe_peer_ops safe_peer_lists safe_networks safe_node_info safe_send_transaction
      peer_version_def peer_uptime_def peer_total_received_def peer_total_sent_def dump_start_def dump_stop_def
      rpc_start_baker_def rpc_stop_baker_def split_beta intro!: safe_intros safe_opI\<close>)

section \<open>The second interface\<close>

definition safe_g2 :: "'ns g2_handler \<Rightarrow> bool" where
  "safe_g2 k \<longleftrightarrow> (\<forall>s. node_inv (g2_node s) \<longrightarrow> fst (k s) \<noteq> Crash \<and> node_inv (g2_node (snd (k s))))"

lemma safe_enabled [safe_intros]: "safe_g2 k \<Longrightarrow> safe_g2 (enabled e k)"
  by (simp add: safe_g2_def enabled_def)

lemma safe_g2_reply [safe_intros]: "r \<noteq> Crash \<Longrightarrow> safe_g2 (g2_reply r)"
  by (simp add: safe_g2_def g2_reply_def)

lemma safe_on_g2_node [safe_intros]: "safe_op f \<Longrightarrow> safe_g2 (on_g2_node f)"
  by (auto simp: safe_g2_def safe_op_def on_g2_node_def split_beta)

lemma record_fate_node [simp]: "g2_node (record_fate f s) = g2_node s"
  by (simp add: record_fate_def split: sender_fate.split)

lemma safe_streamed [safe_intros]: "fst q \<noteq> Crash \<Longrightarrow> safe_g2 (streamed b q)"
  by (auto simp: safe_g2_def streamed_def split_beta)

lemma check_query_total [simp]: "check_query c \<noteq> Crash" "decode_query c \<noteq> Crash"
  by (auto simp: check_query_def decode_query_def ensure_ok_def split: option.split sum.split)

lemma require_block_total [simp]: "require_block b \<noteq> Crash"
  by (simp add: require_block_def)

lemma block_query_total [simp]: "block_query lib c \<noteq> Crash"
  by (simp add: block_query_def Let_def)

lemma stream_query_total [simp]: "fst (stream_query lib c) \<noteq> Crash"
  by (cases "check_query (answer_code (lib c))") (simp_all add: stream_query_def Let_def)

lemma with_sender_total [simp]: "m \<noteq> Crash \<Longrightarrow> (\<And>x. fst (f x) \<noteq> Crash) \<Longrightarrow> fst (with_sender m f) \<noteq> Crash"
  by (cases m) (simp_all add: with_sender_def)

lemma pool_ref_total [simp]: "pool_ref r \<noteq> Crash"
  by (simp add: pool_ref_def)

lemma invoker_total [simp]: "invoker_to_ffi a \<noteq> Crash"
  by (auto simp: invoker_to_ffi_def split: option.split address_choice.split)

lemma bytes_queries_total [simp]:
  "get_account_info_v2 lib b a \<noteq> Crash" "get_module_source_v2 lib b m \<noteq> Crash" "get_instance_info_v2 lib b c \<noteq> Crash"
  "get_pool_info_v2 lib r \<noteq> Crash" "get_block_info_v2 lib b \<noteq> Crash" "get_passive_delegation_info_v2 lib b \<noteq> Crash"
  "get_tokenomics_info_v2 lib b \<noteq> Crash" "get_election_info_v2 lib b \<noteq> Crash"
  "get_next_update_sequence_numbers_v2 lib b \<noteq> Crash" "get_block_chain_parameters_v2 lib b \<noteq> Crash"
  "get_block_finalization_summary_v2 lib b \<noteq> Crash" "get_next_account_sequence_number_v2 lib h \<noteq> Crash"
  "get_consensus_info_v2 lib \<noteq> Crash" "get_instance_state_v2 lib b c \<noteq> Crash" "get_block_item_status_v2 lib h \<noteq> Crash"
  "get_branches_v2 lib \<noteq> Crash" "get_blocks_at_height_v2 lib g \<noteq> Crash"
  "get_cryptographic_parameters_v2 lib b \<noteq> Crash"
  by (auto simp: get_account_info_v2_def get_module_source_v2_def get_instance_info_v2_def get_pool_info_v2_def
      get_block_info_v2_def get_passive_delegation_info_v2_def get_tokenomics_info_v2_def get_election_info_v2_def
      get_next_update_sequence_numbers_v2_def get_block_chain_parameters_v2_def get_block_finalization_summary_v2_def
      get_next_account_sequence_number_v2_def get_consensus_info_v2_def get_instance_state_v2_def
      get_block_item_status_v2_def get_branches_v2_def get_blocks_at_height_v2_def get_cryptographic_parameters_v2_def Let_def
      split: option.splits)

lemma invoke_total [simp]: "invoke_instance_v2 lib r \<noteq> Crash"
  by (auto simp: invoke_instance_v2_def invalid_unless_def)

lemma stream_queries_total [simp]:
  "fst (get_module_list_v2 lib b) \<noteq> Crash" "fst (get_instance_list_v2 lib b) \<noteq> Crash" "fst (get_baker_list_v2 lib b) \<noteq> Crash"
  "fst (get_passive_delegators_v2 lib b) \<noteq> Crash" "fst (get_passive_delegators_reward_period_v2 lib b) \<noteq> Crash"
  "fst (get_identity_providers_v2 lib b) \<noteq> Crash" "fst (get_anonymity_revokers_v2 lib b) \<noteq> Crash"
  "fst (get_block_items_v2 lib b) \<noteq> Crash" "fst (get_block_transaction_events_v2 lib b) \<noteq> Crash"
  "fst (get_block_special_events_v2 lib b) \<noteq> Crash" "fst (get_block_pending_updates_v2 lib b) \<noteq> Crash"
  "fst (get_ancestors_v2 lib b k) \<noteq> Crash" "fst (get_pool_delegators_v2 lib r) \<noteq> Crash"
  "fst (get_pool_delegators_reward_period_v2 lib r) \<noteq> Crash" "fst (get_account_list_v2 lib b) \<noteq> Crash"
  by (auto simp: get_module_list_v2_def get_instance_list_v2_def get_baker_list_v2_def get_passive_delegators_v2_def
      get_passive_delegators_reward_period_v2_def get_identity_providers_v2_def get_anonymity_revokers_v2_def
      get_block_items_v2_def get_block_transaction_events_v2_def get_block_special_events_v2_def
      get_block_pending_updates_v2_def get_ancestors_v2_def get_pool_delegators_v2_def
      get_pool_delegators_reward_period_v2_def get_account_list_v2_def Let_def split_beta
      split: option.split sum.split)

lemma non_finalized_total: "safe_g2 (g2_get_account_non_finalized_transactions renv h)"
proof -
  have "fst (get_account_non_finalized_transactions_v2 lib h) \<noteq> Crash" for lib
    using with_sender_total [of "require (account_address_to_ffi h)" "\<lambda>ptr. stream_query lib (GetAccountNonFinalizedTransactionsV2 ptr)"]
    by (simp add: get_account_non_finalized_transactions_v2_def split_beta)
  then show ?thesis
    unfolding g2_get_account_non_finalized_transactions_def
    by (intro safe_intros) (auto simp: safe_g2_def split_beta)
qed

lemma collect_replies_total: "(\<And>r. r \<in> set rs \<Longrightarrow> r \<noteq> Crash) \<Longrightarrow> collect_replies rs \<noteq> Crash"
  by (induction rs) auto

lemma checks_total [simp]:
  "module_ref_try_from v \<noteq> Crash" "account_address_try_from v \<noteq> Crash" "checked_by ok x \<noteq> Crash"
  "signature_try_from v \<noteq> Crash" "u8_index i \<noteq> Crash" "invalid_unless c \<noteq> Crash"
  by (simp_all add: module_ref_try_from_def account_address_try_from_def checked_by_def signature_try_from_def
      u8_index_def invalid_unless_def)

lemma collect_map_total: "(\<And>x. f x \<noteq> Crash) \<Longrightarrow> collect_replies (map f xs) \<noteq> Crash"
  by (rule collect_replies_total) auto

lemma signatures_total [simp]: "transaction_signature sigs \<noteq> Crash" "update_signature us \<noteq> Crash"
  by (auto simp: transaction_signature_def update_signature_def collect_map_total split_beta)

lemma encoded_payload_total [simp]: "encoded_payload ops p \<noteq> Crash"
  by (auto simp: encoded_payload_def split: payload_choice.splits)

lemma pre_transaction_total [simp]: "pre_account_transaction ops h p \<noteq> Crash"
  by (simp add: pre_account_transaction_def)

lemma v0_format_total [simp]: "get_v0_format ops item \<noteq> Crash"
  by (auto simp: get_v0_format_def split: block_item.splits)

lemma safe_g2_lookup: "safe_g2 (g2_instance_state_lookup renv b c k)"
proof -
  have "(case st of ContractStateV0 x \<Rightarrow> Answer (f x) | ContractStateV1 x \<Rightarrow>
      (case v1_lookup x k of Some v \<Rightarrow> Answer (f v) | None \<Rightarrow> Failure StatusNotFound)) \<noteq> Crash" for st and f :: "bytes \<Rightarrow> response"
    by (simp split: contract_state_response.split option.split)
  then show ?thesis unfolding g2_instance_state_lookup_def by (intro safe_intros) (simp add: split_beta)
qed

lemma safe_g2_account_queries:
  "safe_g2 (g2_get_account_info renv b a)" "safe_g2 (g2_get_module_source renv b m)" "safe_g2 (g2_get_instance_info renv b c)"
  "safe_g2 (g2_get_instance_state renv b c)"
  unfolding g2_bytes_defs by (intro safe_intros; simp add: hashed_bytes_def)+

lemma safe_g2_queries:
  "safe_g2 (g2_get_next_account_sequence_number renv h)" "safe_g2 (g2_get_consensus_info renv)"
  "safe_g2 (g2_get_block_item_status renv h)" "safe_g2 (g2_invoke_instance renv i)"
  "safe_g2 (g2_get_cryptographic_parameters renv b)" "safe_g2 (g2_get_pool_info renv r)"
  "safe_g2 (g2_get_blocks_at_height renv g)" "safe_g2 (g2_get_branches renv)" "safe_g2 (g2_get_block_info renv b)"
  "safe_g2 (g2_get_passive_delegation_info renv b)" "safe_g2 (g2_get_tokenomics_info renv b)"
  "safe_g2 (g2_get_election_info renv b)" "safe_g2 (g2_get_next_update_sequence_numbers renv b)"
  "safe_g2 (g2_get_block_chain_parameters renv b)" "safe_g2 (g2_get_block_finalization_summary renv b)"
  by (auto simp: g2_bytes_defs hashed_bytes_def plain_bytes_def intro!: safe_intros split: option.split)

lemma safe_g2_streams:
  "safe_g2 (g2_get_ancestors renv b' k)" "safe_g2 (g2_get_account_list renv b)" "safe_g2 (g2_get_module_list renv b)"
  "safe_g2 (g2_get_instance_list renv b)" "safe_g2 (g2_get_baker_list renv b)" "safe_g2 (g2_get_pool_delegators renv r)"
  "safe_g2 (g2_get_pool_delegators_reward_period renv r)" "safe_g2 (g2_get_passive_delegators renv b)"
  "safe_g2 (g2_get_passive_delegators_reward_period renv b)" "safe_g2 (g2_get_identity_providers renv b)"
  "safe_g2 (g2_get_anonymity_revokers renv b)" "safe_g2 (g2_get_block_transaction_events renv b)"
  "safe_g2 (g2_get_block_special_events renv b)" "safe_g2 (g2_get_block_pending_updates renv b)"
  "safe_g2 (g2_get_block_items renv b)"
  unfolding g2_stream_defs by (intro safe_intros; simp)+

lemma safe_with_socket_address [safe_intros]:
  "(\<And>ip port. safe_op (k ip port)) \<Longrightarrow> safe_op (with_socket_address renv request k)"
  by (auto simp: safe_op_def with_socket_address_def split: option.split)

lemma safe_g2_peers:
  assumes "change_channel_law env"
  shows "safe_g2 (g2_peer_connect env renv a)" "safe_g2 (g2_peer_disconnect env renv a)"
    "safe_g2 (g2_ban_peer env renv ip)" "safe_g2 (g2_unban_peer env renv ip)"
proof -
  show "safe_g2 (g2_peer_connect env renv a)"
    unfolding g2_peer_connect_def by (intro safe_intros safe_opI) (auto simp: given_connection_shrinks [OF assms])
  show "safe_g2 (g2_peer_disconnect env renv a)"
    unfolding g2_peer_disconnect_def using shrinks_bans(3) [OF assms] by (intro safe_intros safe_opI) (auto simp: split_beta)
  show "safe_g2 (g2_ban_peer env renv ip)" "safe_g2 (g2_unban_peer env renv ip)"
    unfolding g2_ban_peer_def g2_unban_peer_def using shrinks_bans(1,4) [OF assms]
    by (intro safe_intros safe_opI; auto simp: split_beta ban_results split: option.split)+
qed

lemma safe_g2_lists:
  "safe_g2 (g2_get_banned_peers env renv)" "safe_g2 (g2_get_peers_info renv)" "safe_g2 (g2_shutdown env)"
  "safe_g2 g2_get_blocks" "safe_g2 g2_get_finalized_blocks"
proof -
  have "get_peer_stats None n \<noteq> Panic" if "node_inv n" for n :: "'n node"
    using node_inv_peer_stats [OF that, of None] by auto
  then show "safe_g2 (g2_get_peers_info renv)"
    unfolding g2_get_peers_info_def by (intro safe_intros safe_opI) auto
  show "safe_g2 (g2_get_banned_peers env renv)" "safe_g2 (g2_shutdown env)"
    unfolding g2_get_banned_peers_def g2_shutdown_def
    by (intro safe_intros safe_opI; simp add: get_banlist_total close_node_safe split_beta)+
  show "safe_g2 g2_get_blocks" "safe_g2 g2_get_finalized_blocks"
    unfolding g2_get_blocks_def g2_get_finalized_blocks_def
    by (intro safe_intros; simp add: safe_g2_def add_client_def)+
qed

lemma safe_g2_node_info:
  assumes "library_law (rpc_lib renv)"
  shows "safe_g2 (g2_get_node_info env renv)"
proof -
  have "g2_consensus_status (rpc_lib renv) cc \<noteq> Panic" for cc
    using library_committee_total [OF assms]
    by (auto simp: g2_consensus_status_def baker_consensus_status_def split: if_splits)
  then show ?thesis
    unfolding g2_get_node_info_def by (intro safe_intros) (auto simp: safe_g2_def Let_def split: peer_type.split)
qed

lemma safe_g2_send_block_item:
  assumes "library_law (rpc_lib renv)"
  shows "safe_g2 (g2_send_block_item env renv item)"
  unfolding g2_send_block_item_def using submit_transaction_safe [OF assms]
  by (intro safe_intros safe_opI) (auto simp: split_beta split: reply.split option.split)

lemma safe_g2_handle:
  assumes "change_channel_law env" "library_law (rpc_lib renv)"
  shows "safe_g2 (g2_handle env renv req)"
  by (cases req) (auto simp: g2_handle_def safe_g2_account_queries safe_g2_lookup safe_g2_queries safe_g2_streams
      safe_g2_peers [OF assms(1)] safe_g2_lists safe_g2_node_info [OF assms(2)] safe_g2_send_block_item [OF assms(2)]
      non_finalized_total g2_dump_start_def g2_dump_stop_def g2_get_account_transaction_sign_hash_def intro!: safe_intros)

section \<open>Node and services together\<close>

text \<open>
  The services share the node and the container of the consensus layer; a call is one step
  between steps of the node, and new blocks are relayed to the clients that listen.
\<close>

record 'ns services =
  sv_poll :: "'ns poll_state"
  sv_rpc :: "'ns rpc_server"
  sv_grpc2 :: "'ns grpc2_server"

definition rpc_call ::
    "'ns node_env \<Rightarrow> 'cb rpc_env \<Rightarrow> string option \<Rightarrow> rpc_request \<Rightarrow> 'ns services \<Rightarrow> rpc_body reply \<times> 'ns services" where
  "rpc_call env renv auth req s =
     (case rpc_handle env renv auth req ((sv_rpc s)\<lparr>rpc_node := poll_node (sv_poll s)\<rparr>) of
        (r, v) \<Rightarrow> (r, s\<lparr>sv_rpc := v, sv_poll := (sv_poll s)\<lparr>poll_node := rpc_node v\<rparr>,
                       sv_grpc2 := (case rpc_consensus v of Some cc \<Rightarrow> (sv_grpc2 s)\<lparr>g2_consensus := cc\<rparr> | None \<Rightarrow> sv_grpc2 s)\<rparr>))"

definition grpc2_call ::
    "'ns node_env \<Rightarrow> 'cb rpc_env \<Rightarrow> g2_request \<Rightarrow> 'ns services \<Rightarrow> response reply \<times> 'ns services" where
  "grpc2_call env renv req s =
     (case g2_handle env renv req ((sv_grpc2 s)\<lparr>g2_node := poll_node (sv_poll s)\<rparr>) of
        (r, v) \<Rightarrow> (r, s\<lparr>sv_grpc2 := v, sv_poll := (sv_poll s)\<lparr>poll_node := g2_node v\<rparr>\<rparr>))"

datatype ('ns, 'cb) service_event =
    NodeEvent "('ns, 'cb) node_event"
  | RpcCall "'ns node_env" "'cb rpc_env" "string option" rpc_request
  | Grpc2Call "'ns node_env" "'cb rpc_env" g2_request
  | BlockArrived mpsc_ops bytes
  | BlockFinalized mpsc_ops bytes

fun service_step :: "'ns services \<Rightarrow> ('ns, 'cb) service_event \<Rightarrow> 'ns services" where
  "service_step s (NodeEvent e) = s\<lparr>sv_poll := node_event_step (sv_poll s) e\<rparr>"
| "service_step s (RpcCall env renv auth req) = snd (rpc_call env renv auth req s)"
| "service_step s (Grpc2Call env renv req) = snd (grpc2_call env renv req s)"
| "service_step s (BlockArrived ops v) =
     s\<lparr>sv_grpc2 := (sv_grpc2 s)\<lparr>blocks_channels := relay_block ops v (blocks_channels (sv_grpc2 s))\<rparr>\<rparr>"
| "service_step s (BlockFinalized ops v) =
     s\<lparr>sv_grpc2 := (sv_grpc2 s)\<lparr>finalized_blocks_channels := relay_block ops v (finalized_blocks_channels (sv_grpc2 s))\<rparr>\<rparr>"

fun service_enabled :: "'ns services \<Rightarrow> ('ns, 'cb) service_event \<Rightarrow> bool" where
  "service_enabled s (NodeEvent e) \<longleftrightarrow> node_event_enabled (sv_poll s) e"
| "service_enabled s (RpcCall env renv auth req) \<longleftrightarrow>
     change_channel_law env \<and> library_law (rpc_lib renv) \<and> texts_law (rpc_lib renv)"
| "service_enabled s (Grpc2Call env renv req) \<longleftrightarrow> change_channel_law env \<and> library_law (rpc_lib renv)"
| "service_enabled s (BlockArrived ops v) \<longleftrightarrow> True"
| "service_enabled s (BlockFinalized ops v) \<longleftrightarrow> True"

lemma rpc_call_safe:
  assumes "change_channel_law env" "library_law (rpc_lib renv)" "texts_law (rpc_lib renv)" "node_inv (poll_node (sv_poll s))"
  shows "fst (rpc_call env renv auth req s) \<noteq> Crash \<and> node_inv (poll_node (sv_poll (snd (rpc_call env renv auth req s))))"
  using safe_rpc_handle [OF assms(1-3), of auth req] assms(4)
  by (auto simp: safe_rpc_def rpc_call_def split_beta)

lemma grpc2_call_safe:
  assumes "change_channel_law env" "library_law (rpc_lib renv)" "node_inv (poll_node (sv_poll s))"
  shows "fst (grpc2_call env renv req s) \<noteq> Crash \<and> node_inv (poll_node (sv_poll (snd (grpc2_call env renv req s))))"
  using safe_g2_handle [OF assms(1,2), of req] assms(3)
  by (auto simp: safe_g2_def grpc2_call_def split_beta)

definition services_start :: "'ns node_env \<Rightarrow> 'ns rpc_server \<Rightarrow> 'ns grpc2_server \<Rightarrow> 'ns node \<Rightarrow> 'ns services" where
  "services_start env v1 v2 n = \<lparr>sv_poll = poll_start env n, sv_rpc = v1, sv_grpc2 = v2\<rparr>"

interpretation service_machine: invariant_system
  "services_start env v1 v2 (initial_node se conf self nc regen bans)" service_enabled service_step "\<lambda>s. node_inv (poll_node (sv_poll s))"
  for env v1 v2 se conf self nc regen bans
proof
  show "node_inv (poll_node (sv_poll (services_start env v1 v2 (initial_node se conf self nc regen bans))))"
    by (simp add: services_start_def poll_start_def initial_node_inv)
  fix s :: "'a services" and e :: "('a, 'd) service_event"
  assume "node_inv (poll_node (sv_poll s))" "service_enabled s e"
  then show "node_inv (poll_node (sv_poll (service_step s e)))"
    by (cases e) (simp_all add: node_event_step_inv rpc_call_safe grpc2_call_safe)
qed

text \<open>
  Property C5: A node that serves both gRPC interfaces stays sound: through every interleaving of
  its own work, of calls of any client to either interface, and of blocks relayed to clients, the
  connections keep their tokens and their peers stay identified, and no call that comes next
  panics, provided the consensus library returns the codes and texts that it documents.
\<close>

theorem services_never_panic:
  assumes "node_new env se supplied_id conf ptype regen = Ok n"
    and "run_steps service_enabled service_step (services_start env v1 v2 n) es = Some s"
    and "change_channel_law env'" and "library_law (rpc_lib renv)" and "texts_law (rpc_lib renv)"
  shows "fst (rpc_call env' renv auth req s) \<noteq> Crash \<and> fst (grpc2_call env' renv req' s) \<noteq> Crash \<and>
    (\<forall>(t, c) \<in> set (connections (poll_node (sv_poll s))). conn_token c = t \<and> conn_remote_id c \<noteq> None)"
proof -
  have "node_inv (poll_node (sv_poll (services_start env v1 v2 n)))"
    using node_new_inv [OF assms(1)] by (simp add: services_start_def poll_start_def)
  from service_machine.run_from_good [OF this assms(2)] have i: "node_inv (poll_node (sv_poll s))" .
  note d = node_invD [OF i]
  show ?thesis
    using rpc_call_safe [OF assms(3-5) i] grpc2_call_safe [OF assms(3,4) i] d(4) map_of_is_SomeI [OF d(2)] by blast
qed

definition example_rpc :: "nat rpc_server" where
  "example_rpc =
     \<lparr>rpc_node = example_node, disable_node_endpoints = False, rpc_listen_addr = SocketAddr (V4 1) 10000, access_token = ''rpcadmin'',
      rpc_consensus = Some (consensus_container_new None)\<rparr>"

theorem services_never_panic_witness:
  "\<exists>n s. node_new example_env example_start None listening_config Node regenesis_default = Ok n \<and>
     run_steps service_enabled service_step (services_start example_env example_rpc example_server n)
       [NodeEvent (PollIteration example_env (None :: unit consensus_api option)
          [\<lparr>ev_token = SELF_TOKEN, ev_readable = True, ev_writable = False, ev_closed = False\<rparr>]
          [Incoming (example_socket []) (SocketAddr (V4 16909060) 1234)]),
        RpcCall example_env example_renv (Some ''rpcadmin'') (RpcBanNode None (Some ''1.2.3.4'')),
        Grpc2Call example_env example_renv ReqGetBlocks, BlockArrived example_mpsc [1, 2]] = Some s \<and>
     fst (rpc_call example_env example_renv (Some ''rpcadmin'') (RpcSendTransaction [1]) s) \<noteq> Crash"
proof -
  obtain n where n: "node_new example_env example_start None listening_config Node regenesis_default = Ok n"
    "next_token n = 1" "token_budget n \<le> 65535" using listening_node_new by blast
  have laws: "library_law (rpc_lib example_renv)" "texts_law (rpc_lib example_renv)"
    by (simp_all add: example_renv_def example_library_law texts_law_def) (simp add: example_lib_def utf8_valid_def)
  obtain s where s: "run_steps service_enabled service_step (services_start example_env example_rpc example_server n)
       [NodeEvent (PollIteration example_env (None :: unit consensus_api option)
          [\<lparr>ev_token = SELF_TOKEN, ev_readable = True, ev_writable = False, ev_closed = False\<rparr>]
          [Incoming (example_socket []) (SocketAddr (V4 16909060) 1234)]),
        RpcCall example_env example_renv (Some ''rpcadmin'') (RpcBanNode None (Some ''1.2.3.4'')),
        Grpc2Call example_env example_renv ReqGetBlocks, BlockArrived example_mpsc [1, 2]] = Some s"
    using n(2,3) laws by (simp add: services_start_def poll_start_def example_change_channel_law example_random_law)
  from services_never_panic [OF n(1) s example_change_channel_law laws, of "Some ''rpcadmin''" "RpcSendTransaction [1]"]
  have "fst (rpc_call example_env example_renv (Some ''rpcadmin'') (RpcSendTransaction [1]) s) \<noteq> Crash" by (rule conjunct1)
  with n(1) s show ?thesis by (intro exI conjI)
qed

end
