(* ===== verification/Health.thy ===== *)
theory Health
  imports RpcCommon LibraryCodes
begin

text \<open>
  The health check that the second gRPC server offers beside its queries (\<^verbatim>\<open>health.rs\<close>), and what
  an operator may conclude from its answer.
\<close>

text \<open>The longest delay is configured in seconds; multiplying it out must not leave the range.\<close>

definition health_check :: "'ns node_env \<Rightarrow> 'cb consensus_lib \<Rightarrow> u64 \<Rightarrow> unit reply" where
  "health_check env lib max_delay =
     (case is_consensus_running lib of
        Ok running \<Rightarrow>
          if \<not> running then Failure StatusUnavailable
          else let last_fin_slot_time = get_last_finalized_block_slot_time_v2 lib;
                   current_time = now_ms env;
                   delta = (if last_fin_slot_time \<le> current_time then current_time - last_fin_slot_time else 0)
               in (case mul_u64 1000 max_delay of
                     Ok limit \<Rightarrow> if delta > limit then Failure StatusUnavailable else Answer ()
                   | _ \<Rightarrow> Crash)
      | _ \<Rightarrow> Crash)"

lemma saturating_delta:
  "unat (if t \<le> c then c - t else 0 :: u64) = unat c - unat t"
  by (auto simp: unat_sub word_le_nat_alt)

text \<open>
  Property C35: The health check succeeds exactly when the consensus layer runs and the slot of the
  last finalised block is at most the configured number of seconds in the past; a slot in the
  future counts as recent. In every other case it reports that the service is unavailable, for
  every delay that fits in milliseconds.
\<close>

theorem health_check_decides:
  assumes "checkIfRunning lib \<in> {0, 1}" and "1000 * unat delay < 2 ^ 64"
  shows "health_check env lib delay =
    (if checkIfRunning lib = 1 \<and> unat (now_ms env) \<le> unat (get_last_finalized_block_slot_time_v2 lib) + 1000 * unat delay
     then Answer () else Failure StatusUnavailable)"
proof -
  have "unat (1000 * delay) = 1000 * unat delay" using assms(2) by (simp add: unat_word_ariths)
  then have "(if get_last_finalized_block_slot_time_v2 lib \<le> now_ms env then now_ms env - get_last_finalized_block_slot_time_v2 lib else 0) >
      1000 * delay \<longleftrightarrow> \<not> unat (now_ms env) \<le> unat (get_last_finalized_block_slot_time_v2 lib) + 1000 * unat delay"
    unfolding word_less_nat_alt saturating_delta by auto
  with assms show ?thesis
    by (auto simp: health_check_def is_consensus_running_def wrap_c_bool_call_def mul_u64_def Let_def)
qed

theorem health_check_decides_witness:
  "health_check example_env example_lib 1000 = Answer () \<and> health_check example_env example_lib 999 = Failure StatusUnavailable"
  using health_check_decides [of example_lib 1000 example_env] health_check_decides [of example_lib 999 example_env]
  by (simp add: example_lib_def example_env_def get_last_finalized_block_slot_time_v2_def)

end
