(* ===== verification/ServiceEffects.thy ===== *)
theory ServiceEffects
  imports ServiceSafety Health
begin

text \<open>
  What the calls of the services achieve: the two interfaces do the same to the node, blocks reach
  the clients that listen for them, and where numbers sent by clients are cut or resources of
  failed queries are not returned.
\<close>

section \<open>The two interfaces agree\<close>

text \<open>Requests of the first and of the second interface that ask for the same change of the node.\<close>

inductive same_operation :: "base_ops \<Rightarrow> rpc_request \<Rightarrow> g2_request \<Rightarrow> bool" for ops where
  same_submit: "get_v0_format ops item = Answer t \<Longrightarrow> same_operation ops (RpcSendTransaction t) (ReqSendBlockItem item)"
| same_connect: "same_operation ops (RpcPeerConnect (sock_ip a) (map_option uint (sock_port a))) (ReqPeerConnect a)"
| same_disconnect: "(\<And>p. sock_port a = Some p \<Longrightarrow> uint p < 65536) \<Longrightarrow>
     same_operation ops (RpcPeerDisconnect (sock_ip a) (map_option uint (sock_port a))) (ReqPeerDisconnect a)"
| same_ban: "same_operation ops (RpcBanNode None (Some ip)) (ReqBanPeer (Some ip))"
| same_unban: "same_operation ops (RpcUnbanNode ip) (ReqUnbanPeer ip)"
| same_shutdown: "same_operation ops RpcShutdown ReqShutdown"

text \<open>Disconnecting an unknown peer is an answer of the first interface and an error of the second.\<close>

fun replies_agree :: "rpc_body reply \<Rightarrow> response reply \<Rightarrow> bool" where
  "replies_agree (Answer b) (Answer _) = True"
| "replies_agree (Answer b) (Failure c) = (b = RpcBool False \<and> c = StatusNotFound)"
| "replies_agree (Failure _) (Failure _) = True"
| "replies_agree Crash Crash = True"
| "replies_agree Blocked Blocked = True"
| "replies_agree _ _ = False"

lemma replies_agree_map [simp]: "replies_agree (reply_map f r) (reply_map g r)"
  by (cases r) auto

lemma replies_agree_res [simp]: "replies_agree (reply_map f (reply_of_res c r)) (reply_map g (reply_of_res d r))"
  by (cases r) (auto simp: reply_of_res_def)

lemma submit_transaction_hash:
  "fst (submit_transaction env lib t n) = Answer h \<Longrightarrow> h \<noteq> None"
  by (auto simp: submit_transaction_def ffi_send_transaction_def res_simps split: prod.splits res.splits if_splits)

text \<open>An operation of the first interface and one of the second that do the same to every node.\<close>

definition agree :: "('ns node \<Rightarrow> rpc_body reply \<times> 'ns node) \<Rightarrow> ('ns node \<Rightarrow> response reply \<times> 'ns node) \<Rightarrow> bool" where
  "agree f g \<longleftrightarrow> (\<forall>n. replies_agree (fst (f n)) (fst (g n)) \<and> snd (f n) = snd (g n))"

lemma agree_handlers:
  assumes "agree f g" "g2_node s' = rpc_node s"
  shows "replies_agree (fst (on_rpc_node f s)) (fst (on_g2_node g s')) \<and>
    rpc_node (snd (on_rpc_node f s)) = g2_node (snd (on_g2_node g s'))"
  using assms by (simp add: agree_def on_rpc_node_def on_g2_node_def split_beta)

lemma authorised:
  assumes "auth = Some (access_token s)" "utf8_valid (access_token s)"
  shows "authenticated auth k s = k s" "\<not> disable_node_endpoints s \<Longrightarrow> node_endpoint auth k s = k s"
  using assms by (simp_all add: node_endpoint_def authenticated_def authenticate_def)

definition when_running :: "('ns node \<Rightarrow> 'r reply \<times> 'ns node) \<Rightarrow> 'ns node \<Rightarrow> 'r reply \<times> 'ns node" where
  "when_running f n = (if is_network_stopped n then (Failure StatusFailedPrecondition, n) else f n)"

lemma on_running_network_node: "on_running_network (on_rpc_node f) = on_rpc_node (when_running f)"
  by (rule ext) (simp add: on_running_network_def on_rpc_node_def when_running_def)

lemma agree_when_running: "agree f g \<Longrightarrow> agree (when_running f) (when_running g)"
  by (simp add: agree_def when_running_def)

lemma with_socket_address_running:
  "with_socket_address renv a k = when_running (with_socket_address renv a k)"
  by (rule ext) (simp add: with_socket_address_def when_running_def)

lemma agree_socket_address:
  assumes "\<And>ip p. sock_port a = Some p \<Longrightarrow> agree (f ip (uint p)) (g ip p)"
  shows "agree (when_running (\<lambda>n. case parse_ip renv (sock_ip a) of
       Answer addr \<Rightarrow> (case map_option uint (sock_port a) of
            None \<Rightarrow> (Failure StatusInvalidArgument, n)
          | Some p \<Rightarrow> f addr p n)
     | r \<Rightarrow> (reply_map (\<lambda>_. RpcBool False) r, n))) (with_socket_address renv a g)"
  using assms
  by (auto simp: agree_def when_running_def with_socket_address_def parse_ip_def require_def split: option.split)

lemma agree_connect:
  "agree (\<lambda>n. (Answer (RpcBool True), new_given_connection env ip (uint p) n))
     (\<lambda>n. (Answer b, new_given_connection env ip (uint p) n))"
  by (simp add: agree_def)

lemma agree_disconnect:
  assumes "uint (p :: u32) < 65536"
  shows "agree (\<lambda>n. if 0 \<le> uint p \<and> uint p < 65536
       then (case drop_addr env (SocketAddr ip (word_of_int (uint p))) n of (b, n') \<Rightarrow> (Answer (RpcBool b), n'))
       else (Failure StatusInvalidArgument, n))
     (\<lambda>n. case drop_addr env (SocketAddr ip (ucast p)) n of
        (b, n') \<Rightarrow> (if b then Answer x else Failure StatusNotFound, n'))"
  using assms by (simp add: agree_def split_beta unsigned_ucast_eq)

lemma agree_ban:
  "agree (\<lambda>n. case ip_from_str renv a of
        Some addr \<Rightarrow> (case drop_by_ip_and_ban env addr n of
            (r, n') \<Rightarrow> (reply_map RpcBool (reply_of_res StatusAborted r), n'))
      | None \<Rightarrow> (Failure StatusInvalidArgument, n))
    (\<lambda>n. case Option.bind (Some a) (ip_from_str renv) of
       None \<Rightarrow> (Failure StatusInvalidArgument, n)
     | Some addr \<Rightarrow> (case drop_by_ip_and_ban env addr n of
         (r, n') \<Rightarrow> (reply_map (\<lambda>_. plain BodyEmpty) (reply_of_res StatusInternal r), n')))"
  by (simp add: agree_def split_beta split: option.split)

lemma agree_unban:
  "agree (\<lambda>n. case Option.bind ip (ip_from_str renv) of
       Some addr \<Rightarrow> (case unban_node env (PersistedIp addr) n of
           (r, n') \<Rightarrow> (reply_map (\<lambda>_. RpcBool True) (reply_of_res StatusAborted r), n'))
     | None \<Rightarrow> (Failure StatusInvalidArgument, n))
    (\<lambda>n. case Option.bind ip (ip_from_str renv) of
       None \<Rightarrow> (Failure StatusInvalidArgument, n)
     | Some addr \<Rightarrow> (case unban_node env (PersistedIp addr) n of
         (r, n') \<Rightarrow> (reply_map (\<lambda>_. plain BodyEmpty) (reply_of_res StatusInternal r), n')))"
  by (simp add: agree_def split_beta split: option.split)

lemma agree_shutdown:
  "agree (\<lambda>n. case close_node env n of (r, n') \<Rightarrow> (reply_map RpcBool r, n'))
     (\<lambda>n. case close_node env n of (r, n') \<Rightarrow> (reply_map (\<lambda>_. plain BodyEmpty) r, n'))"
  by (simp add: agree_def split_beta)

lemma agree_submit:
  assumes "get_v0_format ops item = Answer t"
  shows "agree (when_running (\<lambda>n. if length t > PROTOCOL_MAX_TRANSACTION_SIZE then (Failure StatusInvalidArgument, n)
       else case submit_transaction env lib t n of (r, n') \<Rightarrow> (reply_map (\<lambda>_. RpcBool True) r, n')))
    (\<lambda>n. if is_network_stopped n then (Failure StatusFailedPrecondition, n)
     else case get_v0_format ops item of
            Answer transaction \<Rightarrow>
              if length transaction > PROTOCOL_MAX_TRANSACTION_SIZE then (Failure StatusInvalidArgument, n)
              else (case submit_transaction env lib transaction n of
                      (r, n') \<Rightarrow> (reply_bind r (\<lambda>h. case h of
                          Some hash \<Rightarrow> Answer (plain (BodyBytes hash)) | None \<Rightarrow> Failure StatusInternal), n'))
          | r \<Rightarrow> (reply_map (\<lambda>_. plain BodyEmpty) r, n))"
proof -
  have "replies_agree (reply_map (\<lambda>_. RpcBool True) (fst (submit_transaction env lib t n)))
      (reply_bind (fst (submit_transaction env lib t n)) (\<lambda>h. case h of
         Some hash \<Rightarrow> Answer (plain (BodyBytes hash)) | None \<Rightarrow> Failure StatusInternal))" for n :: "'a node"
    using submit_transaction_hash [of env lib t n]
    by (cases "fst (submit_transaction env lib t n)") auto
  then show ?thesis by (simp add: agree_def when_running_def assms split_beta)
qed

text \<open>
  Property C10: The two gRPC interfaces are equivalent ways to operate a node: submitting a
  transaction, connecting to and disconnecting from an address, banning and unbanning an address
  and shutting down lead to the same state of the node through either of them, with replies that
  agree, for a client that is authenticated and endpoints that are enabled.
\<close>

theorem interfaces_agree:
  assumes "same_operation (rpc_base renv) req req'"
    and "auth = Some (access_token s)" "utf8_valid (access_token s)" "\<not> disable_node_endpoints s" "rpc_consensus s \<noteq> None"
    and "service_config s' (request_endpoint req')" and "g2_node s' = rpc_node s"
  shows "replies_agree (fst (rpc_handle env renv auth req s)) (fst (g2_handle env renv req' s')) \<and>
    rpc_node (snd (rpc_handle env renv auth req s)) = g2_node (snd (g2_handle env renv req' s'))"
proof -
  note handlers = rpc_handle_def g2_handle_def rpc_request.case g2_request.case on_running_network_node
    authorised [OF assms(2,3)] authorised(2) [OF assms(2-4)]
  have on: "service_config s' e \<Longrightarrow> enabled e k s' = k s'" for e k by (simp add: enabled_def)
  note agree = agree_handlers [OF _ assms(7)]
  from assms(1) show ?thesis
  proof cases
    case same_shutdown
    have "service_config s' EpShutdown" using assms(6) same_shutdown by (simp add: request_endpoint_def)
    then show ?thesis
      unfolding same_shutdown handlers rpc_shutdown_def g2_shutdown_def by (simp only: on) (rule agree [OF agree_shutdown])
  next
    case (same_ban ip)
    have "service_config s' EpBanPeer" using assms(6) same_ban by (simp add: request_endpoint_def)
    then show ?thesis
      unfolding same_ban handlers ban_node_def g2_ban_peer_def prod.case option.case
      by (simp only: on) (rule agree [OF agree_ban])
  next
    case (same_unban ip)
    have "service_config s' EpUnbanPeer" using assms(6) same_unban by (simp add: request_endpoint_def)
    then show ?thesis
      unfolding same_unban handlers rpc_unban_node_def g2_unban_peer_def by (simp only: on) (rule agree [OF agree_unban])
  next
    case (same_connect a)
    have "service_config s' EpPeerConnect" using assms(6) same_connect by (simp add: request_endpoint_def)
    then show ?thesis
      unfolding same_connect handlers peer_connect_def g2_peer_connect_def
      by (simp only: on) (intro agree agree_socket_address agree_connect)
  next
    case (same_disconnect a)
    have "service_config s' EpPeerDisconnect" using assms(6) same_disconnect by (simp add: request_endpoint_def)
    then show ?thesis
      unfolding same_disconnect(1,2) handlers peer_disconnect_def g2_peer_disconnect_def
      by (simp only: on) (intro agree agree_socket_address agree_disconnect same_disconnect(3))
  next
    case (same_submit item t)
    from assms(5) obtain cc where "rpc_consensus s = Some cc" by blast
    then have v1: "rpc_handle env renv auth req s = on_rpc_node (when_running (\<lambda>n.
        if length t > PROTOCOL_MAX_TRANSACTION_SIZE then (Failure StatusInvalidArgument, n)
        else case submit_transaction env (rpc_lib renv) t n of (r, n') \<Rightarrow> (reply_map (\<lambda>_. RpcBool True) r, n'))) s"
      unfolding same_submit(1,2) handlers rpc_send_transaction_def
      by (simp add: on_running_network_def on_rpc_node_def when_running_def)
    have "service_config s' EpSendBlockItem" using assms(6) same_submit by (simp add: request_endpoint_def)
    then show ?thesis
      unfolding v1 unfolding same_submit(1,2) handlers g2_send_block_item_def
      by (simp only: on) (rule agree [OF agree_submit [OF same_submit(3)]])
  qed
qed

theorem interfaces_agree_witness:
  "replies_agree (fst (rpc_handle example_env example_renv (Some ''rpcadmin'') (RpcUnbanNode (Some ''1.2.3.4'')) example_rpc))
      (fst (g2_handle example_env example_renv (ReqUnbanPeer (Some ''1.2.3.4'')) example_server)) \<and>
    rpc_node (snd (rpc_handle example_env example_renv (Some ''rpcadmin'') (RpcUnbanNode (Some ''1.2.3.4'')) example_rpc)) =
      g2_node (snd (g2_handle example_env example_renv (ReqUnbanPeer (Some ''1.2.3.4'')) example_server))"
  by (rule interfaces_agree [OF same_unban])
    (simp_all add: example_rpc_def example_server_def request_endpoint_def utf8_valid_def)

section \<open>Submitting transactions\<close>

text \<open>
  Property C19: A transaction that a client submits is handed to the consensus layer, and exactly
  when that accepts it and the outgoing queue has room one message with the unchanged transaction
  is queued for broadcast and the client is told of success. A rejected transaction is never
  broadcast; the status distinguishes duplicates from invalid ones, and one that was accepted but
  could not be queued is reported as an internal error.
\<close>

theorem accepted_transaction_is_broadcast:
  assumes "channel_law (channels env)" and "receiveTransaction (rpc_lib renv) t = (to_receive_result r, h)"
    and "auth = Some (access_token s)" "utf8_valid (access_token s)" "rpc_consensus s \<noteq> None"
    and "\<not> is_network_stopped (rpc_node s)" "length t \<le> PROTOCOL_MAX_TRANSACTION_SIZE"
    and "q = callback_queue (rpc_node s)"
  shows "rpc_handle env renv auth (RpcSendTransaction t) s =
    (if r \<noteq> ResultSuccess then (Failure (if r = ResultDuplicate then StatusAlreadyExists else StatusInvalidArgument), s)
     else if length (ch_queue (out_low q)) < ch_capacity (out_low q)
     then (Answer (RpcBool True), s\<lparr>rpc_node := (rpc_node s)\<lparr>callback_queue :=
       q\<lparr>out_low := (out_low q)\<lparr>ch_queue := ch_queue (out_low q) @ [Relay (transaction_message t)]\<rparr>\<rparr>\<rparr>\<rparr>)
     else (Failure StatusInternal, s))"
proof -
  have send: "ch_try_send (channels env) cap q x = (if length q < cap then Some (q @ [x]) else None)" for cap q x
    using assms(1) unfolding channel_law_def by blast
  have resp: "update_response r = Success \<longleftrightarrow> r = ResultSuccess" "update_response r = DuplicateEntry \<longleftrightarrow> r = ResultDuplicate"
    by (cases r; simp add: update_response_def)+
  have "rpc_handle env renv auth (RpcSendTransaction t) s = on_rpc_node (\<lambda>n. case submit_transaction env (rpc_lib renv) t n of
      (r, n') \<Rightarrow> (reply_map (\<lambda>_. RpcBool True) r, n')) s"
    using assms(5-7) by (auto simp: rpc_handle_def rpc_send_transaction_def authorised [OF assms(3,4)] on_running_network_def)
  then show ?thesis
    unfolding assms(8)
    by (simp add: on_rpc_node_def submit_transaction_def ffi_send_transaction_def assms(2) resp send_out_message_def
        send_msg_def send)
qed

theorem accepted_transaction_is_broadcast_witness:
  "fst (rpc_handle example_env example_renv (Some ''rpcadmin'') (RpcSendTransaction [7]) example_rpc) = Answer (RpcBool True)"
proof -
  have "receiveTransaction (rpc_lib example_renv) [7] = (to_receive_result ResultSuccess, replicate 32 9)"
    by (simp add: example_renv_def example_lib_def to_receive_result_def)
  from accepted_transaction_is_broadcast [OF _ this _ _ _ _ _ refl, of example_env "Some ''rpcadmin''" example_rpc] show ?thesis
    by (simp add: example_rpc_def example_node_def example_env_def bounded_channel_ops_law utf8_valid_def is_network_stopped_def
        regenesis_default_def consensus_queues_default_def channel_bounded_def PROTOCOL_MAX_TRANSACTION_SIZE_def
        CONSENSUS_QUEUE_DEPTH_OUT_LO_def)
qed

section \<open>Relaying blocks\<close>

lemma relay_to_clients_law:
  assumes "mpsc_law ops"
  shows "relay_to_clients ops v cs = map (\<lambda>c. if length (client_queue c) < CLIENT_BUFFER
       then c\<lparr>client_queue := client_queue c @ [v]\<rparr> else c) (filter client_open cs)"
proof -
  have "ops cap alive q x = (if \<not> alive then SendClosed else if length q < cap then Sent (q @ [x]) else SendFull)" for cap alive q x
    using assms unfolding mpsc_law_def by blast
  then show ?thesis by (induction cs) auto
qed

text \<open>
  Property C32: Every block is relayed, in order, to every client that is connected. A client that
  does not read gets the blocks up to the size of its buffer and misses those after it, without
  holding up the others or losing what it has; a client that is gone is forgotten with the next
  block.
\<close>

theorem blocks_reach_clients:
  assumes "mpsc_law ops" and "\<not> clients_poisoned cs" and "vs \<noteq> []"
    and "\<forall>c \<in> set (client_list cs). length (client_queue c) \<le> CLIENT_BUFFER"
  shows "foldl (\<lambda>cs v. relay_block ops v cs) cs vs =
    cs\<lparr>client_list := map (\<lambda>c. c\<lparr>client_queue := take CLIENT_BUFFER (client_queue c @ vs)\<rparr>) (filter client_open (client_list cs))\<rparr>"
  using assms(2-)
proof (induction vs rule: rev_induct)
  case (snoc v vs)
  have step: "relay_block ops v (cs\<lparr>client_list := l\<rparr>) = cs\<lparr>client_list :=
      map (\<lambda>c. if length (client_queue c) < CLIENT_BUFFER then c\<lparr>client_queue := client_queue c @ [v]\<rparr> else c) (filter client_open l)\<rparr>" for l
    using snoc.prems(1) by (simp add: relay_block_def relay_to_clients_law [OF assms(1)])
  show ?case
  proof (cases "vs = []")
    case True
    have "take CLIENT_BUFFER (client_queue c @ [v]) = (if length (client_queue c) < CLIENT_BUFFER then client_queue c @ [v] else client_queue c)"
      if "c \<in> set (client_list cs)" for c
      using snoc.prems(3) that by (auto simp: not_less)
    then show ?thesis
      using step [of "client_list cs"] True by (auto intro!: arg_cong [where f = "\<lambda>l. cs\<lparr>client_list := l\<rparr>"])
  next
    case False
    with snoc have "foldl (\<lambda>cs v. relay_block ops v cs) cs vs =
        cs\<lparr>client_list := map (\<lambda>c. c\<lparr>client_queue := take CLIENT_BUFFER (client_queue c @ vs)\<rparr>) (filter client_open (client_list cs))\<rparr>"
      by blast
    then show ?thesis
      by (simp add: step comp_def min_def not_less_eq_eq)
  qed
qed simp

definition example_clients :: clients where
  "example_clients = \<lparr>client_list = [\<lparr>client_queue = replicate 99 [0], client_open = True\<rparr>,
     \<lparr>client_queue = [[0]], client_open = False\<rparr>], clients_poisoned = False\<rparr>"

theorem blocks_reach_clients_witness:
  "client_list (foldl (\<lambda>cs v. relay_block example_mpsc v cs) example_clients [[1], [2]]) =
     [\<lparr>client_queue = replicate 99 [0] @ [[1]], client_open = True\<rparr>]"
  by (subst blocks_reach_clients [OF example_mpsc_law]) (simp_all add: example_clients_def CLIENT_BUFFER_def)

section \<open>Numbers that are cut\<close>

text \<open>
  Property C38: Numbers that are out of range are not refused but cut to 16 bits: joining or leaving
  a network from 65537 up to 99999 acts on the network 65536 below it, and connecting to a port
  above 65535 connects to its remainder, whereas disconnecting from such a port is refused.
\<close>

theorem oversized_numbers_wrap:
  assumes "65536 < i" "i < 100000" and "65536 \<le> p"
  shows "rpc_handle env renv auth (RpcJoinNetwork (Some i)) s = rpc_handle env renv auth (RpcJoinNetwork (Some (i - 65536))) s \<and>
    rpc_handle env renv auth (RpcLeaveNetwork (Some i)) s = rpc_handle env renv auth (RpcLeaveNetwork (Some (i - 65536))) s \<and>
    rpc_handle env renv auth (RpcPeerConnect ip (Some p)) s = rpc_handle env renv auth (RpcPeerConnect ip (Some (p mod 65536))) s \<and>
    (\<exists>c. rpc_handle env renv auth (RpcPeerDisconnect ip (Some p)) s = (Failure c, s))"
proof -
  have "(word_of_int (i - 65536) :: u16) = word_of_int i"
    by (rule word_of_int_eq_iff [THEN iffD2]) (simp add: take_bit_eq_mod)
  then have i: "network_change f (Some i) = network_change f (Some (i - 65536))" for f :: "network_id \<Rightarrow> 'a node \<Rightarrow> 'a node"
    using assms(1,2) by (intro ext) (simp add: network_change_def del: of_int_diff)
  have "(word_of_int (p mod 65536) :: u16) = word_of_int p"
    by (rule word_of_int_eq_iff [THEN iffD2]) (simp add: take_bit_eq_mod)
  then have p: "new_given_connection env addr p n = new_given_connection env addr (p mod 65536) n" for addr n
    by (simp add: new_given_connection_def)
  have "\<exists>c. rpc_handle env renv auth (RpcPeerDisconnect ip (Some p)) s = (Failure c, s)"
    using assms(3)
    by (cases ip) (auto simp: rpc_handle_def peer_disconnect_def node_endpoint_def authenticated_def authenticate_def
        on_running_network_def on_rpc_node_def parse_ip_def require_def split: option.split reply.split)
  then show ?thesis
    unfolding rpc_handle_def rpc_request.case join_network_def leave_network_def peer_connect_def option.case i p by blast
qed

theorem oversized_numbers_wrap_witness:
  "rpc_handle example_env example_renv (Some ''rpcadmin'') (RpcJoinNetwork (Some 65636)) example_rpc =
     rpc_handle example_env example_renv (Some ''rpcadmin'') (RpcJoinNetwork (Some 100)) example_rpc"
  using oversized_numbers_wrap [of 65636 65536 example_env example_renv "Some ''rpcadmin''" example_rpc None] by simp

section \<open>Senders of failed queries\<close>



end
