(* ===== verification/CollectorData.thy ===== *)
theory CollectorData
  imports Prelude Float64
begin

text \<open>
  The data of the collector backend (\<^verbatim>\<open>collector-backend/src/lib.rs\<close>): what a node reports about
  itself, what the dashboards show of it, and the operations of the standard library on texts
  that the checks of reports use.
\<close>

section \<open>What a node reports\<close>

text \<open>A \<^verbatim>\<open>f64\<close> that arrives from outside may be any; the finite ones are rational numbers.\<close>

datatype f64 = F64NaN | F64NegInf | F64PosInf | F64 rat

fun f64_le :: "f64 \<Rightarrow> f64 \<Rightarrow> bool" where
  "f64_le F64NaN y = False"
| "f64_le x F64NaN = False"
| "f64_le F64NegInf y = True"
| "f64_le x F64PosInf = True"
| "f64_le (F64 x) (F64 y) = (x \<le> y)"
| "f64_le x y = False"

datatype is_in_baking_committee =
    ActiveInCommittee | AddedButNotActiveInCommittee | AddedButWrongKeys | NotInBakingCommittee

definition committee_serialize :: "is_in_baking_committee \<Rightarrow> string" where
  "committee_serialize c =
     (case c of
        ActiveInCommittee \<Rightarrow> ''ActiveInCommittee''
      | AddedButNotActiveInCommittee \<Rightarrow> ''AddedButNotActiveInCommittee''
      | AddedButWrongKeys \<Rightarrow> ''AddedButWrongKeys''
      | NotInBakingCommittee \<Rightarrow> ''NotInCommittee'')"

definition committee_deserialize :: "string \<Rightarrow> is_in_baking_committee res" where
  "committee_deserialize s =
     (if s = ''ActiveInCommittee'' then Ok ActiveInCommittee
      else if s = ''AddedButNotActiveInCommittee'' then Ok AddedButNotActiveInCommittee
      else if s = ''AddedButWrongKeys'' then Ok AddedButWrongKeys
      else if s = ''NotInCommittee'' then Ok NotInBakingCommittee
      else Err (Bail ''Failed deserializing string as IsInBakingCommittee''))"

record node_info =
  nodeName :: string
  nodeId :: string
  peerType :: string
  uptime :: u64
  client_version :: string
  averagePing :: "f64 option"
  peersCount :: u64
  peersList :: "string list"
  bestBlock :: string
  bestBlockHeight :: u64
  bestBlockBakerId :: "u64 option"
  bestArrivedTime :: "string option"
  blockArrivePeriodEMA :: "f64 option"
  blockArrivePeriodEMSD :: "f64 option"
  blockArriveLatencyEMA :: "f64 option"
  blockArriveLatencyEMSD :: "f64 option"
  blockReceivePeriodEMA :: "f64 option"
  blockReceivePeriodEMSD :: "f64 option"
  blockReceiveLatencyEMA :: "f64 option"
  blockReceiveLatencyEMSD :: "f64 option"
  finalizedBlock :: string
  finalizedBlockHeight :: u64
  finalizedTime :: "string option"
  finalizationPeriodEMA :: "f64 option"
  finalizationPeriodEMSD :: "f64 option"
  packetsSent :: u64
  packetsReceived :: u64
  consensusRunning :: bool
  bakingCommitteeMember :: is_in_baking_committee
  consensusBakerId :: "u64 option"
  finalizationCommitteeMember :: bool
  ancestorsSinceBestBlock :: "string list option"
  stagingNetUsername :: "string option"
  transactionsPerBlockEMA :: "f64 option"
  transactionsPerBlockEMSD :: "f64 option"
  bestBlockTransactionsSize :: "u64 option"
  bestBlockTotalEncryptedAmount :: "u64 option"
  bestBlockTotalAmount :: "u64 option"
  bestBlockTransactionCount :: "u64 option"
  bestBlockTransactionEnergyCost :: "u64 option"
  bestBlockExecutionCost :: "u64 option"
  bestBlockCentralBankAmount :: "u64 option"
  blocksReceivedCount :: "u64 option"
  blocksVerifiedCount :: "u64 option"
  genesisBlock :: string
  finalizationCount :: "u64 option"
  finalizedBlockParent :: string
  last_updated :: u64
  averageBytesPerSecondIn :: u64
  averageBytesPerSecondOut :: u64

text \<open>What \<^verbatim>\<open>nodes_summary\<close> shows of a node.\<close>

record node_info_dashboard =
  db_nodeName :: string
  db_nodeId :: string
  db_peerType :: string
  db_uptime :: u64
  db_client :: string
  db_averagePing :: "f64 option"
  db_peersCount :: u64
  db_peersList :: "string list"
  db_bestBlock :: string
  db_bestBlockHeight :: u64
  db_bestBlockBakerId :: "u64 option"
  db_bestArrivedTime :: "string option"
  db_blockArrivePeriodEMA :: "f64 option"
  db_blockArrivePeriodEMSD :: "f64 option"
  db_blockArriveLatencyEMA :: "f64 option"
  db_blockArriveLatencyEMSD :: "f64 option"
  db_blockReceivePeriodEMA :: "f64 option"
  db_blockReceivePeriodEMSD :: "f64 option"
  db_blockReceiveLatencyEMA :: "f64 option"
  db_blockReceiveLatencyEMSD :: "f64 option"
  db_finalizedBlock :: string
  db_finalizedBlockHeight :: u64
  db_finalizedTime :: "string option"
  db_finalizationPeriodEMA :: "f64 option"
  db_finalizationPeriodEMSD :: "f64 option"
  db_packetsSent :: u64
  db_packetsReceived :: u64
  db_consensusRunning :: bool
  db_bakingCommitteeMember :: is_in_baking_committee
  db_consensusBakerId :: "u64 option"
  db_finalizationCommitteeMember :: bool
  db_transactionsPerBlockEMA :: "f64 option"
  db_transactionsPerBlockEMSD :: "f64 option"
  db_bestBlockTransactionsSize :: "u64 option"
  db_bestBlockTotalEncryptedAmount :: "u64 option"
  db_bestBlockTotalAmount :: "u64 option"
  db_bestBlockTransactionCount :: "u64 option"
  db_bestBlockTransactionEnergyCost :: "u64 option"
  db_bestBlockExecutionCost :: "u64 option"
  db_bestBlockCentralBankAmount :: "u64 option"
  db_blocksReceivedCount :: "u64 option"
  db_blocksVerifiedCount :: "u64 option"
  db_genesisBlock :: string
  db_finalizationCount :: "u64 option"
  db_finalizedBlockParent :: string
  db_averageBytesPerSecondIn :: f64
  db_averageBytesPerSecondOut :: f64

definition u64_to_f64 :: "u64 \<Rightarrow> f64" where
  "u64_to_f64 w = F64 (round_f64 (of_nat (unat w)))"

definition dashboard_from :: "node_info \<Rightarrow> node_info_dashboard" where
  "dashboard_from other = \<lparr>
     db_nodeName = nodeName other, db_nodeId = nodeId other, db_peerType = peerType other,
     db_uptime = uptime other, db_client = client_version other, db_averagePing = averagePing other,
     db_peersCount = peersCount other, db_peersList = peersList other, db_bestBlock = bestBlock other,
     db_bestBlockHeight = bestBlockHeight other, db_bestBlockBakerId = bestBlockBakerId other,
     db_bestArrivedTime = bestArrivedTime other, db_blockArrivePeriodEMA = blockArrivePeriodEMA other,
     db_blockArrivePeriodEMSD = blockArrivePeriodEMSD other,
     db_blockArriveLatencyEMA = blockArriveLatencyEMA other,
     db_blockArriveLatencyEMSD = blockArriveLatencyEMSD other,
     db_blockReceivePeriodEMA = blockReceivePeriodEMA other,
     db_blockReceivePeriodEMSD = blockReceivePeriodEMSD other,
     db_blockReceiveLatencyEMA = blockReceiveLatencyEMA other,
     db_blockReceiveLatencyEMSD = blockReceiveLatencyEMSD other, db_finalizedBlock = finalizedBlock other,
     db_finalizedBlockHeight = finalizedBlockHeight other, db_finalizedTime = finalizedTime other,
     db_finalizationPeriodEMA = finalizationPeriodEMA other,
     db_finalizationPeriodEMSD = finalizationPeriodEMSD other, db_packetsSent = packetsSent other,
     db_packetsReceived = packetsReceived other, db_consensusRunning = consensusRunning other,
     db_bakingCommitteeMember = bakingCommitteeMember other, db_consensusBakerId = consensusBakerId other,
     db_finalizationCommitteeMember = finalizationCommitteeMember other,
     db_transactionsPerBlockEMA = transactionsPerBlockEMA other,
     db_transactionsPerBlockEMSD = transactionsPerBlockEMSD other,
     db_bestBlockTransactionsSize = bestBlockTransactionsSize other,
     db_bestBlockTotalEncryptedAmount = bestBlockTotalEncryptedAmount other,
     db_bestBlockTotalAmount = bestBlockTotalAmount other,
     db_bestBlockTransactionCount = bestBlockTransactionCount other,
     db_bestBlockTransactionEnergyCost = bestBlockTransactionEnergyCost other,
     db_bestBlockExecutionCost = bestBlockExecutionCost other,
     db_bestBlockCentralBankAmount = bestBlockCentralBankAmount other,
     db_blocksReceivedCount = blocksReceivedCount other, db_blocksVerifiedCount = blocksVerifiedCount other,
     db_genesisBlock = genesisBlock other, db_finalizationCount = finalizationCount other,
     db_finalizedBlockParent = finalizedBlockParent other,
     db_averageBytesPerSecondIn = u64_to_f64 (averageBytesPerSecondIn other),
     db_averageBytesPerSecondOut = u64_to_f64 (averageBytesPerSecondOut other)\<rparr>"

text \<open>What \<^verbatim>\<open>nodes_block_info\<close> shows of a node.\<close>

record node_info_chain_viz =
  cv_nodeName :: string
  cv_nodeId :: string
  cv_bestBlock :: string
  cv_bestBlockHeight :: u64
  cv_finalizedBlock :: string
  cv_finalizedBlockHeight :: u64
  cv_finalizedBlockParent :: string
  cv_ancestorsSinceBestBlock :: "string list option"

definition chain_viz_from :: "node_info \<Rightarrow> node_info_chain_viz" where
  "chain_viz_from other = \<lparr>
     cv_nodeName = nodeName other, cv_nodeId = nodeId other, cv_bestBlock = bestBlock other,
     cv_bestBlockHeight = bestBlockHeight other, cv_finalizedBlock = finalizedBlock other,
     cv_finalizedBlockHeight = finalizedBlockHeight other, cv_finalizedBlockParent = finalizedBlockParent other,
     cv_ancestorsSinceBestBlock = ancestorsSinceBestBlock other\<rparr>"

section \<open>Texts\<close>

text \<open>\<^verbatim>\<open>str::lines\<close>: a final line break does not begin another line.\<close>

definition strip_cr :: "string \<Rightarrow> string" where
  "strip_cr l = (if l \<noteq> [] \<and> last l = CHR 0x0D then butlast l else l)"

function str_lines :: "string \<Rightarrow> string list" where
  "str_lines s =
     (if s = [] then []
      else case dropWhile (\<lambda>c. c \<noteq> CHR 0x0A) s of
             [] \<Rightarrow> [s]
           | _ # rest \<Rightarrow> strip_cr (takeWhile (\<lambda>c. c \<noteq> CHR 0x0A) s) # str_lines rest)"
  by pat_completeness auto

termination
proof (relation "measure length")
  fix s :: string and c rest
  assume "dropWhile (\<lambda>c. c \<noteq> CHR 0x0A) s = c # rest"
  then have "length (c # rest) \<le> length s" by (metis length_dropWhile_le)
  then show "(rest, s) \<in> measure length" by simp
qed simp

declare str_lines.simps [simp del]

text \<open>
  \<^verbatim>\<open>str::trim\<close> on texts in UTF-8: the white space of Unicode, by its encodings. Each of them begins
  with the first byte of a character, so that it is found at the end of a text as well.
\<close>

definition white_space :: "string list" where
  "white_space = map (map char_of)
     ([[9], [10], [11], [12], [13], [32], [194, 133], [194, 160], [225, 154, 128]] @
      map (\<lambda>n. [226, 128, 128 + n]) [0 ..< 11] @
      [[226, 128, 168], [226, 128, 169], [226, 128, 175], [226, 129, 159], [227, 128, 128 :: nat]])"

lemma white_space_code [code]:
  "white_space =
    [[CHR 0x09], [CHR 0x0A], [CHR 0x0B], [CHR 0x0C], [CHR 0x0D], [CHR 0x20], [CHR 0xC2, CHR 0x85], [CHR 0xC2, CHR
     0xA0], [CHR 0xE1, CHR 0x9A, CHR 0x80], [CHR 0xE2, CHR 0x80, CHR 0x80], [CHR 0xE2, CHR 0x80, CHR 0x81], [CHR
     0xE2, CHR 0x80, CHR 0x82], [CHR 0xE2, CHR 0x80, CHR 0x83], [CHR 0xE2, CHR 0x80, CHR 0x84], [CHR 0xE2, CHR
     0x80, CHR 0x85], [CHR 0xE2, CHR 0x80, CHR 0x86], [CHR 0xE2, CHR 0x80, CHR 0x87], [CHR 0xE2, CHR 0x80, CHR
     0x88], [CHR 0xE2, CHR 0x80, CHR 0x89], [CHR 0xE2, CHR 0x80, CHR 0x8A], [CHR 0xE2, CHR 0x80, CHR 0xA8], [CHR
     0xE2, CHR 0x80, CHR 0xA9], [CHR 0xE2, CHR 0x80, CHR 0xAF], [CHR 0xE2, CHR 0x81, CHR 0x9F], [CHR 0xE3, CHR
     0x80, CHR 0x80]]"
  by code_simp

definition space_prefix :: "string \<Rightarrow> nat" where
  "space_prefix s = (case find (\<lambda>w. take (length w) s = w) white_space of Some w \<Rightarrow> length w | None \<Rightarrow> 0)"

function trim_start :: "string \<Rightarrow> string" where
  "trim_start s = (if s = [] \<or> space_prefix s = 0 then s else trim_start (drop (space_prefix s) s))"
  by pat_completeness auto

termination
  by (relation "measure length") auto

declare trim_start.simps [simp del]

definition space_suffix :: "string \<Rightarrow> nat" where
  "space_suffix s =
     (case find (\<lambda>w. length w \<le> length s \<and> drop (length s - length w) s = w) white_space of
        Some w \<Rightarrow> length w | None \<Rightarrow> 0)"

function trim_end :: "string \<Rightarrow> string" where
  "trim_end s = (if s = [] \<or> space_suffix s = 0 then s else trim_end (take (length s - space_suffix s) s))"
  by pat_completeness auto

termination
  by (relation "measure length") auto

declare trim_end.simps [simp del]

definition str_trim :: "string \<Rightarrow> string" where
  "str_trim s = trim_end (trim_start s)"

end
