(* ===== verification/CollectorBackend.thy ===== *)
theory CollectorBackend
  imports CollectorData
begin

text \<open>
  The collector backend (\<^verbatim>\<open>collector-backend/src/bin/node-collector-backend.rs\<close>): the service that
  collects what nodes report about themselves, checks it for plausibility, forgets nodes that
  have stopped reporting and serves the rest to the dashboards.
\<close>

section \<open>State and configuration\<close>

record validation_config =
  valid_content_length :: u64
  valid_node_name_lenght :: nat
  valid_node_average_ping :: f64
  valid_node_peers_count :: u64
  validate_against_average_at :: u64
  percentage_used_for_averages :: nat
  valid_additional_best_block_height :: u64
  valid_additional_finalized_block_height :: u64

text \<open>
  The reports are behind a lock, which is poisoned when a thread panics while it writes; the
  thread that cleans up ends with a panic.
\<close>

record collector_state =
  nodes :: "(string, node_info) hash_map"
  nodes_poisoned :: bool
  cleanup_running :: bool
  banned_versions :: "string list"
  banned_node_names :: "string list"

definition collector_new :: "string list \<Rightarrow> string list \<Rightarrow> collector_state" where
  "collector_new versions names =
     \<lparr>nodes = [], nodes_poisoned = False, cleanup_running = True, banned_versions = versions, banned_node_names = names\<rparr>"

text \<open>The names that are banned are the lines of a file, if there is one.\<close>

definition load_banned_names :: "string option option \<Rightarrow> string list res" where
  "load_banned_names file_contents =
     (case file_contents of
        None \<Rightarrow> Ok []
      | Some None \<Rightarrow> Err IoError
      | Some (Some contents) \<Rightarrow> Ok (str_lines contents))"

section \<open>Averages\<close>

definition u64_sum :: "u64 list \<Rightarrow> u64 res" where
  "u64_sum vs =
     (let total = sum_list (map unat vs) in if total < 2 ^ 64 then Ok (word_of_nat total) else Panic)"

definition average_without_outer_values :: "u64 list \<Rightarrow> nat \<Rightarrow> u64 res" where
  "average_without_outer_values values number_to_include =
     (let vs = sort values
      in if length vs < number_to_include then Panic
         else let start = (length vs - number_to_include) div 2
              in res_bind (u64_sum (take number_to_include (drop start vs))) (\<lambda>total.
                   if word_of_nat number_to_include = (0 :: u64) then Panic
                   else Ok (total div word_of_nat number_to_include)))"

section \<open>Receiving a report\<close>

record post_request =
  exact_length :: "u64 option"
  body_chunks :: "bytes option list"

definition ensure :: "bool \<Rightarrow> string \<Rightarrow> unit res" where
  "ensure c msg = (if c then Ok () else Err (Bail msg))"

fun read_body :: "nat \<Rightarrow> bytes \<Rightarrow> bytes option list \<Rightarrow> bytes res" where
  "read_body content_length content [] =
     (if length content = content_length then Ok content else Err (Bail ''Invalid body''))"
| "read_body content_length content (None # bufs) = Err IoError"
| "read_body content_length content (Some buf # bufs) =
     (if length content + length buf \<le> content_length then read_body content_length (content @ buf) bufs
      else Err (Bail ''Invalid body''))"

definition read_request :: "validation_config \<Rightarrow> post_request \<Rightarrow> bytes res" where
  "read_request conf req =
     (case exact_length req of
        None \<Rightarrow> Err (Bail ''Header 'Content-Length' is required'')
      | Some content_length \<Rightarrow>
          res_bind (ensure (content_length \<le> valid_content_length conf)
            ''Content-Length is larger than the limit set by the collector backend'') (\<lambda>_.
            read_body (unat content_length) [] (body_chunks req)))"

definition validate_report :: "validation_config \<Rightarrow> collector_state \<Rightarrow> node_info \<Rightarrow> unit res" where
  "validate_report conf st info =
     res_bind (ensure (nodeName info \<noteq> []) ''nodeName cannot be empty'') (\<lambda>_.
     res_bind (ensure (length (str_lines (nodeName info)) = 1) ''nodeName is not allowed to contain line breaks'') (\<lambda>_.
     res_bind (ensure (nodeId info \<noteq> []) ''nodeId cannot be empty'') (\<lambda>_.
     res_bind (ensure (length (nodeName info) \<le> valid_node_name_lenght conf)
       ''nodeName is to long too be considered valid'') (\<lambda>_.
     res_bind (case averagePing info of
         Some avg_ping \<Rightarrow> ensure (f64_le avg_ping (valid_node_average_ping conf))
           ''Average ping is too high to be considered valid''
       | None \<Rightarrow> Ok ()) (\<lambda>_.
     res_bind (ensure (peersCount info \<le> valid_node_peers_count conf)
       ''peersCount is too high to be considered valid'') (\<lambda>_.
     res_bind (ensure (client_version info \<notin> set (banned_versions st)) ''node version is banned'') (\<lambda>_.
       ensure (str_trim (nodeName info) \<notin> set (banned_node_names st)) ''node name is banned'')))))))"

definition u64_add :: "u64 \<Rightarrow> u64 \<Rightarrow> u64 res" where
  "u64_add x y = (if unat x + unat y < 2 ^ 64 then Ok (x + y) else Panic)"

text \<open>The heights are compared with the averages, once there are enough reports.\<close>

definition validate_heights :: "validation_config \<Rightarrow> node_info list \<Rightarrow> node_info \<Rightarrow> unit res" where
  "validate_heights conf ns info =
     (if word_of_nat (length ns) < validate_against_average_at conf then Ok ()
      else if 2 ^ 64 \<le> length ns * percentage_used_for_averages conf then Panic
      else
        let number_of_nodes_to_include = length ns * percentage_used_for_averages conf div 100 in
        res_bind (average_without_outer_values (map bestBlockHeight ns) number_of_nodes_to_include) (\<lambda>avg_best.
        res_bind (u64_add avg_best (valid_additional_best_block_height conf)) (\<lambda>max_best.
        res_bind (ensure (bestBlockHeight info \<le> max_best)
          ''bestBlockHeight is too high above average to be considered valid'') (\<lambda>_.
        res_bind (average_without_outer_values (map finalizedBlockHeight ns) number_of_nodes_to_include) (\<lambda>avg_finalized.
        res_bind (u64_add avg_finalized (valid_additional_finalized_block_height conf)) (\<lambda>max_finalized.
          ensure (finalizedBlockHeight info \<le> max_finalized)
            ''finalizedBlockHeight is too high above average to be considered valid''))))))"

text \<open>Decoding the report is left to the library \<^verbatim>\<open>rmp_serde\<close>.\<close>

definition nodes_post_handler ::
    "(bytes \<Rightarrow> node_info option) \<Rightarrow> u64 \<Rightarrow> validation_config \<Rightarrow> post_request \<Rightarrow> collector_state \<Rightarrow> unit res \<times> collector_state" where
  "nodes_post_handler decode now conf req st =
     (case res_bind (read_request conf req) (\<lambda>body.
           res_bind (case decode body of Some info \<Rightarrow> Ok info | None \<Rightarrow> Err (Bail ''Can't parse client data'')) (\<lambda>info.
           res_bind (validate_report conf st info) (\<lambda>_.
           res_bind (if nodes_poisoned st then Panic else validate_heights conf (hm_values (nodes st)) info) (\<lambda>_.
             Ok info)))) of
        Ok info \<Rightarrow> (Ok (), st\<lparr>nodes := hm_insert (nodeId info) (info\<lparr>last_updated := now\<rparr>) (nodes st)\<rparr>)
      | Err e \<Rightarrow> (Err e, st)
      | Panic \<Rightarrow> (Panic, st))"

text \<open>What the wrapper answers: a refused report is a bad request, a panic an internal error.\<close>

datatype http_status = HttpOk | HttpBadRequest | HttpInternalError

definition nodes_post_handler_wrapper ::
    "(bytes \<Rightarrow> node_info option) \<Rightarrow> u64 \<Rightarrow> validation_config \<Rightarrow> post_request \<Rightarrow> collector_state \<Rightarrow> http_status \<times> collector_state" where
  "nodes_post_handler_wrapper decode now conf req st =
     (case nodes_post_handler decode now conf req st of
        (Ok _, st') \<Rightarrow> (HttpOk, st')
      | (Err _, st') \<Rightarrow> (HttpBadRequest, st')
      | (Panic, st') \<Rightarrow> (HttpInternalError, st'))"

section \<open>Serving and cleaning up\<close>

fun join_with :: "string \<Rightarrow> string list \<Rightarrow> string" where
  "join_with sep [] = []"
| "join_with sep [x] = x"
| "join_with sep (x # xs) = x @ sep @ join_with sep xs"

text \<open>The library \<^verbatim>\<open>serde_json\<close> writes each element.\<close>

definition nodes_summary :: "(node_info_dashboard \<Rightarrow> string) \<Rightarrow> collector_state \<Rightarrow> string res" where
  "nodes_summary to_json st =
     (if nodes_poisoned st then Panic
      else Ok (''['' @ join_with '','' (map (\<lambda>n. to_json (dashboard_from n)) (hm_values (nodes st))) @ '']''))"

definition nodes_block_info :: "(node_info_chain_viz \<Rightarrow> string) \<Rightarrow> collector_state \<Rightarrow> string res" where
  "nodes_block_info to_json st =
     (if nodes_poisoned st then Panic
      else Ok (''['' @ join_with '','' (map (\<lambda>n. to_json (chain_viz_from n)) (hm_values (nodes st))) @ '']''))"

text \<open>A sum that leaves its range panics under the lock.\<close>

definition cleanup :: "u64 \<Rightarrow> u64 \<Rightarrow> collector_state \<Rightarrow> collector_state" where
  "cleanup allowed_stale_time current_stamp st =
     (if \<not> cleanup_running st then st
      else if nodes_poisoned st then st\<lparr>cleanup_running := False\<rparr>
      else if \<exists>n \<in> set (hm_values (nodes st)). 2 ^ 64 \<le> unat (last_updated n) + unat allowed_stale_time
      then st\<lparr>nodes_poisoned := True, cleanup_running := False\<rparr>
      else st\<lparr>nodes := hm_retain (\<lambda>_ n. current_stamp < last_updated n + allowed_stale_time) (nodes st)\<rparr>)"

end
