(* ===== verification/NodeCollector.thy ===== *)
theory NodeCollector
  imports Rpc CollectorBackend
begin

text \<open>
  The collector (\<^verbatim>\<open>bin/collector.rs\<close>): the program that asks nodes about themselves through the
  first gRPC interface and posts what it learns to the collector backend. The channel to a node,
  the reader of JSON, the encoder of reports and the HTTP client are parameters; the calls act on
  a state that stands for the world outside the collector.
\<close>

section \<open>Names\<close>

text \<open>
  \<^verbatim>\<open>str::split_whitespace\<close> on texts in UTF-8. The bytes inside a character never begin the encoding
  of white space, so that the words are found byte by byte.
\<close>

fun next_word :: "string \<Rightarrow> string \<times> string" where
  "next_word [] = ([], [])"
| "next_word (c # s) =
     (if space_prefix (c # s) \<noteq> 0 then ([], c # s)
      else case next_word s of (w, rest) \<Rightarrow> (c # w, rest))"

lemma next_word_append: "fst (next_word s) @ snd (next_word s) = s"
  by (induction s) (auto split: prod.splits)

lemma trim_start_shorter: "length (trim_start s) \<le> length s"
proof (induction s rule: trim_start.induct)
  case (1 s)
  then show ?case by (subst trim_start.simps) (auto intro: order_trans)
qed

lemma trim_start_no_space: "trim_start s = c # r \<Longrightarrow> space_prefix (c # r) = 0"
proof (induction s rule: trim_start.induct)
  case (1 s)
  show ?case
  proof (cases "s = [] \<or> space_prefix s = 0")
    case True
    then show ?thesis using "1.prems" by (subst (asm) trim_start.simps) auto
  next
    case False
    then show ?thesis using "1.IH" "1.prems" by (subst (asm) trim_start.simps) auto
  qed
qed

function split_whitespace :: "string \<Rightarrow> string list" where
  "split_whitespace s =
     (case trim_start s of
        [] \<Rightarrow> []
      | c # r \<Rightarrow> fst (next_word (c # r)) # split_whitespace (snd (next_word (c # r))))"
  by pat_completeness auto

termination
proof (relation "measure length")
  fix s c r
  assume t: "trim_start s = c # r"
  have "length (snd (next_word r)) \<le> length r"
    by (metis next_word_append length_append le_add2)
  then have "length (snd (next_word (c # r))) < length (c # r)"
    using trim_start_no_space [OF t] by (auto split: prod.splits)
  also have "\<dots> \<le> length s" using trim_start_shorter [of s] t by simp
  finally show "(snd (next_word (c # r)), s) \<in> measure length" by simp
qed simp

declare split_whitespace.simps [simp del]

type_synonym node_name = "string list"

definition node_name_from_str :: "string \<Rightarrow> node_name" where
  "node_name_from_str input = split_whitespace input"

definition node_name_to_string :: "node_name \<Rightarrow> string" where
  "node_name_to_string ws = join_with '' '' ws"

section \<open>Configuration\<close>

record collector_config =
  grpc_auth_token :: string
  grpc_hosts :: "string list"
  node_names :: "node_name list"
  collector_url :: string
  collector_interval :: u64
  artificial_start_delay :: u64
  grpc_timeout :: u64

section \<open>JSON\<close>

text \<open>
  Values of \<^verbatim>\<open>serde_json\<close>: a number is a natural number of 64 bits, a negative one, or a floating
  point number. An object that lacks a field, and a value that is no object, have \<^verbatim>\<open>null\<close> there.
\<close>

datatype json_number = PosInt u64 | NegInt "64 word" | FloatNumber f64

datatype json = JNull | JBool bool | JNumber json_number | JString string | JArray "json list" | JObject "(string \<times> json) list"

fun json_index :: "json \<Rightarrow> string \<Rightarrow> json" where
  "json_index (JObject fs) key = (case map_of fs key of Some v \<Rightarrow> v | None \<Rightarrow> JNull)"
| "json_index v key = JNull"

fun as_str :: "json \<Rightarrow> string option" where
  "as_str (JString s) = Some s"
| "as_str v = None"

fun as_u64 :: "json \<Rightarrow> u64 option" where
  "as_u64 (JNumber (PosInt n)) = Some n"
| "as_u64 v = None"

fun as_f64 :: "json \<Rightarrow> f64 option" where
  "as_f64 (JNumber (PosInt n)) = Some (u64_to_f64 n)"
| "as_f64 (JNumber (NegInt n)) = Some (F64 (round_f64 (of_int (sint n))))"
| "as_f64 (JNumber (FloatNumber f)) = Some f"
| "as_f64 v = None"

section \<open>The outside world\<close>

text \<open>What the collector reads of the replies of a node.\<close>

record node_info_reply =
  nr_node_id :: "string option"
  nr_peer_type :: string
  nr_baker_committee :: baking_committee_response
  nr_finalizer_committee :: bool
  nr_running :: bool
  nr_baker_id :: "u64 option"

record peer_stats_reply =
  psr_peerstats :: "(string \<times> u64) list"
  psr_avg_bps_in :: u64
  psr_avg_bps_out :: u64

text \<open>A client of a node: every call takes the token.\<close>

record 's p2p_client =
  cl_node_info :: "string \<Rightarrow> 's \<Rightarrow> node_info_reply res \<times> 's"
  cl_peer_uptime :: "string \<Rightarrow> 's \<Rightarrow> u64 res \<times> 's"
  cl_peer_version :: "string \<Rightarrow> 's \<Rightarrow> string res \<times> 's"
  cl_get_consensus_status :: "string \<Rightarrow> 's \<Rightarrow> string res \<times> 's"
  cl_peer_stats :: "string \<Rightarrow> bool \<Rightarrow> 's \<Rightarrow> peer_stats_reply res \<times> 's"
  cl_peer_total_sent :: "string \<Rightarrow> 's \<Rightarrow> u64 res \<times> 's"
  cl_peer_total_received :: "string \<Rightarrow> 's \<Rightarrow> u64 res \<times> 's"
  cl_get_ancestors :: "string \<Rightarrow> string \<Rightarrow> u64 \<Rightarrow> 's \<Rightarrow> string res \<times> 's"
  cl_get_block_info :: "string \<Rightarrow> string \<Rightarrow> 's \<Rightarrow> string res \<times> 's"

text \<open>
  The libraries: which texts are addresses of channels and values of metadata, connecting within
  a timeout, reading JSON, encoding a report, the periods that a timer can have, and posting.
\<close>

record 's collector_env =
  uri_valid :: "string \<Rightarrow> bool"
  metadata_valid :: "string \<Rightarrow> bool"
  connect_channel :: "string \<Rightarrow> u64 \<Rightarrow> 's \<Rightarrow> 's p2p_client res \<times> 's"
  json_from_str :: "string \<Rightarrow> json option"
  msgpack :: "node_info \<Rightarrow> bytes option"
  interval_valid :: "u64 \<Rightarrow> bool"
  http_client_builds :: bool
  http_post :: "string \<Rightarrow> bytes \<Rightarrow> 's \<Rightarrow> bool \<times> 's"

definition unwrap :: "'a option \<Rightarrow> 'a res" where
  "unwrap x = (case x of Some v \<Rightarrow> Ok v | None \<Rightarrow> Panic)"

section \<open>Collecting\<close>

text \<open>The latencies that are not zero count, all of them are added.\<close>

definition average_ping :: "u64 list \<Rightarrow> f64 option res" where
  "average_ping latencies =
     res_bind (u64_sum latencies) (\<lambda>total.
       let count = length (filter (\<lambda>l. 0 < l) latencies)
       in Ok (if count > 0
              then Some (F64 (f64_div (round_f64 (of_nat (unat total))) (round_f64 (of_nat count)))) else None))"

definition parse_json :: "'s collector_env \<Rightarrow> string \<Rightarrow> json res" where
  "parse_json env t = (case json_from_str env t of Some v \<Rightarrow> Ok v | None \<Rightarrow> Err (Bail ''serde_json''))"

text \<open>The fields of the status that have to be there; a missing one is unwrapped.\<close>

record required_status =
  rs_best_block :: string
  rs_best_block_height :: u64
  rs_genesis_block :: string
  rs_finalized_block :: string
  rs_finalized_block_height :: u64

definition read_status :: "json \<Rightarrow> required_status res" where
  "read_status sj =
     res_bind (unwrap (as_str (json_index sj ''bestBlock''))) (\<lambda>best_block.
     res_bind (unwrap (as_u64 (json_index sj ''bestBlockHeight''))) (\<lambda>best_block_height.
     res_bind (unwrap (as_str (json_index sj ''genesisBlock''))) (\<lambda>genesis_block.
     res_bind (unwrap (as_str (json_index sj ''lastFinalizedBlock''))) (\<lambda>finalized_block.
     res_bind (unwrap (as_u64 (json_index sj ''lastFinalizedBlockHeight''))) (\<lambda>finalized_block_height.
       Ok \<lparr>rs_best_block = best_block, rs_best_block_height = best_block_height, rs_genesis_block = genesis_block,
           rs_finalized_block = finalized_block, rs_finalized_block_height = finalized_block_height\<rparr>)))))"

fun unwrap_strings :: "json list \<Rightarrow> string list res" where
  "unwrap_strings [] = Ok []"
| "unwrap_strings (v # vs) = res_bind (unwrap (as_str v)) (\<lambda>x. res_bind (unwrap_strings vs) (\<lambda>xs. Ok (x # xs)))"

definition ancestors_since_best_block ::
    "'s collector_env \<Rightarrow> 's p2p_client \<Rightarrow> string \<Rightarrow> required_status \<Rightarrow> ('s, string list option) action" where
  "ancestors_since_best_block env client token st =
     (if rs_best_block_height st > rs_finalized_block_height st
      then act_bind (cl_get_ancestors client token (rs_best_block st)
               (rs_best_block_height st - rs_finalized_block_height st)) (\<lambda>reply.
           act_result (res_bind (parse_json env reply) (\<lambda>v.
             case v of JArray vs \<Rightarrow> res_bind (unwrap_strings vs) (\<lambda>xs. Ok (Some xs)) | _ \<Rightarrow> Ok None)))
      else act_result (Ok None))"

definition finalized_block_parent ::
    "'s collector_env \<Rightarrow> 's p2p_client \<Rightarrow> string \<Rightarrow> required_status \<Rightarrow> json \<Rightarrow> 's \<Rightarrow> string res \<times> 's" where
  "finalized_block_parent env client token st block_info =
     (if rs_best_block_height st = rs_finalized_block_height st
      then act_result (unwrap (as_str (json_index block_info ''blockParent'')))
      else act_bind (cl_get_block_info client token (rs_finalized_block st)) (\<lambda>reply.
           act_result (res_bind (parse_json env reply) (\<lambda>v. unwrap (as_str (json_index v ''blockParent''))))))"

definition committee_member :: "baking_committee_response \<Rightarrow> is_in_baking_committee" where
  "committee_member c =
     (case c of
        BakingNotInCommittee \<Rightarrow> NotInBakingCommittee
      | BakingAddedNotActive \<Rightarrow> AddedButNotActiveInCommittee
      | BakingWrongKeys \<Rightarrow> AddedButWrongKeys
      | BakingActive \<Rightarrow> ActiveInCommittee)"

text \<open>What is collected before a report is made.\<close>

record collected =
  co_info :: node_info_reply
  co_node_id :: string
  co_uptime :: u64
  co_version :: string
  co_sent :: u64
  co_received :: u64
  co_stats :: peer_stats_reply
  co_ping :: "f64 option"
  co_status :: json
  co_required :: required_status
  co_ancestors :: "string list option"
  co_block :: json
  co_parent :: string

definition make_report :: "node_name \<Rightarrow> collected \<Rightarrow> node_info" where
  "make_report name c =
     (let st = co_required c; status_f = (\<lambda>key. as_f64 (json_index (co_status c) key));
          status_n = (\<lambda>key. as_u64 (json_index (co_status c) key));
          status_t = (\<lambda>key. as_str (json_index (co_status c) key));
          block_n = (\<lambda>key. as_u64 (json_index (co_block c) key))
      in \<lparr>nodeName = node_name_to_string name, nodeId = co_node_id c, peerType = nr_peer_type (co_info c),
          uptime = co_uptime c, client_version = co_version c, averagePing = co_ping c,
          peersCount = word_of_nat (length (psr_peerstats (co_stats c))),
          peersList = map fst (psr_peerstats (co_stats c)),
          bestBlock = rs_best_block st, bestBlockHeight = rs_best_block_height st,
          bestBlockBakerId = block_n ''blockBaker'', bestArrivedTime = status_t ''blockLastArrivedTime'',
          blockArrivePeriodEMA = status_f ''blockArrivePeriodEMA'', blockArrivePeriodEMSD = status_f ''blockArrivePeriodEMSD'',
          blockArriveLatencyEMA = status_f ''blockArriveLatencyEMA'', blockArriveLatencyEMSD = status_f ''blockArriveLatencyEMSD'',
          blockReceivePeriodEMA = status_f ''blockReceivePeriodEMA'', blockReceivePeriodEMSD = status_f ''blockReceivePeriodEMSD'',
          blockReceiveLatencyEMA = status_f ''blockReceiveLatencyEMA'', blockReceiveLatencyEMSD = status_f ''blockReceiveLatencyEMSD'',
          finalizedBlock = rs_finalized_block st, finalizedBlockHeight = rs_finalized_block_height st,
          finalizedTime = status_t ''lastFinalizedTime'', finalizationPeriodEMA = status_f ''finalizationPeriodEMA'',
          finalizationPeriodEMSD = status_f ''finalizationPeriodEMSD'', packetsSent = co_sent c,
          packetsReceived = co_received c, consensusRunning = nr_running (co_info c),
          bakingCommitteeMember = committee_member (nr_baker_committee (co_info c)),
          consensusBakerId = nr_baker_id (co_info c), finalizationCommitteeMember = nr_finalizer_committee (co_info c),
          ancestorsSinceBestBlock = co_ancestors c, stagingNetUsername = None,
          transactionsPerBlockEMA = status_f ''transactionsPerBlockEMA'',
          transactionsPerBlockEMSD = status_f ''transactionsPerBlockEMSD'',
          bestBlockTransactionsSize = block_n ''transactionsSize'',
          bestBlockTotalEncryptedAmount = block_n ''totalEncryptedAmount'',
          bestBlockTotalAmount = block_n ''totalAmount'', bestBlockTransactionCount = block_n ''transactionCount'',
          bestBlockTransactionEnergyCost = block_n ''transactionEnergyCost'',
          bestBlockExecutionCost = block_n ''executionCost'', bestBlockCentralBankAmount = block_n ''centralBankAmount'',
          blocksReceivedCount = status_n ''blocksReceivedCount'', blocksVerifiedCount = status_n ''blocksVerifiedCount'',
          genesisBlock = rs_genesis_block st, finalizationCount = status_n ''finalizationCount'',
          finalizedBlockParent = co_parent c, last_updated = 0,
          averageBytesPerSecondIn = psr_avg_bps_in (co_stats c),
          averageBytesPerSecondOut = psr_avg_bps_out (co_stats c)\<rparr>)"

text \<open>
  The replies are requested in this order; an address, a token, or a field of the reply that is
  not as expected makes the collector panic, a failed call or a text that is not JSON is an error.
\<close>

definition collect_data ::
    "'s collector_env \<Rightarrow> collector_config \<Rightarrow> node_name \<Rightarrow> string \<Rightarrow> 's \<Rightarrow> node_info res \<times> 's" where
  "collect_data env conf name grpc_host =
     (let token = grpc_auth_token conf in
      if \<not> uri_valid env grpc_host then act_result Panic
      else act_bind (connect_channel env grpc_host (grpc_timeout conf)) (\<lambda>client.
        if \<not> metadata_valid env token then act_result Panic
        else
        act_bind (cl_node_info client token) (\<lambda>info.
        act_bind (cl_peer_uptime client token) (\<lambda>uptime.
        act_bind (cl_peer_version client token) (\<lambda>version.
        act_bind (cl_get_consensus_status client token) (\<lambda>status_reply.
        act_bind (cl_peer_stats client token False) (\<lambda>stats.
        act_bind (cl_peer_total_sent client token) (\<lambda>sent.
        act_bind (cl_peer_total_received client token) (\<lambda>received.
        act_bind (act_result (unwrap (nr_node_id info))) (\<lambda>node_id.
        act_bind (act_result (average_ping (map snd (psr_peerstats stats)))) (\<lambda>ping.
        act_bind (act_result (parse_json env status_reply)) (\<lambda>sj.
        act_bind (act_result (read_status sj)) (\<lambda>st.
        act_bind (ancestors_since_best_block env client token st) (\<lambda>ancestors.
        act_bind (cl_get_block_info client token (rs_best_block st)) (\<lambda>block_reply.
        act_bind (act_result (parse_json env block_reply)) (\<lambda>block_info.
        act_bind (finalized_block_parent env client token st block_info) (\<lambda>parent.
          act_result (Ok (make_report name
            \<lparr>co_info = info, co_node_id = node_id, co_uptime = uptime, co_version = version, co_sent = sent,
             co_received = received, co_stats = stats, co_ping = ping, co_status = sj, co_required = st,
             co_ancestors = ancestors, co_block = block_info, co_parent = parent\<rparr>)))))))))))))))))))"

section \<open>The program\<close>

text \<open>Errors of a node are logged, a panic ends the collector.\<close>

definition collect_and_post ::
    "'s collector_env \<Rightarrow> collector_config \<Rightarrow> node_name \<Rightarrow> string \<Rightarrow> 's \<Rightarrow> unit res \<times> 's" where
  "collect_and_post env conf name grpc_host s =
     (case collect_data env conf name grpc_host s of
        (Ok info, s') \<Rightarrow>
          (Ok (), case msgpack env info of
                    Some body \<Rightarrow>
                      if http_client_builds env then snd (http_post env (collector_url conf) body s') else s'
                  | None \<Rightarrow> s')
      | (Err e, s') \<Rightarrow> (Ok (), s')
      | (Panic, s') \<Rightarrow> (Panic, s'))"

fun collect_round ::
    "'s collector_env \<Rightarrow> collector_config \<Rightarrow> (node_name \<times> string) list \<Rightarrow> 's \<Rightarrow> unit res \<times> 's" where
  "collect_round env conf [] s = (Ok (), s)"
| "collect_round env conf ((name, grpc_host) # rest) s =
     act_bind (collect_and_post env conf name grpc_host) (\<lambda>_. collect_round env conf rest) s"

text \<open>The loop runs a round at every tick of the interval; the number of ticks is a parameter.\<close>

fun collector_loop :: "nat \<Rightarrow> 's collector_env \<Rightarrow> collector_config \<Rightarrow> 's \<Rightarrow> unit res \<times> 's" where
  "collector_loop 0 env conf s = (Ok (), s)"
| "collector_loop (Suc ticks) env conf s =
     act_bind (collect_round env conf (zip (node_names conf) (grpc_hosts conf)))
       (\<lambda>_. collector_loop ticks env conf) s"

definition collector_main :: "nat \<Rightarrow> 's collector_env \<Rightarrow> collector_config \<Rightarrow> 's \<Rightarrow> unit res \<times> 's" where
  "collector_main ticks env conf s =
     (if length (node_names conf) \<noteq> length (grpc_hosts conf)
      then (Err (Bail ''The number of node-names and grpc-hosts must be equal!''), s)
      else if \<not> interval_valid env (collector_interval conf) then (Panic, s)
      else collector_loop ticks env conf s)"

end
