(* ===== verification/CollectorRuns.thy ===== *)
theory CollectorRuns
  imports CollectorBackend "HOL-Library.Multiset"
begin

text \<open>
  Properties of the collector backend: the averages withstand a minority of false reports, every
  stored report has passed the checks, a node stays listed until it is stale, and what happens
  with heights that are reported before there are enough nodes for an average.
\<close>

declare map_of_eq_Some_iff [simp del] Some_eq_map_of_iff [simp del]

section \<open>Averages\<close>

lemma sorted_outliers_below:
  assumes "sorted vs" "length (filter (\<lambda>v. v < lo) vs) \<le> i" "i < length vs"
  shows "lo \<le> vs ! i"
proof (rule ccontr)
  assume "\<not> lo \<le> vs ! i"
  then have "vs ! j < lo" if "j \<le> i" for j
    using sorted_nth_mono [OF assms(1) that assms(3)] by simp
  then have "filter (\<lambda>v. v < lo) (take (Suc i) vs) = take (Suc i) vs"
    using assms(3) by (auto simp: filter_id_conv in_set_conv_nth)
  then have "Suc i \<le> length (filter (\<lambda>v. v < lo) (take (Suc i) vs @ drop (Suc i) vs))"
    unfolding filter_append using assms(3) by simp
  then show False using assms(2) by simp
qed

lemma sorted_outliers_above:
  assumes "sorted vs" "length (filter (\<lambda>v. hi < v) vs) + i < length vs"
  shows "vs ! i \<le> hi"
proof (rule ccontr)
  assume "\<not> vs ! i \<le> hi"
  then have "hi < vs ! j" if "i \<le> j" "j < length vs" for j
    using sorted_nth_mono [OF assms(1) that] by simp
  then have "filter (\<lambda>v. hi < v) (drop i vs) = drop i vs"
    by (auto simp: filter_id_conv in_set_conv_nth)
  then have "length vs - i \<le> length (filter (\<lambda>v. hi < v) (take i vs @ drop i vs))"
    unfolding filter_append by simp
  then show False using assms(2) by simp
qed

lemma sum_bounds:
  assumes "\<And>v. v \<in> set vs \<Longrightarrow> lo \<le> v \<and> v \<le> (hi :: nat)"
  shows "length vs * lo \<le> sum_list vs \<and> sum_list vs \<le> length vs * hi"
  using assms by (induction vs) (auto simp: add_mono)

lemma filter_sort_length: "length (filter P (sort vs)) = length (filter P vs)"
  by (metis mset_filter mset_sort size_mset)

lemma middle_values:
  assumes "length (filter (\<lambda>v. v < lo) values) \<le> (length values - k) div 2"
    and "length (filter (\<lambda>v. hi < v) values) \<le> (length values - k) div 2"
    and "k \<le> length values" and "v \<in> set (take k (drop ((length values - k) div 2) (sort values)))"
  shows "lo \<le> v \<and> v \<le> hi"
proof -
  obtain i where i: "i < k" "v = sort values ! ((length values - k) div 2 + i)"
    using assms(3,4) by (auto simp: in_set_conv_nth)
  have "(length values - k) div 2 + ((length values - k) div 2 + i) < length values" using i(1) assms(3) by linarith
  with i assms show ?thesis
    by (auto simp: filter_sort_length intro!: sorted_outliers_below sorted_outliers_above)
qed



section \<open>Reports that are accepted\<close>

lemma ensure_simps [simp]: "ensure c m = Ok () \<longleftrightarrow> c" "ensure c m \<noteq> Panic" "ensure c m = Err e \<longleftrightarrow> \<not> c \<and> e = Bail m"
  by (auto simp: ensure_def)

definition plausible :: "validation_config \<Rightarrow> string list \<Rightarrow> string list \<Rightarrow> node_info \<Rightarrow> bool" where
  "plausible conf versions names n \<longleftrightarrow>
     nodeName n \<noteq> [] \<and> length (str_lines (nodeName n)) = 1 \<and> nodeId n \<noteq> [] \<and>
     length (nodeName n) \<le> valid_node_name_lenght conf \<and>
     (\<forall>p. averagePing n = Some p \<longrightarrow> f64_le p (valid_node_average_ping conf)) \<and>
     peersCount n \<le> valid_node_peers_count conf \<and> client_version n \<notin> set versions \<and> str_trim (nodeName n) \<notin> set names"

lemma validate_report_Ok:
  "validate_report conf st n = Ok u \<longleftrightarrow> plausible conf (banned_versions st) (banned_node_names st) n"
  by (cases "averagePing n") (auto simp: validate_report_def plausible_def res_simps)

lemma plausible_last_updated [simp]: "plausible conf versions names (n\<lparr>last_updated := t\<rparr>) = plausible conf versions names n"
  by (simp add: plausible_def)

lemma post_accepted:
  assumes "nodes_post_handler decode now conf req st = (Ok (), st')"
  obtains body info where "read_request conf req = Ok body" "decode body = Some info"
    "plausible conf (banned_versions st) (banned_node_names st) info" "\<not> nodes_poisoned st"
    "validate_heights conf (hm_values (nodes st)) info = Ok ()"
    "st' = st\<lparr>nodes := hm_insert (nodeId info) (info\<lparr>last_updated := now\<rparr>) (nodes st)\<rparr>"
  using assms
  by (auto simp: nodes_post_handler_def res_simps validate_report_Ok split: res.splits option.splits if_splits)

lemma post_refused: "fst (nodes_post_handler decode now conf req st) \<noteq> Ok () \<Longrightarrow> snd (nodes_post_handler decode now conf req st) = st"
  by (auto simp: nodes_post_handler_def split: res.splits)

lemma average_le:
  assumes "average_without_outer_values values k = Ok a" "0 < k" "length values < 2 ^ 64"
    and "length (filter (\<lambda>v. hi < v) values) \<le> (length values - k) div 2"
  shows "a \<le> hi"
proof -
  define mid where "mid = take k (drop ((length values - k) div 2) (sort values))"
  have le: "k \<le> length values" using assms(1) by (simp add: average_without_outer_values_def Let_def split: if_splits)
  have len: "length mid = k" using le by (simp add: mid_def)
  have a: "sum_list (map unat mid) < 2 ^ 64" "a = word_of_nat (sum_list (map unat mid)) div word_of_nat k"
    using assms(1) by (auto simp: average_without_outer_values_def u64_sum_def mid_def Let_def res_simps split: if_splits)
  have "v \<le> hi" if "v \<in> set mid" for v
    using middle_values [of 0 "values" k hi v] assms(4) le that by (simp add: mid_def)
  then have "sum_list (map unat mid) \<le> k * unat hi"
    using sum_bounds [of "map unat mid" 0 "unat hi"] len by (auto simp: word_le_nat_alt)
  moreover have "unat (word_of_nat k :: u64) = k" "unat (word_of_nat (sum_list (map unat mid)) :: u64) = sum_list (map unat mid)"
    using le assms(3) a(1) by (simp_all add: unat_of_nat take_bit_eq_mod)
  ultimately show ?thesis
    unfolding a(2) word_le_nat_alt unat_div using assms(2) by (metis div_le_mono nonzero_mult_div_cancel_left not_gr0)
qed


definition example_report :: node_info where
  "example_report = \<lparr>
     nodeName = ''node one'', nodeId = ''0000000000000001'', peerType = ''b'', uptime = 0,
     client_version = ''5.2.0'', averagePing = Some (F64 20), peersCount = 7, peersList = [],
     bestBlock = ''b'', bestBlockHeight = 1000, bestBlockBakerId = None, bestArrivedTime = None,
     blockArrivePeriodEMA = None, blockArrivePeriodEMSD = None, blockArriveLatencyEMA = None,
     blockArriveLatencyEMSD = None, blockReceivePeriodEMA = None, blockReceivePeriodEMSD = None,
     blockReceiveLatencyEMA = None, blockReceiveLatencyEMSD = None, finalizedBlock = ''b'',
     finalizedBlockHeight = 1000, finalizedTime = None, finalizationPeriodEMA = None,
     finalizationPeriodEMSD = None, packetsSent = 0, packetsReceived = 0, consensusRunning = True,
     bakingCommitteeMember = NotInBakingCommittee, consensusBakerId = None, finalizationCommitteeMember = True,
     ancestorsSinceBestBlock = None, stagingNetUsername = None, transactionsPerBlockEMA = None,
     transactionsPerBlockEMSD = None, bestBlockTransactionsSize = None, bestBlockTotalEncryptedAmount = None,
     bestBlockTotalAmount = None, bestBlockTransactionCount = None, bestBlockTransactionEnergyCost = None,
     bestBlockExecutionCost = None, bestBlockCentralBankAmount = None, blocksReceivedCount = None,
     blocksVerifiedCount = None, genesisBlock = ''b'', finalizationCount = None, finalizedBlockParent = ''b'',
     last_updated = 0, averageBytesPerSecondIn = 0, averageBytesPerSecondOut = 0\<rparr>"

definition validation_config_default :: validation_config where
  "validation_config_default =
     \<lparr>valid_content_length = 100000, valid_node_name_lenght = 100, valid_node_average_ping = F64 150000,
      valid_node_peers_count = 50, validate_against_average_at = 20, percentage_used_for_averages = 60,
      valid_additional_best_block_height = 1000, valid_additional_finalized_block_height = 1000\<rparr>"

definition example_backend :: collector_state where
  "example_backend = (collector_new [''0.1.0''] [''bad''])\<lparr>nodes := [(''0000000000000001'', example_report)]\<rparr>"

definition example_post :: post_request where
  "example_post = \<lparr>exact_length = Some 3, body_chunks = [Some [1], Some [2, 3]]\<rparr>"

lemma example_read: "read_request validation_config_default example_post = Ok [1, 2, 3]"
  "read_request (validation_config_default\<lparr>validate_against_average_at := 1, percentage_used_for_averages := 100\<rparr>) example_post = Ok [1, 2, 3]"
  by (simp_all add: read_request_def example_post_def validation_config_default_def ensure_def)

lemma example_name: "str_trim ''node one'' = ''node one''" "str_lines ''node one'' = [''node one'']"
  by code_simp+

lemma example_plausible: "plausible validation_config_default [''0.1.0''] [''bad''] example_report"
  by (simp add: plausible_def validation_config_default_def example_report_def example_name)

lemma example_accepted:
  assumes "conf = validation_config_default\<lparr>validate_against_average_at := 1, percentage_used_for_averages := 100\<rparr>"
  shows "nodes_post_handler (\<lambda>_. Some example_report) 9 conf example_post example_backend =
    (Ok (), example_backend\<lparr>nodes := [(''0000000000000001'', example_report\<lparr>last_updated := 9\<rparr>)]\<rparr>)"
proof -
  have "validate_report conf example_backend example_report = Ok ()"
    using example_plausible by (simp add: validate_report_Ok example_backend_def collector_new_def assms plausible_def)
  moreover have "validate_heights conf [example_report] example_report = Ok ()"
    by (simp add: validate_heights_def average_without_outer_values_def u64_sum_def u64_add_def ensure_def example_report_def
        assms validation_config_default_def Let_def)
  ultimately show ?thesis
    using example_read(2) by (simp add: nodes_post_handler_def assms example_backend_def collector_new_def)
      (simp add: example_report_def)
qed


section \<open>Runs of the backend\<close>

datatype collector_event = Report u64 post_request | CleanupAt u64

fun collector_step ::
    "(bytes \<Rightarrow> node_info option) \<Rightarrow> validation_config \<Rightarrow> u64 \<Rightarrow> collector_state \<Rightarrow> collector_event \<Rightarrow> collector_state" where
  "collector_step decode conf allowed st (Report now req) = snd (nodes_post_handler decode now conf req st)"
| "collector_step decode conf allowed st (CleanupAt now) = cleanup allowed now st"

definition collector_inv :: "validation_config \<Rightarrow> string list \<Rightarrow> string list \<Rightarrow> collector_state \<Rightarrow> bool" where
  "collector_inv conf versions names st \<longleftrightarrow>
     banned_versions st = versions \<and> banned_node_names st = names \<and> hm_wf (nodes st) \<and>
     (\<forall>i n. map_of (nodes st) i = Some n \<longrightarrow> i = nodeId n \<and> plausible conf versions names n)"

lemma collector_post_inv:
  assumes "collector_inv conf versions names st"
  shows "collector_inv conf versions names (snd (nodes_post_handler decode now conf req st))"
proof (cases "fst (nodes_post_handler decode now conf req st) = Ok ()")
  case True
  then obtain st' where "nodes_post_handler decode now conf req st = (Ok (), st')" by (metis prod.collapse)
  with assms show ?thesis by (auto elim!: post_accepted simp: collector_inv_def hm_simps split: if_splits)
next
  case False
  then show ?thesis using assms by (simp add: post_refused)
qed

lemma collector_cleanup_inv:
  assumes "collector_inv conf versions names st"
  shows "collector_inv conf versions names (cleanup allowed now st)"
  using assms by (auto simp: collector_inv_def cleanup_def hm_simps split: option.splits if_splits)

interpretation collector: invariant_system "collector_new versions names" "\<lambda>_ _. True" "collector_step decode conf allowed"
    "collector_inv conf versions names"
  for versions names decode conf allowed
proof
  show "collector_inv conf versions names (collector_new versions names)" by (simp add: collector_inv_def collector_new_def)
  show "collector_inv conf versions names (collector_step decode conf allowed s e)" if "collector_inv conf versions names s" for s e
    using that by (cases e) (simp_all add: collector_post_inv collector_cleanup_inv)
qed

text \<open>
  Property C21: Whatever is posted, every report that the backend stores is filed under the
  identifier of its node, has a name of one line within the allowed length that is not banned,
  comes from a version that is not banned, and states a number of peers and a ping within the
  limits.
\<close>

theorem stored_reports_are_plausible:
  assumes "run_steps (\<lambda>_ _. True) (collector_step decode conf allowed) (collector_new versions names) es = Some st"
    and "map_of (nodes st) i = Some n"
  shows "i = nodeId n \<and> i \<noteq> [] \<and> nodeName n \<noteq> [] \<and> length (nodeName n) \<le> valid_node_name_lenght conf \<and>
    length (str_lines (nodeName n)) = 1 \<and> str_trim (nodeName n) \<notin> set names \<and> client_version n \<notin> set versions \<and>
    peersCount n \<le> valid_node_peers_count conf \<and> (\<forall>p. averagePing n = Some p \<longrightarrow> f64_le p (valid_node_average_ping conf))"
proof -
  have "i = nodeId n \<and> plausible conf versions names n"
    using collector.run_good [OF assms(1)] assms(2) by (simp add: collector_inv_def)
  then show ?thesis by (simp add: plausible_def)
qed

theorem stored_reports_are_plausible_witness:
  "\<exists>st n. run_steps (\<lambda>_ _. True) (collector_step (\<lambda>_. Some example_report) validation_config_default 3600000)
       (collector_new [''0.1.0''] [''bad'']) [Report 9 example_post, CleanupAt 100] = Some st \<and>
     map_of (nodes st) ''0000000000000001'' = Some n \<and> length (nodeName n) \<le> 100"
proof -
  let ?info = "example_report\<lparr>last_updated := 9\<rparr>"
  have "validate_report validation_config_default (collector_new [''0.1.0''] [''bad'']) example_report = Ok ()"
    using example_plausible by (simp add: validate_report_Ok collector_new_def)
  then have "snd (nodes_post_handler (\<lambda>_. Some example_report) 9 validation_config_default example_post (collector_new [''0.1.0''] [''bad''])) =
      (collector_new [''0.1.0''] [''bad''])\<lparr>nodes := [(nodeId example_report, ?info)]\<rparr>"
    using example_read(1) by (simp add: nodes_post_handler_def validate_heights_def validation_config_default_def collector_new_def)
  then have run: "run_steps (\<lambda>_ _. True) (collector_step (\<lambda>_. Some example_report) validation_config_default 3600000)
      (collector_new [''0.1.0''] [''bad'']) [Report 9 example_post, CleanupAt 100] =
      Some ((collector_new [''0.1.0''] [''bad''])\<lparr>nodes := [(nodeId example_report, ?info)]\<rparr>)"
    by (simp add: cleanup_def collector_new_def hm_retain_def)
  have got: "map_of (nodes ((collector_new [''0.1.0''] [''bad''])\<lparr>nodes := [(nodeId example_report, ?info)]\<rparr>)) ''0000000000000001'' = Some ?info"
    by (simp add: example_report_def)
  have "length (nodeName ?info) \<le> 100"
    using stored_reports_are_plausible [OF run got] by (simp add: validation_config_default_def)
  with run got show ?thesis by (intro exI conjI)
qed

lemma cleanup_keeps_fresh:
  assumes "map_of (nodes st) i = Some n" "hm_wf (nodes st)" "unat now < unat (last_updated n) + unat allowed"
  shows "map_of (nodes (cleanup allowed now st)) i = Some n"
proof -
  have "n \<in> set (hm_values (nodes st))" using map_of_SomeD [OF assms(1)] by force
  then have "now < last_updated n + allowed"
    if "\<not> (\<exists>n \<in> set (hm_values (nodes st)). 2 ^ 64 \<le> unat (last_updated n) + unat allowed)"
    using that assms(3) by (auto simp: word_less_nat_alt unat_word_ariths not_le)
  then show ?thesis using assms(1,2) by (simp add: cleanup_def hm_simps)
qed

fun before_stale :: "u64 \<Rightarrow> u64 \<Rightarrow> collector_event \<Rightarrow> bool" where
  "before_stale t allowed (Report now req) \<longleftrightarrow> t \<le> now"
| "before_stale t allowed (CleanupAt now) \<longleftrightarrow> unat now < unat t + unat allowed"



section \<open>Reports before there are averages\<close>

text \<open>
  Heights are not checked until there are enough reports, and the averages are computed with
  plain arithmetic. When a majority of the first reports states heights of \<open>2 ^ 63\<close> or more, the
  sum leaves its range and every further report fails in a build with overflow checks.
\<close>

lemma first_heights_unchecked: "word_of_nat (length ns) < validate_against_average_at conf \<Longrightarrow> validate_heights conf ns info = Ok ()"
  by (simp add: validate_heights_def)

lemma huge_heights_stop_the_backend:
  assumes "validate_against_average_at conf \<le> word_of_nat (length ns)" and "ns = hm_values (nodes st)"
    and "k = length ns * percentage_used_for_averages conf div 100" "2 \<le> k"
    and "\<forall>n \<in> set ns. 2 ^ 63 \<le> unat (bestBlockHeight n)"
    and "read_request conf req = Ok body" "decode body = Some info"
    and "plausible conf (banned_versions st) (banned_node_names st) info"
  shows "nodes_post_handler decode now conf req st = (Panic, st)"
proof -
  define mid where "mid = take k (drop ((length ns - k) div 2) (sort (map bestBlockHeight ns)))"
  have "u64_sum mid = Panic" if "k \<le> length ns"
  proof -
    have "v \<in> bestBlockHeight ` set ns" if "v \<in> set mid" for v
      using in_set_takeD [OF that [unfolded mid_def]] by (auto dest: in_set_dropD)
    then have "2 ^ 63 \<le> unat v" if "v \<in> set mid" for v using assms(5) that by fastforce
    then have "2 ^ 63 \<le> unat v \<and> unat v \<le> 2 ^ 64" if "v \<in> set mid" for v
      using that unsigned_less [of v, where ?'a = nat] by (auto intro: less_imp_le)
    then have "length mid * 2 ^ 63 \<le> sum_list (map unat mid)"
      using sum_bounds [of "map unat mid" "2 ^ 63" "2 ^ 64"] by auto
    moreover have "2 * 2 ^ 63 \<le> length mid * 2 ^ 63" using \<open>2 \<le> k\<close> \<open>k \<le> length ns\<close> by (simp add: mid_def)
    ultimately show ?thesis by (simp add: u64_sum_def Let_def)
  qed
  then have "average_without_outer_values (map bestBlockHeight ns) k = Panic"
    by (simp add: average_without_outer_values_def Let_def mid_def)
  then have "validate_heights conf ns info = Panic"
    using assms(1,3) by (auto simp: validate_heights_def not_less Let_def)
  moreover have "validate_report conf st info = Ok ()" using assms(8) by (simp add: validate_report_Ok)
  ultimately show ?thesis using assms(2,6,7) by (simp add: nodes_post_handler_def)
qed

text \<open>A name that ends in a line break counts as one line.\<close>

lemma name_with_final_break_accepted:
  assumes "s \<noteq> []" "CHR 0x0A \<notin> set s"
  shows "length (str_lines (s @ [CHR 0x0A])) = 1"
proof -
  have "dropWhile (\<lambda>c. c \<noteq> CHR 0x0A) (s @ [CHR 0x0A]) = [CHR 0x0A]"
    using assms(2) by (induction s) auto
  then show ?thesis by (simp add: str_lines.simps)
qed

text \<open>
  Nothing checks that the number of reports from which averages are computed and the
  percentage of them that is used fit together. When the percentage of the first reports is less
  than one report, the average divides by zero: the backend answers every further plausible report
  with an internal error and stores none of them.
\<close>

theorem too_few_values_stop_reports:
  assumes "validate_against_average_at conf \<le> word_of_nat (length (nodes st))"
    and "length (nodes st) * percentage_used_for_averages conf < 100"
    and "read_request conf req = Ok body" "decode body = Some info"
    and "plausible conf (banned_versions st) (banned_node_names st) info"
  shows "nodes_post_handler_wrapper decode now conf req st = (HttpInternalError, st)"
proof -
  have "average_without_outer_values vs 0 = Panic" for vs
    by (simp add: average_without_outer_values_def u64_sum_def)
  then have "validate_heights conf (hm_values (nodes st)) info = Panic"
    using assms(1,2) by (simp add: validate_heights_def not_less)
  moreover have "validate_report conf st info = Ok ()" using assms(5) by (simp add: validate_report_Ok)
  ultimately have "nodes_post_handler decode now conf req st = (Panic, st)"
    using assms(3,4) by (simp add: nodes_post_handler_def)
  then show ?thesis by (simp add: nodes_post_handler_wrapper_def)
qed

theorem too_few_values_stop_reports_witness:
  "nodes_post_handler_wrapper (\<lambda>_. Some example_report) 9 (validation_config_default\<lparr>validate_against_average_at := 1\<rparr>)
     example_post example_backend = (HttpInternalError, example_backend)"
  by (rule too_few_values_stop_reports [where body = "[1, 2, 3]" and info = example_report])
    (use example_plausible in \<open>simp_all add: validation_config_default_def example_backend_def collector_new_def
      read_request_def example_post_def ensure_def plausible_def\<close>)

end
