(* ===== verification/CollectorReports.thy ===== *)
theory CollectorReports
  imports NodeCollector CollectorRuns ServiceSafety
begin

text \<open>
  The way of a report: from a node, through its first gRPC interface and the collector, to the
  collector backend. The world of the collector is here the server of a node and the backend.
\<close>

declare map_of_eq_Some_iff [simp del] Some_eq_map_of_iff [simp del]

section \<open>Names\<close>

lemma white_space_nonempty: "w \<in> set white_space \<Longrightarrow> w \<noteq> []"
  by (auto simp: white_space_def)

lemma line_break_is_space: "space_prefix (CHR 0x0A # s) \<noteq> 0"
proof -
  have "[CHR 0x0A] \<in> set white_space" by code_simp
  then obtain w where f: "find (\<lambda>w. take (length w) (CHR 0x0A # s) = w) white_space = Some w"
    by (cases "find (\<lambda>w. take (length w) (CHR 0x0A # s) = w) white_space") (auto simp: find_None_iff)
  then have "w \<in> set white_space" by (auto simp: find_Some_iff)
  then show ?thesis unfolding space_prefix_def f using white_space_nonempty by simp
qed

lemma next_word_no_break: "CHR 0x0A \<notin> set (fst (next_word s))"
  by (induction s) (auto split: prod.splits simp: line_break_is_space)

lemma split_whitespace_words: "w \<in> set (split_whitespace s) \<Longrightarrow> w \<noteq> [] \<and> CHR 0x0A \<notin> set w"
proof (induction s rule: split_whitespace.induct)
  case (1 s)
  show ?case
  proof (cases "trim_start s")
    case Nil
    then show ?thesis using "1.prems" by (subst (asm) split_whitespace.simps) simp
  next
    case (Cons c r)
    have "fst (next_word (c # r)) \<noteq> []" using trim_start_no_space [OF Cons] by (simp split: prod.splits)
    then show ?thesis
      using "1.prems" "1.IH" [OF Cons] next_word_no_break [of "c # r"]
      by (subst (asm) split_whitespace.simps) (auto simp only: Cons list.case list.set)
  qed
qed

lemma join_with_set: "set (join_with sep xs) \<subseteq> set sep \<union> \<Union> (set ` set xs)"
  by (induction sep xs rule: join_with.induct) auto

lemma join_with_Nil: "(\<And>x. x \<in> set xs \<Longrightarrow> x \<noteq> []) \<Longrightarrow> join_with sep xs = [] \<longleftrightarrow> xs = []"
  by (cases "(sep, xs)" rule: join_with.cases) auto

lemma str_lines_single:
  assumes "s \<noteq> []" "CHR 0x0A \<notin> set s"
  shows "str_lines s = [s]"
proof -
  have "dropWhile (\<lambda>c. c \<noteq> CHR 0x0A) s = []" using assms(2) by (auto simp: dropWhile_eq_Nil_conv)
  then show ?thesis using assms(1) by (subst str_lines.simps) (simp only: list.case if_False)
qed

text \<open>A name has one line, and is empty only when it has no word.\<close>

lemma node_name_one_line:
  assumes "name = node_name_from_str input"
  shows "node_name_to_string name = [] \<longleftrightarrow> name = []"
    "name \<noteq> [] \<Longrightarrow> length (str_lines (node_name_to_string name)) = 1"
proof -
  have w: "w \<noteq> [] \<and> CHR 0x0A \<notin> set w" if "w \<in> set name" for w
    using that split_whitespace_words by (simp add: assms node_name_from_str_def)
  then show e: "node_name_to_string name = [] \<longleftrightarrow> name = []"
    unfolding node_name_to_string_def by (intro join_with_Nil) blast
  have "CHR 0x0A \<notin> set (node_name_to_string name)"
    using w join_with_set [of "'' ''" name] unfolding node_name_to_string_def by fastforce
  then show "name \<noteq> [] \<Longrightarrow> length (str_lines (node_name_to_string name)) = 1"
    using e str_lines_single by simp
qed

section \<open>A node and the backend\<close>

record 'ns collector_world =
  cw_server :: "'ns rpc_server"
  cw_backend :: collector_state

text \<open>A call that fails, never returns or breaks the connection is an error of the client.\<close>

definition call_server ::
    "'ns node_env \<Rightarrow> 'cb rpc_env \<Rightarrow> rpc_request \<Rightarrow> (rpc_body \<Rightarrow> 'a option) \<Rightarrow> string \<Rightarrow>
     'ns collector_world \<Rightarrow> 'a res \<times> 'ns collector_world" where
  "call_server env renv req read token w =
     (case rpc_handle env renv (Some token) req (cw_server w) of
        (r, s) \<Rightarrow> (case r of
            Answer b \<Rightarrow> (case read b of Some x \<Rightarrow> Ok x | None \<Rightarrow> Err IoError)
          | _ \<Rightarrow> Err IoError, w\<lparr>cw_server := s\<rparr>))"

fun number_of :: "rpc_body \<Rightarrow> u64 option" where
  "number_of (RpcNumber n) = Some n"
| "number_of b = None"

fun text_of :: "rpc_body \<Rightarrow> string option" where
  "text_of (RpcString t) = Some t"
| "text_of (RpcJson t) = Some t"
| "text_of b = None"

fun info_of :: "rpc_body \<Rightarrow> node_info_reply option" where
  "info_of (RpcNodeInfo i) = Some \<lparr>nr_node_id = Some (ni_node_id i), nr_peer_type = ni_peer_type i,
     nr_baker_committee = ni_baker_committee i, nr_finalizer_committee = ni_finalizer_committee i,
     nr_running = ni_running i, nr_baker_id = ni_baker_id i\<rparr>"
| "info_of b = None"

fun stats_of :: "rpc_body \<Rightarrow> peer_stats_reply option" where
  "stats_of (RpcPeerStats ps i out) =
     Some \<lparr>psr_peerstats = map (\<lambda>p. (tr_node_id p, tr_latency p)) ps, psr_avg_bps_in = i, psr_avg_bps_out = out\<rparr>"
| "stats_of b = None"

definition server_client :: "'ns node_env \<Rightarrow> 'cb rpc_env \<Rightarrow> 'ns collector_world p2p_client" where
  "server_client env renv = \<lparr>
     cl_node_info = call_server env renv RpcGetNodeInfo info_of,
     cl_peer_uptime = call_server env renv RpcPeerUptime number_of,
     cl_peer_version = call_server env renv RpcPeerVersion text_of,
     cl_get_consensus_status = call_server env renv RpcGetConsensusStatus text_of,
     cl_peer_stats = (\<lambda>token b. call_server env renv (RpcGetPeerStats b) stats_of token),
     cl_peer_total_sent = call_server env renv RpcPeerTotalSent number_of,
     cl_peer_total_received = call_server env renv RpcPeerTotalReceived number_of,
     cl_get_ancestors = (\<lambda>token h amount. call_server env renv (RpcGetAncestors h amount) text_of token),
     cl_get_block_info = (\<lambda>token h. call_server env renv (RpcGetBlockInfo h) text_of token)\<rparr>"

definition post_to_backend ::
    "(bytes \<Rightarrow> node_info option) \<Rightarrow> u64 \<Rightarrow> validation_config \<Rightarrow> string \<Rightarrow> bytes \<Rightarrow>
     'ns collector_world \<Rightarrow> bool \<times> 'ns collector_world" where
  "post_to_backend decode now vconf url body w =
     (case nodes_post_handler_wrapper decode now vconf
         \<lparr>exact_length = Some (word_of_nat (length body)), body_chunks = [Some body]\<rparr> (cw_backend w) of
        (st, b) \<Rightarrow> (st = HttpOk, w\<lparr>cw_backend := b\<rparr>))"

text \<open>
  What the consensus library documents of its answers in JSON: the status has the required fields,
  the description of a block names its parent, and ancestors are listed by their hashes.
\<close>

definition json_law :: "(string \<Rightarrow> json option) \<Rightarrow> 'cb consensus_lib \<Rightarrow> required_status \<Rightarrow> bool" where
  "json_law parse lib st \<longleftrightarrow>
     (\<exists>t v. get_consensus_status lib = Ok t \<and> parse t = Some v \<and> read_status v = Ok st) \<and>
     (\<forall>h \<in> {rs_best_block st, rs_finalized_block st}. \<exists>t v p. get_block_info lib h = Ok t \<and> parse t = Some v \<and>
        as_str (json_index v ''blockParent'') = Some p) \<and>
     (\<exists>t v. get_ancestors lib (rs_best_block st) (rs_best_block_height st - rs_finalized_block_height st) = Ok t \<and>
        parse t = Some v \<and> (\<forall>vs. v = JArray vs \<longrightarrow> (\<exists>xs. unwrap_strings vs = Ok xs)))"

definition open_to :: "string \<Rightarrow> 'cb rpc_env \<Rightarrow> 'ns rpc_server \<Rightarrow> bool" where
  "open_to token renv s \<longleftrightarrow> access_token s = token \<and> utf8_valid token \<and> \<not> disable_node_endpoints s \<and>
     rpc_consensus s \<noteq> None \<and> \<not> runner_is_null (rpc_lib renv)"

lemma open_handlers:
  assumes "open_to token renv s"
  shows "authenticated (Some token) k s = k s" "node_endpoint (Some token) k s = k s"
  using assms by (simp_all add: open_to_def node_endpoint_def authenticated_def authenticate_def)

lemma open_json_query:
  assumes "open_to token renv s" "f (rpc_lib renv) = Ok t"
  shows "json_query renv (Some token) f s = (Answer (RpcJson t), s)"
  using assms open_handlers [OF assms(1)]
  by (auto simp: json_query_def call_consensus_with_def open_to_def reply_of_res_def)

lemma open_calls:
  assumes "open_to token renv (cw_server w)"
  shows "call_server env renv RpcPeerUptime number_of token w = (Ok (word_of_int (uptime_ms renv)), w)"
    and "call_server env renv RpcPeerVersion text_of token w = (Ok (version_text renv), w)"
    and "call_server env renv RpcPeerTotalSent number_of token w = (Ok (total_sent (rpc_node (cw_server w))), w)"
    and "call_server env renv RpcPeerTotalReceived number_of token w = (Ok (total_received (rpc_node (cw_server w))), w)"
    and "get_consensus_status (rpc_lib renv) = Ok t \<Longrightarrow> call_server env renv RpcGetConsensusStatus text_of token w = (Ok t, w)"
    and "get_block_info (rpc_lib renv) h = Ok t \<Longrightarrow> call_server env renv (RpcGetBlockInfo h) text_of token w = (Ok t, w)"
    and "get_ancestors (rpc_lib renv) h k = Ok t \<Longrightarrow> call_server env renv (RpcGetAncestors h k) text_of token w = (Ok t, w)"
  by (simp_all add: call_server_def rpc_handle_def open_handlers [OF assms] peer_uptime_def peer_version_def peer_total_sent_def
      peer_total_received_def rpc_get_consensus_status_def rpc_get_block_info_def rpc_get_ancestors_def rpc_reply_def on_rpc_node_def
      open_json_query [OF assms])

lemma open_node_info:
  assumes "open_to token renv (cw_server w)" "library_law (rpc_lib renv)"
  shows "\<exists>i. call_server env renv RpcGetNodeInfo info_of token w = (Ok i, w) \<and>
    nr_node_id i = Some (node_id_to_string (p2p_id (self_peer (rpc_node (cw_server w)))))"
proof -
  obtain cc where cc: "rpc_consensus (cw_server w) = Some cc" using assms(1) by (auto simp: open_to_def)
  have "\<exists>i'. consensus_node_info (rpc_lib renv) cc i = Ok i' \<and> ni_node_id i' = ni_node_id i" for i
    using library_committee_total [OF assms(2)] by (auto simp: consensus_node_info_def split: prod.split)
  then obtain g where "\<And>i. consensus_node_info (rpc_lib renv) cc i = Ok (g i) \<and> ni_node_id (g i) = ni_node_id i" by metis
  then show ?thesis
    by (simp add: call_server_def rpc_handle_def rpc_node_info_def open_handlers [OF assms(1)] cc Let_def reply_of_res_def)
qed

lemma open_peer_stats:
  assumes "open_to token renv (cw_server w)" "node_inv (rpc_node (cw_server w))"
  shows "\<exists>ps i out. listed_peers False (rpc_node (cw_server w)) = Ok ps \<and>
    call_server env renv (RpcGetPeerStats False) stats_of token w = (Ok \<lparr>psr_peerstats =
      map (\<lambda>p. (node_id_to_string (ps_self_id p), ps_latency p)) ps, psr_avg_bps_in = i, psr_avg_bps_out = out\<rparr>, w)"
proof -
  obtain ps where "listed_peers False (rpc_node (cw_server w)) = Ok ps"
    using node_inv_peer_stats [OF assms(2), of None] by (auto simp: listed_peers_def)
  then show ?thesis
    by (auto simp: call_server_def rpc_handle_def rpc_peer_stats_def open_handlers [OF assms(1)] on_rpc_node_def comp_def reply_of_res_def)
qed

lemma finalized_parent_read:
  assumes "open_to token renv (cw_server w)" "json_law (json_from_str E) (rpc_lib renv) st"
    and "get_block_info (rpc_lib renv) (rs_best_block st) = Ok t" "json_from_str E t = Some v"
  shows "\<exists>p. finalized_block_parent E (server_client env renv) token st v w = (Ok p, w)"
proof (cases "rs_best_block_height st = rs_finalized_block_height st")
  case True
  have "\<exists>p. as_str (json_index v ''blockParent'') = Some p" using assms(2-4) by (auto simp: json_law_def)
  with True show ?thesis by (auto simp: finalized_block_parent_def act_simps unwrap_def)
next
  case False
  obtain t' v' p where "get_block_info (rpc_lib renv) (rs_finalized_block st) = Ok t'" "json_from_str E t' = Some v'"
    "as_str (json_index v' ''blockParent'') = Some p" using assms(2) by (auto simp: json_law_def)
  with False show ?thesis
    by (simp add: finalized_block_parent_def act_simps unwrap_def server_client_def open_calls [OF assms(1)] parse_json_def)
qed

lemma ancestors_read:
  assumes "open_to token renv (cw_server w)" "json_law (json_from_str E) (rpc_lib renv) st"
  shows "\<exists>x. ancestors_since_best_block E (server_client env renv) token st w = (Ok x, w)"
proof -
  obtain t v where "get_ancestors (rpc_lib renv) (rs_best_block st) (rs_best_block_height st - rs_finalized_block_height st) = Ok t"
    "json_from_str E t = Some v" "\<And>vs. v = JArray vs \<Longrightarrow> \<exists>xs. unwrap_strings vs = Ok xs"
    using assms(2) by (auto simp: json_law_def)
  then show ?thesis
    by (cases v) (auto simp: ancestors_since_best_block_def act_simps server_client_def open_calls [OF assms(1)] parse_json_def)
qed

lemma collect_from_server:
  assumes "open_to (grpc_auth_token conf) renv (cw_server w)" "node_inv (rpc_node (cw_server w))" "library_law (rpc_lib renv)"
    and "json_law (json_from_str E) (rpc_lib renv) st"
    and "uri_valid E host" "metadata_valid E (grpc_auth_token conf)"
    and "connect_channel E host (grpc_timeout conf) w = (Ok (server_client env renv), w)"
    and "listed_peers False (rpc_node (cw_server w)) = Ok ps" "average_ping (map ps_latency ps) = Ok ping"
  shows "\<exists>info. collect_data E conf name host w = (Ok info, w) \<and> nodeName info = node_name_to_string name \<and>
    nodeId info = node_id_to_string (p2p_id (self_peer (rpc_node (cw_server w)))) \<and> client_version info = version_text renv \<and>
    averagePing info = ping \<and> peersList info = map (\<lambda>p. node_id_to_string (ps_self_id p)) ps \<and>
    peersCount info = word_of_nat (length ps) \<and> bestBlockHeight info = rs_best_block_height st \<and>
    finalizedBlockHeight info = rs_finalized_block_height st"
proof -
  note calls = open_calls [OF assms(1)]
  obtain i where i: "call_server env renv RpcGetNodeInfo info_of (grpc_auth_token conf) w = (Ok i, w)"
    "nr_node_id i = Some (node_id_to_string (p2p_id (self_peer (rpc_node (cw_server w)))))"
    using open_node_info [OF assms(1,3)] by blast
  obtain x out where ps: "call_server env renv (RpcGetPeerStats False) stats_of (grpc_auth_token conf) w = (Ok \<lparr>psr_peerstats =
      map (\<lambda>p. (node_id_to_string (ps_self_id p), ps_latency p)) ps, psr_avg_bps_in = x, psr_avg_bps_out = out\<rparr>, w)"
    using open_peer_stats [OF assms(1,2)] assms(8) by fastforce
  obtain t v where st: "get_consensus_status (rpc_lib renv) = Ok t" "json_from_str E t = Some v" "read_status v = Ok st"
    using assms(4) by (auto simp: json_law_def)
  obtain t' v' where bl: "get_block_info (rpc_lib renv) (rs_best_block st) = Ok t'" "json_from_str E t' = Some v'"
    using assms(4) by (auto simp: json_law_def)
  obtain p where p: "finalized_block_parent E (server_client env renv) (grpc_auth_token conf) st v' w = (Ok p, w)"
    using finalized_parent_read [OF assms(1,4) bl] by blast
  obtain a where a: "ancestors_since_best_block E (server_client env renv) (grpc_auth_token conf) st w = (Ok a, w)"
    using ancestors_read [OF assms(1,4)] by blast
  have client: "cl_node_info (server_client env renv) = call_server env renv RpcGetNodeInfo info_of"
    "cl_peer_uptime (server_client env renv) = call_server env renv RpcPeerUptime number_of"
    "cl_peer_version (server_client env renv) = call_server env renv RpcPeerVersion text_of"
    "cl_get_consensus_status (server_client env renv) = call_server env renv RpcGetConsensusStatus text_of"
    "cl_peer_stats (server_client env renv) = (\<lambda>token b. call_server env renv (RpcGetPeerStats b) stats_of token)"
    "cl_peer_total_sent (server_client env renv) = call_server env renv RpcPeerTotalSent number_of"
    "cl_peer_total_received (server_client env renv) = call_server env renv RpcPeerTotalReceived number_of"
    "cl_get_block_info (server_client env renv) = (\<lambda>token h. call_server env renv (RpcGetBlockInfo h) text_of token)"
    by (simp_all add: server_client_def)
  let ?c = "\<lparr>co_info = i, co_node_id = node_id_to_string (p2p_id (self_peer (rpc_node (cw_server w)))),
    co_uptime = word_of_int (uptime_ms renv), co_version = version_text renv, co_sent = total_sent (rpc_node (cw_server w)),
    co_received = total_received (rpc_node (cw_server w)), co_stats = \<lparr>psr_peerstats =
      map (\<lambda>p. (node_id_to_string (ps_self_id p), ps_latency p)) ps, psr_avg_bps_in = x, psr_avg_bps_out = out\<rparr>,
    co_ping = ping, co_status = v, co_required = st, co_ancestors = a, co_block = v', co_parent = p\<rparr>"
  have "collect_data E conf name host w = (Ok (make_report name ?c), w)"
    by (simp add: collect_data_def Let_def act_simps assms(5-7,9) client calls i ps st bl p a parse_json_def unwrap_def comp_def)
  then show ?thesis by (intro exI [of _ "make_report name ?c"]) (simp add: make_report_def Let_def comp_def)
qed

section \<open>A report is stored\<close>

lemma post_is_accepted:
  assumes "decode body = Some info" "length body \<le> unat (valid_content_length vconf)"
    and "validate_report vconf (cw_backend w) info = Ok ()" "\<not> nodes_poisoned (cw_backend w)"
    and "validate_heights vconf (hm_values (nodes (cw_backend w))) info = Ok ()"
  shows "post_to_backend decode now vconf url body w = (True, w\<lparr>cw_backend := (cw_backend w)\<lparr>nodes :=
    hm_insert (nodeId info) (info\<lparr>last_updated := now\<rparr>) (nodes (cw_backend w))\<rparr>\<rparr>)"
proof -
  have n: "unat (word_of_nat (length body) :: u64) = length body"
    using order_le_less_trans [OF assms(2) unsigned_less] by (simp add: unsigned_of_nat take_bit_nat_eq_self)
  then have "word_of_nat (length body) \<le> valid_content_length vconf" using assms(2) by (simp add: word_le_nat_alt)
  with n have "read_request vconf \<lparr>exact_length = Some (word_of_nat (length body)), body_chunks = [Some body]\<rparr> = Ok body"
    by (simp add: read_request_def ensure_def)
  then show ?thesis
    using assms(1,3-5) by (simp add: post_to_backend_def nodes_post_handler_wrapper_def nodes_post_handler_def)
qed

text \<open>What the backend finds plausible, in terms of the node.\<close>

definition plausible_node ::
    "validation_config \<Rightarrow> collector_state \<Rightarrow> node_name \<Rightarrow> string \<Rightarrow> nat \<Rightarrow> f64 option \<Rightarrow> required_status \<Rightarrow> bool" where
  "plausible_node vconf b name version peers ping st \<longleftrightarrow>
     name \<noteq> [] \<and> length (node_name_to_string name) \<le> valid_node_name_lenght vconf \<and>
     (\<forall>p. ping = Some p \<longrightarrow> f64_le p (valid_node_average_ping vconf)) \<and>
     word_of_nat peers \<le> valid_node_peers_count vconf \<and> version \<notin> set (banned_versions b) \<and>
     str_trim (node_name_to_string name) \<notin> set (banned_node_names b) \<and> \<not> nodes_poisoned b \<and>
     (\<forall>info. bestBlockHeight info = rs_best_block_height st \<longrightarrow> finalizedBlockHeight info = rs_finalized_block_height st \<longrightarrow>
        validate_heights vconf (hm_values (nodes b)) info = Ok ())"

lemma plausible_accepted:
  assumes "plausible_node vconf b name version peers ping st" "name = node_name_from_str input"
    and "nodeName info = node_name_to_string name" "nodeId info \<noteq> []" "client_version info = version"
    and "averagePing info = ping" "peersCount info = word_of_nat peers"
  shows "validate_report vconf b info = Ok ()"
proof -
  have "nodeName info \<noteq> []" "length (str_lines (nodeName info)) = 1"
    using assms(1,3) node_name_one_line [OF assms(2)] by (simp_all add: plausible_node_def)
  then show ?thesis
    using assms(1,3-7) by (cases ping) (simp_all add: plausible_node_def validate_report_def ensure_def)
qed


section \<open>A field that is missing\<close>

text \<open>
  Property C40: errors of one node are logged and the next node is asked, but a status without its
  best block is unwrapped: the first node of the list that sends one ends the collector, and no
  report of any later node, in this round or a later one, reaches the backend.
\<close>

theorem incomplete_status_stops_collector:
  assumes "open_to (grpc_auth_token conf) renv (cw_server w)" "node_inv (rpc_node (cw_server w))" "library_law (rpc_lib renv)"
    and "uri_valid E host" "metadata_valid E (grpc_auth_token conf)" "interval_valid E (collector_interval conf)"
    and "connect_channel E host (grpc_timeout conf) w = (Ok (server_client env renv), w)"
    and "get_consensus_status (rpc_lib renv) = Ok t" "json_from_str E t = Some v" "as_str (json_index v ''bestBlock'') = None"
    and "node_names conf = name # names" "grpc_hosts conf = host # hosts" "length names = length hosts"
  shows "collector_main (Suc ticks) E conf w = (Panic, w)"
proof -
  obtain i where i: "call_server env renv RpcGetNodeInfo info_of (grpc_auth_token conf) w = (Ok i, w)" "nr_node_id i \<noteq> None"
    using open_node_info [OF assms(1,3), of env] by auto
  obtain ps where ps: "call_server env renv (RpcGetPeerStats False) stats_of (grpc_auth_token conf) w = (Ok ps, w)"
    using open_peer_stats [OF assms(1,2), of env] by blast
  have "average_ping ls \<noteq> Err e" for ls e by (simp add: average_ping_def u64_sum_def res_simps Let_def)
  moreover have "read_status v = Panic" by (simp add: read_status_def assms(10) unwrap_def)
  ultimately have "collect_data E conf name host w = (Panic, w)"
    using i(2) by (cases "average_ping (map snd (psr_peerstats ps))")
      (auto simp: collect_data_def Let_def act_simps assms(4,5,7,9) server_client_def open_calls [OF assms(1)] assms(8) i(1) ps
        parse_json_def unwrap_def split: option.split)
  then show ?thesis
    by (simp add: collector_main_def assms(6,11-13) act_simps collect_and_post_def)
qed

section \<open>An example\<close>

definition example_status :: json where
  "example_status = JObject [(''bestBlock'', JString ''b''), (''bestBlockHeight'', JNumber (PosInt 10)),
     (''genesisBlock'', JString ''g''), (''lastFinalizedBlock'', JString ''f''),
     (''lastFinalizedBlockHeight'', JNumber (PosInt 8)), (''blockParent'', JString ''p'')]"

definition example_required :: required_status where
  "example_required = \<lparr>rs_best_block = ''b'', rs_best_block_height = 10, rs_genesis_block = ''g'',
     rs_finalized_block = ''f'', rs_finalized_block_height = 8\<rparr>"

definition example_collector ::
    "(string \<Rightarrow> bytes \<Rightarrow> nat collector_world \<Rightarrow> bool \<times> nat collector_world) \<Rightarrow> nat collector_world collector_env" where
  "example_collector post = \<lparr>uri_valid = (\<lambda>_. True), metadata_valid = (\<lambda>_. True),
     connect_channel = (\<lambda>_ _ w. (Ok (server_client example_env example_renv), w)), json_from_str = (\<lambda>_. Some example_status),
     msgpack = (\<lambda>_. Some [1]), interval_valid = (\<lambda>n. 0 < n), http_client_builds = True, http_post = post\<rparr>"

definition example_collector_config :: collector_config where
  "example_collector_config = \<lparr>grpc_auth_token = ''rpcadmin'', grpc_hosts = [''http://127.0.0.1:10000''],
     node_names = [[''my'', ''node'']], collector_url = ''http://localhost:3000/post/nodes'', collector_interval = 5000,
     artificial_start_delay = 3000, grpc_timeout = 30\<rparr>"

definition example_world :: "nat collector_world" where
  "example_world = \<lparr>cw_server = example_rpc, cw_backend = collector_new [''0.0.1''] [''bad'']\<rparr>"

definition example_vconf :: validation_config where
  "example_vconf = \<lparr>valid_content_length = 100000, valid_node_name_lenght = 100, valid_node_average_ping = F64 150000,
     valid_node_peers_count = 50, validate_against_average_at = 20, percentage_used_for_averages = 60,
     valid_additional_best_block_height = 1000, valid_additional_finalized_block_height = 1000\<rparr>"

definition example_decode :: "bytes \<Rightarrow> node_info option" where
  "example_decode body =
     (case fst (collect_data (example_collector (\<lambda>_ _ w. (False, w))) example_collector_config [''my'', ''node''] ''h'' example_world) of
        Ok info \<Rightarrow> Some info
      | _ \<Rightarrow> None)"

lemma example_collector_fields:
  "uri_valid (example_collector post) = (\<lambda>_. True)" "metadata_valid (example_collector post) = (\<lambda>_. True)"
  "connect_channel (example_collector post) = (\<lambda>_ _ w. (Ok (server_client example_env example_renv), w))"
  "json_from_str (example_collector post) = (\<lambda>_. Some example_status)" "msgpack (example_collector post) = (\<lambda>_. Some [1])"
  "http_client_builds (example_collector post)" "http_post (example_collector post) = post"
  by (simp_all add: example_collector_def)

lemma collect_ignores_post: "collect_data (example_collector post) = collect_data (example_collector post')"
proof -
  have json: "parse_json (example_collector post) = parse_json (example_collector post')"
    by (intro ext) (simp add: parse_json_def example_collector_fields)
  have "ancestors_since_best_block (example_collector post) = ancestors_since_best_block (example_collector post')"
    "finalized_block_parent (example_collector post) = finalized_block_parent (example_collector post')"
    by (intro ext, simp only: ancestors_since_best_block_def finalized_block_parent_def json)+
  then show ?thesis by (intro ext) (simp only: collect_data_def example_collector_fields json)
qed

lemma example_open:
  "open_to ''rpcadmin'' example_renv example_rpc" "node_inv example_node" "library_law (rpc_lib example_renv)"
  "json_law (\<lambda>_. Some example_status) (rpc_lib example_renv) example_required"
proof -
  show "open_to ''rpcadmin'' example_renv example_rpc"
    by (simp add: open_to_def example_rpc_def example_renv_def example_lib_def utf8_valid_def)
  show "node_inv example_node" by (simp add: node_inv_def example_node_def buckets_default_inv)
  show "library_law (rpc_lib example_renv)" by (simp add: example_renv_def example_library_law)
  have "utf8_valid ''null''" by (simp add: utf8_valid_def)
  then show "json_law (\<lambda>_. Some example_status) (rpc_lib example_renv) example_required"
    by (simp add: json_law_def example_renv_def example_lib_def get_consensus_status_def get_block_info_def get_ancestors_def
        wrap_c_call_string_def cstring_new_def example_required_def read_status_def example_status_def unwrap_def)
qed


theorem incomplete_status_stops_collector_witness:
  "collector_main 5 (example_collector (post_to_backend example_decode 7 example_vconf)\<lparr>json_from_str := \<lambda>_. Some JNull\<rparr>)
     example_collector_config example_world = (Panic, example_world)"
proof -
  have "collector_main (Suc 4) (example_collector (post_to_backend example_decode 7 example_vconf)\<lparr>json_from_str := \<lambda>_. Some JNull\<rparr>)
     example_collector_config example_world = (Panic, example_world)"
    by (rule incomplete_status_stops_collector [where renv = example_renv and env = example_env and v = JNull and t = "''null''" and
          host = "''http://127.0.0.1:10000''" and hosts = "[]" and names = "[]" and name = "[''my'', ''node'']"])
      (use example_open(1,2,3) in \<open>simp_all add: example_collector_def example_collector_config_def example_world_def example_rpc_def
        example_renv_def example_lib_def get_consensus_status_def wrap_c_call_string_def utf8_valid_def\<close>)
  then show ?thesis by simp
qed

end
