(* ===== verification/Startup.thy ===== *)
theory Startup
  imports NodeInvariant LibraryCodes CollectorData
begin

text \<open>
  What the program of the node (\<^verbatim>\<open>bin/cli.rs\<close>) does around the node itself: the preferences file that
  keeps the identity of the node (\<^verbatim>\<open>configuration.rs\<close>), the genesis data and the baker's keys
  (\<^verbatim>\<open>plugins/consensus.rs\<close>), the download of missing blocks, the first connections, and the order in
  which the parts are started and stopped.
\<close>

section \<open>Preferences\<close>

text \<open>
  The library \<^verbatim>\<open>preferences\<close> reads and writes the map in a form of its own, the type \<open>'f\<close>; a write
  that fails half way leaves in the file what was written before.
\<close>

record 'f preferences_env =
  load_from :: "'f \<Rightarrow> (string, string) hash_map option"
  save_to :: "(string, string) hash_map \<Rightarrow> bool \<times> 'f"
  empty_file :: 'f
  program_version :: string

record 'f preferences_file =
  pf_contents :: "'f option"
  pf_can_read :: bool
  pf_can_write :: bool
  pf_can_create :: bool

record app_preferences =
  preferences_map :: "(string, string) hash_map"
  override_data_dir :: string
  override_config_dir :: string

definition APP_PREFERENCES_KEY_VERSION :: string where
  "APP_PREFERENCES_KEY_VERSION = ''VERSION''"

definition APP_PREFERENCES_PERSISTED_NODE_ID :: string where
  "APP_PREFERENCES_PERSISTED_NODE_ID = ''PERSISTED_NODE_ID''"

text \<open>Opening the file for writing truncates it.\<close>

definition set_config ::
    "'f preferences_env \<Rightarrow> string \<Rightarrow> string option \<Rightarrow> app_preferences \<times> 'f preferences_file \<Rightarrow> bool \<times> app_preferences \<times> 'f preferences_file" where
  "set_config env key v = (\<lambda>(prefs, file).
     let m = (case v of Some t \<Rightarrow> hm_insert key t (preferences_map prefs) | None \<Rightarrow> hm_remove key (preferences_map prefs));
         prefs' = prefs\<lparr>preferences_map := m\<rparr>
     in if pf_contents file = None \<or> \<not> pf_can_read file \<or> \<not> pf_can_write file then (False, prefs', file)
        else case save_to env m of (saved, written) \<Rightarrow> (saved, prefs', file\<lparr>pf_contents := Some written\<rparr>))"

definition get_config :: "(string \<Rightarrow> 'x res) \<Rightarrow> string \<Rightarrow> app_preferences \<Rightarrow> 'x option res" where
  "get_config from_str key prefs =
     (case map_of (preferences_map prefs) key of
        Some t \<Rightarrow> res_bind (from_str t) (\<lambda>x. Ok (Some x))
      | None \<Rightarrow> Ok None)"

text \<open>A file that cannot be parsed counts as an empty one.\<close>

definition app_preferences_new ::
    "'f preferences_env \<Rightarrow> string \<Rightarrow> string \<Rightarrow> 'f preferences_file \<Rightarrow> app_preferences res \<times> 'f preferences_file" where
  "app_preferences_new env conf_dir data_dir file =
     (let prefs = (\<lambda>m. \<lparr>preferences_map = m, override_data_dir = data_dir, override_config_dir = conf_dir\<rparr>);
          finish = (\<lambda>m file. case set_config env APP_PREFERENCES_KEY_VERSION (Some (program_version env)) (prefs m, file) of
                      (_, p, file') \<Rightarrow> (Ok p, file'))
      in case pf_contents file of
           Some contents \<Rightarrow>
             if \<not> pf_can_read file then (Err (Bail ''Could not open configuration file''), file)
             else finish (case load_from env contents of Some m \<Rightarrow> m | None \<Rightarrow> []) file
         | None \<Rightarrow>
             if pf_can_create file then finish [] (file\<lparr>pf_contents := Some (empty_file env)\<rparr>)
             else (Err (Bail ''Could not create configuration file''), file))"

section \<open>The identity of the node\<close>

definition own_node_id :: "start_env \<Rightarrow> config \<Rightarrow> app_preferences \<Rightarrow> p2p_node_id res" where
  "own_node_id se conf prefs =
     (case conf_id (common conf) of
        Some i \<Rightarrow> Ok i
      | None \<Rightarrow>
          res_bind (get_config node_id_from_str APP_PREFERENCES_PERSISTED_NODE_ID prefs) (\<lambda>maybe_id.
            Ok (case maybe_id of Some i \<Rightarrow> i | None \<Rightarrow> random_id se)))"

definition instantiate_node ::
    "'f preferences_env \<Rightarrow> 'ns node_env \<Rightarrow> start_env \<Rightarrow> config \<Rightarrow> regenesis \<Rightarrow> app_preferences \<times> 'f preferences_file \<Rightarrow>
     'ns node res \<times> app_preferences \<times> 'f preferences_file" where
  "instantiate_node penv env se conf regen pf =
     (case own_node_id se conf (fst pf) of
        Err e \<Rightarrow> (Err e, pf)
      | Panic \<Rightarrow> (Panic, pf)
      | Ok i \<Rightarrow>
          (case set_config penv APP_PREFERENCES_PERSISTED_NODE_ID (Some (node_id_to_string i)) pf of
             (_, pf') \<Rightarrow> (node_new env se (Some i) conf Node regen, pf')))"

section \<open>Genesis data and baker keys\<close>

text \<open>
  Files are read by their paths; joining a path is the standard library's, reading the encrypted
  keys and the password the libraries'.
\<close>

record baker_files =
  bf_join :: "string \<Rightarrow> string \<Rightarrow> string"
  bf_read :: "string \<Rightarrow> bytes option"
  bf_parse_encrypted :: "bytes \<Rightarrow> bytes option"
  bf_password :: "string option"
  bf_decrypt :: "string \<Rightarrow> bytes \<Rightarrow> bytes option"

record baker_config =
  genesis_data_file :: string
  baker_credentials_file :: "string option"
  decrypt_baker_credentials :: bool
  import_blocks_from :: "string option"
  download_blocks_from :: "string option"
  download_blocks_timeout :: u32

definition get_baker_data :: "baker_files \<Rightarrow> app_preferences \<Rightarrow> baker_config \<Rightarrow> (bytes \<times> bytes option) res" where
  "get_baker_data files prefs conf =
     (case bf_read files (bf_join files (override_data_dir prefs) (genesis_data_file conf)) of
        None \<Rightarrow> Err (Bail ''Cannot open the genesis file'')
      | Some genesis_data \<Rightarrow>
          (case baker_credentials_file conf of
             None \<Rightarrow> Ok (genesis_data, None)
           | Some path \<Rightarrow>
               (case bf_read files path of
                  None \<Rightarrow> Err (Bail ''Cannot open the baker credentials file'')
                | Some read_data \<Rightarrow>
                    if decrypt_baker_credentials conf
                    then (case bf_parse_encrypted files read_data of
                            None \<Rightarrow> Err (Bail ''serde_json'')
                          | Some et \<Rightarrow>
                              (case bf_password files of
                                 None \<Rightarrow> Err IoError
                               | Some pass \<Rightarrow>
                                   (case bf_decrypt files pass et of
                                      Some d \<Rightarrow> Ok (genesis_data, Some d)
                                    | None \<Rightarrow> Err (Bail ''Could not decrypt baker credentials.''))))
                    else Ok (genesis_data, Some read_data))))"

section \<open>Downloading missing blocks\<close>

record block_chunk_data =
  bc_filename :: string
  bc_genesis_index :: nat
  bc_first_block_height :: u64
  bc_last_block_height :: u64

text \<open>
  A reply has a status, of which the library may know the reason, and a body that arrives in
  pieces, each of which may be an error.
\<close>

record http_reply =
  rp_success :: bool
  rp_known_status :: bool
  rp_pieces :: "bytes option list"

text \<open>
  The libraries and the network: the client, the index file, its records (read by the library
  \<^verbatim>\<open>csv\<close>, which skips lines that begin with the comment sign), the chunks, and the temporary files.
  The flag that a signal sets is read before every record. What the consensus library answers to an
  import is a function of the files that it was given before.
\<close>

record download_env =
  de_client_builds :: bool
  de_get_index :: "string \<Rightarrow> http_reply option"
  de_index_text :: "http_reply \<Rightarrow> string option"
  de_records :: "string \<Rightarrow> block_chunk_data option list"
  de_url_join :: "string \<Rightarrow> string \<Rightarrow> string option"
  de_temp_file :: "string \<Rightarrow> bool"
  de_get_chunk :: "string \<Rightarrow> http_reply option"
  de_disk_full :: "bytes \<Rightarrow> bool"
  de_stopped :: "nat \<Rightarrow> bool"
  de_hash_to_string :: "bytes \<Rightarrow> string"
  de_import_file :: "bytes list \<Rightarrow> bytes \<Rightarrow> unit res"
  de_import_path :: "string \<Rightarrow> unit res"

text \<open>The reason of an unsuccessful status is unwrapped for the message.\<close>

definition ensure_success :: "http_reply option \<Rightarrow> string \<Rightarrow> http_reply res" where
  "ensure_success reply msg =
     (case reply of
        None \<Rightarrow> Err IoError
      | Some r \<Rightarrow> if rp_success r then Ok r else if rp_known_status r then Err (Bail msg) else Panic)"

text \<open>The loop over the pieces ends at the first one that is an error.\<close>

fun received_pieces :: "bytes option list \<Rightarrow> bytes list" where
  "received_pieces (Some b # ps) = b # received_pieces ps"
| "received_pieces ps = []"

definition download_chunk :: "download_env \<Rightarrow> string \<Rightarrow> bytes res" where
  "download_chunk env url =
     (if \<not> de_temp_file env url then Err (Bail ''Cannot create output file.'')
      else res_bind (ensure_success (de_get_chunk env url) ''Unable to download the block chunk file'') (\<lambda>r.
           let contents = concat (received_pieces (rp_pieces r))
           in if de_disk_full env contents then Err IoError else Ok contents))"

definition no_new_blocks :: "nat \<Rightarrow> u64 \<Rightarrow> block_chunk_data \<Rightarrow> bool" where
  "no_new_blocks genesis_index height c \<longleftrightarrow> bc_genesis_index c < genesis_index \<or> bc_last_block_height c \<le> height"

text \<open>The state is the list of the files that were given to the consensus library.\<close>

definition import_downloaded :: "download_env \<Rightarrow> bytes \<Rightarrow> (bytes list, unit) action" where
  "import_downloaded env contents files = (de_import_file env files contents, files @ [contents])"

fun import_chunks ::
    "download_env \<Rightarrow> string \<Rightarrow> nat \<Rightarrow> u64 \<Rightarrow> bool \<Rightarrow> nat \<Rightarrow> block_chunk_data option list \<Rightarrow> (bytes list, unit) action" where
  "import_chunks env url genesis_index height mayskip k [] = act_return ()"
| "import_chunks env url genesis_index height mayskip k (r # rs) =
     (if de_stopped env k then act_fail ''Import stopped by the user.''
      else case r of
             None \<Rightarrow> act_fail ''csv''
           | Some c \<Rightarrow>
               if mayskip \<and> no_new_blocks genesis_index height c
               then import_chunks env url genesis_index height mayskip (Suc k) rs
               else (case de_url_join env url (bc_filename c) of
                       None \<Rightarrow> act_fail ''url''
                     | Some chunk_url \<Rightarrow>
                         act_bind (act_result (download_chunk env chunk_url)) (\<lambda>contents.
                           act_then (import_downloaded env contents)
                             (import_chunks env url genesis_index height False (Suc k) rs))))"

definition strip_prefix :: "string \<Rightarrow> string \<Rightarrow> string option" where
  "strip_prefix p t = (if take (length p) t = p then Some (drop (length p) t) else None)"

text \<open>The index names the genesis block of its chain in its first line.\<close>

definition check_index :: "download_env \<Rightarrow> string \<Rightarrow> bytes \<Rightarrow> unit res" where
  "check_index env index genesis =
     (case str_lines index of
        [] \<Rightarrow> Err (Bail ''The catchup index file was empty.'')
      | first_line # _ \<Rightarrow>
          (case strip_prefix ''# genesis hash '' first_line of
             None \<Rightarrow> Err (Bail ''The catchup index file does not begin with a line containing the genesis block hash.'')
           | Some h \<Rightarrow>
               if str_trim h = de_hash_to_string env genesis then Ok ()
               else Err (Bail ''The genesis block hash in the catchup index file does not match'')))"

definition import_missing_blocks ::
    "download_env \<Rightarrow> 'cb consensus_lib \<Rightarrow> bytes list \<Rightarrow> string \<Rightarrow> (bytes list, unit) action" where
  "import_missing_blocks env lib genesis_block_hashes url =
     (case genesis_block_hashes of
        [] \<Rightarrow> act_result Panic
      | genesis # later \<Rightarrow>
          if \<not> de_client_builds env then act_result (Err IoError)
          else act_bind (act_result (ensure_success (de_get_index env url) ''Unable to download the catchup index file'')) (\<lambda>r.
          act_bind (act_result (case de_index_text env r of
              Some t \<Rightarrow> Ok t | None \<Rightarrow> Err (Bail ''Unable to get the catchup index file response text.''))) (\<lambda>index.
          act_then (act_result (check_index env index genesis))
            (import_chunks env url (length later) (get_last_finalized_block_height lib) True 0 (de_records env index)))))"

text \<open>Errors are logged; a local file is preferred to a download.\<close>

definition maybe_do_out_of_band_catchup ::
    "download_env \<Rightarrow> 'cb consensus_lib \<Rightarrow> bytes list \<Rightarrow> baker_config \<Rightarrow> (bytes list, unit) action" where
  "maybe_do_out_of_band_catchup env lib genesis_block_hashes conf =
     (case import_blocks_from conf of
        Some path \<Rightarrow> act_log_error (act_result (de_import_path env path))
      | None \<Rightarrow>
          (case download_blocks_from conf of
             Some url \<Rightarrow> act_log_error (import_missing_blocks env lib genesis_block_hashes url)
           | None \<Rightarrow> act_return ()))"

section \<open>First connections\<close>

definition connect_to_config_nodes :: "'ns node_env \<Rightarrow> ('ns node, unit) action" where
  "connect_to_config_nodes env = act_get (\<lambda>n.
     act_each (\<lambda>a. act_log_error (connect env Node a None False)) (given_addresses (config n)))"

definition establish_connections :: "'ns node_env \<Rightarrow> config \<Rightarrow> ('ns node, unit) action" where
  "establish_connections env conf =
     act_then (connect_to_config_nodes env)
       (if conf_no_bootstrap_dns (conf_connection conf) then act_return () else act_modify (attempt_bootstrap env))"

text \<open>They keep the invariant of the node, like the connections that housekeeping makes later.\<close>

lemma establish_connections_inv:
  assumes "change_channel_law env" "node_inv n"
    and "unat (next_token n) + length (given_addresses (config n)) < 2 ^ 64"
  shows "node_inv (snd (establish_connections env conf n))"
proof -
  let ?g = "length (given_addresses (config n))"
  have n: "node_ok (0 + length (given_addresses (config n))) ?g n" using assms(2,3) by (simp add: node_ok_def)
  obtain r m where c: "connect_to_config_nodes env n = (r, m)" by (cases "connect_to_config_nodes env n")
  then have m: "node_ok 0 ?g m"
    using tripleD [OF connect_each_ok n, of env] by (simp add: connect_to_config_nodes_def act_get_def)
  have "node_ok 0 ?g (attempt_bootstrap env m)" by (rule shrinks_ok [OF shrinks_attempt_bootstrap [OF assms(1)] m])
  then have "node_inv (attempt_bootstrap env m)" "node_inv m" using m by (simp_all add: node_ok_def)
  then show ?thesis
    by (cases r) (simp_all add: establish_connections_def act_then_def act_bind_def c act_return_def act_modify_def)
qed

section \<open>The identity survives a restart\<close>

text \<open>What the library documents: a map that was saved is loaded.\<close>

definition preferences_law :: "'f preferences_env \<Rightarrow> bool" where
  "preferences_law env \<longleftrightarrow>
     (\<forall>m. fst (save_to env m) \<and> (\<exists>m'. load_from env (snd (save_to env m)) = Some m' \<and> map_of m' = map_of m))"

lemma set_config_saved:
  assumes "preferences_law env" "pf_contents file \<noteq> None" "pf_can_read file" "pf_can_write file"
    and "set_config env key (Some v) (p, file) = (b, p', file')"
  shows "b" "preferences_map p' = hm_insert key v (preferences_map p)" "pf_can_read file'" "pf_can_write file'"
    "\<exists>c m. pf_contents file' = Some c \<and> load_from env c = Some m \<and> map_of m = (map_of (preferences_map p))(key \<mapsto> v)"
proof -
  let ?m = "hm_insert key v (preferences_map p)"
  note law = assms(1) [unfolded preferences_law_def, THEN spec, of ?m]
  obtain w where w: "save_to env ?m = (True, w)" using law by (cases "save_to env ?m") simp
  obtain m' where m': "load_from env w = Some m'" "map_of m' = map_of ?m" using law by (auto simp: w)
  show "b" "preferences_map p' = ?m" "pf_can_read file'" "pf_can_write file'"
    using w assms(2-5) by (auto simp: set_config_def Let_def)
  have "pf_contents file' = Some w" using w assms(2-5) by (auto simp: set_config_def Let_def)
  with m' show "\<exists>c m. pf_contents file' = Some c \<and> load_from env c = Some m \<and> map_of m = (map_of (preferences_map p))(key \<mapsto> v)"
    by (simp add: update_conv')
qed

lemma preferences_new_loads:
  assumes "preferences_law env" "pf_can_read file" "pf_can_write file"
    and "app_preferences_new env dir data file = (Ok p, file')"
  shows "pf_contents file' \<noteq> None" "pf_can_read file'" "pf_can_write file'"
    "pf_contents file = Some c \<Longrightarrow> load_from env c = Some m \<Longrightarrow>
       map_of (preferences_map p) = (map_of m)(APP_PREFERENCES_KEY_VERSION \<mapsto> program_version env)"
proof -
  define file1 where "file1 = (case pf_contents file of Some _ \<Rightarrow> file | None \<Rightarrow> file\<lparr>pf_contents := Some (empty_file env)\<rparr>)"
  define m0 where "m0 = (case pf_contents file of Some c \<Rightarrow> (case load_from env c of Some m \<Rightarrow> m | None \<Rightarrow> []) | None \<Rightarrow> [])"
  let ?q = "\<lparr>preferences_map = m0, override_data_dir = data, override_config_dir = dir\<rparr>"
  have "\<exists>b. set_config env APP_PREFERENCES_KEY_VERSION (Some (program_version env)) (?q, file1) = (b, p, file')"
    using assms(2,4) by (cases "pf_contents file")
      (auto simp: app_preferences_new_def Let_def file1_def m0_def split: if_splits prod.splits)
  then obtain b where f: "set_config env APP_PREFERENCES_KEY_VERSION (Some (program_version env)) (?q, file1) = (b, p, file')" ..
  have g: "pf_contents file1 \<noteq> None" "pf_can_read file1" "pf_can_write file1"
    using assms(2,3) by (simp_all add: file1_def split: option.split)
  note s = set_config_saved [OF assms(1) g f]
  show "pf_contents file' \<noteq> None" "pf_can_read file'" "pf_can_write file'" using s by auto
  show "map_of (preferences_map p) = (map_of m)(APP_PREFERENCES_KEY_VERSION \<mapsto> program_version env)"
    if "pf_contents file = Some c" "load_from env c = Some m"
    using that s(2) by (simp add: update_conv' m0_def)
qed

lemma clear_bans_self: "self_peer (snd (clear_bans env n)) = self_peer n"
  by (simp add: clear_bans_def split: option.split)

lemma initial_node_self: "self_peer (initial_node se conf self nc regen bans) = self"
  by (simp add: initial_node_def)

lemma node_new_id: "node_new env se (Some i) conf t regen = Ok n \<Longrightarrow> p2p_id (self_peer n) = i"
  by (cases "stored_bans se")
    (auto simp: node_new_def Let_def res_bind_Ok_iff clear_bans_self initial_node_self split: if_splits)

text \<open>The library writes and loads the map itself.\<close>

definition example_preferences :: "(string, string) hash_map preferences_env" where
  "example_preferences = \<lparr>load_from = Some, save_to = (\<lambda>m. (True, m)), empty_file = [], program_version = ''5.2.0''\<rparr>"

lemma instantiate_node_saves:
  assumes "preferences_law penv" "pf_contents file \<noteq> None" "pf_can_read file" "pf_can_write file"
    and "instantiate_node penv env se conf regen (p, file) = (Ok n, p', file')"
  shows "pf_can_read file'" "pf_can_write file'" "own_node_id se conf p = Ok (p2p_id (self_peer n))"
    "\<exists>c m. pf_contents file' = Some c \<and> load_from penv c = Some m \<and>
       map_of m APP_PREFERENCES_PERSISTED_NODE_ID = Some (node_id_to_string (p2p_id (self_peer n)))"
proof -
  obtain i where i: "own_node_id se conf p = Ok i" using assms(5) by (auto simp: instantiate_node_def split: res.splits)
  obtain b where b: "set_config penv APP_PREFERENCES_PERSISTED_NODE_ID (Some (node_id_to_string i)) (p, file) = (b, p', file')"
    "node_new env se (Some i) conf Node regen = Ok n"
    using assms(5) i by (auto simp: instantiate_node_def split: prod.splits)
  note s = set_config_saved [OF assms(1-4) b(1)]
  have n: "p2p_id (self_peer n) = i" by (rule node_new_id [OF b(2)])
  show "pf_can_read file'" "pf_can_write file'" "own_node_id se conf p = Ok (p2p_id (self_peer n))" using s(3,4) i n by auto
  show "\<exists>c m. pf_contents file' = Some c \<and> load_from penv c = Some m \<and>
       map_of m APP_PREFERENCES_PERSISTED_NODE_ID = Some (node_id_to_string (p2p_id (self_peer n)))"
    using s(5) by (auto simp: n)
qed

text \<open>
  Property C24: a node that was started once, with an identifier given, stored or chosen at random,
  is the same node after a restart without an identifier given, provided the preferences file
  can be written and the library loads what it has saved.
\<close>

theorem node_identity_survives_restart:
  assumes "preferences_law penv" "pf_can_read file" "pf_can_write file"
    and "app_preferences_new penv dir data file = (Ok p, file1)"
    and "instantiate_node penv env se conf regen (p, file1) = (Ok n, p2, file2)"
    and "app_preferences_new penv dir data file2 = (Ok p', file3)" and "conf_id (common conf') = None"
    and "instantiate_node penv env' se' conf' regen' (p', file3) = (Ok n', p4, file4)"
  shows "p2p_id (self_peer n') = p2p_id (self_peer n)"
proof -
  note first = instantiate_node_saves [OF assms(1) preferences_new_loads(1-3) [OF assms(1-4)] assms(5)]
  obtain c m where m: "pf_contents file2 = Some c" "load_from penv c = Some m"
    "map_of m APP_PREFERENCES_PERSISTED_NODE_ID = Some (node_id_to_string (p2p_id (self_peer n)))" using first(4) by blast
  note again = preferences_new_loads [OF assms(1) first(1,2) assms(6)]
  have "map_of (preferences_map p') APP_PREFERENCES_PERSISTED_NODE_ID = Some (node_id_to_string (p2p_id (self_peer n)))"
    using again(4) [OF m(1,2)] m(3) by (simp add: APP_PREFERENCES_PERSISTED_NODE_ID_def APP_PREFERENCES_KEY_VERSION_def)
  then have "own_node_id se' conf' p' = Ok (p2p_id (self_peer n))"
    using node_id_roundtrip by (simp add: own_node_id_def assms(7) get_config_def)
  then show ?thesis using instantiate_node_saves(3) [OF assms(1) again(1-3) assms(8)] by simp
qed

section \<open>What is imported\<close>

definition chunk_contents :: "download_env \<Rightarrow> string \<Rightarrow> block_chunk_data \<Rightarrow> bytes" where
  "chunk_contents env url c =
     (case de_url_join env url (bc_filename c) of
        None \<Rightarrow> []
      | Some u \<Rightarrow> (case de_get_chunk env u of None \<Rightarrow> [] | Some r \<Rightarrow> concat (received_pieces (rp_pieces r))))"

lemma download_chunk_Ok:
  assumes "download_chunk env u = Ok b" "de_url_join env url (bc_filename c) = Some u"
  shows "b = chunk_contents env url c"
  using assms by (auto simp: download_chunk_def ensure_success_def chunk_contents_def Let_def res_simps split: option.splits if_splits)

lemma import_chunks_all:
  assumes "import_chunks env url g h False k (map Some cs) files = (r, files')"
  shows "\<exists>j. files' = files @ map (chunk_contents env url) (take j cs) \<and> (r = Ok () \<longrightarrow> j = length cs)"
  using assms
proof (induction cs arbitrary: k files)
  case Nil
  then show ?case by (simp add: act_simps)
next
  case (Cons c cs)
  show ?case
  proof (cases "\<not> de_stopped env k \<and> (\<exists>u b. de_url_join env url (bc_filename c) = Some u \<and> download_chunk env u = Ok b)")
    case True
    then obtain u b where u: "\<not> de_stopped env k" "de_url_join env url (bc_filename c) = Some u" "download_chunk env u = Ok b" by blast
    note b = download_chunk_Ok [OF u(3,2)]
    show ?thesis
    proof (cases "de_import_file env files b")
      case (Ok x)
      with u Cons.prems have "import_chunks env url g h False (Suc k) (map Some cs) (files @ [b]) = (r, files')"
        by (auto simp: act_simps import_downloaded_def)
      from Cons.IH [OF this] obtain j where "files' = files @ [b] @ map (chunk_contents env url) (take j cs)"
        "r = Ok () \<longrightarrow> j = length cs" by auto
      with b show ?thesis by (intro exI [of _ "Suc j"]) auto
    qed (use u b Cons.prems in \<open>intro exI [of _ "Suc 0"], auto simp: act_simps import_downloaded_def\<close>)+
  next
    case False
    with Cons.prems show ?thesis
      by (intro exI [of _ 0]) (auto simp: act_simps split: option.splits res.splits if_splits)
  qed
qed

lemma import_chunks_in_order:
  assumes "import_chunks env url g h True k (map Some cs) files = (r, files')"
  shows "\<exists>j. files' = files @ map (chunk_contents env url) (take j (dropWhile (no_new_blocks g h) cs)) \<and>
    (r = Ok () \<longrightarrow> j = length (dropWhile (no_new_blocks g h) cs))"
  using assms
proof (induction cs arbitrary: k)
  case Nil
  then show ?case by (simp add: act_simps)
next
  case (Cons c cs)
  show ?case
  proof (cases "no_new_blocks g h c")
    case True
    show ?thesis
    proof (cases "de_stopped env k")
      case True
      with Cons.prems show ?thesis by (intro exI [of _ 0]) (auto simp: act_simps)
    next
      case False
      then show ?thesis using Cons.IH [of "Suc k"] Cons.prems True by simp
    qed
  next
    case False
    then have "import_chunks env url g h False k (map Some (c # cs)) files = (r, files')"
      using Cons.prems by (cases "de_stopped env k") simp_all
    from import_chunks_all [OF this] False show ?thesis by simp
  qed
qed


text \<open>
  A download that breaks off is not noticed. The loop that reads the pieces of a
  chunk ends at an error as it ends at the last piece, and what had arrived is given to the
  consensus library as the whole chunk.
\<close>

theorem truncated_download_is_imported:
  assumes "de_client_builds env" "de_get_index env url = Some reply" "rp_success reply" "de_index_text env reply = Some index"
    and "check_index env index genesis = Ok ()" "de_records env index = [Some c]" "\<not> de_stopped env 0"
    and "\<not> no_new_blocks (length later) (get_last_finalized_block_height lib) c"
    and "de_url_join env url (bc_filename c) = Some u" "de_temp_file env u"
    and "de_get_chunk env u = Some \<lparr>rp_success = True, rp_known_status = True, rp_pieces = map Some bs @ None # rest\<rparr>"
    and "\<not> de_disk_full env (concat bs)" "de_import_file env [] (concat bs) = Ok ()"
  shows "import_missing_blocks env lib (genesis # later) url [] = (Ok (), [concat bs])"
proof -
  have "received_pieces (map Some bs @ None # rest) = bs" by (induction bs) auto
  then have "download_chunk env u = Ok (concat bs)"
    using assms(10-12) by (simp add: download_chunk_def ensure_success_def)
  then show ?thesis
    using assms(1-9,13) by (simp add: import_missing_blocks_def ensure_success_def act_simps import_downloaded_def)
qed

section \<open>Examples\<close>

lemma example_preferences_law: "preferences_law example_preferences"
  by (simp add: preferences_law_def example_preferences_def)

lemma listening_node_with_id:
  "\<exists>n. node_new example_env (example_start\<lparr>random_id := r\<rparr>) (Some i) listening_config Node regenesis_default = Ok n"
  by (simp add: node_new_def bind_address_def own_ip_def listening_config_def add_options_def config_default_def
      common_config_default_def connection_config_default_def cli_config_default_def bootstrapper_config_default_def
      example_start_def Let_def node_config_new_def mul_u64_def)

definition example_file :: "(string, string) hash_map preferences_file" where
  "example_file = \<lparr>pf_contents = None, pf_can_read = True, pf_can_write = True, pf_can_create = True\<rparr>"

theorem node_identity_survives_restart_witness:
  "\<exists>p file1 n p2 file2 p' file3 n' p4 file4.
     app_preferences_new example_preferences ''c'' ''d'' example_file = (Ok p, file1) \<and>
     instantiate_node example_preferences example_env example_start listening_config regenesis_default (p, file1) = (Ok n, p2, file2) \<and>
     app_preferences_new example_preferences ''c'' ''d'' file2 = (Ok p', file3) \<and>
     instantiate_node example_preferences example_env (example_start\<lparr>random_id := 2\<rparr>) listening_config regenesis_default (p', file3) =
       (Ok n', p4, file4) \<and> p2p_id (self_peer n') = p2p_id (self_peer n)"
proof -
  let ?V = "APP_PREFERENCES_KEY_VERSION" and ?I = "APP_PREFERENCES_PERSISTED_NODE_ID"
  let ?p = "\<lambda>m. \<lparr>preferences_map = m, override_data_dir = ''d'', override_config_dir = ''c''\<rparr>"
  let ?f = "\<lambda>m. example_file\<lparr>pf_contents := Some m\<rparr>"
  let ?m = "[(?V, ''5.2.0'')]" and ?m2 = "[(?V, ''5.2.0''), (?I, node_id_to_string 1)]"
  have ids: "?I \<noteq> ?V" "conf_id (common listening_config) = None" "random_id example_start = 1"
    by (simp_all add: APP_PREFERENCES_KEY_VERSION_def APP_PREFERENCES_PERSISTED_NODE_ID_def listening_config_def
        add_options_def config_default_def common_config_default_def example_start_def)
  have "example_start\<lparr>random_id := 1\<rparr> = example_start" by (simp add: example_start_def)
  then obtain n where n: "node_new example_env example_start (Some 1) listening_config Node regenesis_default = Ok n"
    using listening_node_with_id [of 1 1] by auto
  obtain n' where n': "node_new example_env (example_start\<lparr>random_id := 2\<rparr>) (Some 1) listening_config Node regenesis_default = Ok n'"
    using listening_node_with_id by blast
  have 1: "app_preferences_new example_preferences ''c'' ''d'' example_file = (Ok (?p ?m), ?f ?m)"
    by (simp add: app_preferences_new_def set_config_def example_preferences_def example_file_def Let_def)
  have 2: "instantiate_node example_preferences example_env example_start listening_config regenesis_default (?p ?m, ?f ?m) =
      (Ok n, ?p ?m2, ?f ?m2)"
    using ids by (simp add: instantiate_node_def own_node_id_def get_config_def set_config_def example_preferences_def example_file_def Let_def n)
  have 3: "app_preferences_new example_preferences ''c'' ''d'' (?f ?m2) = (Ok (?p ?m2), ?f ?m2)"
    by (simp add: app_preferences_new_def set_config_def example_preferences_def example_file_def Let_def)
  have 4: "instantiate_node example_preferences example_env (example_start\<lparr>random_id := 2\<rparr>) listening_config regenesis_default (?p ?m2, ?f ?m2) =
      (Ok n', ?p ?m2, ?f ?m2)"
    using ids node_id_roundtrip
    by (simp add: instantiate_node_def own_node_id_def get_config_def set_config_def example_preferences_def example_file_def Let_def n')
  have "p2p_id (self_peer n') = p2p_id (self_peer n)"
    by (rule node_identity_survives_restart [OF example_preferences_law _ _ 1 2 3 ids(2) 4]) (simp_all add: example_file_def Let_def)
  with 1 2 3 4 show ?thesis by (intro exI conjI)
qed

definition example_chunks :: "block_chunk_data list" where
  "example_chunks =
     [\<lparr>bc_filename = ''a'', bc_genesis_index = 0, bc_first_block_height = 0, bc_last_block_height = 77\<rparr>,
      \<lparr>bc_filename = ''b'', bc_genesis_index = 0, bc_first_block_height = 78, bc_last_block_height = 200\<rparr>,
      \<lparr>bc_filename = ''c'', bc_genesis_index = 1, bc_first_block_height = 0, bc_last_block_height = 50\<rparr>]"

definition example_download :: download_env where
  "example_download =
     \<lparr>de_client_builds = True, de_get_index = (\<lambda>_. Some \<lparr>rp_success = True, rp_known_status = True, rp_pieces = []\<rparr>),
      de_index_text = (\<lambda>_. Some ''# genesis hash 07''),
      de_records = (\<lambda>_. map Some example_chunks),
      de_url_join = (\<lambda>u f. Some (u @ f)), de_temp_file = (\<lambda>_. True),
      de_get_chunk = (\<lambda>u. Some \<lparr>rp_success = True, rp_known_status = True, rp_pieces = [Some [1], Some [2], None]\<rparr>),
      de_disk_full = (\<lambda>_. False), de_stopped = (\<lambda>_. False), de_hash_to_string = (\<lambda>_. ''07''),
      de_import_file = (\<lambda>_ _. Ok ()), de_import_path = (\<lambda>_. Ok ())\<rparr>"

lemma example_index:
  "check_index example_download ''# genesis hash 07'' [7] = Ok ()"
  "check_index (example_download\<lparr>de_records := rs\<rparr>) ''# genesis hash 07'' [7] = Ok ()"
proof -
  have "str_lines ''# genesis hash 07'' = [''# genesis hash 07'']" "str_trim ''07'' = ''07''" by code_simp+
  then show "check_index example_download ''# genesis hash 07'' [7] = Ok ()"
    "check_index (example_download\<lparr>de_records := rs\<rparr>) ''# genesis hash 07'' [7] = Ok ()"
    by (simp_all add: check_index_def strip_prefix_def example_download_def)
qed


theorem truncated_download_is_imported_witness:
  "import_missing_blocks (example_download\<lparr>de_records := \<lambda>_. [Some \<lparr>bc_filename = ''b'', bc_genesis_index = 0,
     bc_first_block_height = 78, bc_last_block_height = 200\<rparr>]\<rparr>) example_lib [[7]] ''u/'' [] = (Ok (), [concat [[1], [2]]])"
proof (rule truncated_download_is_imported [OF _ _ _ _ example_index(2)])
  let ?E = "example_download\<lparr>de_records := \<lambda>_. [Some \<lparr>bc_filename = ''b'', bc_genesis_index = 0,
    bc_first_block_height = 78, bc_last_block_height = 200\<rparr>]\<rparr>"
  let ?r = "\<lparr>rp_success = True, rp_known_status = True, rp_pieces = []\<rparr>"
  let ?c = "\<lparr>bc_filename = ''b'', bc_genesis_index = 0, bc_first_block_height = 78, bc_last_block_height = 200\<rparr>"
  show "de_client_builds ?E" "de_get_index ?E ''u/'' = Some ?r" "rp_success ?r" "de_index_text ?E ?r = Some ''# genesis hash 07''"
    "de_records ?E ''# genesis hash 07'' = [Some ?c]" "\<not> de_stopped ?E 0" "de_url_join ?E ''u/'' (bc_filename ?c) = Some ''u/b''"
    "de_temp_file ?E ''u/b''" "\<not> de_disk_full ?E (concat [[1], [2]])" "de_import_file ?E [] (concat [[1], [2]]) = Ok ()"
    "de_get_chunk ?E ''u/b'' = Some \<lparr>rp_success = True, rp_known_status = True, rp_pieces = map Some [[1], [2]] @ None # []\<rparr>"
    by (simp_all add: example_download_def)
  show "\<not> no_new_blocks (length ([] :: bytes list)) (get_last_finalized_block_height example_lib) ?c"
    by (simp add: no_new_blocks_def get_last_finalized_block_height_def example_lib_def)
qed

end
