(* ===== verification/WindowsConfig.thy ===== *)
theory WindowsConfig
  imports Prelude Peer
begin

text \<open>
  The configuration of the Windows service (\<^verbatim>\<open>service/windows/src/config.rs\<close>): reading which nodes
  to run, and with which settings, from a file in TOML. The reader of TOML, paths and the parsers
  of addresses and log levels are parameters.
\<close>

section \<open>TOML\<close>

datatype toml =
    TomlString string
  | TomlInteger int
  | TomlBoolean bool
  | TomlArray "toml list"
  | TomlTable "(string \<times> toml) list"
  | TomlOther

text \<open>\<^verbatim>\<open>toml_get_as!\<close>: the value at the end of a path of keys, when it has the type.\<close>

fun toml_get :: "toml \<Rightarrow> string list \<Rightarrow> toml option" where
  "toml_get v [] = Some v"
| "toml_get (TomlTable t) (k # ks) = (case map_of t k of Some v \<Rightarrow> toml_get v ks | None \<Rightarrow> None)"
| "toml_get v (k # ks) = None"

fun toml_as_str :: "toml \<Rightarrow> string option" where
  "toml_as_str (TomlString s) = Some s"
| "toml_as_str v = None"

fun toml_as_integer :: "toml \<Rightarrow> int option" where
  "toml_as_integer (TomlInteger i) = Some i"
| "toml_as_integer v = None"

fun toml_as_bool :: "toml \<Rightarrow> bool option" where
  "toml_as_bool (TomlBoolean b) = Some b"
| "toml_as_bool v = None"

fun toml_as_array :: "toml \<Rightarrow> toml list option" where
  "toml_as_array (TomlArray vs) = Some vs"
| "toml_as_array v = None"

fun toml_as_table :: "toml \<Rightarrow> (string \<times> toml) list option" where
  "toml_as_table (TomlTable t) = Some t"
| "toml_as_table v = None"

definition get_as :: "(toml \<Rightarrow> 'a option) \<Rightarrow> toml \<Rightarrow> string list \<Rightarrow> 'a option" where
  "get_as as v path = Option.bind (toml_get v path) as"

text \<open>The setting of a node, or else the common one.\<close>

definition node_or_common :: "(toml \<Rightarrow> 'a option) \<Rightarrow> toml \<Rightarrow> toml \<Rightarrow> string list \<Rightarrow> 'a option" where
  "node_or_common as node common path =
     (case get_as as node path of Some x \<Rightarrow> Some x | None \<Rightarrow> get_as as common path)"

section \<open>Settings\<close>

datatype runner_level = LevelError | LevelWarn | LevelInfo | LevelDebug | LevelTrace

record log_file_config =
  lf_path :: string
  lf_roll_size :: "string option"
  lf_roll_count :: "u16 option"
  lf_roll_pattern :: "string option"

datatype logger_config = LoggerNone | LoggerConfigFile string | LoggerFile log_file_config

record node_runner_config =
  nc_name :: string
  nc_bootstrap_nodes :: string
  nc_config_dir :: string
  nc_data_dir :: string
  nc_baker_credentials :: "string option"
  nc_rpc_address :: "ip_addr option"
  nc_rpc_port :: "u16 option"
  nc_rpc_enabled :: "bool option"
  nc_rpc_token :: "string option"
  nc_grpc2_address :: "ip_addr option"
  nc_grpc2_port :: "u16 option"
  nc_listen_address :: "ip_addr option"
  nc_listen_port :: "u16 option"
  nc_log_config :: logger_config
  nc_log_level :: "runner_level option"
  nc_node_bin :: "string option"
  nc_node_env :: "(string, string) hash_map"
  nc_node_args :: "string list"
  nc_collector_enabled :: "bool option"
  nc_collector_url :: "string option"
  nc_collector_node_name :: "string option"
  nc_collector_interval :: "u64 option"
  nc_collector_log_file :: "string option"
  nc_collector_bin :: "string option"
  nc_collector_env :: "(string, string) hash_map"
  nc_collector_args :: "string list"

record config_env =
  toml_from_str :: "string \<Rightarrow> toml option"
  path_push :: "string \<Rightarrow> string \<Rightarrow> string"
  ip_from_text :: "string \<Rightarrow> ip_addr option"
  level_from_str :: "string \<Rightarrow> runner_level option"

section \<open>Reading\<close>

text \<open>Environment variables are added one by one; all of them must be strings.\<close>

fun insert_env :: "(string \<times> toml) list \<Rightarrow> (string, string) hash_map \<Rightarrow> (string, string) hash_map res" where
  "insert_env [] env = Ok env"
| "insert_env ((k, v) # t) env =
     (case toml_as_str v of
        Some x \<Rightarrow> insert_env t (hm_insert k x env)
      | None \<Rightarrow> Err (Bail ''Environment variables must be strings''))"

definition get_env :: "(string \<times> toml) list option \<Rightarrow> (string, string) hash_map \<Rightarrow> (string, string) hash_map res" where
  "get_env table env = (case table of Some t \<Rightarrow> insert_env t env | None \<Rightarrow> Ok env)"

fun string_args :: "toml list \<Rightarrow> string list res" where
  "string_args [] = Ok []"
| "string_args (v # vs) =
     (case toml_as_str v of
        Some x \<Rightarrow> res_bind (string_args vs) (\<lambda>xs. Ok (x # xs))
      | None \<Rightarrow> Err (Bail ''a non-string argument''))"

definition get_args :: "toml list option \<Rightarrow> string list option res" where
  "get_args arr = (case arr of Some vs \<Rightarrow> res_bind (string_args vs) (\<lambda>xs. Ok (Some xs)) | None \<Rightarrow> Ok None)"

definition required_string :: "string option \<Rightarrow> string res" where
  "required_string x = (case x of Some s \<Rightarrow> Ok s | None \<Rightarrow> Err (Bail ''Missing string entry''))"

definition parse_address :: "config_env \<Rightarrow> string option \<Rightarrow> ip_addr option res" where
  "parse_address env x =
     (case x of
        None \<Rightarrow> Ok None
      | Some s \<Rightarrow> (case ip_from_text env s of Some ip \<Rightarrow> Ok (Some ip) | None \<Rightarrow> Err (Bail ''invalid IP address syntax'')))"

definition int_in_range :: "nat \<Rightarrow> int option \<Rightarrow> 'w :: len word option res" where
  "int_in_range w x =
     (case x of
        None \<Rightarrow> Ok None
      | Some i \<Rightarrow> if 0 \<le> i \<and> i < 2 ^ w then Ok (Some (word_of_int i))
                  else Err (Bail ''out of range integral type conversion attempted''))"

definition read_logger :: "config_env \<Rightarrow> string \<Rightarrow> toml \<Rightarrow> logger_config" where
  "read_logger env root node =
     (case get_as toml_as_str node [''log'', ''config''] of
        Some c \<Rightarrow> LoggerConfigFile (path_push env root c)
      | None \<Rightarrow>
          (case get_as toml_as_str node [''log'', ''path''] of
             None \<Rightarrow> LoggerNone
           | Some p \<Rightarrow> LoggerFile
               \<lparr>lf_path = path_push env root p, lf_roll_size = get_as toml_as_str node [''log'', ''roll'', ''size''],
                lf_roll_count = (case get_as toml_as_integer node [''log'', ''roll'', ''count''] of
                    Some c \<Rightarrow> if 0 \<le> c \<and> c < 65536 then Some (word_of_int c) else None
                  | None \<Rightarrow> None),
                lf_roll_pattern = map_option (path_push env root) (get_as toml_as_str node [''log'', ''roll'', ''pattern''])\<rparr>))"

record common_settings =
  cs_table :: toml
  cs_node_env :: "(string, string) hash_map"
  cs_node_args :: "string list option"
  cs_collector_env :: "(string, string) hash_map"
  cs_collector_args :: "string list option"

definition read_common :: "toml \<Rightarrow> common_settings res" where
  "read_common conf_val =
     (let common = TomlTable (case get_as toml_as_table conf_val [''common''] of Some t \<Rightarrow> t | None \<Rightarrow> [])
      in res_bind (get_env (get_as toml_as_table common [''node'', ''env'']) []) (\<lambda>node_env.
         res_bind (get_args (get_as toml_as_array common [''node'', ''args''])) (\<lambda>node_args.
         res_bind (get_env (get_as toml_as_table common [''collector'', ''env'']) []) (\<lambda>collector_env.
         res_bind (get_args (get_as toml_as_array common [''collector'', ''args''])) (\<lambda>collector_args.
           Ok \<lparr>cs_table = common, cs_node_env = node_env, cs_node_args = node_args,
               cs_collector_env = collector_env, cs_collector_args = collector_args\<rparr>)))))"

definition read_node :: "config_env \<Rightarrow> string \<Rightarrow> common_settings \<Rightarrow> string \<Rightarrow> toml \<Rightarrow> node_runner_config res" where
  "read_node env root cs nname node =
     (let common = cs_table cs; text = get_as toml_as_str node; relative = path_push env root
      in res_bind (required_string (node_or_common toml_as_str node common [''bootstrap_nodes''])) (\<lambda>bootstrap_nodes.
         res_bind (required_string (text [''config_dir''])) (\<lambda>config_dir.
         res_bind (required_string (text [''data_dir''])) (\<lambda>data_dir.
         res_bind (parse_address env (text [''rpc'', ''ip''])) (\<lambda>rpc_address.
         res_bind (int_in_range 16 (get_as toml_as_integer node [''rpc'', ''port''])) (\<lambda>rpc_port.
         res_bind (parse_address env (text [''grpc2'', ''ip''])) (\<lambda>grpc2_address.
         res_bind (int_in_range 16 (get_as toml_as_integer node [''grpc2'', ''port''])) (\<lambda>grpc2_port.
         res_bind (parse_address env (text [''listen'', ''ip''])) (\<lambda>listen_address.
         res_bind (int_in_range 16 (get_as toml_as_integer node [''listen'', ''port''])) (\<lambda>listen_port.
         res_bind (int_in_range 64 (node_or_common toml_as_integer node common [''collector'', ''interval''])) (\<lambda>interval.
         res_bind (get_env (get_as toml_as_table node [''node'', ''env'']) (cs_node_env cs)) (\<lambda>node_env.
         res_bind (get_args (get_as toml_as_array node [''node'', ''args''])) (\<lambda>node_args.
         res_bind (get_env (get_as toml_as_table node [''collector'', ''env'']) (cs_collector_env cs)) (\<lambda>collector_env.
         res_bind (get_args (get_as toml_as_array node [''collector'', ''args''])) (\<lambda>collector_args.
           let or_common = (\<lambda>own shared. case own of Some xs \<Rightarrow> xs | None \<Rightarrow> (case shared of Some xs \<Rightarrow> xs | None \<Rightarrow> []))
           in Ok \<lparr>nc_name = (case text [''name''] of Some n \<Rightarrow> n | None \<Rightarrow> nname), nc_bootstrap_nodes = bootstrap_nodes,
              nc_config_dir = relative config_dir, nc_data_dir = relative data_dir,
              nc_baker_credentials = map_option relative (text [''baker_credentials'']),
              nc_rpc_address = rpc_address, nc_rpc_port = rpc_port,
              nc_rpc_enabled = node_or_common toml_as_bool node common [''rpc'', ''enabled''],
              nc_rpc_token = node_or_common toml_as_str node common [''rpc'', ''token''],
              nc_grpc2_address = grpc2_address, nc_grpc2_port = grpc2_port,
              nc_listen_address = listen_address, nc_listen_port = listen_port,
              nc_log_config = read_logger env root node,
              nc_log_level = Option.bind (node_or_common toml_as_str node common [''log'', ''level'']) (level_from_str env),
              nc_node_bin = map_option relative (node_or_common toml_as_str node common [''node'', ''exe'']),
              nc_node_env = node_env, nc_node_args = or_common node_args (cs_node_args cs),
              nc_collector_enabled = node_or_common toml_as_bool node common [''collector'', ''enabled''],
              nc_collector_url = node_or_common toml_as_str node common [''collector'', ''url''],
              nc_collector_node_name = node_or_common toml_as_str node common [''collector'', ''node_name''],
              nc_collector_interval = interval,
              nc_collector_log_file = map_option relative (text [''collector'', ''log_file'']),
              nc_collector_bin = map_option relative (node_or_common toml_as_str node common [''collector'', ''exe'']),
              nc_collector_env = collector_env, nc_collector_args = or_common collector_args (cs_collector_args cs)\<rparr>)))))))))))))))"

definition node_enabled :: "toml \<Rightarrow> bool" where
  "node_enabled node = (case get_as toml_as_bool node [''enabled''] of Some b \<Rightarrow> b | None \<Rightarrow> True)"

fun read_nodes :: "config_env \<Rightarrow> string \<Rightarrow> common_settings \<Rightarrow> (string \<times> toml) list \<Rightarrow> node_runner_config list res" where
  "read_nodes env root cs [] = Ok []"
| "read_nodes env root cs ((nname, node) # t) =
     (if \<not> node_enabled node then read_nodes env root cs t
      else res_bind (read_node env root cs nname node) (\<lambda>n. res_bind (read_nodes env root cs t) (\<lambda>ns. Ok (n # ns))))"

definition load_config_file :: "config_env \<Rightarrow> string \<Rightarrow> string \<Rightarrow> node_runner_config list res" where
  "load_config_file env conf_str conf_root =
     (case toml_from_str env conf_str of
        None \<Rightarrow> Err (Bail ''toml'')
      | Some conf_val \<Rightarrow>
          res_bind (read_common conf_val) (\<lambda>cs.
            read_nodes env conf_root cs (case get_as toml_as_table conf_val [''node''] of Some t \<Rightarrow> t | None \<Rightarrow> [])))"

section \<open>The settings of a node\<close>

lemma insert_env_lookup:
  assumes "insert_env t env = Ok env'" "distinct (map fst t)"
  shows "map_of env' k = (case map_of t k of Some v \<Rightarrow> toml_as_str v | None \<Rightarrow> map_of env k)"
  using assms
proof (induction t env rule: insert_env.induct)
  case (2 j v t env)
  then obtain x where x: "toml_as_str v = Some x" "insert_env t (hm_insert j x env) = Ok env'" by (auto split: option.splits)
  have "map_of t j = None" using 2(3) by (simp add: map_of_eq_None_iff)
  with 2(1) [OF x] 2(3) x(1) show ?case by (auto simp: update_conv' split: option.split)
qed simp

lemma read_nodes_of:
  assumes "read_nodes env root cs t = Ok ns" "nc \<in> set ns"
  shows "\<exists>nname node. (nname, node) \<in> set t \<and> node_enabled node \<and> read_node env root cs nname node = Ok nc"
  using assms
proof (induction env root cs t arbitrary: ns rule: read_nodes.induct)
  case (2 env root cs nname node t)
  then show ?case by (auto simp: res_simps split: if_splits) blast+
qed simp

text \<open>The keys of a table are distinct, which the reader of TOML checks.\<close>

fun toml_wf :: "toml \<Rightarrow> bool" where
  "toml_wf (TomlTable t) \<longleftrightarrow> distinct (map fst t) \<and> list_all (\<lambda>(_, v). toml_wf v) t"
| "toml_wf (TomlArray vs) \<longleftrightarrow> list_all toml_wf vs"
| "toml_wf v \<longleftrightarrow> True"

lemma toml_get_wf: "toml_wf v \<Longrightarrow> toml_get v path = Some w \<Longrightarrow> toml_wf w"
proof (induction v path rule: toml_get.induct)
  case (2 t k ks)
  then obtain u where "map_of t k = Some u" "toml_get u ks = Some w" by (auto split: option.splits)
  moreover from this(1) have "toml_wf u" using 2(2) by (force simp: list_all_iff dest: map_of_SomeD)
  ultimately show ?case using 2(1) by blast
qed simp_all

lemma get_as_table_wf:
  assumes "toml_wf v" "get_as toml_as_table v path = Some t"
  shows "distinct (map fst t)" "(k, w) \<in> set t \<Longrightarrow> toml_wf w"
proof -
  obtain u where u: "toml_get v path = Some u" "toml_as_table u = Some t" using assms(2) by (auto simp: get_as_def bind_eq_Some_conv)
  then have "u = TomlTable t" by (cases u) auto
  with toml_get_wf [OF assms(1) u(1)] show "distinct (map fst t)" "(k, w) \<in> set t \<Longrightarrow> toml_wf w" by (auto simp: list_all_iff)
qed

text \<open>The value of a variable in a table of environment variables.\<close>

definition env_table :: "toml \<Rightarrow> string \<Rightarrow> string \<Rightarrow> toml option" where
  "env_table v program k = Option.bind (get_as toml_as_table v [program, ''env'']) (\<lambda>t. map_of t k)"

definition common_of :: "toml \<Rightarrow> toml" where
  "common_of conf = TomlTable (case get_as toml_as_table conf [''common''] of Some t \<Rightarrow> t | None \<Rightarrow> [])"

lemma get_env_lookup:
  assumes "toml_wf v" "get_env (get_as toml_as_table v [program, ''env'']) env = Ok env'"
  shows "map_of env' k = (case env_table v program k of Some x \<Rightarrow> toml_as_str x | None \<Rightarrow> map_of env k)"
proof (cases "get_as toml_as_table v [program, ''env'']")
  case None
  then show ?thesis using assms(2) by (simp add: get_env_def env_table_def)
next
  case (Some t)
  with assms(2) have "insert_env t env = Ok env'" by (simp add: get_env_def)
  from insert_env_lookup [OF this get_as_table_wf(1) [OF assms(1) Some]] Some show ?thesis by (simp add: env_table_def)
qed

lemma int_in_range_uint:
  "int_in_range 16 x = Ok (Some (p :: u16)) \<Longrightarrow> x = Some (uint p)"
  by (auto simp: int_in_range_def unsigned_of_int take_bit_int_eq_self split: option.splits if_splits)

lemma common_wf: "toml_wf conf \<Longrightarrow> toml_wf (common_of conf)"
  using get_as_table_wf [of conf "[''common'']"] by (auto simp: common_of_def list_all_iff split: option.split)


definition example_toml :: toml where
  "example_toml = TomlTable
     [(''common'', TomlTable [(''bootstrap_nodes'', TomlString ''b''), (''node'', TomlTable [(''env'', TomlTable
        [(''A'', TomlString ''1''), (''B'', TomlString ''2'')])])]),
      (''node'', TomlTable [(''n1'', TomlTable [(''config_dir'', TomlString ''c''), (''data_dir'', TomlString ''d''),
        (''listen'', TomlTable [(''port'', TomlInteger 8888)]), (''node'', TomlTable [(''env'', TomlTable [(''B'', TomlString ''3'')])])])])]"

definition example_config_env :: config_env where
  "example_config_env = \<lparr>toml_from_str = (\<lambda>_. Some example_toml), path_push = (\<lambda>r p. r @ ''/'' @ p),
     ip_from_text = (\<lambda>_. None), level_from_str = (\<lambda>_. None)\<rparr>"


end
