(* ===== verification/WindowsService.thy ===== *)
theory WindowsService
  imports WindowsConfig ConsensusFfi
begin

text \<open>
  The Windows service (\<^verbatim>\<open>service/windows/src/node.rs\<close> and \<^verbatim>\<open>main.rs\<close>): starting the processes of the
  nodes and of their collectors, watching them, and stopping them. What the operating system
  answers is a parameter; the service leaves a list of what it did.
\<close>

section \<open>Processes\<close>

record process_command =
  cmd_program :: string
  cmd_env :: "(string, string) hash_map"
  cmd_args :: "string list"

text \<open>
  The operating system: a program beside that of the service, texts of addresses, parts of paths,
  temporary files with some contents, and whether a command can be started. A process is known by
  the number of processes started before it.
\<close>

record os_env =
  beside_service :: "string \<Rightarrow> string option"
  ip_text :: "ip_addr \<Rightarrow> string"
  path_extension :: "string \<Rightarrow> string option"
  path_with_extension :: "string \<Rightarrow> string \<Rightarrow> string"
  toml_text :: "toml \<Rightarrow> string option"
  temporary_file :: "string \<Rightarrow> string option"
  create_file :: "string \<Rightarrow> bool"
  can_spawn :: "process_command \<Rightarrow> nat \<Rightarrow> bool"

definition spawn_process :: "os_env \<Rightarrow> process_command \<Rightarrow> nat \<Rightarrow> nat res \<times> nat" where
  "spawn_process os cmd next = (if can_spawn os cmd next then (Ok next, Suc next) else (Err IoError, next))"

definition DEFAULT_RPC_PORT :: u16 where
  "DEFAULT_RPC_PORT = 10000"

definition set_env :: "string \<Rightarrow> string \<Rightarrow> process_command \<Rightarrow> process_command" where
  "set_env name v cmd = cmd\<lparr>cmd_env := hm_insert name v (cmd_env cmd)\<rparr>"

definition set_env_opt :: "string \<Rightarrow> string option \<Rightarrow> process_command \<Rightarrow> process_command" where
  "set_env_opt name v cmd = (case v of Some x \<Rightarrow> set_env name x cmd | None \<Rightarrow> cmd)"

section \<open>The collector of a node\<close>

fun ip_is_unspecified :: "ip_addr \<Rightarrow> bool" where
  "ip_is_unspecified (V4 a) = (a = 0)"
| "ip_is_unspecified (V6 a) = (a = 0)"

text \<open>The collector runs on the same machine, so that it can use the local address for any.\<close>

definition collector_rpc_ip :: "ip_addr option \<Rightarrow> ip_addr" where
  "collector_rpc_ip address =
     (let ip = (case address of Some a \<Rightarrow> a | None \<Rightarrow> V4 0x7F000001)
      in if ip_is_unspecified ip then (case ip of V4 _ \<Rightarrow> V4 0x7F000001 | V6 _ \<Rightarrow> V6 1) else ip)"

definition collector_host :: "os_env \<Rightarrow> node_runner_config \<Rightarrow> string" where
  "collector_host os nc =
     (let ip = collector_rpc_ip (nc_rpc_address nc);
          port = nat_to_decimal (unat (case nc_rpc_port nc of Some p \<Rightarrow> p | None \<Rightarrow> DEFAULT_RPC_PORT))
      in case ip of
           V4 _ \<Rightarrow> ''http://'' @ ip_text os ip @ '':'' @ port
         | V6 _ \<Rightarrow> ''http://['' @ ip_text os ip @ '']:'' @ port)"

definition run_collector :: "node_runner_config \<Rightarrow> bool" where
  "run_collector nc \<longleftrightarrow> nc_collector_enabled nc \<noteq> Some False \<and> nc_collector_url nc \<noteq> None \<and> nc_rpc_enabled nc \<noteq> Some False"

definition collector_command :: "os_env \<Rightarrow> node_runner_config \<Rightarrow> string \<Rightarrow> string \<Rightarrow> process_command" where
  "collector_command os nc program url =
     (set_env_opt ''CONCORDIUM_NODE_COLLECTOR_GRPC_AUTHENTICATION_TOKEN'' (nc_rpc_token nc)
     (set_env_opt ''CONCORDIUM_NODE_COLLECTOR_COLLECT_INTERVAL'' (map_option (\<lambda>i. nat_to_decimal (unat i)) (nc_collector_interval nc))
     (set_env ''CONCORDIUM_NODE_COLLECTOR_NODE_NAME'' (case nc_collector_node_name nc of Some n \<Rightarrow> n | None \<Rightarrow> nc_name nc)
     (set_env ''CONCORDIUM_NODE_COLLECTOR_GRPC_HOST'' (collector_host os nc)
     (set_env ''CONCORDIUM_NODE_COLLECTOR_URL'' url
       \<lparr>cmd_program = program, cmd_env = nc_collector_env nc, cmd_args = nc_collector_args nc\<rparr>)))))"

definition program_path :: "os_env \<Rightarrow> string option \<Rightarrow> string \<Rightarrow> string res" where
  "program_path os configured file =
     (case configured of
        Some p \<Rightarrow> Ok p
      | None \<Rightarrow> (case beside_service os file of Some p \<Rightarrow> Ok p | None \<Rightarrow> Err IoError))"

definition start_collector :: "os_env \<Rightarrow> node_runner_config \<Rightarrow> nat \<Rightarrow> nat option res \<times> nat" where
  "start_collector os nc next =
     (if nc_collector_enabled nc = Some True \<and> \<not> run_collector nc
      then (Err (Bail (''The collector was enabled, but '' @
              (if nc_collector_url nc = None then ''collector.url was not specified'' else ''rpc is disabled''))), next)
      else case nc_collector_url nc of
             None \<Rightarrow> (Ok None, next)
           | Some url \<Rightarrow>
               if \<not> run_collector nc then (Ok None, next)
               else (case program_path os (nc_collector_bin nc) ''node-collector.exe'' of
                       Ok program \<Rightarrow>
                         if (case nc_collector_log_file nc of Some lf \<Rightarrow> \<not> create_file os lf | None \<Rightarrow> False)
                         then (Err IoError, next)
                         else (case spawn_process os (collector_command os nc program url) next of
                                 (r, next') \<Rightarrow> (res_bind r (\<lambda>pid. Ok (Some pid)), next'))
                     | Err e \<Rightarrow> (Err e, next)
                     | Panic \<Rightarrow> (Panic, next)))"

section \<open>Logging of a node\<close>

definition level_to_string :: "runner_level \<Rightarrow> string" where
  "level_to_string l =
     (case l of LevelError \<Rightarrow> ''ERROR'' | LevelWarn \<Rightarrow> ''WARN'' | LevelInfo \<Rightarrow> ''INFO''
      | LevelDebug \<Rightarrow> ''DEBUG'' | LevelTrace \<Rightarrow> ''TRACE'')"

definition default_roll_pattern :: "os_env \<Rightarrow> string \<Rightarrow> string" where
  "default_roll_pattern os path =
     path_with_extension os path (case path_extension os path of Some old \<Rightarrow> ''{}.'' @ old | None \<Rightarrow> ''{}'')"

definition roller_table :: "os_env \<Rightarrow> log_file_config \<Rightarrow> (string \<times> toml) list" where
  "roller_table os lf =
     (let count = (case lf_roll_count lf of Some c \<Rightarrow> c | None \<Rightarrow> 0)
      in if count = 0 then [(''kind'', TomlString ''delete'')]
         else [(''kind'', TomlString ''fixed_window''), (''count'', TomlInteger (uint count)),
               (''pattern'', TomlString (case lf_roll_pattern lf of Some p \<Rightarrow> p | None \<Rightarrow> default_roll_pattern os (lf_path lf)))])"

definition log_toml :: "os_env \<Rightarrow> log_file_config \<Rightarrow> runner_level option \<Rightarrow> toml" where
  "log_toml os lf level =
     (let appender = (''path'', TomlString (lf_path lf)) #
            (case lf_roll_size lf of
               Some rsize \<Rightarrow>
                 [(''kind'', TomlString ''rolling_file''),
                  (''policy'', TomlTable [(''kind'', TomlString ''compound''),
                     (''trigger'', TomlTable [(''kind'', TomlString ''size''), (''limit'', TomlString rsize)]),
                     (''roller'', TomlTable (roller_table os lf))])]
             | None \<Rightarrow> [(''kind'', TomlString ''file'')])
      in TomlTable
           [(''root'', TomlTable
               [(''level'', TomlString (level_to_string (case level of Some l \<Rightarrow> l | None \<Rightarrow> LevelWarn))),
                (''appenders'', TomlArray [TomlString ''file''])]),
            (''appenders'', TomlTable [(''file'', TomlTable appender)])])"

definition make_log_config_file :: "os_env \<Rightarrow> logger_config \<Rightarrow> runner_level option \<Rightarrow> process_command \<Rightarrow> process_command res" where
  "make_log_config_file os logger level cmd =
     (let use = (\<lambda>contents. case temporary_file os contents of
                   Some path \<Rightarrow> Ok (set_env ''CONCORDIUM_NODE_LOG_CONFIG'' path cmd) | None \<Rightarrow> Err IoError)
      in case logger of
           LoggerNone \<Rightarrow> use (''[root]'' @ [CHR 0x0A] @ ''level = '' @ [CHR 0x27] @ ''error'' @ [CHR 0x27, CHR 0x0A] @ ''appenders = []'')
         | LoggerConfigFile path \<Rightarrow> Ok (set_env ''CONCORDIUM_NODE_LOG_CONFIG'' path cmd)
         | LoggerFile lf \<Rightarrow>
             (case toml_text os (log_toml os lf level) of Some t \<Rightarrow> use t | None \<Rightarrow> Err (Bail ''toml'')))"

section \<open>Starting a node\<close>

record running_node =
  rn_process :: nat
  rn_config :: node_runner_config
  rn_collector :: "nat option"

definition log_level_env :: "runner_level option \<Rightarrow> process_command \<Rightarrow> process_command" where
  "log_level_env level cmd =
     (case level of
        Some LevelError \<Rightarrow> set_env ''CONCORDIUM_NODE_NO_CONSENSUS_LOG'' ''true'' cmd
      | Some LevelInfo \<Rightarrow> set_env ''CONCORDIUM_NODE_LOG_LEVEL_INFO'' ''true'' cmd
      | Some LevelDebug \<Rightarrow> set_env ''CONCORDIUM_NODE_LOG_LEVEL_DEBUG'' ''true'' cmd
      | Some LevelTrace \<Rightarrow> set_env ''CONCORDIUM_NODE_LOG_LEVEL_TRACE'' ''true'' cmd
      | _ \<Rightarrow> cmd)"

text \<open>What the service sets comes after the environment of the configuration and replaces it.\<close>

definition node_command :: "os_env \<Rightarrow> node_runner_config \<Rightarrow> string \<Rightarrow> process_command" where
  "node_command os nc program =
     (let port_text = map_option (\<lambda>p. nat_to_decimal (unat p));
          cmd = \<lparr>cmd_program = program, cmd_env = nc_node_env nc, cmd_args = nc_node_args nc\<rparr>;
          cmd = set_env ''CONCORDIUM_NODE_CONFIG_DIR'' (nc_config_dir nc) cmd;
          cmd = set_env ''CONCORDIUM_NODE_DATA_DIR'' (nc_data_dir nc) cmd;
          cmd = set_env ''CONCORDIUM_NODE_CONNECTION_BOOTSTRAP_NODES'' (nc_bootstrap_nodes nc) cmd;
          cmd = set_env_opt ''CONCORDIUM_NODE_BAKER_CREDENTIALS_FILE'' (nc_baker_credentials nc) cmd;
          cmd = set_env_opt ''CONCORDIUM_NODE_RPC_SERVER_ADDR'' (map_option (ip_text os) (nc_rpc_address nc)) cmd;
          cmd = set_env_opt ''CONCORDIUM_NODE_RPC_SERVER_PORT'' (port_text (nc_rpc_port nc)) cmd;
          cmd = set_env_opt ''CONCORDIUM_NODE_GRPC2_LISTEN_ADDRESS'' (map_option (ip_text os) (nc_grpc2_address nc)) cmd;
          cmd = set_env_opt ''CONCORDIUM_NODE_GRPC2_LISTEN_PORT'' (port_text (nc_grpc2_port nc)) cmd;
          cmd = set_env_opt ''CONCORDIUM_NODE_RPC_SERVER_TOKEN'' (nc_rpc_token nc) cmd;
          cmd = (if nc_rpc_enabled nc = Some False then set_env ''CONCORDIUM_NODE_DISABLE_RPC_SERVER'' ''true'' cmd else cmd);
          cmd = set_env_opt ''CONCORDIUM_NODE_LISTEN_ADDRESS'' (map_option (ip_text os) (nc_listen_address nc)) cmd;
          cmd = set_env_opt ''CONCORDIUM_NODE_LISTEN_PORT'' (port_text (nc_listen_port nc)) cmd
      in log_level_env (nc_log_level nc) cmd)"

text \<open>A collector that cannot be started is only logged.\<close>

definition start_node :: "os_env \<Rightarrow> node_runner_config \<Rightarrow> nat \<Rightarrow> running_node res \<times> nat" where
  "start_node os nc next =
     (case res_bind (program_path os (nc_node_bin nc) ''concordium-node.exe'') (\<lambda>program.
           res_bind (make_log_config_file os (nc_log_config nc) (nc_log_level nc) (node_command os nc program)) (\<lambda>cmd.
             if temporary_file os [] = None then Err IoError else Ok cmd)) of
        Ok cmd \<Rightarrow>
          (case spawn_process os cmd next of
             (Ok pid, next') \<Rightarrow>
               (case start_collector os nc next' of
                  (r, next'') \<Rightarrow> (Ok \<lparr>rn_process = pid, rn_config = nc,
                     rn_collector = (case r of Ok c \<Rightarrow> c | _ \<Rightarrow> None)\<rparr>, next''))
           | (Err e, next') \<Rightarrow> (Err e, next')
           | (Panic, next') \<Rightarrow> (Panic, next'))
      | Err e \<Rightarrow> (Err e, next)
      | Panic \<Rightarrow> (Panic, next))"

fun start_nodes :: "os_env \<Rightarrow> node_runner_config list \<Rightarrow> nat \<Rightarrow> running_node list" where
  "start_nodes os [] next = []"
| "start_nodes os (nc # ncs) next =
     (case start_node os nc next of
        (Ok n, next') \<Rightarrow> n # start_nodes os ncs next'
      | (_, next') \<Rightarrow> start_nodes os ncs next')"

section \<open>The error output of a node\<close>

definition ERROR_MAX_LENGTH :: nat where
  "ERROR_MAX_LENGTH = 1000"

text \<open>The end of the output is read as a text; the first line of it may be incomplete and is dropped.\<close>

definition get_error_output :: "string option \<Rightarrow> string res" where
  "get_error_output contents =
     (case contents of
        None \<Rightarrow> Err IoError
      | Some t \<Rightarrow>
          if length t \<le> ERROR_MAX_LENGTH then (if utf8_valid t then Ok t else Err IoError)
          else let buf = drop (length t - ERROR_MAX_LENGTH) t
               in if \<not> utf8_valid buf then Err IoError
                  else (case dropWhile (\<lambda>c. c \<noteq> CHR 0x0A) buf of [] \<Rightarrow> Ok buf | _ # rest \<Rightarrow> Ok rest))"

text \<open>The beginning of the end can be the middle of a character, and then nothing is shown.\<close>

lemma utf8_valid_ascii: "(\<And>c. c \<in> set s \<Longrightarrow> of_char c < (128 :: nat)) \<Longrightarrow> utf8_valid_bytes (map of_char s)"
  by (induction s) auto

lemma error_output_lost: "\<exists>t. utf8_valid t \<and> get_error_output (Some t) = Err IoError"
proof -
  let ?t = "CHR 0xC3 # CHR 0xA9 # replicate 999 (CHR 0x61)"
  have "utf8_valid_bytes (map of_char (replicate 999 (CHR 0x61)))" by (rule utf8_valid_ascii) auto
  then have "utf8_valid ?t" by (simp add: utf8_valid_def utf8_cont_def del: map_replicate)
  moreover have "get_error_output (Some ?t) = Err IoError"
    by (simp add: get_error_output_def ERROR_MAX_LENGTH_def utf8_valid_def)
  ultimately show ?thesis by blast
qed

section \<open>Watching and stopping\<close>

text \<open>What a check of a process finds, by the number of the check.\<close>

datatype wait_answer = StillRunning | ExitedWith int | WaitFailed

datatype service_state = StartPending | ServiceRunning | StopPending nat | ServiceStopped

record process_env =
  wait_for :: "nat \<Rightarrow> nat \<Rightarrow> wait_answer"
  ctrl_break :: "nat \<Rightarrow> bool"
  status_accepted :: "service_state \<Rightarrow> bool"

datatype service_event =
    SetStatus service_state
  | SignalBreak nat
  | KillProcess nat
  | SawExit nat
  | LostSight nat

definition check_exit :: "process_env \<Rightarrow> nat \<Rightarrow> running_node \<Rightarrow> int option res \<times> running_node \<times> service_event list" where
  "check_exit env k n =
     (case wait_for env k (rn_process n) of
        WaitFailed \<Rightarrow> (Err IoError, n, [])
      | ExitedWith e \<Rightarrow>
          (Ok (Some e), n, case rn_collector n of
             Some c \<Rightarrow> if wait_for env k c = StillRunning then [KillProcess c] else []
           | None \<Rightarrow> [])
      | StillRunning \<Rightarrow>
          (Ok None, (case rn_collector n of
             Some c \<Rightarrow> if wait_for env k c = StillRunning then n else n\<lparr>rn_collector := None\<rparr>
           | None \<Rightarrow> n), []))"

fun check_nodes :: "process_env \<Rightarrow> nat \<Rightarrow> running_node list \<Rightarrow> running_node list \<times> service_event list" where
  "check_nodes env k [] = ([], [])"
| "check_nodes env k (n # ns) =
     (case check_exit env k n of (r, n', evs) \<Rightarrow>
        (case check_nodes env k ns of (ns', evs') \<Rightarrow>
           (case r of
              Ok None \<Rightarrow> (n' # ns', evs @ evs')
            | Ok (Some _) \<Rightarrow> (ns', evs @ SawExit (rn_process n) # evs')
            | _ \<Rightarrow> (ns', evs @ LostSight (rn_process n) # evs'))))"

text \<open>
  The loop reads the flag that the handler of control events sets, then checks the nodes. It has not
  ended when the flags that were observed do not end it.
\<close>

fun watch_nodes ::
    "process_env \<Rightarrow> nat \<Rightarrow> bool list \<Rightarrow> running_node list \<Rightarrow> service_event list \<Rightarrow> (nat \<times> running_node list \<times> service_event list) option" where
  "watch_nodes env k [] ns evs = None"
| "watch_nodes env k (is_shutdown # flags) ns evs =
     (if is_shutdown then Some (k, ns, evs)
      else case check_nodes env k ns of (ns', e) \<Rightarrow>
        if ns' = [] then Some (Suc k, [], evs @ e) else watch_nodes env (Suc k) flags ns' (evs @ e))"

fun signal_nodes :: "process_env \<Rightarrow> running_node list \<Rightarrow> bool \<times> service_event list" where
  "signal_nodes env [] = (True, [])"
| "signal_nodes env (n # ns) =
     (if ctrl_break env (rn_process n)
      then case signal_nodes env ns of (ok, evs) \<Rightarrow> (ok, SignalBreak (rn_process n) # evs)
      else (False, []))"

definition EXPECTED_SHUTDOWN_MS :: nat where
  "EXPECTED_SHUTDOWN_MS = 61000"

text \<open>The readings of the clock are in milliseconds since the shutdown began.\<close>

fun await_nodes ::
    "process_env \<Rightarrow> nat \<Rightarrow> nat \<Rightarrow> nat list \<Rightarrow> running_node list \<Rightarrow> service_event list \<Rightarrow>
     (unit res \<times> running_node list \<times> service_event list) option" where
  "await_nodes env k checkpoint [] ns evs = None"
| "await_nodes env k checkpoint (t # ts) ns evs =
     (if EXPECTED_SHUTDOWN_MS \<le> t then Some (Ok (), ns, evs)
      else if \<not> status_accepted env (StopPending (Suc checkpoint)) then Some (Err IoError, ns, evs)
      else case check_nodes env k ns of (ns', e) \<Rightarrow>
        let evs' = evs @ SetStatus (StopPending (Suc checkpoint)) # e
        in if ns' = [] then Some (Ok (), [], evs') else await_nodes env (Suc k) (Suc checkpoint) ts ns' evs')"

definition force_shutdown :: "running_node \<Rightarrow> service_event list" where
  "force_shutdown n =
     KillProcess (rn_process n) # (case rn_collector n of Some c \<Rightarrow> [KillProcess c] | None \<Rightarrow> [])"

definition stop_nodes ::
    "process_env \<Rightarrow> nat \<Rightarrow> nat list \<Rightarrow> running_node list \<Rightarrow> service_event list \<Rightarrow> (unit res \<times> service_event list) option" where
  "stop_nodes env k ts ns evs =
     (if \<not> status_accepted env (StopPending 0) then Some (Err IoError, evs)
      else case signal_nodes env ns of (ok, sig) \<Rightarrow>
        let evs1 = evs @ SetStatus (StopPending 0) # sig
        in if \<not> ok then Some (Err (Bail ''Failed shutting down node''), evs1)
           else (case await_nodes env k 0 ts ns evs1 of
                   None \<Rightarrow> None
                 | Some (Ok _, ns', evs2) \<Rightarrow>
                     let evs3 = evs2 @ concat (map force_shutdown ns')
                     in if status_accepted env ServiceStopped then Some (Ok (), evs3 @ [SetStatus ServiceStopped])
                        else Some (Err IoError, evs3)
                 | Some (Err e, ns', evs2) \<Rightarrow> Some (Err e, evs2)
                 | Some (Panic, ns', evs2) \<Rightarrow> Some (Panic, evs2)))"

text \<open>The console, the handler and the configuration come first; each may end the service with an error.\<close>

record service_start =
  ss_console :: bool
  ss_register :: bool
  ss_config :: "node_runner_config list res"

definition run_service ::
    "os_env \<Rightarrow> process_env \<Rightarrow> service_start \<Rightarrow> bool list \<Rightarrow> nat list \<Rightarrow> (unit res \<times> service_event list) option" where
  "run_service os env start flags ts =
     (if \<not> ss_console start \<or> \<not> ss_register start \<or> \<not> status_accepted env StartPending then Some (Err IoError, [])
      else case ss_config start of
             Err e \<Rightarrow> Some (Err e, [SetStatus StartPending])
           | Panic \<Rightarrow> Some (Panic, [SetStatus StartPending])
           | Ok ncs \<Rightarrow>
               if \<not> status_accepted env ServiceRunning then Some (Err IoError, [SetStatus StartPending])
               else (case watch_nodes env 0 flags (start_nodes os ncs 0) [SetStatus StartPending, SetStatus ServiceRunning] of
                       None \<Rightarrow> None
                     | Some (k, ns, evs) \<Rightarrow> stop_nodes env k ts ns evs))"

section \<open>Every node is accounted for\<close>

definition accounted :: "service_event list \<Rightarrow> nat \<Rightarrow> bool" where
  "accounted evs p \<longleftrightarrow> SawExit p \<in> set evs \<or> LostSight p \<in> set evs \<or> KillProcess p \<in> set evs"

fun statuses :: "service_event list \<Rightarrow> service_state list" where
  "statuses [] = []"
| "statuses (SetStatus s # evs) = s # statuses evs"
| "statuses (e # evs) = statuses evs"

lemma statuses_append [simp]: "statuses (xs @ ys) = statuses xs @ statuses ys"
  by (induction xs rule: statuses.induct) auto

lemma accounted_append [simp]: "accounted (xs @ ys) p \<longleftrightarrow> accounted xs p \<or> accounted ys p"
  by (auto simp: accounted_def)

lemma accounted_Cons [simp]:
  "accounted (SetStatus s # evs) p = accounted evs p" "accounted (SignalBreak q # evs) p = accounted evs p"
  by (auto simp: accounted_def)

text \<open>The nodes that remain, and those that the events account for, are all.\<close>

definition covered :: "running_node list \<Rightarrow> service_event list \<Rightarrow> running_node list \<Rightarrow> bool" where
  "covered ns evs ns' \<longleftrightarrow> (\<forall>n \<in> set ns. (\<exists>m \<in> set ns'. rn_process m = rn_process n) \<or> accounted evs (rn_process n))"

lemma covered_trans: "covered ns e ns' \<Longrightarrow> covered ns' e' ns'' \<Longrightarrow> covered ns (e @ e') ns''"
  by (fastforce simp: covered_def)

lemma covered_skip: "covered ns e ns' \<Longrightarrow> covered ns (SetStatus s # e) ns'"
  by (simp add: covered_def)

lemma check_exit_events:
  assumes "check_exit env k n = (r, n', evs)"
  shows "statuses evs = []" "rn_process n' = rn_process n"
  using assms by (auto simp: check_exit_def split: wait_answer.splits option.splits if_splits)

lemma check_nodes_covered: "check_nodes env k ns = (ns', e) \<Longrightarrow> statuses e = [] \<and> covered ns e ns'"
proof (induction ns arbitrary: ns' e)
  case (Cons n ns)
  obtain r n' evs where n: "check_exit env k n = (r, n', evs)" by (cases "check_exit env k n") auto
  obtain ms e' where ms: "check_nodes env k ns = (ms, e')" by (cases "check_nodes env k ns") auto
  note ev = check_exit_events [OF n]
  from Cons.IH [OF ms] have IH: "statuses e' = []" "covered ns e' ms" by simp_all
  show ?case
    using Cons.prems n ms ev IH
    by (auto simp: covered_def accounted_def split: res.splits option.splits)
qed (simp add: covered_def)

lemma watch_nodes_covered:
  "watch_nodes env k flags ns evs = Some (k', ns', evs') \<Longrightarrow> \<exists>e. evs' = evs @ e \<and> statuses e = [] \<and> covered ns e ns'"
proof (induction env k flags ns evs arbitrary: k' ns' evs' rule: watch_nodes.induct)
  case (2 env k is_shutdown flags ns evs)
  obtain ms e where ms: "check_nodes env k ns = (ms, e)" by (cases "check_nodes env k ns") auto
  note c = check_nodes_covered [OF ms]
  show ?case
  proof (cases "is_shutdown \<or> ms = []")
    case True
    then show ?thesis
    proof (cases is_shutdown)
      case True
      then show ?thesis using 2(2) by (auto simp: covered_def)
    next
      case False
      then show ?thesis using 2(2) ms c True by auto
    qed
  next
    case False
    then have "watch_nodes env (Suc k) flags ms (evs @ e) = Some (k', ns', evs')" using 2(2) ms by simp
    from 2(1) [OF _ ms [symmetric] _ this] False obtain e' where "evs' = (evs @ e) @ e'" "statuses e' = []" "covered ms e' ns'"
      by auto
    then show ?thesis using c covered_trans by (intro exI [of _ "e @ e'"]) auto
  qed
qed simp

lemma await_nodes_covered:
  "await_nodes env k c ts ns evs = Some (Ok (), ns', evs') \<Longrightarrow>
   \<exists>e j. evs' = evs @ e \<and> statuses e = map StopPending [Suc c ..< Suc c + j] \<and> covered ns e ns'"
proof (induction env k c ts ns evs arbitrary: ns' evs' rule: await_nodes.induct)
  case (2 env k c t ts ns evs)
  obtain ms e where ms: "check_nodes env k ns = (ms, e)" by (cases "check_nodes env k ns") auto
  note c = check_nodes_covered [OF ms]
  show ?case
  proof (cases "EXPECTED_SHUTDOWN_MS \<le> t")
    case True
    then show ?thesis using 2(2) by (intro exI [of _ "[]"] exI [of _ 0]) (auto simp: covered_def)
  next
    case go: False
    show ?thesis
    proof (cases "ms = []")
      case True
      then show ?thesis
        using 2(2) go ms c by (intro exI [of _ "SetStatus (StopPending (Suc c)) # e"] exI [of _ 1])
          (auto simp: Let_def covered_skip split: if_splits)
    next
      case False
      then have a: "await_nodes env (Suc k) (Suc c) ts ms (evs @ SetStatus (StopPending (Suc c)) # e) = Some (Ok (), ns', evs')"
        "status_accepted env (StopPending (Suc c))" using 2(2) go ms by (auto simp: Let_def split: if_splits)
      from 2(1) [OF go _ ms [symmetric] refl False a(1)] a(2) obtain e' j where
        e': "evs' = (evs @ SetStatus (StopPending (Suc c)) # e) @ e'" "statuses e' = map StopPending [Suc (Suc c) ..< Suc (Suc c) + j]"
        "covered ms e' ns'" by auto
      have "covered ns ((SetStatus (StopPending (Suc c)) # e) @ e') ns'"
        using covered_trans [OF covered_skip e'(3)] c by blast
      then show ?thesis
        using e'(1,2) c by (intro exI [of _ "(SetStatus (StopPending (Suc c)) # e) @ e'"] exI [of _ "Suc j"])
          (simp add: upt_conv_Cons)
    qed
  qed
qed simp

lemma signal_nodes_quiet: "statuses (snd (signal_nodes env ns)) = [] \<and> (\<forall>p. \<not> accounted (snd (signal_nodes env ns)) p)"
  by (induction ns) (auto simp: accounted_def split: prod.split)

lemma force_shutdown_events:
  "statuses (concat (map force_shutdown ns)) = []"
  "n \<in> set ns \<Longrightarrow> accounted (concat (map force_shutdown ns)) (rn_process n)"
  by (induction ns) (auto simp: force_shutdown_def accounted_def split: option.split)

lemma stop_nodes_covered:
  assumes "stop_nodes env k ts ns evs = Some (Ok (), evs')"
  shows "\<exists>e c. evs' = evs @ e \<and> statuses e = map StopPending [0 ..< Suc c] @ [ServiceStopped] \<and>
    (\<forall>n \<in> set ns. accounted e (rn_process n))"
proof -
  obtain sig where sig: "signal_nodes env ns = (True, sig)"
    using assms by (cases "signal_nodes env ns") (auto simp: stop_nodes_def Let_def split: if_splits)
  then obtain ns' evs2 where a: "await_nodes env k 0 ts ns (evs @ SetStatus (StopPending 0) # sig) = Some (Ok (), ns', evs2)"
    "evs' = evs2 @ concat (map force_shutdown ns') @ [SetStatus ServiceStopped]"
    using assms by (auto simp: stop_nodes_def Let_def split: if_splits option.splits res.splits)
  from await_nodes_covered [OF a(1)] obtain e j where e: "evs2 = (evs @ SetStatus (StopPending 0) # sig) @ e"
    "statuses e = map StopPending [Suc 0 ..< Suc 0 + j]" "covered ns e ns'" by blast
  have "accounted (e @ concat (map force_shutdown ns')) (rn_process n)" if "n \<in> set ns" for n
    using e(3) that force_shutdown_events(2) by (auto simp: covered_def) metis
  moreover have "map StopPending [0 ..< Suc j] = StopPending 0 # map StopPending [Suc 0 ..< Suc 0 + j]" by (simp add: upt_conv_Cons)
  ultimately show ?thesis
    using a(2) e(1,2) signal_nodes_quiet [of env ns] sig force_shutdown_events(1) [of ns']
    by (intro exI [of _ "(SetStatus (StopPending 0) # sig) @ e @ concat (map force_shutdown ns') @ [SetStatus ServiceStopped]"] exI [of _ j]) auto
qed


text \<open>The service ends: it has to be asked to, and the clock has to pass the time it waits for its nodes.\<close>

lemma watch_nodes_ends: "True \<in> set flags \<Longrightarrow> watch_nodes env k flags ns evs \<noteq> None"
  by (induction flags arbitrary: k ns evs) (auto split: prod.split)

lemma await_nodes_ends: "t \<in> set ts \<Longrightarrow> EXPECTED_SHUTDOWN_MS \<le> t \<Longrightarrow> await_nodes env k c ts ns evs \<noteq> None"
  by (induction ts arbitrary: k c ns evs) (auto simp: Let_def split: prod.split)

lemma service_ends_when_asked:
  assumes "True \<in> set flags" "t \<in> set ts" "EXPECTED_SHUTDOWN_MS \<le> t"
  shows "run_service os env start flags ts \<noteq> None"
proof -
  have "stop_nodes env k ts ns evs \<noteq> None" for k ns evs
    by (auto simp: stop_nodes_def Let_def await_nodes_ends [OF assms(2,3)] simp del: not_None_eq split: prod.split option.split res.split)
  then show ?thesis
    by (auto simp: run_service_def watch_nodes_ends [OF assms(1)] simp del: not_None_eq split: res.split option.split)
qed

text \<open>
  A node that cannot be signalled when the service is stopped ends the service at
  once: the nodes after it are neither signalled nor killed, and the service never reports that
  it has stopped.
\<close>

theorem failed_signal_leaves_nodes_running:
  assumes "ss_console start" "ss_register start" "\<And>s. status_accepted env s" "ss_config start = Ok ncs"
    and "start_nodes os ncs 0 = n # ns" "\<not> ctrl_break env (rn_process n)"
  shows "run_service os env start (True # flags) ts =
    Some (Err (Bail ''Failed shutting down node''), map SetStatus [StartPending, ServiceRunning, StopPending 0])"
  using assms by (simp add: run_service_def stop_nodes_def)

section \<open>Examples\<close>

definition example_runner :: node_runner_config where
  "example_runner =
     \<lparr>nc_name = ''n1'', nc_bootstrap_nodes = ''b'', nc_config_dir = ''c'', nc_data_dir = ''d'', nc_baker_credentials = None,
      nc_rpc_address = None, nc_rpc_port = None, nc_rpc_enabled = None, nc_rpc_token = None, nc_grpc2_address = None,
      nc_grpc2_port = None, nc_listen_address = None, nc_listen_port = Some 8888, nc_log_config = LoggerConfigFile ''l'',
      nc_log_level = None, nc_node_bin = Some ''node.exe'', nc_node_env = [], nc_node_args = [], nc_collector_enabled = None,
      nc_collector_url = Some ''u'', nc_collector_node_name = None, nc_collector_interval = None, nc_collector_log_file = None,
      nc_collector_bin = Some ''collector.exe'', nc_collector_env = [], nc_collector_args = []\<rparr>"

definition example_os :: os_env where
  "example_os =
     \<lparr>beside_service = Some, ip_text = (\<lambda>_. ''127.0.0.1''), path_extension = (\<lambda>_. None), path_with_extension = (\<lambda>p e. p @ e),
      toml_text = (\<lambda>_. Some []), temporary_file = (\<lambda>_. Some ''t''), create_file = (\<lambda>_. True), can_spawn = (\<lambda>_ _. True)\<rparr>"

definition example_service_start :: service_start where
  "example_service_start = \<lparr>ss_console = True, ss_register = True, ss_config = Ok [example_runner, example_runner\<lparr>nc_name := ''n2''\<rparr>]\<rparr>"

definition example_processes :: "(nat \<Rightarrow> bool) \<Rightarrow> process_env" where
  "example_processes break =
     \<lparr>wait_for = (\<lambda>k p. if p = 0 \<and> 1 \<le> k then ExitedWith 0 else StillRunning), ctrl_break = break, status_accepted = (\<lambda>_. True)\<rparr>"

lemma example_start_nodes:
  "start_nodes example_os [example_runner, example_runner\<lparr>nc_name := ''n2''\<rparr>] 0 =
     [\<lparr>rn_process = 0, rn_config = example_runner, rn_collector = Some 1\<rparr>,
      \<lparr>rn_process = 2, rn_config = example_runner\<lparr>nc_name := ''n2''\<rparr>, rn_collector = Some 3\<rparr>]"
  by (simp add: start_node_def example_runner_def example_os_def program_path_def make_log_config_file_def
      spawn_process_def start_collector_def run_collector_def)


theorem failed_signal_leaves_nodes_running_witness:
  "run_service example_os (example_processes (\<lambda>p. p \<noteq> 0)) example_service_start [True] [0] =
    Some (Err (Bail ''Failed shutting down node''), map SetStatus [StartPending, ServiceRunning, StopPending 0])"
  by (rule failed_signal_leaves_nodes_running [OF _ _ _ _ example_start_nodes])
    (simp_all add: example_service_start_def example_processes_def)

end
