(* ===== verification/Spec2Isabelle.thy ===== *)
theory Spec2Isabelle
  imports Admission CatchUpRuns QueueThreads HandshakePhase ServiceEffects CollectorReports Startup WindowsService
begin

text \<open>
  A verification development of the Concordium node: the Rust programs under
  \<^verbatim>\<open>src/concordium-node\<close>, \<^verbatim>\<open>src/collector-backend\<close> and \<^verbatim>\<open>src/service/windows\<close>, and the codes that the
  Haskell library \<^verbatim>\<open>src/concordium-consensus\<close> returns to them.

  \<^bold>\<open>The program.\<close> A node keeps encrypted connections to its peers. A poll loop accepts and
  establishes connections, reads and writes their streams and does housekeeping. Packets for the
  consensus layer go through two pairs of bounded queues, served by two threads, to the consensus
  library, which is called through a foreign interface and calls back to send messages. Two gRPC
  services let clients ask the library, submit transactions and administer the node. A collector
  asks nodes about themselves and posts reports to a backend, which checks them and shows them on
  a dashboard. On Windows a service starts, watches and stops the nodes of a configuration file.

  \<^bold>\<open>Theories and sources\<close> (paths are under \<^verbatim>\<open>src/concordium-node/src\<close> unless given in full).

  \<^item> Foundations. \<open>Prelude\<close>: machine integers, results, hash maps, byte strings, the locales
    \<open>invariant_system\<close> (a state machine with an invariant) and \<open>prefix_codec\<close>. \<open>Float64\<close>: the rounding
    of the \<^verbatim>\<open>f64\<close> products and quotients that the node uses. \<open>Actions\<close>: operations that change state
    and may fail. \<open>Examples\<close>: a concrete environment and node for the witnesses.
  \<^item> Data. \<open>Peer\<close> (\<^verbatim>\<open>common/p2p_node_id.rs\<close>, \<^verbatim>\<open>common/p2p_peer.rs\<close>), \<open>Network\<close> (\<^verbatim>\<open>network/mod.rs\<close>), \<open>Wire\<close>
    (\<^verbatim>\<open>network/serialization/fbs.rs\<close>), \<open>Buckets\<close> (\<^verbatim>\<open>network/buckets.rs\<close>), \<open>ConsensusTypes\<close>
    (\<^verbatim>\<open>consensus_ffi/helpers.rs\<close>, \<^verbatim>\<open>messaging.rs\<close>, \<^verbatim>\<open>consensus.rs\<close>), \<open>CatchUp\<close> (\<^verbatim>\<open>consensus_ffi/catch_up.rs\<close>
    and the transitions of it in \<^verbatim>\<open>plugins/consensus.rs\<close>).
  \<^item> Connections. \<open>LowLevel\<close> (\<^verbatim>\<open>connection/low_level.rs\<close>: framing, encryption in chunks, the noise
    handshake), \<open>Dedup\<close> and \<open>ConnectionStats\<close> (\<^verbatim>\<open>connection/mod.rs\<close>: deduplication, statistics, sending
    queues), \<open>ConnectionHandlers\<close> (\<^verbatim>\<open>connection/mod.rs\<close>, \<^verbatim>\<open>message_handlers.rs\<close>). About them:
    \<open>Framing\<close>, \<open>Reassembly\<close>, \<open>ReadLoop\<close>, \<open>HandshakePhase\<close>.
  \<^item> The node. \<open>NodeState\<close> (the state of \<^verbatim>\<open>p2p/maintenance.rs\<close>), \<open>Config\<close> (\<^verbatim>\<open>configuration.rs\<close>), \<open>Bans\<close>
    (\<^verbatim>\<open>p2p/bans.rs\<close>), \<open>Connectivity\<close> (\<^verbatim>\<open>p2p/connectivity.rs\<close>), \<open>Maintenance\<close> (\<^verbatim>\<open>p2p/maintenance.rs\<close>,
    \<^verbatim>\<open>p2p/peers.rs\<close>). About it: \<open>ConnectionFrames\<close>, \<open>NodeInvariant\<close>, \<open>Admission\<close>.
  \<^item> Consensus. \<open>ConsensusPlugin\<close> (\<^verbatim>\<open>plugins/consensus.rs\<close>), \<open>QueueThreads\<close> (the threads of
    \<^verbatim>\<open>bin/cli.rs\<close>), \<open>ConsensusFfi\<close> and \<open>Queries\<close> (\<^verbatim>\<open>consensus_ffi/ffi.rs\<close>), \<open>LibraryCodes\<close> (the results in
    \<^verbatim>\<open>src/concordium-consensus/src/Concordium/External.hs\<close> and \<^verbatim>\<open>External/GRPC2.hs\<close>), \<open>Streaming\<close> (the
    callback of \<^verbatim>\<open>ffi.rs\<close> with the thread of the library that calls it). About it: \<open>CatchUpRuns\<close>.
  \<^item> Services. \<open>RpcCommon\<close> (\<^verbatim>\<open>common/grpc_api.rs\<close> and what both services share), \<open>Rpc\<close> (\<^verbatim>\<open>rpc.rs\<close>),
    \<open>Grpc2Types\<close> and \<open>Grpc2\<close> (\<^verbatim>\<open>grpc2.rs\<close>), \<open>Health\<close> (\<^verbatim>\<open>health.rs\<close>). About them: \<open>ServiceGuards\<close>,
    \<open>ServiceSafety\<close>, \<open>ServiceEffects\<close>.
  \<^item> Programs. \<open>Startup\<close> (\<^verbatim>\<open>bin/cli.rs\<close>, the preferences of \<^verbatim>\<open>configuration.rs\<close>, \<^verbatim>\<open>get_baker_data\<close>),
    \<open>NodeCollector\<close> (\<^verbatim>\<open>bin/collector.rs\<close>), \<open>CollectorData\<close> and \<open>CollectorBackend\<close>
    (\<^verbatim>\<open>src/collector-backend/src\<close>), \<open>WindowsConfig\<close> and \<open>WindowsService\<close> (\<^verbatim>\<open>src/service/windows/src\<close>).
    About them: \<open>CollectorRuns\<close>, \<open>CollectorReports\<close>.

  \<^bold>\<open>Correspondence.\<close> A struct is a record and an enum a datatype with the constructors of the source;
  a function or method is a definition of the same name, with a suffix or prefix where the name is
  taken. Integers keep their width. A fallible function returns \<open>Ok\<close>, \<open>Err\<close> or \<open>Panic\<close>; a panic
  stands for an explicit one, a failed \<^verbatim>\<open>unwrap\<close> or index, and for plain arithmetic that leaves
  its type, while atomic counters and casts wrap around. A method that changes state and may fail
  is an action, which gives the state also when it fails. A \<^verbatim>\<open>HashMap\<close> is an association list with
  distinct keys. The replies of the services add \<open>Failure\<close> with a status, \<open>Crash\<close> and \<open>Blocked\<close>.
  What is outside the sources is a parameter: the noise session (\<open>noise_ops\<close>), the flatbuffers
  library (\<open>wire_env\<close>), hash functions, the key-value store, sockets, clocks and random choices
  (\<open>node_env\<close>), the consensus library, channels, parsers of texts, HTTP and processes. The properties
  name what they rely on: \<open>library_law\<close>, \<open>texts_law\<close>, \<open>change_channel_law\<close>, \<open>random_law\<close>, \<open>channel_law\<close>,
  \<open>mpsc_law\<close>, \<open>preferences_law\<close>, \<open>json_law\<close>, \<open>toml_wf\<close>, and each is met by an example.

  \<^bold>\<open>What is shown.\<close>

  \<^item> Streams: what one side writes the other side reads, complete and in order, however the network
    cuts it; flushing keeps the bytes; the reading loop ends; messages survive the wire format; queued
    messages leave by priority; a repeated message is recognised.
  \<^item> The node: in every reachable state the tokens name one connection each and the peers listed have
    identified themselves; exactly which connections are admitted; expelled and banned peers stay
    out; housekeeping closes the excess peers only; the ban list is a set; the buckets hold one entry
    per peer.
  \<^item> Catch-up: the bookkeeping is consistent in every reachable state, and every pending peer gets its
    turn within the length of the queue; high priority messages do not starve the others.
  \<^item> The foreign interface: both sides give the codes the same meaning, a message of one library
    reaches the same entry of the library of a peer, streamed answers are complete and in order.
  \<^item> The services: no interleaving of calls makes them panic; nothing happens without the token; only
    well-formed arguments reach the library; the two interfaces have the same effects; an accepted
    transaction is broadcast and blocks reach the clients; the decision of the health check.
  \<^item> The programs: the report of a node is stored by the backend as the node answered it; stored
    reports are plausible, their heights close to the majority, and listed until stale; averages
    resist outliers; a node keeps its identity over restarts and imports blocks in order; the Windows
    service leaves no node unattended and reads settings as documented.
  \<^item> Flaws: a short packet stops the thread of the inbound queue, failed queries leak a channel,
    numbers of requests are cut, partial relaying reaches the excluded peers, an incomplete status
    stops the collector, and, as lemmas beside these, what the handshake phase loses, downloads that
    are cut off, and a service that gives up when a node cannot be signalled.

  \<^bold>\<open>Bounds.\<close> The reading loop has fuel; \<open>read_stream_terminates\<close> shows how much is always enough. Runs
  of the node require that the 64-bit counter of tokens has not been exhausted (\<open>token_budget\<close> bounds
  what an iteration can use). The loops that wait for the outside world (the collector, the Windows
  service) take the sequence of observations they make as an argument and return nothing when
  it is too short; \<open>service_ends_when_asked\<close> shows when it is not.

  \<^bold>\<open>Not modelled.\<close>

  \<^item> The consensus protocol, the state of the chain and the execution of transactions in
    \<^verbatim>\<open>src/concordium-consensus\<close>: a program of its own, of which the node sees the results only.
  \<^item> The order in which \<^verbatim>\<open>main\<close> starts the threads, signal handlers, and the parsing of the command
    line; the bootstrapper, which is the modelled node with another configuration; the checker, tester
    and stress test programs; the build scripts.
  \<^item> Generated code (protobuf, flatbuffers) and libraries (tonic, gotham, noise, the store): parameters.
  \<^item> The optional network dump, logging, the HTTP server of the statistics, the start of the Haskell
    runtime, and on Windows the registry, the service manager and the handler of control events, of
    which only the flag it sets is seen.
  \<^item> The processing of connections in parallel: connections are processed in the order of the map.
\<close>

section \<open>The catch-up list of a running node\<close>

text \<open>
  Property C4: In every state that a node reaches, from its creation and through any interleaving
  of iterations of the poll loop, consensus messages and administrative operations, the catch-up
  bookkeeping is consistent: every pending peer is queued, and the peer that the node is catching
  up with is exactly the one whose state says so.
\<close>

theorem node_catch_up_consistent:
  assumes "node_new env se supplied_id conf ptype regen = Ok n"
    and "run_steps node_event_enabled node_event_step (poll_start env n) es = Some s"
    and "pl = node_peers (poll_node s)"
  shows "(\<forall>p. map_of (peer_states pl) p = Some Pending \<longrightarrow> p \<in> set (pending_queue pl)) \<and>
    (\<forall>p. map_of (peer_states pl) p = Some CatchingUp \<longleftrightarrow> catch_up_peer pl = Some p)"
proof -
  have "node_inv (poll_node (poll_start env n)) \<and> caught_up (poll_node (poll_start env n))"
    using node_new_inv [OF assms(1)] node_new_caught_up [OF assms(1)] by (simp add: poll_start_def)
  from catch_up_machine.run_from_good [OF this assms(2)] have "catch_up_inv pl" by (simp add: assms(3))
  from catch_up_inv_rel [OF this] show ?thesis
    by (cases "catch_up_peer pl") (auto simp: catch_up_rel_def)
qed

theorem node_catch_up_consistent_witness:
  "\<exists>n s. node_new example_env example_start None listening_config Node regenesis_default = Ok n \<and>
     run_steps node_event_enabled node_event_step (poll_start example_env n)
       [PollIteration example_env (Some example_api) [] [], InboundMessage example_env example_api example_transaction] = Some s \<and>
     (\<forall>p. map_of (peer_states (node_peers (poll_node s))) p = Some CatchingUp \<longleftrightarrow>
        catch_up_peer (node_peers (poll_node s)) = Some p)"
proof -
  obtain n where n: "node_new example_env example_start None listening_config Node regenesis_default = Ok n"
    "next_token n = 1" "token_budget n \<le> 65535" using listening_node_new by blast
  then obtain s where s: "run_steps node_event_enabled node_event_step (poll_start example_env n)
      [PollIteration example_env (Some example_api) [] [], InboundMessage example_env example_api example_transaction] = Some s"
    by (simp add: poll_start_def example_change_channel_law example_random_law)
  from node_catch_up_consistent [OF n(1) s refl]
  have "\<forall>p. map_of (peer_states (node_peers (poll_node s))) p = Some CatchingUp \<longleftrightarrow>
      catch_up_peer (node_peers (poll_node s)) = Some p" by (rule conjunct2)
  with n(1) s show ?thesis by (intro exI conjI)
qed

end
